(* ===== verification/Prelude.thy ===== *)
theory Prelude
  imports Complex_Main "HOL-Library.Word"
begin

text \<open>
  Shared vocabulary of the development: the machine types of the firmware
  (\<open>uint32_t\<close> timestamps and counters as 32-bit words), the C string and
  Arduino \<open>String\<close> helpers the protocol code uses, the linear search the
  firmware repeats for its parameter tables, and the generic lemmas on them
  that the component theories share.
\<close>

section \<open>Machine types\<close>

type_synonym u32 = "32 word"
type_synonym u8 = "8 word"

text \<open>\<open>millis()\<close> values and every interval derived from them.\<close>
type_synonym ms = u32

named_theorems model_defs "definitions of the firmware operations, unfolded in component proofs"
named_theorems wire_simps "evaluation rules for formatted wire messages"

section \<open>Elapsed time across the wrap of millis()\<close>

text \<open>
  The firmware measures every interval as \<open>now - start\<close> on \<open>uint32_t\<close>.
  Whatever the absolute time, the difference of the wrapped clocks is the real
  elapsed time as long as less than \<open>2^32\<close> ms (49.7 days) have passed.
\<close>

lemma elapsed_wrap:
  fixes t d :: nat
  assumes "d < 2 ^ 32"
  shows "unat (word_of_nat (t + d) - (word_of_nat t :: u32)) = d"
proof -
  have "word_of_nat (t + d) - (word_of_nat t :: u32) = word_of_nat d"
    by simp
  then show ?thesis
    using assms by (simp add: unat_of_nat)
qed

lemma elapsed_le_iff:
  fixes t d :: nat and k :: u32
  assumes "d < 2 ^ 32"
  shows "(k \<le> word_of_nat (t + d) - word_of_nat t) \<longleftrightarrow> unat k \<le> d"
  using elapsed_wrap [OF assms, of t] by (simp add: word_le_nat_alt)

lemma elapsed_less_iff:
  fixes t d :: nat and k :: u32
  assumes "d < 2 ^ 32"
  shows "(word_of_nat (t + d) - word_of_nat t < k) \<longleftrightarrow> d < unat k"
  using elapsed_wrap [OF assms, of t] by (simp add: word_less_nat_alt)

section \<open>Characters, C strings and Arduino Strings\<close>

text \<open>\<open>isspace\<close> of the C library in the "C" locale.\<close>
definition is_space :: "char \<Rightarrow> bool" where
  "is_space c \<longleftrightarrow> (of_char c :: nat) \<in> {32, 9, 10, 11, 12, 13}"

definition is_digit :: "char \<Rightarrow> bool" where
  "is_digit c \<longleftrightarrow> (48::nat) \<le> of_char c \<and> (of_char c :: nat) \<le> 57"

definition digit_val :: "char \<Rightarrow> nat" where
  "digit_val c = of_char c - 48"

definition digit_char :: "nat \<Rightarrow> char" where
  "digit_char n = ''0123456789'' ! n"

text \<open>A C string ends at its first NUL byte.\<close>
definition cstr :: "string \<Rightarrow> string" where
  "cstr s = takeWhile (\<lambda>c. c \<noteq> CHR 0x00) s"

text \<open>\<open>String::startsWith\<close> of the Arduino core.\<close>
definition startsWith :: "string \<Rightarrow> string \<Rightarrow> bool" where
  "startsWith s p \<longleftrightarrow> take (length p) s = p"

text \<open>\<open>strstr(s, w)\<close>: the rest of \<open>s\<close> from the first occurrence of \<open>w\<close>, if any.\<close>
fun strstr :: "string \<Rightarrow> string \<Rightarrow> string option" where
  "strstr [] w = (if w = [] then Some [] else None)"
| "strstr (c # s) w = (if take (length w) (c # s) = w then Some (c # s) else strstr s w)"

section \<open>Linear search of a table\<close>

text \<open>
  The loop \<open>for (i = 0; i < n; i++) if (t[i] == v) { idx = i; break; }\<close>,
  which the firmware writes out for each parameter table: the first index of
  \<open>v\<close>, or the old value of \<open>idx\<close> when \<open>v\<close> is not in the table.
\<close>

fun find_idx_from :: "'a list \<Rightarrow> 'a \<Rightarrow> nat \<Rightarrow> nat \<Rightarrow> nat" where
  "find_idx_from [] v i old = old"
| "find_idx_from (x # xs) v i old = (if x = v then i else find_idx_from xs v (Suc i) old)"

definition find_idx :: "'a list \<Rightarrow> 'a \<Rightarrow> nat \<Rightarrow> nat" where
  "find_idx t v old = find_idx_from t v 0 old"

section \<open>Enumerations and bit flags\<close>

unbundle bit_operations_syntax

text \<open>
  A C++ \<open>enum class\<close> is a datatype with its constructors in declaration order,
  and its underlying value a function on them. Reading a value back (a
  \<open>static_cast\<close> from the integer) is the first constructor with that value.
\<close>
definition decode_enum :: "('a \<Rightarrow> 'b) \<Rightarrow> 'a list \<Rightarrow> 'b \<Rightarrow> 'a option" where
  "decode_enum f xs n = find (\<lambda>x. f x = n) xs"

text \<open>
  Flags combined with \<open>|\<close> into an integer mask, and the flags whose bits a mask
  has set (\<open>(mask & flag) != 0\<close>).
\<close>
definition flag_mask :: "('a \<Rightarrow> 'n::len word) \<Rightarrow> 'a list \<Rightarrow> 'n word" where
  "flag_mask v xs = foldr (\<lambda>x m. v x OR m) xs 0"

definition flags_in :: "('a \<Rightarrow> 'n::len word) \<Rightarrow> 'a list \<Rightarrow> 'n word \<Rightarrow> 'a list" where
  "flags_in v alls m = filter (\<lambda>x. m AND v x \<noteq> 0) alls"

text \<open>Every flag value is 0 or a distinct single bit of the word.\<close>
definition single_bits :: "('a \<Rightarrow> 'n::len word) \<Rightarrow> ('a \<Rightarrow> nat) \<Rightarrow> 'a list \<Rightarrow> bool" where
  "single_bits v p alls =
     ((\<forall>x \<in> set alls. v x = 0 \<or> (v x = 2 ^ p x \<and> p x < LENGTH('n))) \<and>
      inj_on p {x \<in> set alls. v x \<noteq> 0})"

section \<open>Generic lemmas\<close>

lemma less_ten_cases:
  "(n::nat) < 10 \<Longrightarrow> n = 0 \<or> n = 1 \<or> n = 2 \<or> n = 3 \<or> n = 4 \<or> n = 5 \<or> n = 6 \<or> n = 7 \<or> n = 8 \<or> n = 9"
  by arith

lemma is_digit_digit_char [simp]: "n < 10 \<Longrightarrow> is_digit (digit_char n)"
  by (drule less_ten_cases) (auto simp: is_digit_def digit_char_def)

lemma digit_val_digit_char [simp]: "n < 10 \<Longrightarrow> digit_val (digit_char n) = n"
  by (drule less_ten_cases) (auto simp: digit_val_def digit_char_def)

lemma not_space_digit_char [simp]: "n < 10 \<Longrightarrow> \<not> is_space (digit_char n)"
  by (drule less_ten_cases) (auto simp: is_space_def digit_char_def)

lemma digit_char_not_point [simp]: "n < 10 \<Longrightarrow> digit_char n \<noteq> CHR ''.''"
  by (drule less_ten_cases) (auto simp: digit_char_def)

lemma digit_char_not_sign [simp]:
  "n < 10 \<Longrightarrow> digit_char n \<noteq> CHR ''-''" "n < 10 \<Longrightarrow> digit_char n \<noteq> CHR ''+''"
  by (drule less_ten_cases, auto simp: digit_char_def)+

lemma startsWith_append [simp]: "startsWith (p @ s) p"
  by (simp add: startsWith_def)

lemma find_idx_from_cases:
  "find_idx_from t v i old = old \<or>
   (\<exists>j < length t. find_idx_from t v i old = i + j \<and> t ! j = v)"
proof (induction t arbitrary: i)
  case Nil
  then show ?case by simp
next
  case (Cons x xs)
  show ?case
  proof (cases "x = v")
    case True
    then show ?thesis by auto
  next
    case False
    from Cons.IH [of "Suc i"] consider
        (old) "find_idx_from xs v (Suc i) old = old"
      | (found) j where "j < length xs" "find_idx_from xs v (Suc i) old = Suc i + j" "xs ! j = v"
      by blast
    then show ?thesis
    proof cases
      case old
      with False show ?thesis by simp
    next
      case (found j)
      with False have "Suc j < length (x # xs) \<and>
          find_idx_from (x # xs) v i old = i + Suc j \<and> (x # xs) ! Suc j = v"
        by simp
      then show ?thesis by blast
    qed
  qed
qed

lemma find_idx_bound [intro]:
  "old < length t \<Longrightarrow> find_idx t v old < length t"
  using find_idx_from_cases [of t v 0 old] by (auto simp: find_idx_def)

lemma find_idx_found:
  "v \<in> set t \<Longrightarrow> find_idx t v old < length t \<and> t ! find_idx t v old = v"
proof -
  have "v \<in> set t \<Longrightarrow> find_idx_from t v i old = i + (LEAST j. t ! j = v) \<and>
          (LEAST j. t ! j = v) < length t \<and> t ! (LEAST j. t ! j = v) = v" for i
  proof (induction t arbitrary: i)
    case Nil
    then show ?case by simp
  next
    case (Cons x xs)
    show ?case
    proof (cases "x = v")
      case True
      then show ?thesis by (auto intro: Least_equality)
    next
      case False
      with Cons.prems have "v \<in> set xs" by simp
      from Cons.IH [OF this, of "Suc i"] obtain j where
        j: "(LEAST j. xs ! j = v) = j" "j < length xs" "xs ! j = v"
        "find_idx_from xs v (Suc i) old = Suc i + j" by auto
      have "(LEAST k. (x # xs) ! k = v) = Suc j"
      proof (rule Least_equality)
        show "(x # xs) ! Suc j = v" using j by simp
      next
        fix k assume "(x # xs) ! k = v"
        with False show "Suc j \<le> k"
          by (cases k) (auto simp: j(1)[symmetric] intro: Least_le)
      qed
      with j False show ?thesis by simp
    qed
  qed
  then show "v \<in> set t \<Longrightarrow> ?thesis" by (simp add: find_idx_def)
qed

lemma find_idx_distinct:
  "distinct t \<Longrightarrow> i < length t \<Longrightarrow> find_idx t (t ! i) old = i"
proof -
  assume d: "distinct t" and i: "i < length t"
  then have "find_idx t (t ! i) old < length t \<and> t ! find_idx t (t ! i) old = t ! i"
    by (simp add: find_idx_found)
  with d i show ?thesis by (metis nth_eq_iff_index_eq)
qed

lemma find_idx_absent: "v \<notin> set t \<Longrightarrow> find_idx t v old = old"
proof -
  have "v \<notin> set t \<Longrightarrow> find_idx_from t v i old = old" for i
    by (induction t arbitrary: i) auto
  then show "v \<notin> set t \<Longrightarrow> ?thesis" by (simp add: find_idx_def)
qed

lemma decode_enum_encode:
  assumes "inj_on f (set xs)" "x \<in> set xs"
  shows "decode_enum f xs (f x) = Some x"
  using assms
proof (induction xs)
  case (Cons y ys)
  then show ?case by (cases "x = y") (auto simp: decode_enum_def)
qed simp

lemma single_bitsI:
  assumes "list_all (\<lambda>x. v x = 0 \<or> (v x = 2 ^ p x \<and> p x < LENGTH('n))) alls"
    and "distinct (map p (filter (\<lambda>x. v x \<noteq> 0) alls))"
  shows "single_bits (v :: 'a \<Rightarrow> 'n::len word) p alls"
  using assms by (simp add: single_bits_def list_all_iff distinct_map)

lemma bit_flag_mask: "bit (flag_mask v xs) n \<longleftrightarrow> (\<exists>x \<in> set xs. bit (v x) n)"
  by (induction xs) (auto simp: flag_mask_def bit_or_iff)

lemma flags_in_flag_mask:
  assumes "single_bits v p alls" "set xs \<subseteq> set alls"
  shows "set (flags_in v alls (flag_mask v xs)) = {x \<in> set xs. v x \<noteq> 0}"
proof -
  have b: "bit (v y) (p x) \<longleftrightarrow> v y \<noteq> 0 \<and> p y = p x"
    if "y \<in> set alls" "v x \<noteq> 0" "x \<in> set alls" for x y
    using assms(1) that by (auto simp: single_bits_def bit_exp_iff)
  have "flag_mask v xs AND v x \<noteq> 0 \<longleftrightarrow> x \<in> set xs \<and> v x \<noteq> 0" if "x \<in> set alls" for x
  proof (cases "v x = 0")
    case False
    then have e: "v x = 2 ^ p x" using assms(1) that by (auto simp: single_bits_def)
    have "flag_mask v xs AND v x \<noteq> 0 \<longleftrightarrow> (\<exists>y \<in> set xs. v y \<noteq> 0 \<and> p y = p x)"
      using b [OF _ False that] assms(2) by (auto simp: e and_exp_eq_0_iff_not_bit bit_flag_mask)
    also have "\<dots> \<longleftrightarrow> x \<in> set xs"
      using assms False that by (auto simp: single_bits_def inj_on_def)
    finally show ?thesis using False by simp
  qed simp
  then show ?thesis using assms(2) by (auto simp: flags_in_def)
qed

end
