(* ===== verification/CFormat.thy ===== *)
theory CFormat
  imports Prelude
begin

text \<open>
  The firmware's wire format is ASCII text written with \<open>snprintf\<close> and read
  back with \<open>sscanf\<close> (\<open>src/src/main.cpp\<close>, \<open>src/src/app_logic.cpp\<close>). This
  theory models the part of the C library those calls use: decimal printing of
  integers (\<open>%d\<close>, \<open>%u\<close>, \<open>%lu\<close>), fixed-point printing of floats (\<open>%.Nf\<close>,
  rounding half to even as the C library does under the default rounding mode),
  truncation to the buffer size, and \<open>sscanf\<close> with the directives \<open>%d\<close>,
  \<open>%u\<close>, \<open>%f\<close>, \<open>%Ns\<close>, white space and ordinary characters. Floats are
  exact rationals: every float constant of the firmware (915.0, 62.5, 125, 250,
  500) is a dyadic value that a \<open>float\<close> holds exactly; \<open>%f\<close> accepts the
  decimal forms \<open>[sign] digits [. digits]\<close> (exponents, \<open>inf\<close> and \<open>nan\<close> are
  not modelled).
\<close>

section \<open>Printing\<close>

function dec_nat :: "nat \<Rightarrow> string" where
  "dec_nat n = (if n < 10 then [digit_char n] else dec_nat (n div 10) @ [digit_char (n mod 10)])"
  by pat_completeness auto
termination
  by (relation "measure id") auto

declare dec_nat.simps [simp del]

text \<open>\<open>%d\<close> of a C \<open>int\<close>.\<close>
definition fmt_int :: "int \<Rightarrow> string" where
  "fmt_int i = (if i < 0 then CHR ''-'' # dec_nat (nat (- i)) else dec_nat (nat i))"

text \<open>\<open>%u\<close>, \<open>%lu\<close> of an unsigned 32-bit value.\<close>
definition fmt_u32 :: "u32 \<Rightarrow> string" where
  "fmt_u32 w = dec_nat (unat w)"

definition round_half_even :: "rat \<Rightarrow> int" where
  "round_half_even x =
     (let f = \<lfloor>x\<rfloor>; r = x - of_int f in
      if r < 1/2 then f else if 1/2 < r then f + 1 else if even f then f else f + 1)"

definition pad_zeros :: "nat \<Rightarrow> string \<Rightarrow> string" where
  "pad_zeros d s = replicate (d - length s) (CHR ''0'') @ s"

text \<open>\<open>%.<d>f\<close>: the value rounded to \<open>d\<close> decimals, a minus sign when the value is negative.\<close>
definition fmt_fixed :: "nat \<Rightarrow> rat \<Rightarrow> string" where
  "fmt_fixed d x =
     (let m = nat \<bar>round_half_even (x * 10 ^ d)\<bar> in
      (if x < 0 then ''-'' else []) @
      (if d = 0 then dec_nat m
       else dec_nat (m div 10 ^ d) @ CHR ''.'' # pad_zeros d (dec_nat (m mod 10 ^ d))))"

text \<open>The value a reader of \<open>fmt_fixed d x\<close> gets back.\<close>
definition round_to :: "nat \<Rightarrow> rat \<Rightarrow> rat" where
  "round_to d x = of_int (round_half_even (x * 10 ^ d)) / 10 ^ d"

text \<open>\<open>snprintf(buf, n, ...)\<close> keeps at most \<open>n - 1\<close> characters.\<close>
definition snprintf :: "nat \<Rightarrow> string \<Rightarrow> string" where
  "snprintf n s = take (n - 1) s"

section \<open>Scanning\<close>

definition digits_val :: "string \<Rightarrow> nat" where
  "digits_val ds = foldl (\<lambda>a c. 10 * a + digit_val c) 0 ds"

datatype conv = CD | CU | CF | CS "nat option" | CBad

datatype scan_dir = Lit char | Space | Conv conv

datatype scan_val = VInt int | VUns u32 | VFlt rat | VStr string

definition conv_of :: "string \<Rightarrow> char \<Rightarrow> conv" where
  "conv_of w k =
     (if k = CHR ''d'' then CD else if k = CHR ''u'' then CU else if k = CHR ''f'' then CF
      else if k = CHR ''s'' then CS (if w = [] then None else Some (digits_val w)) else CBad)"

text \<open>The directives of a C format string, in order.\<close>
function scan_format :: "string \<Rightarrow> scan_dir list" where
  "scan_format [] = []"
| "scan_format (c # fs) =
     (if c = CHR ''%'' then
        (case dropWhile is_digit fs of
           [] \<Rightarrow> [Conv CBad]
         | k # r \<Rightarrow> Conv (conv_of (takeWhile is_digit fs) k) # scan_format r)
      else if is_space c then Space # scan_format (dropWhile is_space fs)
      else Lit c # scan_format fs)"
  by pat_completeness auto
termination
proof (relation "measure length")
  fix c fs x21 x22
  assume "dropWhile is_digit fs = x21 # x22"
  then have "length (x21 # x22) \<le> length fs" by (metis length_dropWhile_le)
  then show "(x22, c # fs) \<in> measure length" by simp
next
  fix c fs
  show "(dropWhile is_space fs, c # fs) \<in> measure length"
    using length_dropWhile_le [of is_space fs] by simp
qed auto

definition scan_sign :: "string \<Rightarrow> bool \<times> string" where
  "scan_sign s = (case s of
      c # r \<Rightarrow> if c = CHR ''-'' then (True, r) else if c = CHR ''+'' then (False, r) else (False, s)
    | [] \<Rightarrow> (False, []))"

definition signed :: "bool \<Rightarrow> 'a::ring_1 \<Rightarrow> 'a" where
  "signed neg v = (if neg then - v else v)"

text \<open>The digits of a number: at least one.\<close>
definition scan_unum :: "string \<Rightarrow> (nat \<times> string) option" where
  "scan_unum s =
     (let ds = takeWhile is_digit s in
      if ds = [] then None else Some (digits_val ds, dropWhile is_digit s))"

text \<open>\<open>%d\<close> and \<open>%u\<close> (\<open>strtol\<close>/\<open>strtoul\<close>, base 10): an optional sign and at least one digit.\<close>
definition scan_int :: "string \<Rightarrow> (int \<times> string) option" where
  "scan_int s =
     (let (neg, r) = scan_sign s in
      map_option (\<lambda>(n, r'). (signed neg (int n), r')) (scan_unum r))"

text \<open>The unsigned part of \<open>%f\<close>: digits, an optional point and fraction digits, at least one digit.\<close>
definition scan_ufloat :: "string \<Rightarrow> (rat \<times> string) option" where
  "scan_ufloat r =
     (let ip = takeWhile is_digit r; r2 = dropWhile is_digit r;
          (fp, r3) = (case r2 of c # r2' \<Rightarrow>
                        if c = CHR ''.'' then (takeWhile is_digit r2', dropWhile is_digit r2') else ([], r2)
                      | [] \<Rightarrow> ([], r2))
      in if ip = [] \<and> fp = [] then None
         else Some (of_nat (digits_val ip) + of_nat (digits_val fp) / 10 ^ length fp, r3))"

text \<open>\<open>%f\<close> (\<open>strtof\<close>) on decimal input.\<close>
definition scan_float :: "string \<Rightarrow> (rat \<times> string) option" where
  "scan_float s =
     (let (neg, r) = scan_sign s in
      map_option (\<lambda>(v, r'). (signed neg v, r')) (scan_ufloat r))"

text \<open>\<open>%s\<close> and \<open>%Ns\<close>: a nonempty run of non-space characters, at most \<open>N\<close>.\<close>
definition scan_str :: "nat option \<Rightarrow> string \<Rightarrow> (string \<times> string) option" where
  "scan_str w s =
     (let ds = takeWhile (\<lambda>c. \<not> is_space c) s;
          ds' = (case w of None \<Rightarrow> ds | Some n \<Rightarrow> take n ds)
      in if ds' = [] then None else Some (ds', drop (length ds') s))"

fun scan_conv :: "conv \<Rightarrow> string \<Rightarrow> (scan_val \<times> string) option" where
  "scan_conv CD s = map_option (\<lambda>(i, r). (VInt i, r)) (scan_int s)"
| "scan_conv CU s = map_option (\<lambda>(i, r). (VUns (word_of_int i), r)) (scan_int s)"
| "scan_conv CF s = map_option (\<lambda>(x, r). (VFlt x, r)) (scan_float s)"
| "scan_conv (CS w) s = map_option (\<lambda>(t, r). (VStr t, r)) (scan_str w s)"
| "scan_conv CBad s = None"

text \<open>
  The values \<open>sscanf\<close> assigns, in order; the C function returns their number
  (or \<open>EOF\<close> when the input ends before the first conversion, which the
  firmware's tests \<open>== 5\<close>, \<open>== 2\<close> treat as any other short count).
  Conversions skip leading white space; a white-space directive skips any
  amount of it; an ordinary character must match the next input character.
\<close>
fun scan_dirs :: "scan_dir list \<Rightarrow> string \<Rightarrow> scan_val list" where
  "scan_dirs [] s = []"
| "scan_dirs (Lit c # ds) s = (case s of x # s' \<Rightarrow> if x = c then scan_dirs ds s' else [] | [] \<Rightarrow> [])"
| "scan_dirs (Space # ds) s = scan_dirs ds (dropWhile is_space s)"
| "scan_dirs (Conv k # ds) s =
     (case scan_conv k (dropWhile is_space s) of
        None \<Rightarrow> []
      | Some (v, s') \<Rightarrow> v # scan_dirs ds s')"

definition sscanf :: "string \<Rightarrow> string \<Rightarrow> scan_val list" where
  "sscanf s fmt = scan_dirs (scan_format fmt) s"

text \<open>Where a number printed by the firmware ends: the next character cannot continue it.\<close>
definition int_end :: "string \<Rightarrow> bool" where
  "int_end r \<longleftrightarrow> r = [] \<or> \<not> is_digit (hd r)"

definition num_end :: "string \<Rightarrow> bool" where
  "num_end r \<longleftrightarrow> r = [] \<or> (\<not> is_digit (hd r) \<and> hd r \<noteq> CHR ''.'')"

section \<open>Evaluation rules\<close>

lemma floor_numeral_div_rat [simp]: "\<lfloor>(numeral a :: rat) / numeral b\<rfloor> = numeral a div numeral b"
  using floor_divide_of_int_eq [of "numeral a" "numeral b", where 'a = rat] by simp

lemma dec_nat_small [wire_simps]: "n < 10 \<Longrightarrow> dec_nat n = [digit_char n]"
  by (simp add: dec_nat.simps)

lemma dec_nat_numeral [wire_simps]:
  "dec_nat (numeral k) = (if numeral k < (10::nat) then [digit_char (numeral k)]
     else dec_nat (numeral k div 10) @ [digit_char (numeral k mod 10)])"
  by (rule dec_nat.simps)

lemmas fmt_eval [wire_simps] = fmt_fixed_def fmt_int_def fmt_u32_def round_half_even_def
  pad_zeros_def snprintf_def digit_char_def round_to_def

lemmas scan_eval [wire_simps] = sscanf_def is_digit_def is_space_def conv_of_def scan_float_def
  scan_ufloat_def scan_int_def scan_unum_def scan_sign_def scan_str_def digits_val_def digit_val_def
  signed_def

section \<open>Decimal digits\<close>

lemma dec_nat_digits: "set (dec_nat n) \<subseteq> digit_char ` {..<10}"
proof (induction n rule: dec_nat.induct)
  case (1 n)
  then show ?case by (subst dec_nat.simps) auto
qed

lemma dec_nat_not_Nil [simp]: "dec_nat n \<noteq> []"
  by (subst dec_nat.simps) simp

lemma dec_nat_all_digit: "c \<in> set (dec_nat n) \<Longrightarrow> is_digit c"
  using dec_nat_digits by fastforce

lemma dec_nat_hd: "\<exists>k < 10. hd (dec_nat n) = digit_char k"
proof -
  have "hd (dec_nat n) \<in> set (dec_nat n)" by simp
  then show ?thesis using dec_nat_digits by blast
qed

lemma digits_val_Nil [simp]: "digits_val [] = 0"
  by (simp add: digits_val_def)

lemma digits_val_snoc [simp]: "digits_val (ds @ [c]) = 10 * digits_val ds + digit_val c"
  by (simp add: digits_val_def)

lemma digits_val_dec_nat [simp]: "digits_val (dec_nat n) = n"
proof (induction n rule: dec_nat.induct)
  case (1 n)
  show ?case
  proof (cases "n < 10")
    case True
    then show ?thesis by (simp add: dec_nat_small digits_val_def)
  next
    case False
    with "1.IH" show ?thesis by (subst dec_nat.simps) simp
  qed
qed

lemma length_dec_nat: "n < 10 ^ d \<Longrightarrow> 0 < d \<Longrightarrow> length (dec_nat n) \<le> d"
proof (induction n arbitrary: d rule: dec_nat.induct)
  case (1 n)
  show ?case
  proof (cases "n < 10")
    case True
    with "1.prems" show ?thesis by (simp add: dec_nat_small)
  next
    case False
    then obtain e where d: "d = Suc e" using "1.prems" by (cases d) auto
    have "0 < e"
      using False "1.prems"(1) d by (cases e) auto
    moreover have "n div 10 < 10 ^ e"
      using "1.prems"(1) d by (simp add: div_less_iff_less_mult mult.commute)
    ultimately have "length (dec_nat (n div 10)) \<le> e"
      using "1.IH" False by blast
    with False d show ?thesis by (subst dec_nat.simps) simp
  qed
qed

lemma fmt_u32_length: "length (fmt_u32 w) \<le> 10"
proof -
  have "unat w < 10 ^ 10" using unsigned_less [of w, where ?'a = nat] by simp
  then show ?thesis by (simp add: fmt_u32_def length_dec_nat)
qed

lemma digits_val_zeros [simp]: "digits_val (replicate k (CHR ''0'') @ s) = digits_val s"
proof -
  have "foldl (\<lambda>a c. 10 * a + digit_val c) 0 (replicate k (CHR ''0'')) = 0"
    by (induction k) (simp_all add: digit_val_def)
  then show ?thesis by (simp add: digits_val_def)
qed

lemma pad_zeros_digits: "c \<in> set (pad_zeros d (dec_nat n)) \<Longrightarrow> is_digit c"
  by (auto simp: pad_zeros_def is_digit_def dest: dec_nat_all_digit)

lemma pad_zeros_length: "n < 10 ^ d \<Longrightarrow> 0 < d \<Longrightarrow> length (pad_zeros d (dec_nat n)) = d"
  using length_dec_nat [of n d] by (simp add: pad_zeros_def)

lemma is_digit_point [simp]: "\<not> is_digit (CHR ''.'')"
  by (simp add: is_digit_def)

lemma int_end_takeWhile [simp]: "int_end r \<Longrightarrow> takeWhile is_digit r = []"
  by (cases r) (auto simp: int_end_def)

lemma int_end_dropWhile [simp]: "int_end r \<Longrightarrow> dropWhile is_digit r = r"
  by (cases r) (auto simp: int_end_def)

lemma takeWhile_digits:
  assumes "\<forall>c \<in> set ds. is_digit c" "int_end r"
  shows "takeWhile is_digit (ds @ r) = ds" "dropWhile is_digit (ds @ r) = r"
  using assms by (simp_all add: takeWhile_append2 dropWhile_append2 int_end_takeWhile int_end_dropWhile)

section \<open>Round trips of printed numbers\<close>

lemma scan_sign_digit: "s \<noteq> [] \<Longrightarrow> is_digit (hd s) \<Longrightarrow> scan_sign s = (False, s)"
  by (cases s) (auto simp: scan_sign_def is_digit_def)

lemma scan_sign_dec_nat [simp]: "scan_sign (dec_nat n @ r) = (False, dec_nat n @ r)"
proof -
  obtain k where "k < 10" "hd (dec_nat n) = digit_char k" using dec_nat_hd by blast
  then show ?thesis by (simp add: scan_sign_digit)
qed

lemma scan_sign_minus [simp]: "scan_sign (CHR ''-'' # s) = (True, s)"
  by (simp add: scan_sign_def)

lemma scan_unum_dec_nat [simp]: "int_end r \<Longrightarrow> scan_unum (dec_nat n @ r) = Some (n, r)"
  by (simp add: scan_unum_def takeWhile_digits dec_nat_all_digit)

lemma scan_int_dec_nat [simp]:
  "int_end r \<Longrightarrow> scan_int (dec_nat n @ r) = Some (int n, r)"
  "scan_int (dec_nat n) = Some (int n, [])"
  using scan_unum_dec_nat [of "[]" n] scan_unum_dec_nat [of r n] scan_sign_dec_nat [of n "[]"]
  by (simp_all add: scan_int_def signed_def int_end_def)

lemma dropWhile_space_dec_nat [simp]: "dropWhile is_space (dec_nat n @ r) = dec_nat n @ r"
proof -
  obtain k where "k < 10" "hd (dec_nat n) = digit_char k" using dec_nat_hd by blast
  then show ?thesis by (cases "dec_nat n") auto
qed

lemma dropWhile_space_dec_nat_Nil [simp]: "dropWhile is_space (dec_nat n) = dec_nat n"
  using dropWhile_space_dec_nat [of n "[]"] by simp

lemma dropWhile_space_fmt_int [simp]: "dropWhile is_space (fmt_int i @ r) = fmt_int i @ r"
  by (simp add: fmt_int_def is_space_def)

lemma int_end_Cons [simp]: "int_end (c # r) \<longleftrightarrow> \<not> is_digit c"
  by (simp add: int_end_def)

lemma int_end_Nil [simp]: "int_end []"
  by (simp add: int_end_def)

lemma num_end_Cons [simp]: "num_end (c # r) \<longleftrightarrow> \<not> is_digit c \<and> c \<noteq> CHR ''.''"
  by (simp add: num_end_def)

lemma dropWhile_space_fmt_int_Nil [simp]: "dropWhile is_space (fmt_int i) = fmt_int i"
  using dropWhile_space_fmt_int [of i "[]"] by simp

lemma scan_int_fmt_int:
  assumes "int_end r"
  shows "scan_int (fmt_int i @ r) = Some (i, r)"
  using assms by (simp add: fmt_int_def scan_int_def signed_def)

lemma scan_int_fmt_int_Nil: "scan_int (fmt_int i) = Some (i, [])"
  using scan_int_fmt_int [of "[]" i] by simp

lemma round_half_even_nonneg: "0 \<le> x \<Longrightarrow> 0 \<le> round_half_even x"
  by (simp add: round_half_even_def Let_def)

lemma round_half_even_nonpos: "x < 0 \<Longrightarrow> round_half_even x \<le> 0"
proof -
  assume "x < 0"
  then have "\<lfloor>x\<rfloor> \<le> -1" by (simp add: floor_le_iff)
  then show ?thesis by (simp add: round_half_even_def Let_def)
qed

lemma round_half_even_int [simp]: "round_half_even (of_int k) = k"
  by (simp add: round_half_even_def)

lemma nat_div_mod_rat:
  fixes m q :: nat
  assumes "0 < q"
  shows "of_nat (m div q) + of_nat (m mod q) / of_nat q = (of_nat m / of_nat q :: rat)"
proof -
  have "(of_nat m :: rat) = of_nat (m div q) * of_nat q + of_nat (m mod q)"
    by (metis div_mult_mod_eq of_nat_add of_nat_mult)
  with assms show ?thesis by (simp add: field_simps)
qed

text \<open>The digits that \<open>%.<d>f\<close> prints for a magnitude \<open>m / 10^d\<close>.\<close>
definition fixed_digits :: "nat \<Rightarrow> nat \<Rightarrow> string" where
  "fixed_digits d m = (if d = 0 then dec_nat m
     else dec_nat (m div 10 ^ d) @ CHR ''.'' # pad_zeros d (dec_nat (m mod 10 ^ d)))"

lemma fmt_fixed_digits:
  "fmt_fixed d x = (if x < 0 then ''-'' else []) @ fixed_digits d (nat \<bar>round_half_even (x * 10 ^ d)\<bar>)"
  by (simp add: fmt_fixed_def fixed_digits_def Let_def)

lemma scan_sign_fixed_digits [simp]: "scan_sign (fixed_digits d m @ r) = (False, fixed_digits d m @ r)"
  using scan_sign_dec_nat [of m r] scan_sign_dec_nat [of "m div 10 ^ d"]
  by (simp add: fixed_digits_def)

lemma dropWhile_space_fmt_fixed [simp]: "dropWhile is_space (fmt_fixed d x @ r) = fmt_fixed d x @ r"
proof -
  have "dropWhile is_space (fixed_digits d m @ r) = fixed_digits d m @ r" for m :: nat
    using dropWhile_space_dec_nat [of m r] dropWhile_space_dec_nat [of "m div 10 ^ d"]
    by (simp add: fixed_digits_def)
  then show ?thesis by (simp add: fmt_fixed_digits is_space_def)
qed

lemma scan_ufloat_fixed_digits:
  assumes "num_end r"
  shows "scan_ufloat (fixed_digits d m @ r) = Some (of_nat m / 10 ^ d, r)"
proof (cases "d = 0")
  case True
  have ie: "int_end r" using assms by (auto simp: num_end_def int_end_def)
  have "(case r of c # r2' \<Rightarrow> if c = CHR ''.'' then (takeWhile is_digit r2', dropWhile is_digit r2')
          else ([], r) | [] \<Rightarrow> ([], r)) = ([], r)"
    using assms by (cases r) (auto simp: num_end_def)
  with True ie show ?thesis
    by (simp add: fixed_digits_def scan_ufloat_def takeWhile_digits dec_nat_all_digit
        int_end_takeWhile int_end_dropWhile)
next
  case False
  let ?q = "m div 10 ^ d" and ?f = "pad_zeros d (dec_nat (m mod 10 ^ d))"
  have ie: "int_end r" using assms by (auto simp: num_end_def int_end_def)
  have pt: "int_end (CHR ''.'' # ?f @ r)" by (simp add: int_end_def is_digit_def)
  have fd: "\<forall>c \<in> set ?f. is_digit c" by (auto intro: pad_zeros_digits)
  have fl: "length ?f = d" using False by (simp add: pad_zeros_length)
  have "of_nat ?q + of_nat (digits_val ?f) / 10 ^ length ?f = (of_nat m / 10 ^ d :: rat)"
    using nat_div_mod_rat [of "10 ^ d" m] fl by (simp add: pad_zeros_def)
  with False ie pt fd show ?thesis
    by (simp add: fixed_digits_def scan_ufloat_def takeWhile_digits dec_nat_all_digit
        int_end_takeWhile int_end_dropWhile)
qed

lemma scan_float_fmt_fixed:
  assumes "num_end r"
  shows "scan_float (fmt_fixed d x @ r) = Some (round_to d x, r)"
proof -
  let ?n = "round_half_even (x * 10 ^ d)"
  have "scan_float (fmt_fixed d x @ r) =
        Some (signed (x < 0) (of_nat (nat \<bar>?n\<bar>) / 10 ^ d), r)"
    using assms by (simp add: fmt_fixed_digits scan_float_def scan_ufloat_fixed_digits)
  also have "signed (x < 0) (of_nat (nat \<bar>?n\<bar>) / 10 ^ d) = round_to d x"
  proof (cases "x < 0")
    case True
    then have "?n \<le> 0" by (simp add: round_half_even_nonpos mult_neg_pos)
    with True show ?thesis by (simp add: round_to_def signed_def)
  next
    case False
    then have "0 \<le> ?n" by (simp add: round_half_even_nonneg)
    with False show ?thesis by (simp add: round_to_def signed_def)
  qed
  finally show ?thesis .
qed

lemma round_to_exact: "x * 10 ^ d = of_int k \<Longrightarrow> round_to d x = x"
  by (simp add: round_to_def field_simps)

end
