(* ===== verification/AppLogic.thy ===== *)
theory AppLogic
  imports CFormat
begin

text \<open>
  The host-testable decision functions of \<open>src/src/app_logic.cpp\<close>: the
  classification of a button press by its duration, the wrap-around step of a
  table index, and the text of a ping frame. The firmware in
  \<open>src/src/main.cpp\<close> repeats the same thresholds and the same ping format
  inline; the theory \<open>Loop\<close> proves that its inline copies agree with these.
\<close>

section \<open>Definitions\<close>

datatype ButtonAction = Ignore | ToggleMode | CycleSF | CycleBW

definition classifyPress :: "u32 \<Rightarrow> ButtonAction" where
  "classifyPress pressDurationMs =
     (if pressDurationMs < 100 then Ignore
      else if pressDurationMs < 1000 then ToggleMode
      else if pressDurationMs < 3000 then CycleSF
      else CycleBW)"

text \<open>
  \<open>cycleIndex\<close> on C \<open>int\<close>s. The model computes \<open>currentIndex + 1\<close> without
  bound; in C that addition overflows (undefined behaviour) only at \<open>INT_MAX\<close>.
\<close>
definition cycleIndex :: "int \<Rightarrow> int \<Rightarrow> int" where
  "cycleIndex currentIndex sz =
     (if sz \<le> 0 then 0
      else (let next = currentIndex + 1 in if sz \<le> next then 0 else next))"

definition formatTxMessage :: "u32 \<Rightarrow> string" where
  "formatTxMessage sequenceNumber = snprintf 48 (''PING seq='' @ fmt_u32 sequenceNumber)"

text \<open>Rank of an action in the order of press length.\<close>
fun action_rank :: "ButtonAction \<Rightarrow> nat" where
  "action_rank Ignore = 0"
| "action_rank ToggleMode = 1"
| "action_rank CycleSF = 2"
| "action_rank CycleBW = 3"

section \<open>Button classification\<close>

lemma classifyPress_unat:
  "classifyPress d =
     (if unat d < 100 then Ignore else if unat d < 1000 then ToggleMode
      else if unat d < 3000 then CycleSF else CycleBW)"
  by (simp add: classifyPress_def word_less_nat_alt)

text \<open>A longer press never selects an action of a shorter range (\<open>classifyPress\<close> is monotone in the press duration).\<close>
theorem classifyPress_monotone:
  "d1 \<le> d2 \<Longrightarrow> action_rank (AppLogic.classifyPress d1) \<le> action_rank (AppLogic.classifyPress d2)"
  by (simp add: classifyPress_unat word_le_nat_alt)

theorem classifyPress_monotone_witness:
  "(999::u32) \<le> 1000 \<and> action_rank (classifyPress 999) \<le> action_rank (classifyPress 1000)"
  using classifyPress_monotone [of 999 1000] by simp

section \<open>Index cycling\<close>

lemma cycleIndex_range:
  "0 < sz \<Longrightarrow> -1 \<le> i \<Longrightarrow> 0 \<le> cycleIndex i sz \<and> cycleIndex i sz < sz"
  by (simp add: cycleIndex_def Let_def)

lemma cycleIndex_mod:
  "0 \<le> i \<Longrightarrow> i < sz \<Longrightarrow> cycleIndex i sz = (i + 1) mod sz"
proof -
  assume i: "0 \<le> i" "i < sz"
  show ?thesis
  proof (cases "i + 1 = sz")
    case True
    then show ?thesis using i by (simp add: cycleIndex_def)
  next
    case False
    then have "i + 1 < sz" using i by simp
    then show ?thesis using i by (simp add: cycleIndex_def)
  qed
qed

text \<open>From an index in range, k steps of cycleIndex land on (i + k) mod size: the index cycles through the table with period size.\<close>
lemma cycleIndex_period:
  "0 \<le> i \<Longrightarrow> i < sz \<Longrightarrow> ((\<lambda>j. cycleIndex j sz) ^^ k) i = (i + int k) mod sz"
proof (induction k)
  case 0
  then show ?case by simp
next
  case (Suc k)
  then have "0 \<le> (i + int k) mod sz" "(i + int k) mod sz < sz" by simp_all
  then have "cycleIndex ((i + int k) mod sz) sz = ((i + int k) mod sz + 1) mod sz"
    by (rule cycleIndex_mod)
  moreover have "((i + int k) mod sz + 1) mod sz = (i + int (Suc k)) mod sz"
    by (metis add.assoc mod_add_left_eq of_nat_Suc add.commute)
  ultimately show ?case using Suc by simp
qed

lemma cycleIndex_period_witness: "((\<lambda>j. cycleIndex j 5) ^^ 4) 2 = 1"
  using cycleIndex_period [of 2 5 4] by simp

section \<open>The ping frame\<close>

definition PING_FMT :: string where "PING_FMT = ''PING seq=%u''"

lemma formatTxMessage_text: "formatTxMessage s = ''PING seq='' @ fmt_u32 s"
  using fmt_u32_length [of s] by (simp add: formatTxMessage_def snprintf_def)

lemma scan_format_PING [wire_simps]:
  "scan_format PING_FMT = map Lit ''PING'' @ [Space] @ map Lit ''seq='' @ [Conv CU]"
  by (simp add: PING_FMT_def is_space_def is_digit_def conv_of_def)

text \<open>The PING payload formatTxMessage builds scans back with PING seq=%u to its sequence number.\<close>
lemma sscanf_ping: "sscanf (formatTxMessage s) PING_FMT = [VUns s]"
  by (simp add: formatTxMessage_text sscanf_def scan_format_PING is_space_def fmt_u32_def)

end
