(* ===== verification/Node.thy ===== *)
theory Node
  imports AppLogic
begin

text \<open>
  The state of one node of \<open>src/src/main.cpp\<close>: the module's global and
  function-static variables gathered in one record, as the firmware's single
  control loop threads them; the radio chip's configuration; the persisted
  key-value store; what the OLED shows; and the frames put on the air. The
  compile-time flags \<open>ENABLE_WIFI_OTA\<close>, \<open>ROLE_SENDER\<close> and
  \<open>ROLE_RECEIVER\<close> are a parameter of the operations that test them.
\<close>

section \<open>Build configuration and constants\<close>

datatype role_flag = RoleSenderFlag | RoleReceiverFlag | NoRoleFlag

record build =
  wifi_ota :: bool
  role_flag :: role_flag

text \<open>LoRa parameters as the firmware holds them: frequency and bandwidth are
  \<open>float\<close>s (MHz, kHz), the others \<open>int\<close>s.\<close>
record lora_params =
  freq :: rat
  bw :: rat
  sf :: int
  cr :: int
  txp :: int

definition LORA_FREQ_MHZ :: rat where "LORA_FREQ_MHZ = 915"
definition LORA_BW_KHZ :: rat where "LORA_BW_KHZ = 125"
definition LORA_SF :: int where "LORA_SF = 9"
definition LORA_CR :: int where "LORA_CR = 5"
definition LORA_TX_DBM :: int where "LORA_TX_DBM = 17"

definition default_params :: lora_params where
  "default_params = \<lparr>freq = LORA_FREQ_MHZ, bw = LORA_BW_KHZ, sf = LORA_SF, cr = LORA_CR,
     txp = LORA_TX_DBM\<rparr>"

text \<open>The control channel of the boot-time rendezvous; its power is the node's own.\<close>
definition ctrl_params :: "int \<Rightarrow> lora_params" where
  "ctrl_params pwr = \<lparr>freq = LORA_FREQ_MHZ, bw = 125, sf = 9, cr = 5, txp = pwr\<rparr>"

section \<open>External collaborators\<close>

text \<open>
  The calls the firmware makes on RadioLib's \<open>SX1262\<close>. Each returns a RadioLib
  status code, \<open>0\<close> being \<open>RADIOLIB_ERR_NONE\<close>; the chip's answers are a
  parameter \<open>drv\<close> of the operations (the hardware is not part of the repository).
\<close>
datatype radio_op =
    Begin lora_params
  | SetFrequency rat
  | SetBandwidth rat
  | SetSpreadingFactor int
  | SetCodingRate int
  | SetOutputPower int

type_synonym radio_drv = "radio_op \<Rightarrow> int"

definition RADIOLIB_ERR_NONE :: int where "RADIOLIB_ERR_NONE = 0"
definition RADIOLIB_ERR_RX_TIMEOUT :: int where "RADIOLIB_ERR_RX_TIMEOUT = -6"

text \<open>A result of \<open>radio.receive(rx)\<close>: the status and, on success, the text and the
  RSSI and SNR that \<open>getRSSI()\<close> and \<open>getSNR()\<close> report for it.\<close>
datatype rx_result = RxOk string rat rat | RxFail int

text \<open>\<open>Preferences\<close> values (\<open>putFloat\<close>, \<open>putInt\<close>, \<open>putBool\<close>).\<close>
datatype pval = PFloat rat | PInt int | PBool bool

text \<open>The non-volatile store, keyed by (namespace, key).\<close>
type_synonym store = "string \<times> string \<Rightarrow> pval option"

text \<open>The ways the firmware stops making progress: the fatal halts of \<open>setup()\<close>
  (an endless retry-and-log loop, after the radio or the display failed) and the
  CPU exceptions its arithmetic can raise.\<close>
datatype fault = RadioInitHalt int | OledInitHalt | IntegerDivideByZero | StackBufferOverflow

text \<open>\<open>NetworkSelectionMode\<close> of \<open>src/src/wifi_config.h\<close>.\<close>
datatype NetworkSelectionMode = AUTO | MANUAL_HOME | MANUAL_WORK | MANUAL_CUSTOM

text \<open>
  The enum's values. \<open>currentNetworkMode\<close> is kept as this integer because
  \<open>initWiFiPreferences\<close> casts whatever integer the store holds into it.
\<close>
primrec mode_val :: "NetworkSelectionMode \<Rightarrow> int" where
  "mode_val AUTO = 0"
| "mode_val MANUAL_HOME = 1"
| "mode_val MANUAL_WORK = 2"
| "mode_val MANUAL_CUSTOM = 3"

record WiFiNetwork =
  ssid :: string
  password :: string
  location :: string
  priority :: int

definition WIFI_NETWORKS :: "WiFiNetwork list" where
  "WIFI_NETWORKS =
     [\<lparr>ssid = ''Skeyelab'', password = ''diamond2'', location = ''Home'', priority = 1\<rparr>,
      \<lparr>ssid = ''ND-guest'', password = '''', location = ''Work'', priority = 2\<rparr>]"

definition getCurrentNetworkLocation :: "int \<Rightarrow> string" where
  "getCurrentNetworkLocation idx =
     (if 0 \<le> idx \<and> idx < int (length WIFI_NETWORKS) then location (WIFI_NETWORKS ! nat idx)
      else ''Unknown'')"

section \<open>The node\<close>

record node =
  isSender :: bool
  seq :: u32
  lastButtonMs :: u32
  lastButtonState :: bool
  buttonPressMs :: u32
  buttonPressed :: bool
  cur :: lora_params
  sfIdx :: nat
  bwIdx :: nat
  txIdx :: nat
  lastRSSI :: rat
  lastSNR :: rat
  lastPacketTime :: u32
  packetCount :: u32
  errorCount :: u32
  pendingConfigBroadcast :: bool
  pend :: lora_params
  cfgLastTxMs :: u32
  cfgRemaining :: int
  wifiConnected :: bool
  otaActive :: bool
  loraOtaActive :: bool
  loraOtaStartTime :: u32
  loraOtaTimeout :: u32
  loraOtaBuffer :: string
  loraOtaBufferSize :: nat
  loraOtaExpectedSize :: u32
  loraOtaReceivedSize :: u32
  storedFirmware :: string
  hasStoredFirmware :: bool
  firmwareVersion :: u32
  lastTxMs :: u32
  lastRxMs :: u32
  lastWiFiCheck :: u32
  netMode :: int
  netIndex :: int
  link :: bool
  chip :: lora_params
  prefs :: store
  disp :: "string list"
  air :: "(lora_params \<times> string) list"
  flashed :: "string option"
  restarted :: bool

text \<open>
  The variables at program start, before \<open>setup()\<close>: their initialisers
  (\<open>main.cpp\<close> lines 83--141, the statics of \<open>loop()\<close>, and \<open>wifi_manager.cpp\<close>
  lines 6--7). The chip is unconfigured until \<open>radio.begin\<close>; the model starts
  it at the defaults, which \<open>setup()\<close> overwrites before any frame is sent.
\<close>
definition node0 :: "store \<Rightarrow> node" where
  "node0 st = \<lparr>isSender = True, seq = 0, lastButtonMs = 0, lastButtonState = True,
     buttonPressMs = 0, buttonPressed = False, cur = default_params,
     sfIdx = 2, bwIdx = 1, txIdx = 7,
     lastRSSI = -999, lastSNR = -999, lastPacketTime = 0, packetCount = 0, errorCount = 0,
     pendingConfigBroadcast = False, pend = \<lparr>freq = 0, bw = 0, sf = 0, cr = 0, txp = 0\<rparr>,
     cfgLastTxMs = 0, cfgRemaining = 0, wifiConnected = False, otaActive = False,
     loraOtaActive = False, loraOtaStartTime = 0, loraOtaTimeout = 30000, loraOtaBuffer = [],
     loraOtaBufferSize = 0, loraOtaExpectedSize = 0, loraOtaReceivedSize = 0,
     storedFirmware = [], hasStoredFirmware = False, firmwareVersion = 0x010000,
     lastTxMs = 0, lastRxMs = 0, lastWiFiCheck = 0, netMode = mode_val AUTO, netIndex = -1,
     link = False,
     chip = default_params, prefs = st, disp = [], air = [], flashed = None, restarted = False\<rparr>"

section \<open>The display\<close>

text \<open>\<open>drawStatusBar()\<close>: only a WiFi-enabled receiver draws it.\<close>
definition drawStatusBar :: "build \<Rightarrow> node \<Rightarrow> string list" where
  "drawStatusBar b n =
     (if wifi_ota b \<and> \<not> isSender n then
        (if wifiConnected n then [getCurrentNetworkLocation (netIndex n)] else [''NoWiFi'']) @
        (if otaActive n then [''OTA''] else []) @
        (if loraOtaActive n then [''LoRaOTA''] else [])
      else [])"

text \<open>
  \<open>oledMsg(l1, l2, l3)\<close>: the lines drawn, top to bottom. The third argument is
  accepted but never drawn.
\<close>
definition oledMsg :: "build \<Rightarrow> string \<Rightarrow> string option \<Rightarrow> string option \<Rightarrow> node \<Rightarrow> node" where
  "oledMsg b l1 l2 l3 n =
     n\<lparr>disp := [l1] @ (case l2 of Some s \<Rightarrow> [s] | None \<Rightarrow> []) @
        (if \<not> isSender n \<and> -999 < lastRSSI n
         then [snprintf 12 (''RSSI: '' @ fmt_fixed 0 (lastRSSI n)),
               snprintf 12 (''SNR: '' @ fmt_fixed 1 (lastSNR n))]
         else []) @
        [snprintf 32 (''SF'' @ fmt_int (sf (cur n)) @ '' BW'' @ fmt_fixed 0 (bw (cur n))),
         snprintf 16 ((if isSender n then ''TX'' else ''RX'') @ '' '' @ fmt_fixed 1 (freq (cur n)) @ ''MHz'')] @
        drawStatusBar b n\<rparr>"

abbreviation msg :: "build \<Rightarrow> string \<Rightarrow> string \<Rightarrow> node \<Rightarrow> node" where
  "msg b l1 l2 \<equiv> oledMsg b l1 (Some l2) None"

definition oledRole :: "build \<Rightarrow> node \<Rightarrow> node" where
  "oledRole b n = msg b ''Mode'' (if isSender n then ''Sender'' else ''Receiver'') n"

definition oledSettings :: "build \<Rightarrow> node \<Rightarrow> node" where
  "oledSettings b n = msg b ''Settings'' ''Updated'' n"

text \<open>\<open>radio.transmit(frame)\<close>: the frame goes out on the chip's current configuration.\<close>
definition transmit :: "string \<Rightarrow> node \<Rightarrow> node" where
  "transmit frame n = n\<lparr>air := air n @ [(chip n, frame)]\<rparr>"

section \<open>Frame lemmas\<close>

text \<open>Neither the display nor a transmission touches the protocol's state.\<close>

lemma oledMsg_frame [simp]:
  "cur (oledMsg b l1 l2 l3 n) = cur n" "isSender (oledMsg b l1 l2 l3 n) = isSender n"
  "chip (oledMsg b l1 l2 l3 n) = chip n" "air (oledMsg b l1 l2 l3 n) = air n"
  "prefs (oledMsg b l1 l2 l3 n) = prefs n"
  "loraOtaActive (oledMsg b l1 l2 l3 n) = loraOtaActive n"
  "loraOtaBuffer (oledMsg b l1 l2 l3 n) = loraOtaBuffer n"
  "loraOtaBufferSize (oledMsg b l1 l2 l3 n) = loraOtaBufferSize n"
  "loraOtaReceivedSize (oledMsg b l1 l2 l3 n) = loraOtaReceivedSize n"
  "loraOtaExpectedSize (oledMsg b l1 l2 l3 n) = loraOtaExpectedSize n"
  "pendingConfigBroadcast (oledMsg b l1 l2 l3 n) = pendingConfigBroadcast n"
  "cfgRemaining (oledMsg b l1 l2 l3 n) = cfgRemaining n"
  "sfIdx (oledMsg b l1 l2 l3 n) = sfIdx n" "bwIdx (oledMsg b l1 l2 l3 n) = bwIdx n"
  "txIdx (oledMsg b l1 l2 l3 n) = txIdx n" "pend (oledMsg b l1 l2 l3 n) = pend n"
  "flashed (oledMsg b l1 l2 l3 n) = flashed n" "seq (oledMsg b l1 l2 l3 n) = seq n"
  "lastTxMs (oledMsg b l1 l2 l3 n) = lastTxMs n" "cfgLastTxMs (oledMsg b l1 l2 l3 n) = cfgLastTxMs n"
  "lastRxMs (oledMsg b l1 l2 l3 n) = lastRxMs n" "lastWiFiCheck (oledMsg b l1 l2 l3 n) = lastWiFiCheck n"
  "wifiConnected (oledMsg b l1 l2 l3 n) = wifiConnected n" "link (oledMsg b l1 l2 l3 n) = link n"
  "netMode (oledMsg b l1 l2 l3 n) = netMode n" "netIndex (oledMsg b l1 l2 l3 n) = netIndex n"
  "restarted (oledMsg b l1 l2 l3 n) = restarted n" "otaActive (oledMsg b l1 l2 l3 n) = otaActive n"
  "storedFirmware (oledMsg b l1 l2 l3 n) = storedFirmware n"
  "hasStoredFirmware (oledMsg b l1 l2 l3 n) = hasStoredFirmware n"
  "loraOtaTimeout (oledMsg b l1 l2 l3 n) = loraOtaTimeout n"
  "loraOtaStartTime (oledMsg b l1 l2 l3 n) = loraOtaStartTime n"
  "lastButtonState (oledMsg b l1 l2 l3 n) = lastButtonState n"
  "buttonPressed (oledMsg b l1 l2 l3 n) = buttonPressed n"
  "buttonPressMs (oledMsg b l1 l2 l3 n) = buttonPressMs n"
  "firmwareVersion (oledMsg b l1 l2 l3 n) = firmwareVersion n"
  by (simp_all add: oledMsg_def)

lemma oledMsg_eq: "oledMsg b l1 l2 l3 n = n\<lparr>disp := disp (oledMsg b l1 l2 l3 n)\<rparr>"
  by (simp add: oledMsg_def)

lemma transmit_frame [simp]:
  "air (transmit f n) = air n @ [(chip n, f)]"
  "transmit f n = n\<lparr>air := air n @ [(chip n, f)]\<rparr>"
  by (simp_all add: transmit_def)

end
