(* ===== verification/Radio.thy ===== *)
theory Radio
  imports Node
begin

text \<open>
  The radio parameter store of \<open>src/src/main.cpp\<close>: the tables the button
  cycles through and the indices into them (lines 97--105), the search that
  recomputes the indices from the current values (\<open>computeIndicesFromCurrent\<close>),
  persistence in the \<open>LtngDet\<close> namespace (\<open>savePersistedSettings\<close>,
  \<open>savePersistedRole\<close>, \<open>loadPersistedSettingsAndRole\<close>), and the push of
  the current values into the chip (\<open>updateRadioSettings\<close>,
  \<open>initRadioOrHalt\<close>).
\<close>

section \<open>Parameter tables\<close>

definition sfValues :: "int list" where
  "sfValues = [7, 8, 9, 10, 11, 12]"

definition bwValues :: "rat list" where
  "bwValues = [125 / 2, 125, 250, 500]"

definition txPowerValues :: "int list" where
  "txPowerValues = [2, 3, 5, 8, 10, 12, 15, 17, 20, 22]"

text \<open>\<open>(currentIndex + 1) % (sizeof(t) / sizeof(t[0]))\<close>.\<close>
definition next_index :: "nat \<Rightarrow> nat \<Rightarrow> nat" where
  "next_index i len = (i + 1) mod len"

definition computeIndicesFromCurrent :: "node \<Rightarrow> node" where
  "computeIndicesFromCurrent n =
     n\<lparr>sfIdx := find_idx sfValues (sf (cur n)) (sfIdx n),
       bwIdx := find_idx bwValues (bw (cur n)) (bwIdx n),
       txIdx := find_idx txPowerValues (txp (cur n)) (txIdx n)\<rparr>"

section \<open>Persistence\<close>

definition NVS_NS :: string where "NVS_NS = ''LtngDet''"

definition savePersistedSettings :: "node \<Rightarrow> node" where
  "savePersistedSettings n =
     n\<lparr>prefs := (prefs n)((NVS_NS, ''freq'') \<mapsto> PFloat (freq (cur n)),
                         (NVS_NS, ''bw'') \<mapsto> PFloat (bw (cur n)),
                         (NVS_NS, ''sf'') \<mapsto> PInt (sf (cur n)),
                         (NVS_NS, ''cr'') \<mapsto> PInt (cr (cur n)),
                         (NVS_NS, ''tx'') \<mapsto> PInt (txp (cur n)))\<rparr>"

definition savePersistedRole :: "node \<Rightarrow> node" where
  "savePersistedRole n = n\<lparr>prefs := (prefs n)((NVS_NS, ''sender'') \<mapsto> PBool (isSender n))\<rparr>"

text \<open>\<open>getFloat\<close>, \<open>getInt\<close>, \<open>getBool\<close>: the stored value of that type, else the default.\<close>
definition getFloat :: "store \<Rightarrow> string \<Rightarrow> rat \<Rightarrow> rat" where
  "getFloat st k d = (case st (NVS_NS, k) of Some (PFloat x) \<Rightarrow> x | _ \<Rightarrow> d)"

definition getInt :: "store \<Rightarrow> string \<Rightarrow> int \<Rightarrow> int" where
  "getInt st k d = (case st (NVS_NS, k) of Some (PInt x) \<Rightarrow> x | _ \<Rightarrow> d)"

definition getBool :: "store \<Rightarrow> string \<Rightarrow> bool \<Rightarrow> bool" where
  "getBool st k d = (case st (NVS_NS, k) of Some (PBool x) \<Rightarrow> x | _ \<Rightarrow> d)"

definition isKey :: "store \<Rightarrow> string \<Rightarrow> bool" where
  "isKey st k \<longleftrightarrow> st (NVS_NS, k) \<noteq> None"

definition loadPersistedSettingsAndRole :: "node \<Rightarrow> node" where
  "loadPersistedSettingsAndRole n =
     (let st = prefs n; p = cur n in
      n\<lparr>cur := \<lparr>freq = (if isKey st ''freq'' then getFloat st ''freq'' (freq p) else freq p),
                 bw = (if isKey st ''bw'' then getFloat st ''bw'' (bw p) else bw p),
                 sf = (if isKey st ''sf'' then getInt st ''sf'' (sf p) else sf p),
                 cr = (if isKey st ''cr'' then getInt st ''cr'' (cr p) else cr p),
                 txp = (if isKey st ''tx'' then getInt st ''tx'' (txp p) else txp p)\<rparr>,
        isSender := (if isKey st ''sender'' then getBool st ''sender'' (isSender n) else isSender n)\<rparr>)"

section \<open>Pushing the parameters into the chip\<close>

text \<open>What an accepted call changes in the chip.\<close>
fun apply_radio_op :: "radio_op \<Rightarrow> lora_params \<Rightarrow> lora_params" where
  "apply_radio_op (Begin p) c = p"
| "apply_radio_op (SetFrequency f) c = c\<lparr>freq := f\<rparr>"
| "apply_radio_op (SetBandwidth x) c = c\<lparr>bw := x\<rparr>"
| "apply_radio_op (SetSpreadingFactor x) c = c\<lparr>sf := x\<rparr>"
| "apply_radio_op (SetCodingRate x) c = c\<lparr>cr := x\<rparr>"
| "apply_radio_op (SetOutputPower x) c = c\<lparr>txp := x\<rparr>"

text \<open>\<open>st = call1; if (st == NONE) st = call2; ...\<close>: the calls up to the first error.\<close>
fun run_chain :: "radio_drv \<Rightarrow> radio_op list \<Rightarrow> lora_params \<Rightarrow> int \<times> lora_params" where
  "run_chain drv [] c = (RADIOLIB_ERR_NONE, c)"
| "run_chain drv (op # ops) c =
     (let st = drv op in
      if st = RADIOLIB_ERR_NONE then run_chain drv ops (apply_radio_op op c) else (st, c))"

definition setter_ops :: "lora_params \<Rightarrow> radio_op list" where
  "setter_ops p = [SetFrequency (freq p), SetBandwidth (bw p), SetSpreadingFactor (sf p),
     SetCodingRate (cr p), SetOutputPower (txp p)]"

definition updateRadioSettings :: "build \<Rightarrow> radio_drv \<Rightarrow> node \<Rightarrow> node" where
  "updateRadioSettings b drv n =
     (let (st, c) = run_chain drv (setter_ops (cur n)) (chip n); n' = n\<lparr>chip := c\<rparr> in
      if st \<noteq> RADIOLIB_ERR_NONE
      then msg b ''Settings fail'' (snprintf 16 (''Settings fail '' @ fmt_int st)) n'
      else oledSettings b n')"

text \<open>\<open>radio.begin(...)\<close> followed by \<open>setDio2AsRfSwitch\<close> and \<open>setCRC\<close>, which
  change nothing the model tracks.\<close>
definition radio_begin :: "radio_drv \<Rightarrow> lora_params \<Rightarrow> node \<Rightarrow> int \<times> node" where
  "radio_begin drv p n =
     (let st = drv (Begin p) in (st, if st = RADIOLIB_ERR_NONE then n\<lparr>chip := p\<rparr> else n))"

definition initRadioOrHalt :: "build \<Rightarrow> radio_drv \<Rightarrow> node \<Rightarrow> fault + node" where
  "initRadioOrHalt b drv n =
     (let (st, n') = radio_begin drv (cur n) n in
      if st \<noteq> RADIOLIB_ERR_NONE then Inl (RadioInitHalt st)
      else Inr (oledSettings b n'))"

section \<open>Invariant of the index trackers\<close>

text \<open>The indices always select an entry of their table.\<close>
definition idx_ok :: "node \<Rightarrow> bool" where
  "idx_ok n \<longleftrightarrow> sfIdx n < length sfValues \<and> bwIdx n < length bwValues \<and> txIdx n < length txPowerValues"

text \<open>The indices select the current values (which then lie in the tables).\<close>
definition tables_agree :: "node \<Rightarrow> bool" where
  "tables_agree n \<longleftrightarrow> idx_ok n \<and> sfValues ! sfIdx n = sf (cur n) \<and>
     bwValues ! bwIdx n = bw (cur n) \<and> txPowerValues ! txIdx n = txp (cur n)"

lemma table_lengths [simp]:
  "length sfValues = 6" "length bwValues = 4" "length txPowerValues = 10"
  by (simp_all add: sfValues_def bwValues_def txPowerValues_def)

lemma tables_distinct [simp]: "distinct sfValues" "distinct bwValues" "distinct txPowerValues"
  by (simp_all add: sfValues_def bwValues_def txPowerValues_def)

lemma next_index_bound [simp]: "0 < len \<Longrightarrow> next_index i len < len"
  by (simp add: next_index_def)

lemma next_index_funpow: "i < len \<Longrightarrow> ((\<lambda>j. next_index j len) ^^ k) i = (i + k) mod len"
proof (induction k)
  case 0
  then show ?case by simp
next
  case (Suc k)
  then show ?case by (simp add: next_index_def mod_Suc_eq)
qed

lemma computeIndices_frame [simp]:
  "cur (computeIndicesFromCurrent n) = cur n" "chip (computeIndicesFromCurrent n) = chip n"
  "isSender (computeIndicesFromCurrent n) = isSender n" "prefs (computeIndicesFromCurrent n) = prefs n"
  "air (computeIndicesFromCurrent n) = air n"
  by (simp_all add: computeIndicesFromCurrent_def)

lemma computeIndices_idx_ok: "idx_ok n \<Longrightarrow> idx_ok (computeIndicesFromCurrent n)"
  by (simp add: idx_ok_def computeIndicesFromCurrent_def find_idx_bound del: table_lengths)

text \<open>Values found in the tables are tracked exactly.\<close>
lemma computeIndices_agree:
  assumes "idx_ok n" "sf (cur n) \<in> set sfValues" "bw (cur n) \<in> set bwValues"
    "txp (cur n) \<in> set txPowerValues"
  shows "tables_agree (computeIndicesFromCurrent n)"
  using assms find_idx_found [of "sf (cur n)" sfValues "sfIdx n"]
    find_idx_found [of "bw (cur n)" bwValues "bwIdx n"]
    find_idx_found [of "txp (cur n)" txPowerValues "txIdx n"]
  by (simp add: tables_agree_def idx_ok_def computeIndicesFromCurrent_def del: table_lengths)

section \<open>Persistence round trip\<close>

lemma save_frame [simp]:
  "cur (savePersistedSettings n) = cur n" "isSender (savePersistedSettings n) = isSender n"
  "chip (savePersistedSettings n) = chip n" "air (savePersistedSettings n) = air n"
  "cur (savePersistedRole n) = cur n" "isSender (savePersistedRole n) = isSender n"
  "chip (savePersistedRole n) = chip n" "air (savePersistedRole n) = air n"
  by (simp_all add: savePersistedSettings_def savePersistedRole_def)

text \<open>C23: The radio parameters saved by savePersistedSettings are the ones loadPersistedSettingsAndRole restores at the next boot.\<close>
lemma load_saved_settings:
  "prefs m = prefs (savePersistedSettings n) \<Longrightarrow> cur (loadPersistedSettingsAndRole m) = cur n"
  by (simp add: loadPersistedSettingsAndRole_def savePersistedSettings_def isKey_def
      getFloat_def getInt_def Let_def)

lemma load_saved_settings_witness:
  "cur (loadPersistedSettingsAndRole (savePersistedSettings (node0 (\<lambda>_. None)))) = default_params"
  using load_saved_settings [of "savePersistedSettings (node0 (\<lambda>_. None))" "node0 (\<lambda>_. None)"]
  by (simp add: node0_def)

lemma load_saved_role:
  "prefs m (NVS_NS, ''sender'') = Some (PBool s) \<Longrightarrow> isSender (loadPersistedSettingsAndRole m) = s"
  by (simp add: loadPersistedSettingsAndRole_def isKey_def getBool_def Let_def)

section \<open>The setter chain\<close>

lemma run_chain_ok:
  "(\<forall>op \<in> set ops. drv op = RADIOLIB_ERR_NONE) \<Longrightarrow>
   run_chain drv ops c = (RADIOLIB_ERR_NONE, fold apply_radio_op ops c)"
  by (induction ops arbitrary: c) simp_all

lemma run_chain_stop:
  "(\<forall>op' \<in> set pre. drv op' = RADIOLIB_ERR_NONE) \<Longrightarrow> drv op \<noteq> RADIOLIB_ERR_NONE \<Longrightarrow>
   run_chain drv (pre @ op # post) c = (drv op, fold apply_radio_op pre c)"
  by (induction pre arbitrary: c) (simp_all add: Let_def)

lemma fold_setter_ops [simp]: "fold apply_radio_op (setter_ops p) c = p"
  by (simp add: setter_ops_def)

lemma updateRadioSettings_frame [simp]:
  "cur (updateRadioSettings b drv n) = cur n" "isSender (updateRadioSettings b drv n) = isSender n"
  "prefs (updateRadioSettings b drv n) = prefs n" "air (updateRadioSettings b drv n) = air n"
  "sfIdx (updateRadioSettings b drv n) = sfIdx n" "bwIdx (updateRadioSettings b drv n) = bwIdx n"
  "txIdx (updateRadioSettings b drv n) = txIdx n"
  "pendingConfigBroadcast (updateRadioSettings b drv n) = pendingConfigBroadcast n"
  "cfgRemaining (updateRadioSettings b drv n) = cfgRemaining n"
  "pend (updateRadioSettings b drv n) = pend n" "seq (updateRadioSettings b drv n) = seq n"
  "loraOtaActive (updateRadioSettings b drv n) = loraOtaActive n"
  "loraOtaBuffer (updateRadioSettings b drv n) = loraOtaBuffer n"
  "loraOtaBufferSize (updateRadioSettings b drv n) = loraOtaBufferSize n"
  "loraOtaReceivedSize (updateRadioSettings b drv n) = loraOtaReceivedSize n"
  "loraOtaExpectedSize (updateRadioSettings b drv n) = loraOtaExpectedSize n"
  "flashed (updateRadioSettings b drv n) = flashed n"
  by (simp_all add: updateRadioSettings_def oledSettings_def split_def Let_def)

lemma updateRadioSettings_chip:
  "chip (updateRadioSettings b drv n) = snd (run_chain drv (setter_ops (cur n)) (chip n))"
  by (simp add: updateRadioSettings_def oledSettings_def split_def Let_def)

end
