(* ===== verification/ConfigSync.thy ===== *)
theory ConfigSync
  imports Radio
begin

text \<open>
  Configuration synchronisation of \<open>src/src/main.cpp\<close>: the text of a CFG frame
  and its parse, the receiver's handling of a CFG frame on the data channel
  (\<open>loop()\<close>, lines 710--744), the sender's broadcast with repetition
  (\<open>startConfigBroadcast\<close> and the pending branch of \<open>loop()\<close>, lines
  636--674), and the boot-time rendezvous on the control channel
  (\<open>broadcastConfigOnControlChannel\<close>, \<open>tryReceiveConfigOnControlChannel\<close>).
\<close>

section \<open>The CFG frame\<close>

text \<open>\<open>snprintf(msg, 64, "CFG F=%.1f BW=%.0f SF=%d CR=%d TX=%d", ...)\<close> before truncation.\<close>
definition cfg_text :: "lora_params \<Rightarrow> string" where
  "cfg_text p = ''CFG F='' @ fmt_fixed 1 (freq p) @ '' BW='' @ fmt_fixed 0 (bw p) @
     '' SF='' @ fmt_int (sf p) @ '' CR='' @ fmt_int (cr p) @ '' TX='' @ fmt_int (txp p)"

definition cfgMessage :: "lora_params \<Rightarrow> string" where
  "cfgMessage p = snprintf 64 (cfg_text p)"

definition CFG_FMT :: string where
  "CFG_FMT = ''CFG F=%f BW=%f SF=%d CR=%d TX=%d''"

text \<open>
  \<open>rx.startsWith("CFG ")\<close> and then \<open>sscanf(rx, CFG_FMT, ...) == 5\<close>: the five
  values, or nothing when any field fails to parse.
\<close>
definition parseCfg :: "string \<Rightarrow> lora_params option" where
  "parseCfg rx =
     (if \<not> startsWith rx ''CFG '' then None
      else case sscanf rx CFG_FMT of
             [VFlt f, VFlt b, VInt s, VInt c, VInt t] \<Rightarrow> Some \<lparr>freq = f, bw = b, sf = s, cr = c, txp = t\<rparr>
           | _ \<Rightarrow> None)"

section \<open>Receiving a CFG frame on the data channel\<close>

text \<open>
  The CFG branch of the receiver's \<open>loop()\<close>: on a well-formed frame, commit the
  five values, recompute the indices, push them into the chip, persist them and
  show \<open>SYNC\<close>; on a malformed one only show the frame. No reply is sent.
\<close>
definition handleCfgFrame :: "build \<Rightarrow> radio_drv \<Rightarrow> string \<Rightarrow> rat \<Rightarrow> node \<Rightarrow> node" where
  "handleCfgFrame b drv rx rssi n =
     (let l2 = snprintf 20 (''RSSI '' @ fmt_fixed 1 rssi) in
      case parseCfg rx of
        Some p \<Rightarrow>
          oledMsg b ''SYNC'' (Some rx) (Some l2)
            (savePersistedSettings (updateRadioSettings b drv
              (computeIndicesFromCurrent (n\<lparr>cur := p\<rparr>))))
      | None \<Rightarrow> oledMsg b ''RX'' (Some rx) (Some l2) n)"

section \<open>The sender's broadcast with repetition\<close>

definition CFG_REPEATS :: int where "CFG_REPEATS = 8"

definition startConfigBroadcast :: "build \<Rightarrow> lora_params \<Rightarrow> node \<Rightarrow> node" where
  "startConfigBroadcast b p n =
     msg b ''Syncing...'' ''Sending config''
       (n\<lparr>pendingConfigBroadcast := True, pend := p, cfgLastTxMs := 0,
          cfgRemaining := CFG_REPEATS\<rparr>)"

text \<open>
  The pending branch of the sender's \<open>loop()\<close> at time \<open>now\<close>: at most one CFG
  frame per call, at least 50 ms after the last ping and 300 ms after the last CFG
  frame; after the last repetition the sender commits the target itself, pushes
  it into the chip, persists it and resumes pinging. The transmit status is only
  logged.
\<close>
definition senderConfigStep :: "build \<Rightarrow> radio_drv \<Rightarrow> ms \<Rightarrow> node \<Rightarrow> node" where
  "senderConfigStep b drv now n =
     (if 50 \<le> now - lastTxMs n \<and> 300 \<le> now - cfgLastTxMs n then
        (let n1 = (transmit (cfgMessage (pend n)) n)\<lparr>cfgLastTxMs := now,
                    cfgRemaining := cfgRemaining n - 1\<rparr> in
         if cfgRemaining n1 \<le> 0 then
           (msg b ''Sync complete'' ''TX switched''
             (savePersistedSettings (updateRadioSettings b drv
               (computeIndicesFromCurrent (n1\<lparr>cur := pend n1\<rparr>)))))
             \<lparr>pendingConfigBroadcast := False, lastTxMs := now\<rparr>
         else n1)
      else n)"

section \<open>The control-channel rendezvous at boot\<close>

text \<open>
  \<open>broadcastConfigOnControlChannel(times, intervalMs)\<close>: switch to the control
  channel (return at once if the chip refuses), send the current configuration
  \<open>times\<close> times (\<open>reps\<close> here), switch back. The delays only pass time.
\<close>
definition broadcastConfigOnControlChannel :: "radio_drv \<Rightarrow> nat \<Rightarrow> node \<Rightarrow> node" where
  "broadcastConfigOnControlChannel drv reps n =
     (let (st, n1) = radio_begin drv (ctrl_params (txp (cur n))) n in
      if st \<noteq> RADIOLIB_ERR_NONE then n1
      else let n2 = (transmit (cfgMessage (cur n1)) ^^ reps) n1 in
           snd (radio_begin drv (cur n2) n2))"

text \<open>
  The listening loop of \<open>tryReceiveConfigOnControlChannel\<close>. Each event is the
  value \<open>millis()\<close> returns at the loop test and the result of the
  \<open>radio.receive\<close> that follows; the loop stops at the first event past the
  window or at the first CFG frame that parses (\<open>break\<close>).
\<close>
fun ctrl_listen :: "ms \<Rightarrow> ms \<Rightarrow> (ms \<times> rx_result) list \<Rightarrow> node \<Rightarrow> node" where
  "ctrl_listen start dur [] n = n"
| "ctrl_listen start dur ((t, r) # es) n =
     (if \<not> t - start < dur then n
      else case r of
             RxOk rx _ _ \<Rightarrow>
               (case parseCfg rx of
                  Some p \<Rightarrow> savePersistedSettings (computeIndicesFromCurrent (n\<lparr>cur := p\<rparr>))
                | None \<Rightarrow> ctrl_listen start dur es n)
           | RxFail _ \<Rightarrow> ctrl_listen start dur es n)"

definition tryReceiveConfigOnControlChannel ::
  "radio_drv \<Rightarrow> ms \<Rightarrow> ms \<Rightarrow> (ms \<times> rx_result) list \<Rightarrow> node \<Rightarrow> node" where
  "tryReceiveConfigOnControlChannel drv dur start es n =
     (let (st, n1) = radio_begin drv (ctrl_params (txp (cur n))) n in
      if st \<noteq> RADIOLIB_ERR_NONE then n1
      else let n2 = ctrl_listen start dur es n1 in snd (radio_begin drv (cur n2) n2))"

section \<open>The frame round trip\<close>

lemma scan_format_CFG_FMT [wire_simps]:
  "scan_format CFG_FMT =
     [Lit CHR ''C'', Lit CHR ''F'', Lit CHR ''G'', Space, Lit CHR ''F'', Lit CHR ''='', Conv CF,
      Space, Lit CHR ''B'', Lit CHR ''W'', Lit CHR ''='', Conv CF,
      Space, Lit CHR ''S'', Lit CHR ''F'', Lit CHR ''='', Conv CD,
      Space, Lit CHR ''C'', Lit CHR ''R'', Lit CHR ''='', Conv CD,
      Space, Lit CHR ''T'', Lit CHR ''X'', Lit CHR ''='', Conv CD]"
  by (simp add: CFG_FMT_def is_digit_def is_space_def conv_of_def)

text \<open>What a receiver reads back from the frame announcing \<open>p\<close>: the frequency
  rounded to 0.1 MHz and the bandwidth to 1 kHz, as \<open>%.1f\<close> and \<open>%.0f\<close> print them.\<close>
definition cfg_rounded :: "lora_params \<Rightarrow> lora_params" where
  "cfg_rounded p = p\<lparr>freq := round_to 1 (freq p), bw := round_to 0 (bw p)\<rparr>"

lemma sscanf_cfg_text:
  "sscanf (cfg_text p) CFG_FMT =
     [VFlt (round_to 1 (freq p)), VFlt (round_to 0 (bw p)), VInt (sf p), VInt (cr p), VInt (txp p)]"
  by (simp add: sscanf_def scan_format_CFG_FMT cfg_text_def is_space_def is_digit_def
      scan_float_fmt_fixed scan_int_fmt_int scan_int_fmt_int_Nil)

lemma startsWith_cfg_text: "startsWith (cfg_text p) ''CFG ''"
  by (simp add: cfg_text_def startsWith_def)

lemma parseCfg_cfg_text: "parseCfg (cfg_text p) = Some (cfg_rounded p)"
  by (simp add: parseCfg_def sscanf_cfg_text cfg_rounded_def startsWith_cfg_text)

lemma cfgMessage_fits: "length (cfg_text p) < 64 \<Longrightarrow> cfgMessage p = cfg_text p"
  by (simp add: cfgMessage_def snprintf_def)

lemma cfg_rounded_exact:
  "freq p * 10 = of_int a \<Longrightarrow> bw p = of_int c \<Longrightarrow> cfg_rounded p = p"
  using round_to_exact [of "freq p" 1 a] round_to_exact [of "bw p" 0 c]
  by (simp add: cfg_rounded_def)

section \<open>The receiver's handler\<close>

lemma handleCfgFrame_ok:
  assumes "parseCfg rx = Some p"
  shows "cur (handleCfgFrame b drv rx rssi n) = p"
    and "chip (handleCfgFrame b drv rx rssi n) = snd (run_chain drv (setter_ops p) (chip n))"
    and "prefs (handleCfgFrame b drv rx rssi n) = prefs (savePersistedSettings (n\<lparr>cur := p\<rparr>))"
    and "air (handleCfgFrame b drv rx rssi n) = air n"
  using assms
  by (simp_all add: handleCfgFrame_def updateRadioSettings_chip savePersistedSettings_def Let_def)

text \<open>A malformed CFG frame changes nothing but the display on the receiver.\<close>
lemma handleCfgFrame_bad:
  assumes "parseCfg rx = None"
  shows "handleCfgFrame b drv rx rssi n = n\<lparr>disp := disp (handleCfgFrame b drv rx rssi n)\<rparr>"
  using assms by (simp add: handleCfgFrame_def Let_def oledMsg_def)

lemma handleCfgFrame_bad_witness:
  "handleCfgFrame \<lparr>wifi_ota = False, role_flag = RoleReceiverFlag\<rparr> (\<lambda>_. 0) ''CFG junk'' 0 (node0 (\<lambda>_. None)) =
   (node0 (\<lambda>_. None))\<lparr>disp := disp (handleCfgFrame \<lparr>wifi_ota = False, role_flag = RoleReceiverFlag\<rparr> (\<lambda>_. 0) ''CFG junk'' 0 (node0 (\<lambda>_. None)))\<rparr>"
  using handleCfgFrame_bad [of "''CFG junk''" "\<lparr>wifi_ota = False, role_flag = RoleReceiverFlag\<rparr>" "\<lambda>_. 0" 0 "node0 (\<lambda>_. None)"]
  by (simp add: parseCfg_def startsWith_def sscanf_def CFG_FMT_def wire_simps)

section \<open>The sender's steps\<close>

definition cfg_gap_ok :: "ms \<Rightarrow> node \<Rightarrow> bool" where
  "cfg_gap_ok now n \<longleftrightarrow> 50 \<le> now - lastTxMs n \<and> 300 \<le> now - cfgLastTxMs n"

lemma senderConfigStep_wait: "\<not> cfg_gap_ok now n \<Longrightarrow> senderConfigStep b drv now n = n"
  by (simp add: senderConfigStep_def cfg_gap_ok_def [symmetric])

lemma senderConfigStep_send:
  "cfg_gap_ok now n \<Longrightarrow> 1 < cfgRemaining n \<Longrightarrow>
   senderConfigStep b drv now n =
     n\<lparr>air := air n @ [(chip n, cfgMessage (pend n))], cfgLastTxMs := now,
       cfgRemaining := cfgRemaining n - 1\<rparr>"
  by (simp add: senderConfigStep_def cfg_gap_ok_def [symmetric] Let_def)

lemma senderConfigStep_commit:
  assumes "cfg_gap_ok now n" "cfgRemaining n \<le> 1"
  shows "cur (senderConfigStep b drv now n) = pend n"
    and "air (senderConfigStep b drv now n) = air n @ [(chip n, cfgMessage (pend n))]"
    and "\<not> pendingConfigBroadcast (senderConfigStep b drv now n)"
    and "chip (senderConfigStep b drv now n) = snd (run_chain drv (setter_ops (pend n)) (chip n))"
    and "prefs (senderConfigStep b drv now n) = prefs (savePersistedSettings (n\<lparr>cur := pend n\<rparr>))"
    and "lastTxMs (senderConfigStep b drv now n) = now"
  using assms
  by (simp_all add: senderConfigStep_def cfg_gap_ok_def [symmetric] Let_def updateRadioSettings_chip
      savePersistedSettings_def)

text \<open>Times at which successive loop iterations find the broadcast's gaps satisfied.\<close>
fun spaced :: "ms \<Rightarrow> ms \<Rightarrow> ms list \<Rightarrow> bool" where
  "spaced lt prev [] \<longleftrightarrow> True"
| "spaced lt prev (t # ts) \<longleftrightarrow> 50 \<le> t - lt \<and> 300 \<le> t - prev \<and> spaced lt t ts"

text \<open>
  From a state with \<open>k\<close> repetitions left, \<open>k\<close> well-spaced iterations send
  \<open>k\<close> copies of the target frame on the unchanged chip configuration, and the
  last of them commits the target.
\<close>
lemma senderConfig_run:
  assumes "pendingConfigBroadcast n" "cfgRemaining n = int (length ts)" "ts \<noteq> []"
    "spaced (lastTxMs n) (cfgLastTxMs n) ts"
  shows "air (fold (senderConfigStep b drv) ts n) =
           air n @ replicate (length ts) (chip n, cfgMessage (pend n))
       \<and> cur (fold (senderConfigStep b drv) ts n) = pend n
       \<and> \<not> pendingConfigBroadcast (fold (senderConfigStep b drv) ts n)
       \<and> chip (fold (senderConfigStep b drv) ts n) = snd (run_chain drv (setter_ops (pend n)) (chip n))"
  using assms
proof (induction ts arbitrary: n)
  case Nil
  then show ?case by simp
next
  case (Cons t ts)
  have gap: "cfg_gap_ok t n" using Cons.prems(4) by (simp add: cfg_gap_ok_def)
  show ?case
  proof (cases "ts = []")
    case True
    with Cons.prems(2) have "cfgRemaining n \<le> 1" by simp
    with gap True show ?thesis by (simp add: senderConfigStep_commit)
  next
    case False
    let ?n1 = "senderConfigStep b drv t n"
    have k: "1 < cfgRemaining n" using Cons.prems(2) False by simp
    have n1: "?n1 = n\<lparr>air := air n @ [(chip n, cfgMessage (pend n))], cfgLastTxMs := t,
        cfgRemaining := cfgRemaining n - 1\<rparr>"
      by (rule senderConfigStep_send [OF gap k])
    have "pendingConfigBroadcast ?n1" "cfgRemaining ?n1 = int (length ts)"
      "spaced (lastTxMs ?n1) (cfgLastTxMs ?n1) ts"
      using Cons.prems n1 by simp_all
    from Cons.IH [OF this(1,2) False this(3)] n1 show ?thesis
      by (simp add: replicate_append_same)
  qed
qed

section \<open>Leaving the control channel\<close>

lemma ctrl_listen_frame [simp]:
  "chip (ctrl_listen start dur es n) = chip n" "air (ctrl_listen start dur es n) = air n"
  by (induction start dur es n rule: ctrl_listen.induct)
     (auto split: rx_result.split option.split simp: savePersistedSettings_def computeIndicesFromCurrent_def)

lemma tryReceive_restores:
  assumes "drv (Begin (ctrl_params (txp (cur n)))) = RADIOLIB_ERR_NONE"
  shows "chip (tryReceiveConfigOnControlChannel drv dur start es n) =
           (if drv (Begin (cur (tryReceiveConfigOnControlChannel drv dur start es n))) = RADIOLIB_ERR_NONE
            then cur (tryReceiveConfigOnControlChannel drv dur start es n)
            else ctrl_params (txp (cur n)))"
  using assms by (simp add: tryReceiveConfigOnControlChannel_def radio_begin_def Let_def)

end
