(* ===== verification/Ota.thy ===== *)
theory Ota
  imports ConfigSync
begin

text \<open>
  The LoRa OTA cascade of \<open>src/src/main.cpp\<close>: the receiving session
  (\<open>handleLoraOtaPacket\<close>, \<open>checkLoraOtaTimeout\<close>), the sending side
  (\<open>sendLoraOtaUpdate\<close>), the stand-in image the receiver keeps
  (\<open>storeCurrentFirmware\<close>) and the announcement of an update
  (\<open>triggerLoraFirmwareUpdates\<close>). Payload bytes are \<open>char\<close>s (8 bits each).
\<close>

section \<open>The firmware-update collaborator\<close>

text \<open>\<open>Update.begin(size)\<close>, and \<open>Update.write\<close> followed by \<open>Update.end()\<close>.\<close>
record fw_writer =
  fw_begin :: "u32 \<Rightarrow> bool"
  fw_write_end :: "u32 \<Rightarrow> string \<Rightarrow> bool"

definition LORA_OTA_BUFFER_SIZE :: nat where "LORA_OTA_BUFFER_SIZE = 1024"

definition OTA_START_FMT :: string where "OTA_START_FMT = ''OTA_START:%u:%u''"
definition OTA_DATA_FMT :: string where "OTA_DATA_FMT = ''OTA_DATA:%d:%255s''"

section \<open>The receiving session\<close>

text \<open>
  \<open>sscanf(packet, "OTA_START:%u:%u", &loraOtaExpectedSize, &loraOtaTimeout)\<close>
  writes each converted value straight into the session variable, whether or not
  both conversions succeed.
\<close>
definition otaStart :: "build \<Rightarrow> ms \<Rightarrow> string \<Rightarrow> node \<Rightarrow> node" where
  "otaStart b now packet n =
     (let vs = sscanf packet OTA_START_FMT;
          n1 = n\<lparr>loraOtaExpectedSize := (case vs of VUns e # _ \<Rightarrow> e | _ \<Rightarrow> loraOtaExpectedSize n),
                 loraOtaTimeout := (case vs of [VUns _, VUns t] \<Rightarrow> t | _ \<Rightarrow> loraOtaTimeout n)\<rparr>
      in if length vs = 2 then
           msg b ''LoRa OTA'' ''Starting...''
             (n1\<lparr>loraOtaActive := True, loraOtaStartTime := now, loraOtaReceivedSize := 0,
                 loraOtaBufferSize := 0, loraOtaBuffer := []\<rparr>)
         else n1)"

text \<open>
  An \<open>OTA_DATA\<close> frame in an active session: the \<open>%255s\<close> field is appended when
  it fits strictly below the buffer's 1024 bytes; the progress percentage is
  then \<open>(loraOtaReceivedSize * 100) / loraOtaExpectedSize\<close> in \<open>uint32_t\<close>, a
  division the CPU traps when the expected size is 0.
\<close>
definition otaData :: "build \<Rightarrow> string \<Rightarrow> node \<Rightarrow> fault + node" where
  "otaData b packet n =
     (if \<not> loraOtaActive n then Inr n
      else case sscanf packet OTA_DATA_FMT of
        [VInt chunk, VStr d] \<Rightarrow>
          (if loraOtaBufferSize n + length d < LORA_OTA_BUFFER_SIZE then
             (let n1 = n\<lparr>loraOtaBuffer := loraOtaBuffer n @ d,
                         loraOtaBufferSize := loraOtaBufferSize n + length d,
                         loraOtaReceivedSize := loraOtaReceivedSize n + of_nat (length d)\<rparr> in
              if loraOtaExpectedSize n1 = 0 then Inl IntegerDivideByZero
              else Inr (msg b ''LoRa OTA''
                    (snprintf 20 (fmt_int (sint (loraOtaReceivedSize n1 * 100 div loraOtaExpectedSize n1)) @ ''%''))
                    n1))
           else Inr n)
      | _ \<Rightarrow> Inr n)"

text \<open>
  \<open>OTA_END:\<close> in an active session: when at least the announced size arrived,
  hand the buffer to the updater and restart on success; the session ends in
  every other case. \<open>ESP.restart()\<close> does not return.
\<close>
definition otaEnd :: "build \<Rightarrow> fw_writer \<Rightarrow> node \<Rightarrow> node" where
  "otaEnd b fw n =
     (if \<not> loraOtaActive n then n
      else if loraOtaExpectedSize n \<le> loraOtaReceivedSize n then
        (let n1 = msg b ''LoRa OTA'' ''Flashing...'' n in
         if fw_begin fw (loraOtaExpectedSize n) then
           (if fw_write_end fw (loraOtaExpectedSize n) (take (loraOtaBufferSize n) (loraOtaBuffer n)) then
              (msg b ''OTA Complete'' ''Rebooting...'' n1)
                \<lparr>flashed := Some (take (loraOtaBufferSize n) (loraOtaBuffer n)), restarted := True\<rparr>
            else (msg b ''OTA Error'' ''Flash failed!'' n1)\<lparr>loraOtaActive := False\<rparr>)
         else (msg b ''OTA Error'' ''Begin failed!'' n1)\<lparr>loraOtaActive := False\<rparr>)
      else n\<lparr>loraOtaActive := False\<rparr>)"

definition handleLoraOtaPacket :: "build \<Rightarrow> fw_writer \<Rightarrow> ms \<Rightarrow> string \<Rightarrow> node \<Rightarrow> fault + node" where
  "handleLoraOtaPacket b fw now packet n =
     (if startsWith packet ''OTA_START:'' then Inr (otaStart b now packet n)
      else if startsWith packet ''OTA_DATA:'' then otaData b packet n
      else if startsWith packet ''OTA_END:'' then Inr (otaEnd b fw n)
      else Inr n)"

definition checkLoraOtaTimeout :: "build \<Rightarrow> ms \<Rightarrow> node \<Rightarrow> node" where
  "checkLoraOtaTimeout b now n =
     (if loraOtaActive n \<and> loraOtaTimeout n < now - loraOtaStartTime n
      then (msg b ''LoRa OTA'' ''Timeout!'' n)\<lparr>loraOtaActive := False\<rparr>
      else n)"

section \<open>The sending side\<close>

text \<open>
  One chunk frame. \<open>chunkMsg[256]\<close> holds the header written by \<open>snprintf\<close>,
  then the chunk copied over the header's terminator, then whatever the stack
  held (\<open>junk\<close>). \<open>strlen\<close> runs to the first NUL of the buffer, and the
  terminator goes to \<open>chunkMsg[strlen(chunkMsg) + currentChunkSize]\<close>: a write
  past the array when that index reaches 256, and a read past it when the
  buffer holds no NUL at all. The frame transmitted is the C string.
\<close>
definition chunk_frame :: "nat \<Rightarrow> string \<Rightarrow> string \<Rightarrow> fault + string" where
  "chunk_frame chunkNum chunk junk =
     (let hdr = snprintf 256 (''OTA_DATA:'' @ fmt_int (int chunkNum) @ '':'');
          buf = take 256 (hdr @ chunk @ junk) in
      if CHR 0x00 \<notin> set buf then Inl StackBufferOverflow
      else if 256 \<le> length (cstr buf) + length chunk then Inl StackBufferOverflow
      else Inr (cstr buf))"

text \<open>
  The chunk loop: at most 200 bytes per frame, chunks numbered from 0, and after
  each frame the progress \<open>(sentBytes * 100) / firmwareSize\<close> in \<open>size_t\<close>
  arithmetic on the display.
\<close>
function send_chunks ::
  "build \<Rightarrow> (nat \<Rightarrow> string) \<Rightarrow> nat \<Rightarrow> nat \<Rightarrow> string \<Rightarrow> node \<Rightarrow> fault + node" where
  "send_chunks b junk firmwareSize chunkNum rest n =
     (if rest = [] then Inr n
      else case chunk_frame chunkNum (take 200 rest) (junk chunkNum) of
             Inl e \<Rightarrow> Inl e
           | Inr frame \<Rightarrow>
               (let sentBytes = firmwareSize - length (drop 200 rest);
                    percent = (word_of_nat sentBytes * 100) div (word_of_nat firmwareSize :: u32)
                in send_chunks b junk firmwareSize (Suc chunkNum) (drop 200 rest)
                     (msg b ''LoRa OTA'' (snprintf 20 (''Sending '' @ fmt_int (sint percent) @ ''%''))
                       (transmit frame n))))"
  by pat_completeness auto
termination
  by (relation "measure (\<lambda>(_, _, _, _, rest, _). length rest)") auto

declare send_chunks.simps [simp del]

definition sendLoraOtaUpdate :: "build \<Rightarrow> (nat \<Rightarrow> string) \<Rightarrow> string \<Rightarrow> node \<Rightarrow> fault + node" where
  "sendLoraOtaUpdate b junk firmware n =
     (if isSender n then Inr n
      else let n1 = transmit (snprintf 64 (''OTA_START:'' @ dec_nat (length firmware) @ '':'' @
                                          fmt_u32 (loraOtaTimeout n)))
                      (msg b ''LoRa OTA'' ''Sending...'' n) in
      case send_chunks b junk (length firmware) 0 firmware n1 of
        Inl e \<Rightarrow> Inl e
      | Inr n2 \<Rightarrow> Inr (msg b ''LoRa OTA'' ''Sent!'' (transmit ''OTA_END:'' n2)))"

text \<open>The image \<open>storeCurrentFirmware\<close> keeps: a header string and 15 placeholder bytes.\<close>
definition dummy_firmware :: string where
  "dummy_firmware = ''LtngDet_FW_v1.0.0'' @
     map char_of [0xAA::nat, 0x55, 0xAA, 0x55, 0x01, 0x00, 0x00, 0x00, 0x00, 0x00, 0x00, 0x00,
                  0x00, 0x00, 0x00]"

definition storeCurrentFirmware :: "node \<Rightarrow> bool \<times> node" where
  "storeCurrentFirmware n =
     (if isSender n then (False, n)
      else (True, n\<lparr>storedFirmware := dummy_firmware, hasStoredFirmware := True\<rparr>))"

text \<open>
  \<open>triggerLoraFirmwareUpdates\<close>: resynchronise over the control channel, send
  ten rounds of the three announcement frames, then listen for 15 s and answer
  each \<open>REQUEST_UPDATE\<close> with \<open>UPDATE_ACK\<close> (and nothing more).
\<close>
definition announce_round :: "node \<Rightarrow> node" where
  "announce_round n =
     transmit ''UPDATE_NOW''
       (transmit (snprintf 64 (if hasStoredFirmware n then ''FW_VERSION:'' @ fmt_u32 (firmwareVersion n)
                               else ''FW_VERSION:0.0.0''))
         (transmit ''FW_UPDATE_AVAILABLE'' n))"

fun request_listen :: "build \<Rightarrow> ms \<Rightarrow> (ms \<times> rx_result) list \<Rightarrow> node \<Rightarrow> node" where
  "request_listen b start [] n = n"
| "request_listen b start ((t, r) # es) n =
     (if \<not> t - start < 15000 then n
      else case r of
             RxOk rx _ _ \<Rightarrow>
               if startsWith rx ''REQUEST_UPDATE''
               then request_listen b start es (transmit ''UPDATE_ACK'' (msg b ''LoRa Update'' ''Request received!'' n))
               else request_listen b start es n
           | RxFail _ \<Rightarrow> request_listen b start es n)"

definition triggerLoraFirmwareUpdates ::
  "build \<Rightarrow> radio_drv \<Rightarrow> ms \<Rightarrow> (ms \<times> rx_result) list \<Rightarrow> node \<Rightarrow> node" where
  "triggerLoraFirmwareUpdates b drv start es n =
     (if isSender n then n
      else let n1 = broadcastConfigOnControlChannel drv 8 (msg b ''LoRa Update'' ''Broadcasting...'' n);
               n2 = msg b ''LoRa Update'' ''Notifications sent!'' ((announce_round ^^ 10) n1);
               n3 = request_listen b start es (msg b ''LoRa Update'' ''Checking...'' n2)
           in msg b ''LoRa Update'' ''Complete!'' n3)"

section \<open>Frames and their parses\<close>

text \<open>The frames of a session as \<open>sendLoraOtaUpdate\<close> formats them, for payloads without NUL.\<close>
definition start_frame :: "nat \<Rightarrow> u32 \<Rightarrow> string" where
  "start_frame sz tmo = ''OTA_START:'' @ dec_nat sz @ '':'' @ fmt_u32 tmo"

definition data_frame :: "int \<Rightarrow> string \<Rightarrow> string" where
  "data_frame k d = ''OTA_DATA:'' @ fmt_int k @ '':'' @ d"

fun data_frames :: "int \<Rightarrow> string list \<Rightarrow> string list" where
  "data_frames k [] = []"
| "data_frames k (d # ds) = data_frame k d # data_frames (k + 1) ds"

text \<open>A payload that \<open>%255s\<close> reads back whole.\<close>
definition plain_payload :: "string \<Rightarrow> bool" where
  "plain_payload d \<longleftrightarrow> d \<noteq> [] \<and> length d \<le> 255 \<and> (\<forall>c \<in> set d. \<not> is_space c)"

lemma scan_format_OTA_START [wire_simps]:
  "scan_format OTA_START_FMT =
     map Lit ''OTA_START:'' @ [Conv CU, Lit CHR '':'', Conv CU]"
  by (simp add: OTA_START_FMT_def is_digit_def is_space_def conv_of_def)

lemma scan_format_OTA_DATA [wire_simps]:
  "scan_format OTA_DATA_FMT =
     map Lit ''OTA_DATA:'' @ [Conv CD, Lit CHR '':'', Conv (CS (Some 255))]"
  by (simp add: OTA_DATA_FMT_def is_digit_def is_space_def conv_of_def digits_val_def digit_val_def)

lemma scan_dirs_lits [simp]: "scan_dirs (map Lit w @ ds) (w @ s) = scan_dirs ds s"
  by (induction w) simp_all

lemma scan_str_plain: "plain_payload d \<Longrightarrow> scan_str (Some 255) d = Some (d, [])"
proof -
  assume p: "plain_payload d"
  then have tw: "takeWhile (\<lambda>c. \<not> is_space c) d = d"
    by (simp add: takeWhile_eq_all_conv plain_payload_def)
  show ?thesis
    unfolding scan_str_def Let_def tw using p by (simp add: plain_payload_def)
qed

lemma dropWhile_space_plain: "plain_payload d \<Longrightarrow> dropWhile is_space d = d"
  by (cases d) (simp_all add: plain_payload_def)

lemma sscanf_start_frame: "sz < 2 ^ 32 \<Longrightarrow>
  sscanf (start_frame sz tmo) OTA_START_FMT = [VUns (of_nat sz), VUns tmo]"
  by (simp add: sscanf_def scan_format_OTA_START start_frame_def fmt_u32_def is_digit_def
      unat_of_nat)

lemma sscanf_data_frame: "plain_payload d \<Longrightarrow>
  sscanf (data_frame k d) OTA_DATA_FMT = [VInt k, VStr d]"
  by (simp add: sscanf_def scan_format_OTA_DATA data_frame_def is_digit_def scan_int_fmt_int
      dropWhile_space_plain scan_str_plain)

section \<open>The session buffer\<close>

text \<open>The buffer holds exactly the bytes counted in both counters, below its capacity.\<close>
definition ota_inv :: "node \<Rightarrow> bool" where
  "ota_inv n \<longleftrightarrow> length (loraOtaBuffer n) = loraOtaBufferSize n \<and>
     loraOtaBufferSize n < LORA_OTA_BUFFER_SIZE \<and> unat (loraOtaReceivedSize n) = loraOtaBufferSize n"

lemma ota_inv_msg [simp]: "ota_inv (oledMsg b l1 l2 l3 n) = ota_inv n"
  by (simp add: ota_inv_def)

lemma otaStart_inv: "ota_inv n \<Longrightarrow> ota_inv (otaStart b now packet n)"
  by (simp add: otaStart_def ota_inv_def Let_def LORA_OTA_BUFFER_SIZE_def)

lemma otaData_inv:
  assumes "ota_inv n" "otaData b packet n = Inr n'"
  shows "ota_inv n'"
proof (cases "loraOtaActive n")
  case False
  with assms show ?thesis by (simp add: otaData_def)
next
  case True
  show ?thesis
  proof (cases "sscanf packet OTA_DATA_FMT")
    case Nil
    with True assms show ?thesis by (simp add: otaData_def)
  next
    case (Cons v vs)
    show ?thesis
    proof (cases "\<exists>k d. sscanf packet OTA_DATA_FMT = [VInt k, VStr d]")
      case False
      with True assms have "n' = n"
        by (auto simp: otaData_def split: list.splits scan_val.splits)
      with assms show ?thesis by simp
    next
      case True2: True
      then obtain k d where kd: "sscanf packet OTA_DATA_FMT = [VInt k, VStr d]" by blast
      show ?thesis
      proof (cases "loraOtaBufferSize n + length d < LORA_OTA_BUFFER_SIZE")
        case fits: True
        have "unat (loraOtaReceivedSize n + of_nat (length d)) = loraOtaBufferSize n + length d"
          using assms(1) fits by (simp add: ota_inv_def unat_word_ariths unat_of_nat LORA_OTA_BUFFER_SIZE_def)
        with True kd fits assms show ?thesis
          by (auto simp: otaData_def ota_inv_def Let_def split: if_splits)
      next
        case False
        with True kd assms show ?thesis by (simp add: otaData_def)
      qed
    qed
  qed
qed

lemma otaEnd_inv: "ota_inv n \<Longrightarrow> ota_inv (otaEnd b fw n)"
  by (simp add: otaEnd_def ota_inv_def Let_def)

lemma checkTimeout_inv: "ota_inv n \<Longrightarrow> ota_inv (checkLoraOtaTimeout b now n)"
  by (simp add: checkLoraOtaTimeout_def ota_inv_def)

lemma handleLoraOtaPacket_inv:
  assumes "ota_inv n" "handleLoraOtaPacket b fw now packet n = Inr n'"
  shows "ota_inv n'"
proof (cases "startsWith packet ''OTA_START:''")
  case True
  then have "n' = otaStart b now packet n" using assms(2) by (simp add: handleLoraOtaPacket_def)
  then show ?thesis using assms(1) by (simp add: otaStart_inv)
next
  case nS: False
  show ?thesis
  proof (cases "startsWith packet ''OTA_DATA:''")
    case True
    then have "otaData b packet n = Inr n'" using nS assms(2) by (simp add: handleLoraOtaPacket_def)
    with assms(1) show ?thesis by (rule otaData_inv)
  next
    case nD: False
    then have "n' = (if startsWith packet ''OTA_END:'' then otaEnd b fw n else n)"
      using nS assms(2) by (simp add: handleLoraOtaPacket_def split: if_split_asm)
    then show ?thesis using assms(1) by (simp add: otaEnd_inv)
  qed
qed

text \<open>Without an active session, OTA_DATA and OTA_END frames are ignored.\<close>
lemma idle_ignores:
  "\<not> loraOtaActive n \<Longrightarrow> otaData b packet n = Inr n \<and> otaEnd b fw n = n"
  by (simp add: otaData_def otaEnd_def)

lemma idle_ignores_witness:
  "otaData \<lparr>wifi_ota = False, role_flag = RoleReceiverFlag\<rparr> ''OTA_DATA:0:x'' (node0 (\<lambda>_. None)) = Inr (node0 (\<lambda>_. None))"
  using idle_ignores [of "node0 (\<lambda>_. None)" "\<lparr>wifi_ota = False, role_flag = RoleReceiverFlag\<rparr>" "''OTA_DATA:0:x''"]
  by (simp add: node0_def)

section \<open>A complete session\<close>

fun ota_feed :: "build \<Rightarrow> fw_writer \<Rightarrow> ms \<Rightarrow> string list \<Rightarrow> node \<Rightarrow> fault + node" where
  "ota_feed b fw now [] n = Inr n"
| "ota_feed b fw now (p # ps) n =
     (case handleLoraOtaPacket b fw now p n of Inl e \<Rightarrow> Inl e | Inr n' \<Rightarrow> ota_feed b fw now ps n')"

lemma ota_feed_append:
  "ota_feed b fw now (ps @ qs) n =
     (case ota_feed b fw now ps n of Inl e \<Rightarrow> Inl e | Inr n' \<Rightarrow> ota_feed b fw now qs n')"
  by (induction ps arbitrary: n) (simp_all split: sum.split)

lemma startsWith_frames [simp]:
  "startsWith (start_frame sz t) ''OTA_START:''"
  "\<not> startsWith (data_frame k d) ''OTA_START:''" "startsWith (data_frame k d) ''OTA_DATA:''"
  "\<not> startsWith ''OTA_END:'' ''OTA_START:''" "\<not> startsWith ''OTA_END:'' ''OTA_DATA:''"
  "startsWith ''OTA_END:'' ''OTA_END:''"
  by (simp_all add: startsWith_def start_frame_def data_frame_def)

text \<open>An active session holding \<open>buf\<close> and expecting \<open>E\<close> bytes.\<close>
definition session :: "node \<Rightarrow> string \<Rightarrow> u32 \<Rightarrow> bool" where
  "session n buf E \<longleftrightarrow> loraOtaActive n \<and> loraOtaBuffer n = buf \<and> loraOtaBufferSize n = length buf \<and>
     loraOtaReceivedSize n = of_nat (length buf) \<and> loraOtaExpectedSize n = E"

lemma otaData_frame:
  assumes "session n buf E" "plain_payload d" "length buf + length d < LORA_OTA_BUFFER_SIZE" "E \<noteq> 0"
  shows "\<exists>n'. otaData b (data_frame k d) n = Inr n' \<and> session n' (buf @ d) E"
  using assms by (simp add: otaData_def sscanf_data_frame Let_def session_def)

lemma data_frames_run:
  assumes "session n buf E" "\<forall>d \<in> set ds. plain_payload d"
    "length buf + length (concat ds) < LORA_OTA_BUFFER_SIZE" "E \<noteq> 0"
  shows "\<exists>n'. ota_feed b fw now (data_frames k ds) n = Inr n' \<and> session n' (buf @ concat ds) E"
  using assms
proof (induction ds arbitrary: k n buf)
  case Nil
  then show ?case by simp
next
  case (Cons d ds)
  from Cons.prems obtain n1 where n1: "otaData b (data_frame k d) n = Inr n1" "session n1 (buf @ d) E"
    using otaData_frame [of n buf E d] by fastforce
  have "\<exists>n'. ota_feed b fw now (data_frames (k + 1) ds) n1 = Inr n' \<and> session n' ((buf @ d) @ concat ds) E"
    using Cons.prems n1(2) by (intro Cons.IH) auto
  then show ?case
    using n1(1) by (simp add: handleLoraOtaPacket_def)
qed

lemma otaStart_session:
  assumes "sz < 2 ^ 32"
  shows "session (otaStart b now (start_frame sz tmo) n) [] (of_nat sz)"
  using assms by (simp add: otaStart_def sscanf_start_frame session_def)

lemma otaEnd_complete:
  assumes "session n buf E" "E \<le> of_nat (length buf)" "fw_begin fw E" "fw_write_end fw E buf"
  shows "flashed (otaEnd b fw n) = Some buf \<and> restarted (otaEnd b fw n)"
  using assms by (simp add: otaEnd_def session_def Let_def)

text \<open>OTA_END before the announced size arrived flashes nothing and ends the session.\<close>
lemma otaEnd_short:
  assumes "session n buf E" "of_nat (length buf) < E"
  shows "flashed (otaEnd b fw n) = flashed n \<and> \<not> loraOtaActive (otaEnd b fw n)"
  using assms by (simp add: otaEnd_def session_def not_le [symmetric])

lemma otaEnd_short_witness:
  "\<not> loraOtaActive (otaEnd \<lparr>wifi_ota = False, role_flag = RoleReceiverFlag\<rparr> \<lparr>fw_begin = (\<lambda>_. True), fw_write_end = (\<lambda>_ _. True)\<rparr>
     ((node0 (\<lambda>_. None))\<lparr>loraOtaActive := True, loraOtaBuffer := ''ab'', loraOtaBufferSize := 2,
        loraOtaReceivedSize := 2, loraOtaExpectedSize := 5\<rparr>))"
  using otaEnd_short [of "(node0 (\<lambda>_. None))\<lparr>loraOtaActive := True, loraOtaBuffer := ''ab'', loraOtaBufferSize := 2,
        loraOtaReceivedSize := 2, loraOtaExpectedSize := 5\<rparr>" "''ab''" 5
      "\<lparr>wifi_ota = False, role_flag = RoleReceiverFlag\<rparr>" "\<lparr>fw_begin = (\<lambda>_. True), fw_write_end = (\<lambda>_ _. True)\<rparr>"]
  by (simp add: session_def)

lemma session_feed:
  assumes "\<forall>d \<in> set ds. plain_payload d" "length (concat ds) < LORA_OTA_BUFFER_SIZE" "0 < sz" "sz < 2 ^ 32"
  shows "\<exists>n'. ota_feed b fw now (start_frame sz tmo # data_frames k ds) n = Inr n' \<and>
           session n' (concat ds) (of_nat sz)"
proof -
  have s0: "session (otaStart b now (start_frame sz tmo) n) [] (of_nat sz)"
    using assms(4) by (rule otaStart_session)
  have u: "unat (of_nat sz :: u32) = sz" using assms(4) by (simp add: unat_of_nat)
  have nz: "(of_nat sz :: u32) \<noteq> 0"
  proof
    assume "(of_nat sz :: u32) = 0"
    then have "unat (of_nat sz :: u32) = 0" by simp
    with u assms(3) show False by simp
  qed
  from data_frames_run [OF s0 assms(1) _ nz, of b fw now k] assms(2) show ?thesis
    by (simp add: handleLoraOtaPacket_def)
qed

section \<open>Timeout\<close>

text \<open>C25: An active LoRa OTA session stays active exactly while the real time since its start does not exceed its timeout, also across the wrap of millis().\<close>
lemma checkTimeout_elapsed:
  assumes "loraOtaActive n" "loraOtaStartTime n = word_of_nat t0" "d < 2 ^ 32"
  shows "loraOtaActive (checkLoraOtaTimeout b (word_of_nat (t0 + d)) n) \<longleftrightarrow> d \<le> unat (loraOtaTimeout n)"
  using assms elapsed_wrap [OF assms(3), of t0]
  by (auto simp: checkLoraOtaTimeout_def word_less_nat_alt)

lemma checkTimeout_elapsed_witness:
  "loraOtaActive (checkLoraOtaTimeout \<lparr>wifi_ota = False, role_flag = RoleReceiverFlag\<rparr> (word_of_nat (4294967000 + 1000))
     ((node0 (\<lambda>_. None))\<lparr>loraOtaActive := True, loraOtaStartTime := word_of_nat 4294967000\<rparr>))"
  using checkTimeout_elapsed [of "(node0 (\<lambda>_. None))\<lparr>loraOtaActive := True, loraOtaStartTime := word_of_nat 4294967000\<rparr>"
      4294967000 1000 "\<lparr>wifi_ota = False, role_flag = RoleReceiverFlag\<rparr>"]
  by (simp add: node0_def)

section \<open>The chunk terminator\<close>

lemma cstr_prefix_len:
  assumes "\<forall>c \<in> set xs. c \<noteq> CHR 0x00"
  shows "min m (length xs) \<le> length (cstr (take m (xs @ ys)))"
proof -
  have "take m (xs @ ys) = take m xs @ take (m - length xs) ys" by simp
  moreover have "\<forall>c \<in> set (take m xs). c \<noteq> CHR 0x00"
    using assms by (auto dest: in_set_takeD)
  ultimately have "cstr (take m (xs @ ys)) = take m xs @ cstr (take (m - length xs) ys)"
    by (simp add: cstr_def takeWhile_append2)
  then show ?thesis by simp
qed

lemma fmt_int_no_nul: "CHR 0x00 \<notin> set (fmt_int i)"
proof
  assume "CHR 0x00 \<in> set (fmt_int i)"
  then have "CHR 0x00 \<in> set (dec_nat (nat \<bar>i\<bar>))"
    by (auto simp: fmt_int_def split: if_splits)
  then have "is_digit (CHR 0x00)" by (rule dec_nat_all_digit)
  then show False by (simp add: is_digit_def)
qed

text \<open>C24: A full 200-byte chunk without a NUL byte always ends in a stack buffer overrun of the 256-byte frame buffer on the sender.\<close>
lemma chunk_frame_overflow:
  assumes "length chunk = 200" "CHR 0x00 \<notin> set chunk"
  shows "chunk_frame k chunk junk = Inl StackBufferOverflow"
proof -
  let ?hdr = "snprintf 256 (''OTA_DATA:'' @ fmt_int (int k) @ '':'')"
  have hnul: "\<forall>c \<in> set (?hdr @ chunk). c \<noteq> CHR 0x00"
    using assms(2) fmt_int_no_nul [of "int k"] by (auto simp: snprintf_def dest: in_set_takeD)
  have hlen: "11 \<le> length ?hdr"
  proof -
    have "fmt_int (int k) \<noteq> []" by (simp add: fmt_int_def)
    then have "1 \<le> length (fmt_int (int k))" by (cases "fmt_int (int k)") auto
    then show ?thesis by (simp add: snprintf_def)
  qed
  have "min 256 (length (?hdr @ chunk)) \<le> length (cstr (take 256 ((?hdr @ chunk) @ junk)))"
    using hnul by (rule cstr_prefix_len)
  with hlen assms(1) have "211 \<le> length (cstr (take 256 (?hdr @ chunk @ junk)))" by simp
  with assms(1) show ?thesis by (simp add: chunk_frame_def Let_def)
qed

lemma chunk_frame_overflow_witness:
  "chunk_frame 3 (replicate 200 (CHR ''A'')) [] = Inl StackBufferOverflow"
  using chunk_frame_overflow [of "replicate 200 (CHR ''A'')" 3 "[]"] by simp

end
