(* ===== verification/WiFi.thy ===== *)
theory WiFi
  imports Node
begin

text \<open>
  The WiFi manager of \<open>src/src/wifi_manager.cpp\<close>: its two variables
  (\<open>currentNetworkMode\<close>, \<open>currentConnectedNetworkIndex\<close>) are the fields
  \<open>netMode\<close> and \<open>netIndex\<close> of the node, its \<open>Preferences\<close> namespace
  \<open>WiFiConfig\<close> lives in the node's store, and \<open>WiFi.status() == WL_CONNECTED\<close>
  is the field \<open>link\<close>. The access points are an environment \<open>wifi_env\<close>:
  whether associating with network \<open>i\<close> succeeds before the 10 s
  \<open>WIFI_CONNECT_TIMEOUT_MS\<close> of the waiting loop (a loop bounded by the clock,
  so it always ends). The lemmas show what a successful connection leaves
  behind, that each selection mode tries exactly the networks it names, that
  the automatic mode finds a reachable network whenever there is one, and that
  the saved mode and network survive a restart.
\<close>

type_synonym wifi_env = "nat \<Rightarrow> bool"

definition WIFI_NS :: string where "WIFI_NS = ''WiFiConfig''"

definition NUM_WIFI_NETWORKS :: int where "NUM_WIFI_NETWORKS = int (length WIFI_NETWORKS)"

definition wifiGetInt :: "store \<Rightarrow> string \<Rightarrow> int \<Rightarrow> int" where
  "wifiGetInt st k d = (case st (WIFI_NS, k) of Some (PInt x) \<Rightarrow> x | _ \<Rightarrow> d)"

definition initWiFiPreferences :: "node \<Rightarrow> node" where
  "initWiFiPreferences n =
     n\<lparr>netMode := wifiGetInt (prefs n) ''networkMode'' (mode_val AUTO),
       netIndex := wifiGetInt (prefs n) ''lastNetwork'' (-1)\<rparr>"

definition saveNetworkMode :: "node \<Rightarrow> node" where
  "saveNetworkMode n =
     n\<lparr>prefs := (prefs n)((WIFI_NS, ''networkMode'') \<mapsto> PInt (netMode n),
                         (WIFI_NS, ''lastNetwork'') \<mapsto> PInt (netIndex n))\<rparr>"

text \<open>\<open>connectToSpecificNetwork(networkIndex)\<close>.\<close>
definition connectToSpecificNetwork :: "wifi_env \<Rightarrow> int \<Rightarrow> node \<Rightarrow> bool \<times> node" where
  "connectToSpecificNetwork env i n =
     (if i < 0 \<or> NUM_WIFI_NETWORKS \<le> i then (False, n)
      else if env (nat i) then (True, saveNetworkMode (n\<lparr>link := True, netIndex := i\<rparr>))
      else (False, n\<lparr>link := False\<rparr>))"

text \<open>
  The priority loop of \<open>connectWithAutoFallback\<close>: for each attempt, the first
  network whose priority is \<open>attempt + 1\<close> is tried once (\<open>break\<close>).
\<close>
fun try_priorities :: "wifi_env \<Rightarrow> nat list \<Rightarrow> node \<Rightarrow> bool \<times> node" where
  "try_priorities env [] n = (False, n)"
| "try_priorities env (a # as) n =
     (let i = find_idx (map priority WIFI_NETWORKS) (int a + 1) (length WIFI_NETWORKS) in
      if i < length WIFI_NETWORKS then
        (case connectToSpecificNetwork env (int i) n of
           (True, n1) \<Rightarrow> (True, n1)
         | (False, n1) \<Rightarrow> try_priorities env as n1)
      else try_priorities env as n)"

definition connectWithAutoFallback :: "wifi_env \<Rightarrow> node \<Rightarrow> bool \<times> node" where
  "connectWithAutoFallback env n =
     (case (if 0 \<le> netIndex n \<and> netIndex n < NUM_WIFI_NETWORKS
            then connectToSpecificNetwork env (netIndex n) n else (False, n)) of
        (True, n1) \<Rightarrow> (True, n1)
      | (False, n1) \<Rightarrow> try_priorities env [0..<length WIFI_NETWORKS] n1)"

definition connectToHomeNetwork :: "wifi_env \<Rightarrow> node \<Rightarrow> bool \<times> node" where
  "connectToHomeNetwork env n =
     (let i = find_idx (map location WIFI_NETWORKS) ''Home'' (length WIFI_NETWORKS) in
      if i < length WIFI_NETWORKS then connectToSpecificNetwork env (int i) n else (False, n))"

definition connectToWorkNetwork :: "wifi_env \<Rightarrow> node \<Rightarrow> bool \<times> node" where
  "connectToWorkNetwork env n =
     (let i = find_idx (map location WIFI_NETWORKS) ''Work'' (length WIFI_NETWORKS) in
      if i < length WIFI_NETWORKS then connectToSpecificNetwork env (int i) n else (False, n))"

text \<open>
  \<open>connectToWiFi()\<close>: drop the link, then connect as the mode says. A mode
  value outside the enum takes the \<open>default\<close> branch.
\<close>
definition connectToWiFi :: "wifi_env \<Rightarrow> node \<Rightarrow> bool \<times> node" where
  "connectToWiFi env n =
     (let n0 = n\<lparr>link := False\<rparr> in
      if netMode n0 = mode_val AUTO then connectWithAutoFallback env n0
      else if netMode n0 = mode_val MANUAL_HOME then connectToHomeNetwork env n0
      else if netMode n0 = mode_val MANUAL_WORK then connectToWorkNetwork env n0
      else if netMode n0 = mode_val MANUAL_CUSTOM then
        (if 0 \<le> netIndex n0 \<and> netIndex n0 < NUM_WIFI_NETWORKS
         then connectToSpecificNetwork env (netIndex n0) n0
         else connectToSpecificNetwork env 0 n0)
      else connectWithAutoFallback env n0)"

definition setNetworkMode :: "wifi_env \<Rightarrow> NetworkSelectionMode \<Rightarrow> node \<Rightarrow> node" where
  "setNetworkMode env mode n =
     (if netMode n \<noteq> mode_val mode then
        (let n1 = saveNetworkMode (n\<lparr>netMode := mode_val mode\<rparr>) in
         if link n1 then snd (connectToWiFi env (n1\<lparr>link := False\<rparr>)) else n1)
      else n)"

definition checkWiFiConnection :: "wifi_env \<Rightarrow> node \<Rightarrow> bool \<times> node" where
  "checkWiFiConnection env n = (if \<not> link n then connectToWiFi env n else (True, n))"

text \<open>\<open>getWiFiStatusString()\<close>: the location copied into a 32-byte static buffer.\<close>
definition getWiFiStatusString :: "node \<Rightarrow> string" where
  "getWiFiStatusString n =
     (if 0 \<le> netIndex n \<and> netIndex n < NUM_WIFI_NETWORKS
      then snprintf 32 (location (WIFI_NETWORKS ! nat (netIndex n)))
      else ''Disconnected'')"

text \<open>
  \<open>wifiNetworks[]\<close> of \<open>src/wifi_networks_example.h\<close>, the template its comments
  ask to copy to \<open>wifi_networks.h\<close> and include in \<open>wifi_config.h\<close>.
\<close>
definition wifiNetworks :: "WiFiNetwork list" where
  "wifiNetworks =
     [\<lparr>ssid = ''YourHomeSSID'', password = ''YourHomePassword'', location = ''Home'', priority = 1\<rparr>,
      \<lparr>ssid = ''YourWorkSSID'', password = ''YourWorkPassword'', location = ''Work'', priority = 2\<rparr>]"

section \<open>What a connection attempt leaves behind\<close>

text \<open>
  A successful attempt leaves the link up on a configured network the access
  points accept, with that network saved as the last one; a failed attempt
  leaves the link down.
\<close>
definition connected_ok :: "wifi_env \<Rightarrow> node \<Rightarrow> bool" where
  "connected_ok env n \<longleftrightarrow> link n \<and> 0 \<le> netIndex n \<and> netIndex n < NUM_WIFI_NETWORKS \<and>
     env (nat (netIndex n)) \<and> prefs n (WIFI_NS, ''lastNetwork'') = Some (PInt (netIndex n))"

definition attempt_ok :: "wifi_env \<Rightarrow> bool \<times> node \<Rightarrow> bool" where
  "attempt_ok env r \<longleftrightarrow> (if fst r then connected_ok env (snd r) else \<not> link (snd r))"

lemma wifi_tables [simp]:
  "NUM_WIFI_NETWORKS = 2" "length WIFI_NETWORKS = 2"
  "map priority WIFI_NETWORKS = [1, 2]" "map location WIFI_NETWORKS = [''Home'', ''Work'']"
  by (simp_all add: NUM_WIFI_NETWORKS_def WIFI_NETWORKS_def)

text \<open>
  The template has the locations and priorities the selection code looks for,
  but under another name: \<open>wifi_manager.cpp\<close> reads \<open>WIFI_NETWORKS\<close>, so a
  table written from the template is never consulted.
\<close>
lemma template_networks_shape:
  "map location wifiNetworks = map location WIFI_NETWORKS \<and>
   map priority wifiNetworks = map priority WIFI_NETWORKS \<and> wifiNetworks \<noteq> WIFI_NETWORKS"
  by (simp add: wifiNetworks_def WIFI_NETWORKS_def)

lemma connectToSpecificNetwork_ok:
  "\<not> link n \<Longrightarrow> attempt_ok env (connectToSpecificNetwork env i n)"
  by (simp add: connectToSpecificNetwork_def attempt_ok_def connected_ok_def
      saveNetworkMode_def WIFI_NS_def)

lemma try_priorities_ok:
  "\<not> link n \<Longrightarrow> attempt_ok env (try_priorities env as n)"
proof (induction as arbitrary: n)
  case Nil
  then show ?case by (simp add: attempt_ok_def)
next
  case (Cons a as)
  show ?case
  proof (cases "find_idx [1, 2::int] (int a + 1) 2 < 2")
    case True
    obtain r n1 where c: "connectToSpecificNetwork env (int (find_idx [1, 2::int] (int a + 1) 2)) n = (r, n1)"
      by fastforce
    with connectToSpecificNetwork_ok [OF Cons.prems] have "attempt_ok env (r, n1)" by metis
    with Cons.IH [of n1] True c show ?thesis
      by (cases r) (simp_all add: attempt_ok_def)
  next
    case False
    with Cons show ?thesis by simp
  qed
qed

lemma connectWithAutoFallback_ok:
  "\<not> link n \<Longrightarrow> attempt_ok env (connectWithAutoFallback env n)"
proof -
  assume n: "\<not> link n"
  obtain r n1 where c: "(if 0 \<le> netIndex n \<and> netIndex n < NUM_WIFI_NETWORKS
        then connectToSpecificNetwork env (netIndex n) n else (False, n)) = (r, n1)"
    by fastforce
  have "attempt_ok env (r, n1)"
  proof (cases "0 \<le> netIndex n \<and> netIndex n < NUM_WIFI_NETWORKS")
    case True
    then show ?thesis using c connectToSpecificNetwork_ok [OF n, of env "netIndex n"] by simp
  next
    case False
    with c have "r = False" "n1 = n" by (auto split: if_splits)
    with n show ?thesis by (simp add: attempt_ok_def)
  qed
  with c try_priorities_ok [of n1 env] show ?thesis
    by (cases r) (simp_all add: connectWithAutoFallback_def attempt_ok_def)
qed

lemma connectToWiFi_ok: "attempt_ok env (connectToWiFi env n)"
  using connectWithAutoFallback_ok [of "n\<lparr>link := False\<rparr>" env]
    connectToSpecificNetwork_ok [of "n\<lparr>link := False\<rparr>" env]
  by (simp add: connectToWiFi_def connectToHomeNetwork_def connectToWorkNetwork_def Let_def
      find_idx_def)

text \<open>The manager only changes the link, its own two variables and the store.\<close>
definition wifi_only :: "node \<Rightarrow> node \<Rightarrow> bool" where
  "wifi_only n m \<longleftrightarrow> m = n\<lparr>link := link m, netMode := netMode m, netIndex := netIndex m, prefs := prefs m\<rparr>"

lemma wifi_only_refl [simp]: "wifi_only n n"
  by (simp add: wifi_only_def)

lemma wifi_only_trans:
  assumes "wifi_only n m" "wifi_only m k"
  shows "wifi_only n k"
proof -
  have m: "m = n\<lparr>link := link m, netMode := netMode m, netIndex := netIndex m, prefs := prefs m\<rparr>"
    and k: "k = m\<lparr>link := link k, netMode := netMode k, netIndex := netIndex k, prefs := prefs k\<rparr>"
    using assms by (simp_all add: wifi_only_def)
  have "k = (n\<lparr>link := link m, netMode := netMode m, netIndex := netIndex m, prefs := prefs m\<rparr>)
            \<lparr>link := link k, netMode := netMode k, netIndex := netIndex k, prefs := prefs k\<rparr>"
    using k by (subst (asm) m) simp
  then show ?thesis by (simp add: wifi_only_def)
qed

lemma wifi_only_fields:
  assumes "wifi_only n m"
  shows "isSender m = isSender n" "cur m = cur n" "wifiConnected m = wifiConnected n"
    "chip m = chip n" "air m = air n" "loraOtaActive m = loraOtaActive n" "disp m = disp n"
proof -
  have m: "m = n\<lparr>link := link m, netMode := netMode m, netIndex := netIndex m, prefs := prefs m\<rparr>"
    using assms by (simp add: wifi_only_def)
  show "isSender m = isSender n" "cur m = cur n" "wifiConnected m = wifiConnected n"
    "chip m = chip n" "air m = air n" "loraOtaActive m = loraOtaActive n" "disp m = disp n"
    by (subst m, simp)+
qed

lemma connectToSpecificNetwork_only: "wifi_only n (snd (connectToSpecificNetwork env i n))"
  by (simp add: connectToSpecificNetwork_def saveNetworkMode_def wifi_only_def)

lemma try_priorities_only: "wifi_only n (snd (try_priorities env as n))"
proof (induction as arbitrary: n)
  case Nil
  then show ?case by simp
next
  case (Cons a as)
  show ?case
  proof (cases "find_idx [1, 2::int] (int a + 1) 2 < 2")
    case True
    obtain r n1 where c: "connectToSpecificNetwork env (int (find_idx [1, 2::int] (int a + 1) 2)) n = (r, n1)"
      by fastforce
    with connectToSpecificNetwork_only [of n env] have "wifi_only n n1" by (metis snd_conv)
    with Cons.IH [of n1] c True show ?thesis
      by (cases r) (auto intro: wifi_only_trans)
  next
    case False
    with Cons.IH [of n] show ?thesis by simp
  qed
qed

lemma connectToWiFi_only: "wifi_only n (snd (connectToWiFi env n))"
proof -
  let ?n0 = "n\<lparr>link := False\<rparr>"
  have n0: "wifi_only n ?n0" by (simp add: wifi_only_def)
  have auto: "wifi_only ?n0 (snd (connectWithAutoFallback env ?n0))"
  proof -
    obtain r n1 where c: "(if 0 \<le> netIndex ?n0 \<and> netIndex ?n0 < NUM_WIFI_NETWORKS
        then connectToSpecificNetwork env (netIndex ?n0) ?n0 else (False, ?n0)) = (r, n1)"
      by fastforce
    have "wifi_only ?n0 n1"
      using c connectToSpecificNetwork_only [of ?n0 env "netIndex ?n0"]
      by (auto split: if_splits)
    with c try_priorities_only [of n1 env] show ?thesis
      by (cases r) (auto simp: connectWithAutoFallback_def intro: wifi_only_trans)
  qed
  have "wifi_only ?n0 (snd (connectToWiFi env n))"
    using auto connectToSpecificNetwork_only [of ?n0 env]
    by (simp add: connectToWiFi_def connectToHomeNetwork_def connectToWorkNetwork_def Let_def)
  with n0 show ?thesis by (rule wifi_only_trans)
qed

lemma setNetworkMode_only: "wifi_only n (setNetworkMode env mode n)"
proof -
  let ?n1 = "saveNetworkMode (n\<lparr>netMode := mode_val mode\<rparr>)"
  have n1: "wifi_only n ?n1" "wifi_only n (?n1\<lparr>link := False\<rparr>)"
    by (simp_all add: wifi_only_def saveNetworkMode_def)
  show ?thesis
    using n1 connectToWiFi_only [of "?n1\<lparr>link := False\<rparr>" env]
    by (auto simp: setNetworkMode_def Let_def intro: wifi_only_trans)
qed

lemma checkWiFiConnection_only: "wifi_only n (snd (checkWiFiConnection env n))"
  using connectToWiFi_only by (simp add: checkWiFiConnection_def)

lemma checkWiFiConnection_ok:
  "attempt_ok env (checkWiFiConnection env n) \<or> (link n \<and> checkWiFiConnection env n = (True, n))"
  using connectToWiFi_ok by (simp add: checkWiFiConnection_def)

section \<open>What each selection mode tries\<close>

lemma connectToWiFi_home:
  "netMode n = mode_val MANUAL_HOME \<Longrightarrow> fst (connectToWiFi env n) = env 0"
  by (simp add: connectToWiFi_def connectToHomeNetwork_def connectToSpecificNetwork_def find_idx_def Let_def)

lemma connectToWiFi_work:
  "netMode n = mode_val MANUAL_WORK \<Longrightarrow> fst (connectToWiFi env n) = env 1"
  by (simp add: connectToWiFi_def connectToWorkNetwork_def connectToSpecificNetwork_def find_idx_def Let_def)

lemma try_priorities_all:
  "fst (try_priorities env [0, Suc 0] n) = (env 0 \<or> env 1)"
  by (simp add: connectToSpecificNetwork_def find_idx_def split: prod.split bool.split)

lemma connectWithAutoFallback_iff:
  "fst (connectWithAutoFallback env n) = (env 0 \<or> env 1)"
proof -
  have r: "[0..<2] = [0::nat, Suc 0]" by (simp add: upt_rec)
  consider "netIndex n = 0" | "netIndex n = 1" | "\<not> (0 \<le> netIndex n \<and> netIndex n < 2)"
    by linarith
  then show ?thesis
    by cases (auto simp: connectWithAutoFallback_def r try_priorities_all
        connectToSpecificNetwork_def simp del: try_priorities.simps split: prod.split bool.split)
qed

lemma connectToWiFi_custom:
  "netMode n = mode_val MANUAL_CUSTOM \<Longrightarrow>
   fst (connectToWiFi env n) = (if netIndex n = 1 then env 1 else env 0)"
  by (simp add: connectToWiFi_def connectToSpecificNetwork_def Let_def)

text \<open>C21: In AUTO mode, connectToWiFi succeeds exactly when the home or the work network is available.\<close>
lemma connectToWiFi_auto:
  "netMode n = mode_val AUTO \<Longrightarrow> fst (connectToWiFi env n) = (env 0 \<or> env 1)"
  by (simp add: connectToWiFi_def connectWithAutoFallback_iff)

lemma connectToWiFi_auto_witness:
  "fst (connectToWiFi (\<lambda>i. i = 1) (node0 (\<lambda>_. None)))"
  using connectToWiFi_auto [of "node0 (\<lambda>_. None)" "\<lambda>i. i = 1"] by (simp add: node0_def)

text \<open>A stored mode outside the enum behaves as \<open>AUTO\<close> when connecting.\<close>
text \<open>A stored network mode outside the enum (a corrupt NVS value) is not rejected: connectToWiFi takes the default branch and behaves as AUTO.\<close>
lemma connectToWiFi_other:
  "netMode n \<notin> {0, 1, 2, 3} \<Longrightarrow> connectToWiFi env n = connectWithAutoFallback env (n\<lparr>link := False\<rparr>)"
  by (simp add: connectToWiFi_def Let_def)

lemma connectToWiFi_other_witness:
  "connectToWiFi (\<lambda>_. False) ((node0 (\<lambda>_. None))\<lparr>netMode := 7\<rparr>) =
   connectWithAutoFallback (\<lambda>_. False) ((node0 (\<lambda>_. None))\<lparr>netMode := 7, link := False\<rparr>)"
  using connectToWiFi_other [of "(node0 (\<lambda>_. None))\<lparr>netMode := 7\<rparr>" "\<lambda>_. False"] by simp

section \<open>Persistence of the selection\<close>

text \<open>C22: The network mode and index saved by saveNetworkMode are the ones initWiFiPreferences loads at the next boot.\<close>
lemma init_saved_network:
  "prefs m = prefs (saveNetworkMode n) \<Longrightarrow>
   netMode (initWiFiPreferences m) = netMode n \<and> netIndex (initWiFiPreferences m) = netIndex n"
  by (simp add: initWiFiPreferences_def saveNetworkMode_def wifiGetInt_def WIFI_NS_def)

lemma init_saved_network_witness:
  "netMode (initWiFiPreferences (saveNetworkMode ((node0 (\<lambda>_. None))\<lparr>netMode := 2, netIndex := 1\<rparr>))) = 2 \<and>
   netIndex (initWiFiPreferences (saveNetworkMode ((node0 (\<lambda>_. None))\<lparr>netMode := 2, netIndex := 1\<rparr>))) = 1"
  using init_saved_network [of "saveNetworkMode ((node0 (\<lambda>_. None))\<lparr>netMode := 2, netIndex := 1\<rparr>)"
      "(node0 (\<lambda>_. None))\<lparr>netMode := 2, netIndex := 1\<rparr>"] by simp

text \<open>
  The status string is the location \<open>getCurrentNetworkLocation()\<close> names, whole
  (every configured location fits the 32-byte buffer), or \<open>Disconnected\<close> where
  that function says \<open>Unknown\<close>.
\<close>
lemma getWiFiStatusString_location:
  "getWiFiStatusString n =
     (if 0 \<le> netIndex n \<and> netIndex n < NUM_WIFI_NETWORKS then getCurrentNetworkLocation (netIndex n)
      else ''Disconnected'')"
proof -
  have "j < 2 \<Longrightarrow> snprintf 32 (location (WIFI_NETWORKS ! j)) = location (WIFI_NETWORKS ! j)" for j :: nat
    by (cases "j = 0") (auto simp: WIFI_NETWORKS_def snprintf_def nth_Cons split: nat.split)
  then show ?thesis
    by (auto simp: getWiFiStatusString_def getCurrentNetworkLocation_def NUM_WIFI_NETWORKS_def WIFI_NETWORKS_def)
qed

end
