(* ===== verification/Loop.thy ===== *)
theory Loop
  imports Ota WiFi
begin

text \<open>
  The top level of \<open>src/src/main.cpp\<close>: the button handler \<open>updateButton()\<close>,
  one iteration of \<open>loop()\<close> (the sender's ping and broadcast, the receiver's
  dispatch of received frames, the WiFi service of a WiFi receiver, the OTA
  timeout), \<open>setup()\<close>, and the runs of the firmware as the inductive relation
  \<open>reachable\<close>: a boot from any flash contents, any sequence of loop iterations
  with arbitrary inputs, and reboots that keep the flash. Everything the
  iteration reads from the hardware (clock, button level, radio answers, WiFi
  link and access points, ArduinoOTA callbacks, the flash writer) is a field of
  its input record. A panic or halt is a \<open>fault\<close>; \<open>ESP.restart()\<close> sets
  \<open>restarted\<close> and ends the iteration.
\<close>

section \<open>The button\<close>

text \<open>The receiver's next WiFi selection mode (\<open>switch (currentMode)\<close>).\<close>
definition nextNetworkMode :: "int \<Rightarrow> NetworkSelectionMode" where
  "nextNetworkMode m =
     (if m = mode_val AUTO then MANUAL_HOME
      else if m = mode_val MANUAL_HOME then MANUAL_WORK
      else if m = mode_val MANUAL_WORK then AUTO
      else AUTO)"

primrec modeStr :: "NetworkSelectionMode \<Rightarrow> string" where
  "modeStr AUTO = ''Auto''"
| "modeStr MANUAL_HOME = ''Home''"
| "modeStr MANUAL_WORK = ''Work''"
| "modeStr MANUAL_CUSTOM = ''Auto''"

text \<open>The medium press of a WiFi receiver: next mode, and a reconnection if connected.\<close>
definition cycleNetworkMode :: "build \<Rightarrow> wifi_env \<Rightarrow> node \<Rightarrow> node" where
  "cycleNetworkMode b env n =
     (let m = nextNetworkMode (netMode n);
          n1 = msg b ''Network Mode'' (modeStr m) (setNetworkMode env m n) in
      if wifiConnected n1 then
        (case connectToWiFi env (n1\<lparr>link := False\<rparr>) of
           (True, n2) \<Rightarrow> msg b ''Reconnected'' (getCurrentNetworkLocation (netIndex n2))
                           (n2\<lparr>wifiConnected := True\<rparr>)
         | (False, n2) \<Rightarrow> msg b ''Reconnect'' ''Failed'' (n2\<lparr>wifiConnected := False\<rparr>))
      else n1)"

text \<open>
  The four branches of the release handling in \<open>updateButton()\<close>. A sender
  only announces a new SF or BW (it commits it after the broadcast); a receiver
  changes its own radio at once, or with WiFi cycles its network mode.
\<close>
definition releaseAction :: "build \<Rightarrow> radio_drv \<Rightarrow> wifi_env \<Rightarrow> ButtonAction \<Rightarrow> node \<Rightarrow> node" where
  "releaseAction b drv env a n =
     (case a of
        Ignore \<Rightarrow> n
      | ToggleMode \<Rightarrow> oledRole b (savePersistedRole (n\<lparr>isSender := \<not> isSender n, seq := 0\<rparr>))
      | CycleSF \<Rightarrow>
          (if isSender n then
             startConfigBroadcast b ((cur n)\<lparr>sf := sfValues ! next_index (sfIdx n) (length sfValues)\<rparr>) n
           else if wifi_ota b then cycleNetworkMode b env n
           else (let i = next_index (sfIdx n) (length sfValues) in
                 savePersistedSettings (updateRadioSettings b drv
                   (n\<lparr>sfIdx := i, cur := (cur n)\<lparr>sf := sfValues ! i\<rparr>\<rparr>))))
      | CycleBW \<Rightarrow>
          (if isSender n then
             startConfigBroadcast b ((cur n)\<lparr>bw := bwValues ! next_index (bwIdx n) (length bwValues)\<rparr>) n
           else (let i = next_index (bwIdx n) (length bwValues) in
                 savePersistedSettings (updateRadioSettings b drv
                   (n\<lparr>bwIdx := i, cur := (cur n)\<lparr>bw := bwValues ! i\<rparr>\<rparr>)))))"

text \<open>
  The release branch of \<open>updateButton()\<close> for a press of \<open>pressDuration\<close> ms:
  the thresholds are written inline in \<open>main.cpp\<close>, apart from the
  \<open>classifyPress\<close> of \<open>app_logic.cpp\<close> that the unit tests exercise.
\<close>
definition buttonRelease :: "build \<Rightarrow> radio_drv \<Rightarrow> wifi_env \<Rightarrow> u32 \<Rightarrow> node \<Rightarrow> node" where
  "buttonRelease b drv env pressDuration n =
     (if pressDuration < 100 then releaseAction b drv env Ignore n
      else if pressDuration < 1000 then releaseAction b drv env ToggleMode n
      else if pressDuration < 3000 then releaseAction b drv env CycleSF n
      else releaseAction b drv env CycleBW n)"

text \<open>\<open>updateButton()\<close>: \<open>s\<close> is \<open>digitalRead(BUTTON_PIN) == HIGH\<close> (the pin is pulled up).\<close>
definition updateButton :: "build \<Rightarrow> radio_drv \<Rightarrow> wifi_env \<Rightarrow> bool \<Rightarrow> ms \<Rightarrow> node \<Rightarrow> node" where
  "updateButton b drv env s now n =
     (let n1 = (if lastButtonState n \<and> \<not> s then n\<lparr>buttonPressed := True, buttonPressMs := now\<rparr> else n);
          n2 = (if \<not> lastButtonState n1 \<and> s \<and> buttonPressed n1 then
                  (buttonRelease b drv env (now - buttonPressMs n1) (n1\<lparr>buttonPressed := False\<rparr>))
                    \<lparr>lastButtonMs := now\<rparr>
                else n1)
      in n2\<lparr>lastButtonState := s\<rparr>)"

section \<open>One iteration of loop()\<close>

text \<open>The ArduinoOTA callbacks \<open>ArduinoOTA.handle()\<close> may run during one call.\<close>
datatype ota_event = OtaStartEv | OtaProgressEv u32 u32 | OtaEndEv | OtaErrorEv nat

record loop_in =
  inNow :: ms
  inBtn :: bool
  inDrv :: radio_drv
  inEnv :: wifi_env
  inLink :: bool
  inTxSt :: int
  inRx :: rx_result
  inFw :: fw_writer
  inJunk :: "nat \<Rightarrow> string"
  inOta :: "ota_event list"
  inListen :: "(ms \<times> rx_result) list"

text \<open>Sequencing of the steps of an iteration: a fault or a restart ends it.\<close>
definition seqn :: "fault + node \<Rightarrow> (node \<Rightarrow> fault + node) \<Rightarrow> fault + node" where
  "seqn r f = (case r of Inl e \<Rightarrow> Inl e | Inr n \<Rightarrow> if restarted n then Inr n else f n)"

text \<open>The sender's half: the pending broadcast, else a ping every 2 s.\<close>
definition senderLoop :: "build \<Rightarrow> loop_in \<Rightarrow> node \<Rightarrow> node" where
  "senderLoop b i n =
     (if pendingConfigBroadcast n then senderConfigStep b (inDrv i) (inNow i) n
      else if 2000 \<le> inNow i - lastTxMs n then
        (let m = snprintf 48 (''PING seq='' @ fmt_u32 (seq n));
             n1 = transmit m (n\<lparr>seq := seq n + 1\<rparr>);
             n2 = (if inTxSt i = RADIOLIB_ERR_NONE
                   then msg b ''PING'' (snprintf 20 (''seq='' @ fmt_u32 (seq n1 - 1))) n1
                   else oledMsg b ''TX FAIL'' (Some m) (Some (snprintf 24 (''err '' @ fmt_int (inTxSt i)))) n1)
         in n2\<lparr>lastTxMs := inNow i\<rparr>)
      else n)"

text \<open>The dispatch of a received frame, in the order of the source's tests.\<close>
definition dispatchRx :: "build \<Rightarrow> loop_in \<Rightarrow> string \<Rightarrow> rat \<Rightarrow> node \<Rightarrow> fault + node" where
  "dispatchRx b i rx rssi n =
     (if startsWith rx ''CFG '' then Inr (handleCfgFrame b (inDrv i) rx rssi n)
      else if startsWith rx ''OTA_'' then handleLoraOtaPacket b (inFw i) (inNow i) rx n
      else if startsWith rx ''FW_UPDATE_AVAILABLE'' \<or> startsWith rx ''UPDATE_NOW'' then
        Inr (if isSender n then transmit ''REQUEST_UPDATE'' n else n)
      else if startsWith rx ''REQUEST_UPDATE'' then
        (if \<not> isSender n then
           (let n1 = transmit ''UPDATE_ACK'' (msg b ''Update Req'' ''Received'' n) in
            if wifi_ota b then
              (if hasStoredFirmware n1 \<and> 0 < length (storedFirmware n1)
               then sendLoraOtaUpdate b (inJunk i) (storedFirmware n1) (msg b ''Sending FW'' ''To TX'' n1)
               else Inr (transmit ''NO_FIRMWARE'' (msg b ''No FW'' ''Stored'' n1)))
            else Inr (transmit ''NO_FIRMWARE'' n1))
         else Inr n)
      else if startsWith rx ''PING '' then
        Inr (msg b ''PING'' (case strstr rx ''seq='' of Some p \<Rightarrow> p | None \<Rightarrow> rx) n)
      else Inr (oledMsg b ''RX'' (Some rx) (Some (snprintf 20 (''RSSI '' @ fmt_fixed 1 rssi))) n))"

text \<open>The receiver's half: poll the radio every 50 ms.\<close>
definition receiverLoop :: "build \<Rightarrow> loop_in \<Rightarrow> node \<Rightarrow> fault + node" where
  "receiverLoop b i n =
     (if 50 \<le> inNow i - lastRxMs n then
        seqn (case inRx i of
                RxOk rx rssi snr \<Rightarrow>
                  dispatchRx b i rx rssi
                    (n\<lparr>lastRSSI := rssi, lastSNR := snr, lastPacketTime := inNow i,
                       packetCount := packetCount n + 1\<rparr>)
              | RxFail st \<Rightarrow>
                  Inr (if st \<noteq> RADIOLIB_ERR_RX_TIMEOUT
                       then msg b ''RX FAIL'' (snprintf 24 (''err '' @ fmt_int st))
                              (n\<lparr>errorCount := errorCount n + 1\<rparr>)
                       else n))
          (\<lambda>n1. Inr (n1\<lparr>lastRxMs := inNow i\<rparr>))
      else Inr n)"

text \<open>
  The \<open>onEnd\<close> callback of \<open>initOTA()\<close>; ArduinoOTA restarts the board after it
  returns.
\<close>
definition otaOnEnd :: "build \<Rightarrow> loop_in \<Rightarrow> node \<Rightarrow> node" where
  "otaOnEnd b i n =
     (let n1 = msg b ''OTA'' ''Complete!'' (n\<lparr>otaActive := False\<rparr>) in
      if \<not> isSender n1 then
        (case storeCurrentFirmware n1 of
           (True, n2) \<Rightarrow> triggerLoraFirmwareUpdates b (inDrv i) (inNow i) (inListen i)
                           (msg b ''LoRa Update'' ''Triggering...'' (msg b ''Firmware'' ''Stored'' n2))
         | (False, n2) \<Rightarrow> msg b ''Firmware'' ''Store failed'' n2)
      else n1)"

fun ota_callbacks :: "build \<Rightarrow> loop_in \<Rightarrow> ota_event list \<Rightarrow> node \<Rightarrow> fault + node" where
  "ota_callbacks b i [] n = Inr n"
| "ota_callbacks b i (OtaStartEv # es) n =
     ota_callbacks b i es (msg b ''OTA'' ''Starting...'' (n\<lparr>otaActive := True\<rparr>))"
| "ota_callbacks b i (OtaProgressEv progress totalSz # es) n =
     (if totalSz = 0 then Inl IntegerDivideByZero
      else ota_callbacks b i es
             (msg b ''OTA Update'' (snprintf 20 (fmt_int (sint (progress * 100 div totalSz)) @ ''%'')) n))"
| "ota_callbacks b i (OtaEndEv # es) n = Inr ((otaOnEnd b i n)\<lparr>restarted := True\<rparr>)"
| "ota_callbacks b i (OtaErrorEv e # es) n =
     ota_callbacks b i es (msg b ''OTA Error'' (snprintf 20 (''Error: '' @ dec_nat e)) (n\<lparr>otaActive := False\<rparr>))"

text \<open>The WiFi service of a connected WiFi receiver, with the 30 s connection check.\<close>
definition wifiService :: "build \<Rightarrow> loop_in \<Rightarrow> node \<Rightarrow> fault + node" where
  "wifiService b i n =
     (if wifi_ota b \<and> \<not> isSender n \<and> wifiConnected n then
        seqn (ota_callbacks b i (inOta i) n)
          (\<lambda>n1. if 30000 \<le> inNow i - lastWiFiCheck n1 then
                  (case checkWiFiConnection (inEnv i) n1 of
                     (False, n2) \<Rightarrow>
                       Inr ((msg b ''WiFi'' ''Reconnecting...'' (n2\<lparr>wifiConnected := False\<rparr>))
                              \<lparr>lastWiFiCheck := inNow i\<rparr>)
                   | (True, n2) \<Rightarrow>
                       Inr ((if \<not> wifiConnected n2
                             then msg b ''WiFi'' ''Reconnected'' (n2\<lparr>wifiConnected := True\<rparr>)
                             else n2)\<lparr>lastWiFiCheck := inNow i\<rparr>))
                else Inr n1)
      else Inr n)"

text \<open>\<open>loop()\<close>. The WiFi link is whatever the hardware reports at this iteration.\<close>
definition loop :: "build \<Rightarrow> loop_in \<Rightarrow> node \<Rightarrow> fault + node" where
  "loop b i n =
     (let n1 = updateButton b (inDrv i) (inEnv i) (inBtn i) (inNow i) (n\<lparr>link := inLink i\<rparr>) in
      seqn (if isSender n1 then Inr (senderLoop b i n1) else receiverLoop b i n1)
        (\<lambda>n2. seqn (wifiService b i n2) (\<lambda>n3. Inr (checkLoraOtaTimeout b (inNow i) n3))))"

section \<open>setup()\<close>

text \<open>
  What \<open>setup()\<close> reads from the hardware: the radio's answers, the access points,
  the clock and the frames of the control-channel window, and whether
  \<open>u8g2.begin()\<close> finds a display at a 7-bit I2C address.
\<close>
record boot_in =
  bdrv :: radio_drv
  benv :: wifi_env
  bstart :: ms
  bevents :: "(ms \<times> rx_result) list"
  boled :: "8 word \<Rightarrow> bool"

text \<open>
  \<open>initDisplay()\<close>: the Vext and reset pulses and the I2C set-up only pass time;
  the display is tried at address \<open>0x3C\<close>, then \<open>0x3D\<close>, and without either
  the function prints \<open>OLED init failed\<close> forever. The result is the address used.
\<close>
definition initDisplay :: "(8 word \<Rightarrow> bool) \<Rightarrow> fault + 8 word" where
  "initDisplay oled =
     (if oled 0x3C then Inr 0x3C else if oled 0x3D then Inr 0x3D else Inl OledInitHalt)"

definition initWiFi :: "build \<Rightarrow> wifi_env \<Rightarrow> node \<Rightarrow> node" where
  "initWiFi b env n =
     (case connectToWiFi env (initWiFiPreferences (msg b ''WiFi'' ''Connecting...'' n)) of
        (True, n1) \<Rightarrow> msg b ''WiFi'' (getCurrentNetworkLocation (netIndex n1)) (n1\<lparr>wifiConnected := True\<rparr>)
      | (False, n1) \<Rightarrow> msg b ''WiFi'' ''Failed!'' n1)"

definition setupMain :: "build \<Rightarrow> boot_in \<Rightarrow> node \<Rightarrow> fault + node" where
  "setupMain b i n =
     (let n1 = n\<lparr>cur := default_params, isSender := (role_flag b \<noteq> RoleReceiverFlag)\<rparr>;
          n2 = computeIndicesFromCurrent (loadPersistedSettingsAndRole n1);
          n3 = oledRole b (msg b ''Booting...'' ''Heltec V3'' n2) in
      case initDisplay (boled i) of
        Inl e \<Rightarrow> Inl e
      | Inr _ \<Rightarrow>
      case initRadioOrHalt b (bdrv i) n3 of
        Inl e \<Rightarrow> Inl e
      | Inr n4 \<Rightarrow>
          (let n5 = (if wifi_ota b \<and> \<not> isSender n4 then
                       (let n' = initWiFi b (benv i) n4 in
                        if wifiConnected n' then msg b ''WiFi + OTA'' ''Ready'' n' else n')
                     else n4);
               n6 = (if isSender n5 then
                       (let m = broadcastConfigOnControlChannel (bdrv i) 6 n5 in
                        startConfigBroadcast b (cur m) m)
                     else n5)
           in Inr (if \<not> isSender n6
                   then tryReceiveConfigOnControlChannel (bdrv i) 6000 (bstart i) (bevents i) n6
                   else n6)))"

section \<open>Runs\<close>

text \<open>
  The states the firmware can reach: \<open>setup()\<close> from the initial variables and
  any flash contents, then loop iterations with any inputs until a restart,
  after which \<open>setup()\<close> runs again on the same flash.
\<close>
inductive reachable :: "build \<Rightarrow> node \<Rightarrow> bool" for b where
  boot: "setupMain b bi (node0 st) = Inr n \<Longrightarrow> reachable b n"
| step: "reachable b n \<Longrightarrow> \<not> restarted n \<Longrightarrow> loop b i n = Inr n' \<Longrightarrow> reachable b n'"
| reboot: "reachable b n \<Longrightarrow> restarted n \<Longrightarrow> setupMain b bi (node0 (prefs n)) = Inr n' \<Longrightarrow> reachable b n'"

text \<open>Without a display at either address, \<open>setup()\<close> never gets past \<open>initDisplay()\<close>.\<close>
lemma setupMain_display_halt:
  "\<not> boled i 0x3C \<Longrightarrow> \<not> boled i 0x3D \<Longrightarrow> setupMain b i n = Inl OledInitHalt"
  by (simp add: setupMain_def initDisplay_def Let_def)

end
