(* ===== verification/Invariants.thy ===== *)
theory Invariants
  imports Loop
begin

text \<open>
  The state invariant of the firmware and its preservation by every operation of
  \<open>setup()\<close> and \<open>loop()\<close>. The invariant speaks of a few fields only (the
  \<open>core\<close>); most operations leave the core unchanged, which the lemmas
  \<open>core_*\<close> record once for each of them, and the operations that change it are
  shown to keep the invariant one by one.
\<close>

section \<open>The invariant\<close>

definition flashed_ok :: "node \<Rightarrow> bool" where
  "flashed_ok n \<longleftrightarrow> (case flashed n of None \<Rightarrow> True | Some img \<Rightarrow> length img < LORA_OTA_BUFFER_SIZE)"

definition cfg_inv :: "node \<Rightarrow> bool" where
  "cfg_inv n \<longleftrightarrow> \<not> pendingConfigBroadcast n \<or> (0 < cfgRemaining n \<and> cfgRemaining n \<le> CFG_REPEATS)"

definition node_inv :: "node \<Rightarrow> bool" where
  "node_inv n \<longleftrightarrow> idx_ok n \<and> ota_inv n \<and> cfg_inv n \<and> flashed_ok n"

definition core :: "node \<Rightarrow> nat \<times> nat \<times> nat \<times> bool \<times> int \<times> string \<times> nat \<times> u32 \<times> string option" where
  "core n = (sfIdx n, bwIdx n, txIdx n, pendingConfigBroadcast n, cfgRemaining n,
             loraOtaBuffer n, loraOtaBufferSize n, loraOtaReceivedSize n, flashed n)"

named_theorems core_simps "operations that leave the core unchanged"

lemma node_inv_core: "core m = core n \<Longrightarrow> node_inv m = node_inv n"
  by (simp add: core_def node_inv_def idx_ok_def ota_inv_def cfg_inv_def flashed_ok_def)

lemma node_inv_coreI: "node_inv n \<Longrightarrow> core m = core n \<Longrightarrow> node_inv m"
  using node_inv_core by blast

section \<open>Operations that keep the core\<close>

lemma core_basic [simp, core_simps]:
  "core (oledMsg b l1 l2 l3 n) = core n" "core (transmit f n) = core n"
  "core (savePersistedSettings n) = core n" "core (savePersistedRole n) = core n"
  "core (updateRadioSettings b drv n) = core n" "core (snd (radio_begin drv p n)) = core n"
  by (simp_all add: core_def oledMsg_def transmit_def savePersistedSettings_def
      savePersistedRole_def updateRadioSettings_def radio_begin_def oledSettings_def split_def Let_def)

lemma core_oledRole [simp, core_simps]: "core (oledRole b n) = core n"
  by (simp add: oledRole_def)

lemma core_update [simp]:
  "core (n\<lparr>isSender := x\<rparr>) = core n" "core (n\<lparr>seq := s\<rparr>) = core n"
  "core (n\<lparr>cur := p\<rparr>) = core n" "core (n\<lparr>chip := p\<rparr>) = core n"
  "core (n\<lparr>lastTxMs := t\<rparr>) = core n" "core (n\<lparr>lastRxMs := t\<rparr>) = core n"
  "core (n\<lparr>lastWiFiCheck := t\<rparr>) = core n" "core (n\<lparr>wifiConnected := c\<rparr>) = core n"
  "core (n\<lparr>link := c\<rparr>) = core n" "core (n\<lparr>otaActive := c\<rparr>) = core n"
  "core (n\<lparr>restarted := c\<rparr>) = core n" "core (n\<lparr>lastButtonMs := t\<rparr>) = core n"
  "core (n\<lparr>lastButtonState := c\<rparr>) = core n" "core (n\<lparr>buttonPressed := c\<rparr>) = core n"
  "core (n\<lparr>buttonPressed := c, buttonPressMs := t\<rparr>) = core n"
  "core (n\<lparr>errorCount := k\<rparr>) = core n"
  "core (n\<lparr>lastRSSI := r, lastSNR := q, lastPacketTime := t, packetCount := k\<rparr>) = core n"
  "core (n\<lparr>storedFirmware := f, hasStoredFirmware := h\<rparr>) = core n"
  "core (n\<lparr>air := a\<rparr>) = core n" "core (n\<lparr>disp := d\<rparr>) = core n"
  by (simp_all add: core_def)

text \<open>Updates of fields outside the core keep the invariant.\<close>
lemma node_inv_update [simp]:
  "node_inv (n\<lparr>isSender := x\<rparr>) = node_inv n"
  "node_inv (n\<lparr>seq := w\<rparr>) = node_inv n"
  "node_inv (n\<lparr>cur := p\<rparr>) = node_inv n"
  "node_inv (n\<lparr>chip := p\<rparr>) = node_inv n"
  "node_inv (n\<lparr>lastTxMs := t\<rparr>) = node_inv n"
  "node_inv (n\<lparr>lastRxMs := t\<rparr>) = node_inv n"
  "node_inv (n\<lparr>lastWiFiCheck := t\<rparr>) = node_inv n"
  "node_inv (n\<lparr>wifiConnected := c\<rparr>) = node_inv n"
  "node_inv (n\<lparr>link := c\<rparr>) = node_inv n"
  "node_inv (n\<lparr>otaActive := c\<rparr>) = node_inv n"
  "node_inv (n\<lparr>restarted := c\<rparr>) = node_inv n"
  "node_inv (n\<lparr>lastButtonMs := t\<rparr>) = node_inv n"
  "node_inv (n\<lparr>lastButtonState := c\<rparr>) = node_inv n"
  "node_inv (n\<lparr>buttonPressed := c\<rparr>) = node_inv n"
  "node_inv (n\<lparr>buttonPressMs := t\<rparr>) = node_inv n"
  "node_inv (n\<lparr>errorCount := k\<rparr>) = node_inv n"
  "node_inv (n\<lparr>lastRSSI := r\<rparr>) = node_inv n"
  "node_inv (n\<lparr>lastSNR := r\<rparr>) = node_inv n"
  "node_inv (n\<lparr>lastPacketTime := t\<rparr>) = node_inv n"
  "node_inv (n\<lparr>packetCount := k\<rparr>) = node_inv n"
  "node_inv (n\<lparr>storedFirmware := f\<rparr>) = node_inv n"
  "node_inv (n\<lparr>hasStoredFirmware := c\<rparr>) = node_inv n"
  "node_inv (n\<lparr>air := a\<rparr>) = node_inv n"
  "node_inv (n\<lparr>disp := d\<rparr>) = node_inv n"
  "node_inv (n\<lparr>netMode := m\<rparr>) = node_inv n"
  "node_inv (n\<lparr>netIndex := m\<rparr>) = node_inv n"
  "node_inv (n\<lparr>prefs := st\<rparr>) = node_inv n"
  by (simp_all add: node_inv_def idx_ok_def ota_inv_def cfg_inv_def flashed_ok_def)

lemma node_inv_msg [simp]:
  "node_inv (oledMsg b l1 l2 l3 n) = node_inv n" "node_inv (oledRole b n) = node_inv n"
  "node_inv (oledSettings b n) = node_inv n" "node_inv (snd (radio_begin drv p n)) = node_inv n"
  "node_inv (savePersistedRole n) = node_inv n" "node_inv (savePersistedSettings n) = node_inv n"
  "node_inv (updateRadioSettings b drv n) = node_inv n"
  by (rule node_inv_core, simp add: oledSettings_def)+

lemma core_transmit_pow [simp]: "core ((transmit f ^^ k) n) = core n"
  by (induction k) (simp_all add: core_def)

lemma core_wifi_only: "wifi_only n m \<Longrightarrow> core m = core n"
proof -
  assume "wifi_only n m"
  then have m: "m = n\<lparr>link := link m, netMode := netMode m, netIndex := netIndex m, prefs := prefs m\<rparr>"
    by (simp add: wifi_only_def)
  show ?thesis by (subst m) (simp add: core_def)
qed

lemma core_wifi [simp]:
  "core (snd (connectToWiFi env n)) = core n" "core (setNetworkMode env mode n) = core n"
  "core (snd (checkWiFiConnection env n)) = core n" "core (initWiFiPreferences n) = core n"
  by (rule core_wifi_only, rule connectToWiFi_only setNetworkMode_only checkWiFiConnection_only)+
     (simp add: core_def initWiFiPreferences_def)

lemma core_funpow: "(\<And>m. core (f m) = core m) \<Longrightarrow> core ((f ^^ k) n) = core n"
  by (induction k) simp_all

lemma core_ota_sender [simp]:
  "core (announce_round n) = core n"
  "core (broadcastConfigOnControlChannel drv k n) = core n"
  "core (snd (storeCurrentFirmware n)) = core n"
    apply (simp add: announce_round_def)
   apply (simp add: broadcastConfigOnControlChannel_def split_def Let_def)
  apply (simp add: storeCurrentFirmware_def)
  done

lemma core_request_listen [simp]: "core (request_listen b start es n) = core n"
  by (induction b start es n rule: request_listen.induct) (auto split: rx_result.split)

lemma core_trigger [simp]: "core (triggerLoraFirmwareUpdates b drv start es n) = core n"
  by (simp add: triggerLoraFirmwareUpdates_def Let_def core_funpow)

lemma send_chunks_core:
  "send_chunks b junk sz k rest n = Inr m \<Longrightarrow> core m = core n"
proof (induction b junk sz k rest n rule: send_chunks.induct)
  case (1 b junk sz k rest n)
  show ?case
  proof (cases "rest = []")
    case True
    with "1.prems" show ?thesis by (simp add: send_chunks.simps)
  next
    case False
    then obtain frame where f: "chunk_frame k (take 200 rest) (junk k) = Inr frame"
      using "1.prems" by (cases "chunk_frame k (take 200 rest) (junk k)") (simp_all add: send_chunks.simps)
    with False "1.prems" "1.IH" [OF False f] show ?thesis
      by (simp add: send_chunks.simps Let_def)
  qed
qed

lemma sendLoraOtaUpdate_core:
  "sendLoraOtaUpdate b junk fw n = Inr m \<Longrightarrow> core m = core n"
  by (auto simp: sendLoraOtaUpdate_def Let_def split: if_splits sum.splits dest!: send_chunks_core)

section \<open>Field accessors of the wrapper operations\<close>

lemma wrapper_fields [simp]:
  "pendingConfigBroadcast (savePersistedSettings n) = pendingConfigBroadcast n"
  "cfgRemaining (savePersistedSettings n) = cfgRemaining n"
  "loraOtaBuffer (savePersistedSettings n) = loraOtaBuffer n"
  "loraOtaBufferSize (savePersistedSettings n) = loraOtaBufferSize n"
  "loraOtaReceivedSize (savePersistedSettings n) = loraOtaReceivedSize n"
  "flashed (savePersistedSettings n) = flashed n"
  "loraOtaActive (savePersistedSettings n) = loraOtaActive n"
  "restarted (savePersistedSettings n) = restarted n"
  "wifiConnected (savePersistedSettings n) = wifiConnected n"
  "isSender (savePersistedSettings n) = isSender n"
  "pendingConfigBroadcast (savePersistedRole n) = pendingConfigBroadcast n"
  "cfgRemaining (savePersistedRole n) = cfgRemaining n"
  "loraOtaBuffer (savePersistedRole n) = loraOtaBuffer n"
  "loraOtaBufferSize (savePersistedRole n) = loraOtaBufferSize n"
  "loraOtaReceivedSize (savePersistedRole n) = loraOtaReceivedSize n"
  "flashed (savePersistedRole n) = flashed n"
  "loraOtaActive (savePersistedRole n) = loraOtaActive n"
  "restarted (savePersistedRole n) = restarted n"
  "wifiConnected (savePersistedRole n) = wifiConnected n"
  "isSender (savePersistedRole n) = isSender n"
  "pendingConfigBroadcast (updateRadioSettings b drv n) = pendingConfigBroadcast n"
  "cfgRemaining (updateRadioSettings b drv n) = cfgRemaining n"
  "loraOtaBuffer (updateRadioSettings b drv n) = loraOtaBuffer n"
  "loraOtaBufferSize (updateRadioSettings b drv n) = loraOtaBufferSize n"
  "loraOtaReceivedSize (updateRadioSettings b drv n) = loraOtaReceivedSize n"
  "flashed (updateRadioSettings b drv n) = flashed n"
  "loraOtaActive (updateRadioSettings b drv n) = loraOtaActive n"
  "restarted (updateRadioSettings b drv n) = restarted n"
  "wifiConnected (updateRadioSettings b drv n) = wifiConnected n"
  "isSender (updateRadioSettings b drv n) = isSender n"
  "pendingConfigBroadcast (computeIndicesFromCurrent n) = pendingConfigBroadcast n"
  "cfgRemaining (computeIndicesFromCurrent n) = cfgRemaining n"
  "loraOtaBuffer (computeIndicesFromCurrent n) = loraOtaBuffer n"
  "loraOtaBufferSize (computeIndicesFromCurrent n) = loraOtaBufferSize n"
  "loraOtaReceivedSize (computeIndicesFromCurrent n) = loraOtaReceivedSize n"
  "flashed (computeIndicesFromCurrent n) = flashed n"
  "loraOtaActive (computeIndicesFromCurrent n) = loraOtaActive n"
  "restarted (computeIndicesFromCurrent n) = restarted n"
  "wifiConnected (computeIndicesFromCurrent n) = wifiConnected n"
  "isSender (computeIndicesFromCurrent n) = isSender n"
  "pendingConfigBroadcast (oledRole b n) = pendingConfigBroadcast n"
  "cfgRemaining (oledRole b n) = cfgRemaining n"
  "loraOtaBuffer (oledRole b n) = loraOtaBuffer n"
  "loraOtaBufferSize (oledRole b n) = loraOtaBufferSize n"
  "loraOtaReceivedSize (oledRole b n) = loraOtaReceivedSize n"
  "flashed (oledRole b n) = flashed n"
  "loraOtaActive (oledRole b n) = loraOtaActive n"
  "restarted (oledRole b n) = restarted n"
  "wifiConnected (oledRole b n) = wifiConnected n"
  "isSender (oledRole b n) = isSender n"
  "sfIdx (savePersistedSettings n) = sfIdx n"
  "sfIdx (savePersistedRole n) = sfIdx n"
  "sfIdx (oledRole b n) = sfIdx n"
  "bwIdx (savePersistedSettings n) = bwIdx n"
  "bwIdx (savePersistedRole n) = bwIdx n"
  "bwIdx (oledRole b n) = bwIdx n"
  "txIdx (savePersistedSettings n) = txIdx n"
  "txIdx (savePersistedRole n) = txIdx n"
  "txIdx (oledRole b n) = txIdx n"
  by (simp_all add: Let_def computeIndicesFromCurrent_def oledRole_def oledSettings_def savePersistedRole_def savePersistedSettings_def split_def updateRadioSettings_def)

section \<open>Operations that change the core\<close>

lemma computeIndices_bounds [simp]:
  "sfIdx n < 6 \<Longrightarrow> sfIdx (computeIndicesFromCurrent n) < 6"
  "bwIdx n < 4 \<Longrightarrow> bwIdx (computeIndicesFromCurrent n) < 4"
  "txIdx n < 10 \<Longrightarrow> txIdx (computeIndicesFromCurrent n) < 10"
  using find_idx_bound [of "sfIdx n" sfValues] find_idx_bound [of "bwIdx n" bwValues]
    find_idx_bound [of "txIdx n" txPowerValues]
  by (simp_all add: computeIndicesFromCurrent_def)

lemmas inv_defs = node_inv_def idx_ok_def ota_inv_def cfg_inv_def flashed_ok_def

lemma computeIndices_inv: "node_inv n \<Longrightarrow> node_inv (computeIndicesFromCurrent n)"
  by (simp add: inv_defs)

lemma startConfigBroadcast_inv: "node_inv n \<Longrightarrow> node_inv (startConfigBroadcast b p n)"
  by (simp add: inv_defs startConfigBroadcast_def CFG_REPEATS_def)

lemma senderConfigStep_inv: "node_inv n \<Longrightarrow> node_inv (senderConfigStep b drv now n)"
  by (auto simp: inv_defs senderConfigStep_def Let_def)

lemma handleCfgFrame_inv: "node_inv n \<Longrightarrow> node_inv (handleCfgFrame b drv rx rssi n)"
  by (simp add: inv_defs handleCfgFrame_def Let_def split: option.split)

lemma ctrl_listen_inv: "node_inv n \<Longrightarrow> node_inv (ctrl_listen start dur es n)"
  by (induction start dur es n rule: ctrl_listen.induct)
     (auto simp: inv_defs split: rx_result.split option.split)

lemma tryReceive_inv: "node_inv n \<Longrightarrow> node_inv (tryReceiveConfigOnControlChannel drv dur start es n)"
proof -
  assume n: "node_inv n"
  have "node_inv (snd (radio_begin drv p m))" if "node_inv m" for p m
    using that by (rule node_inv_coreI) simp
  with n ctrl_listen_inv show ?thesis
    by (simp add: tryReceiveConfigOnControlChannel_def split_def Let_def)
qed

lemma otaStart_node_inv: "node_inv n \<Longrightarrow> node_inv (otaStart b now packet n)"
  by (simp add: inv_defs otaStart_def Let_def LORA_OTA_BUFFER_SIZE_def)

lemma otaData_node_inv:
  assumes "node_inv n" "otaData b packet n = Inr n'"
  shows "node_inv n'"
proof -
  have "ota_inv n'" using assms(1) otaData_inv [OF _ assms(2)] by (simp add: node_inv_def)
  moreover have "idx_ok n' = idx_ok n \<and> cfg_inv n' = cfg_inv n \<and> flashed_ok n' = flashed_ok n"
    using assms(2)
    by (auto simp: otaData_def Let_def idx_ok_def cfg_inv_def flashed_ok_def
        split: if_splits list.splits scan_val.splits)
  ultimately show ?thesis using assms(1) by (simp add: node_inv_def)
qed

lemma otaEnd_node_inv: "node_inv n \<Longrightarrow> node_inv (otaEnd b fw n)"
  by (auto simp: inv_defs otaEnd_def Let_def)

lemma handleLoraOtaPacket_node_inv:
  "node_inv n \<Longrightarrow> handleLoraOtaPacket b fw now packet n = Inr n' \<Longrightarrow> node_inv n'"
  by (auto simp: handleLoraOtaPacket_def otaStart_node_inv otaEnd_node_inv
      intro: otaData_node_inv split: if_splits)

lemma checkTimeout_node_inv: "node_inv n \<Longrightarrow> node_inv (checkLoraOtaTimeout b now n)"
  by (simp add: inv_defs checkLoraOtaTimeout_def)

section \<open>The button, the loop and setup\<close>

lemma seqn_inv:
  assumes "seqn r f = Inr m" "\<And>n. r = Inr n \<Longrightarrow> P n"
    "\<And>n m. P n \<Longrightarrow> f n = Inr m \<Longrightarrow> P m"
  shows "P m"
  using assms by (auto simp: seqn_def split: sum.splits if_splits)

lemma cycleNetworkMode_core [simp]: "core (cycleNetworkMode b env n) = core n"
proof -
  let ?n1 = "msg b ''Network Mode'' (modeStr (nextNetworkMode (netMode n)))
               (setNetworkMode env (nextNetworkMode (netMode n)) n)"
  obtain r n2 where c: "connectToWiFi env (?n1\<lparr>link := False\<rparr>) = (r, n2)" by fastforce
  have "core n2 = core n" using core_wifi(1) [of env "?n1\<lparr>link := False\<rparr>"] c by simp
  then show ?thesis using c by (cases r) (simp_all add: cycleNetworkMode_def Let_def)
qed

lemma releaseAction_inv: "node_inv n \<Longrightarrow> node_inv (releaseAction b drv env a n)"
proof -
  assume n: "node_inv n"
  have local: "node_inv (savePersistedSettings (updateRadioSettings b drv (n\<lparr>sfIdx := next_index (sfIdx n) 6,
       cur := (cur n)\<lparr>sf := x\<rparr>\<rparr>)))"
    "node_inv (savePersistedSettings (updateRadioSettings b drv (n\<lparr>bwIdx := next_index (bwIdx n) 4,
       cur := (cur n)\<lparr>bw := y\<rparr>\<rparr>)))" for x y
    using n by (simp_all add: inv_defs)
  show ?thesis
  proof (cases a)
    case Ignore
    then show ?thesis using n by (simp add: releaseAction_def)
  next
    case ToggleMode
    then show ?thesis using n by (simp add: releaseAction_def)
  next
    case CycleSF
    then show ?thesis using n local(1) startConfigBroadcast_inv [OF n]
      by (simp add: releaseAction_def Let_def) (auto intro: node_inv_coreI)
  next
    case CycleBW
    then show ?thesis using n local(2) startConfigBroadcast_inv [OF n]
      by (simp add: releaseAction_def Let_def)
  qed
qed

lemma updateButton_inv: "node_inv n \<Longrightarrow> node_inv (updateButton b drv env s now n)"
proof -
  assume n: "node_inv n"
  let ?n1 = "if lastButtonState n \<and> \<not> s then n\<lparr>buttonPressed := True, buttonPressMs := now\<rparr> else n"
  have n1: "node_inv ?n1" using n by (auto intro: node_inv_coreI)
  then have "node_inv (?n1\<lparr>buttonPressed := False\<rparr>)" by (rule node_inv_coreI) simp
  then have "node_inv (buttonRelease b drv env d (?n1\<lparr>buttonPressed := False\<rparr>))" for d
    using releaseAction_inv by (simp add: buttonRelease_def)
  with n1 show ?thesis
    by (simp add: updateButton_def Let_def) (auto intro: node_inv_coreI)
qed

lemma senderLoop_inv: "node_inv n \<Longrightarrow> node_inv (senderLoop b i n)"
  by (simp add: senderLoop_def Let_def senderConfigStep_inv)

lemma dispatchRx_inv:
  "node_inv n \<Longrightarrow> dispatchRx b i rx rssi n = Inr m \<Longrightarrow> node_inv m"
  by (auto simp: dispatchRx_def Let_def handleCfgFrame_inv split: if_splits
      intro: node_inv_coreI handleLoraOtaPacket_node_inv dest!: sendLoraOtaUpdate_core)

lemma receiverLoop_inv:
  "node_inv n \<Longrightarrow> receiverLoop b i n = Inr m \<Longrightarrow> node_inv m"
proof -
  assume n: "node_inv n" and r: "receiverLoop b i n = Inr m"
  show ?thesis
  proof (cases "50 \<le> inNow i - lastRxMs n")
    case False
    with n r show ?thesis by (simp add: receiverLoop_def)
  next
    case True
    have n': "node_inv (n\<lparr>lastRSSI := a, lastSNR := c, lastPacketTime := t, packetCount := k\<rparr>)"
      "node_inv (n\<lparr>errorCount := k\<rparr>)" for a c t k
      using n by (auto intro: node_inv_coreI)
    show ?thesis
      using r True
      apply (simp add: receiverLoop_def)
      apply (erule seqn_inv)
       apply (auto split: rx_result.splits intro: dispatchRx_inv [OF n'(1)] node_inv_coreI n'(2) n)
      done
  qed
qed

lemma otaOnEnd_core [simp]: "core (otaOnEnd b i n) = core n"
proof -
  let ?n1 = "msg b ''OTA'' ''Complete!'' (n\<lparr>otaActive := False\<rparr>)"
  obtain r n2 where c: "storeCurrentFirmware ?n1 = (r, n2)" by fastforce
  have "core n2 = core n" using core_ota_sender(3) [of ?n1] c by simp
  then show ?thesis using c by (cases r) (simp_all add: otaOnEnd_def Let_def)
qed

lemma ota_callbacks_inv:
  "node_inv n \<Longrightarrow> ota_callbacks b i es n = Inr m \<Longrightarrow> node_inv m"
proof (induction b i es n rule: ota_callbacks.induct)
  case (4 b i es n)
  then show ?case by (auto intro: node_inv_coreI)
qed (auto split: if_splits)

lemma wifiService_inv:
  "node_inv n \<Longrightarrow> wifiService b i n = Inr m \<Longrightarrow> node_inv m"
proof -
  assume n: "node_inv n" and w: "wifiService b i n = Inr m"
  have c: "node_inv (snd (checkWiFiConnection e k))" if "node_inv k" for e k
    using that by (rule node_inv_coreI) simp
  show ?thesis
  proof (cases "wifi_ota b \<and> \<not> isSender n \<and> wifiConnected n")
    case False
    with n w show ?thesis by (simp add: wifiService_def)
  next
    case True
    show ?thesis
      using w True
      apply (simp add: wifiService_def)
      apply (erule seqn_inv)
       apply (erule ota_callbacks_inv [OF n])
      apply (auto split: if_splits prod.splits bool.splits dest: c [where e = "inEnv i"])
      done
  qed
qed

lemma loop_inv: "node_inv n \<Longrightarrow> loop b i n = Inr m \<Longrightarrow> node_inv m"
proof -
  assume n: "node_inv n" and l: "loop b i n = Inr m"
  let ?n1 = "updateButton b (inDrv i) (inEnv i) (inBtn i) (inNow i) (n\<lparr>link := inLink i\<rparr>)"
  have n1: "node_inv ?n1" using n by (simp add: updateButton_inv)
  show ?thesis
    using l
    apply (simp add: loop_def Let_def)
    apply (erule seqn_inv)
     apply (auto simp: senderLoop_inv n1 split: if_splits intro: receiverLoop_inv [OF n1])[1]
    apply (erule seqn_inv)
     apply (erule wifiService_inv, assumption)
    apply (auto simp: checkTimeout_node_inv)
    done
qed

lemma initWiFi_core [simp]: "core (initWiFi b env n) = core n"
proof -
  let ?n1 = "initWiFiPreferences (msg b ''WiFi'' ''Connecting...'' n)"
  obtain r n2 where c: "connectToWiFi env ?n1 = (r, n2)" by fastforce
  have "core n2 = core n" using core_wifi(1) [of env ?n1] c by simp
  then show ?thesis using c by (cases r) (simp_all add: initWiFi_def)
qed

lemma node0_inv: "node_inv (node0 st)"
  by (simp add: inv_defs node0_def LORA_OTA_BUFFER_SIZE_def)

lemma setupMain_inv: "node_inv n \<Longrightarrow> setupMain b bi n = Inr m \<Longrightarrow> node_inv m"
proof -
  assume n: "node_inv n" and s: "setupMain b bi n = Inr m"
  let ?n2 = "computeIndicesFromCurrent (loadPersistedSettingsAndRole
               (n\<lparr>cur := default_params, isSender := (role_flag b \<noteq> RoleReceiverFlag)\<rparr>))"
  have n2: "node_inv ?n2"
    using n by (intro computeIndices_inv) (simp add: loadPersistedSettingsAndRole_def Let_def)
  obtain n4 where i4: "initRadioOrHalt b (bdrv bi) (oledRole b (msg b ''Booting...'' ''Heltec V3'' ?n2)) = Inr n4"
    using s by (auto simp: setupMain_def Let_def split: sum.splits)
  have n4: "node_inv n4"
    using i4 n2 by (auto simp: initRadioOrHalt_def split_def Let_def split: if_splits intro: node_inv_coreI)
  have b: "node_inv (broadcastConfigOnControlChannel d k x)" if "node_inv x" for d k x
    using that by (rule node_inv_coreI) simp
  have w: "node_inv (initWiFi b e x)" if "node_inv x" for e x
    using that by (rule node_inv_coreI) simp
  obtain a where "initDisplay (boled bi) = Inr a"
    using s by (auto simp: setupMain_def Let_def split: sum.splits)
  then show ?thesis
    using s i4 n4
    by (auto simp: setupMain_def Let_def b w startConfigBroadcast_inv tryReceive_inv)
qed


section \<open>The WiFi flag\<close>

text \<open>
  Only \<open>initWiFi\<close> in \<open>setup()\<close>, the reconnection of \<open>cycleNetworkMode\<close>
  and the periodic check of \<open>loop()\<close> write \<open>wifiConnected\<close>, and the last
  two only while it is set. Every other operation keeps it.
\<close>

lemma wc_basic [simp]:
  "wifiConnected (updateRadioSettings b drv n) = wifiConnected n"
  "wifiConnected (computeIndicesFromCurrent n) = wifiConnected n"
  "wifiConnected (snd (radio_begin drv p n)) = wifiConnected n"
  "wifiConnected (oledRole b n) = wifiConnected n"
  by (simp_all add: updateRadioSettings_def computeIndicesFromCurrent_def radio_begin_def
      oledRole_def oledSettings_def split_def Let_def)

lemma wc_funpow:
  fixes f :: "node \<Rightarrow> node"
  assumes "\<And>m. wifiConnected (f m) = wifiConnected m"
  shows "wifiConnected ((f ^^ k) n) = wifiConnected n"
  using assms by (induction k) simp_all

lemma wc_ctrl_listen [simp]: "wifiConnected (ctrl_listen start dur es n) = wifiConnected n"
  by (induction start dur es n rule: ctrl_listen.induct) (auto split: rx_result.split option.split)

lemma wc_request_listen [simp]: "wifiConnected (request_listen b start es n) = wifiConnected n"
  by (induction b start es n rule: request_listen.induct) (auto split: rx_result.split)

lemma wc_config [simp]:
  "wifiConnected (startConfigBroadcast b p n) = wifiConnected n"
  "wifiConnected (senderConfigStep b drv now n) = wifiConnected n"
  "wifiConnected (handleCfgFrame b drv rx rssi n) = wifiConnected n"
  "wifiConnected (broadcastConfigOnControlChannel drv reps n) = wifiConnected n"
  "wifiConnected (tryReceiveConfigOnControlChannel drv dur start es n) = wifiConnected n"
  by (simp_all add: startConfigBroadcast_def senderConfigStep_def handleCfgFrame_def
      broadcastConfigOnControlChannel_def tryReceiveConfigOnControlChannel_def split_def Let_def
      wc_funpow split: option.split)

lemma wc_ota [simp]:
  "wifiConnected (otaStart b now p n) = wifiConnected n"
  "wifiConnected (otaEnd b fw n) = wifiConnected n"
  "wifiConnected (checkLoraOtaTimeout b now n) = wifiConnected n"
  "wifiConnected (announce_round n) = wifiConnected n"
  by (simp_all add: otaStart_def otaEnd_def checkLoraOtaTimeout_def announce_round_def
      Let_def split: list.split scan_val.split)

lemma wc_trigger [simp]: "wifiConnected (triggerLoraFirmwareUpdates b drv start es n) = wifiConnected n"
  by (simp add: triggerLoraFirmwareUpdates_def Let_def wc_funpow)

lemma wc_send_chunks:
  "send_chunks b junk sz k rest n = Inr m \<Longrightarrow> wifiConnected m = wifiConnected n"
proof (induction b junk sz k rest n rule: send_chunks.induct)
  case (1 b junk sz k rest n)
  then show ?case
    by (subst (asm) send_chunks.simps) (auto simp: Let_def split: if_splits sum.splits)
qed

lemma wc_sum:
  "sendLoraOtaUpdate b junk fw n = Inr m \<Longrightarrow> wifiConnected m = wifiConnected n"
  "otaData b p n = Inr m \<Longrightarrow> wifiConnected m = wifiConnected n"
  "handleLoraOtaPacket b w now p n = Inr m \<Longrightarrow> wifiConnected m = wifiConnected n"
  by (auto simp: sendLoraOtaUpdate_def otaData_def handleLoraOtaPacket_def Let_def
      dest!: wc_send_chunks split: if_splits sum.splits list.splits scan_val.splits)

lemma wc_cycleNetworkMode:
  "\<not> wifiConnected n \<Longrightarrow> cycleNetworkMode b env n = msg b ''Network Mode'' (modeStr (nextNetworkMode (netMode n)))
     (setNetworkMode env (nextNetworkMode (netMode n)) n)"
  using wifi_only_fields(3) [OF setNetworkMode_only [of n env "nextNetworkMode (netMode n)"]]
  by (simp add: cycleNetworkMode_def Let_def)

lemma wc_releaseAction: "\<not> wifiConnected n \<Longrightarrow> \<not> wifiConnected (releaseAction b drv env a n)"
  using wifi_only_fields(3) [OF setNetworkMode_only [of n env "nextNetworkMode (netMode n)"]]
  by (cases a) (simp_all add: releaseAction_def wc_cycleNetworkMode savePersistedRole_def Let_def)

lemma wc_updateButton: "\<not> wifiConnected n \<Longrightarrow> \<not> wifiConnected (updateButton b drv env s now n)"
  by (simp add: updateButton_def buttonRelease_def wc_releaseAction Let_def)

lemma wc_senderLoop [simp]: "wifiConnected (senderLoop b i n) = wifiConnected n"
  by (simp add: senderLoop_def Let_def)

lemma wc_dispatchRx: "dispatchRx b i rx rssi n = Inr m \<Longrightarrow> wifiConnected m = wifiConnected n"
  by (auto simp: dispatchRx_def Let_def split: if_splits dest: wc_sum)

lemma wc_receiverLoop: "receiverLoop b i n = Inr m \<Longrightarrow> wifiConnected m = wifiConnected n"
  by (auto simp: receiverLoop_def seqn_def split: if_splits rx_result.splits sum.splits dest!: wc_dispatchRx)

end
