(* ===== verification/HAL.thy ===== *)
theory HAL
  imports Prelude
begin

text \<open>
  The hardware abstraction layer of \<open>src/src/hardware/hardware_abstraction.cpp\<close>
  in its Arduino build: the subsystem flags, \<open>initialize\<close> and
  \<open>deinitialize\<close>, the GPIO wrappers with their parameter checks, and the pool of
  16 software timers (\<open>Timer::createTimer\<close> \ldots \<open>Timer::processTimers\<close>). The
  module's static variables are the record \<open>hal\<close>; the NVS flash driver and
  the pins are an environment; a timer callback is named by a number
  (\<open>None\<close> is \<open>nullptr\<close>) and a timer handle by its slot index. Calling a
  callback is recorded in \<open>fired\<close>. \<open>ESP_ERROR_CHECK\<close> on a failed call aborts.
\<close>

datatype Result = SUCCESS | ERROR_INIT_FAILED | ERROR_NOT_INITIALIZED | ERROR_INVALID_PARAMETER
  | ERROR_TIMEOUT | ERROR_COMMUNICATION_FAILED | ERROR_HARDWARE_FAULT

primrec resultToString :: "Result \<Rightarrow> string" where
  "resultToString SUCCESS = ''SUCCESS''"
| "resultToString ERROR_INIT_FAILED = ''ERROR_INIT_FAILED''"
| "resultToString ERROR_NOT_INITIALIZED = ''ERROR_NOT_INITIALIZED''"
| "resultToString ERROR_INVALID_PARAMETER = ''ERROR_INVALID_PARAMETER''"
| "resultToString ERROR_TIMEOUT = ''ERROR_TIMEOUT''"
| "resultToString ERROR_COMMUNICATION_FAILED = ''ERROR_COMMUNICATION_FAILED''"
| "resultToString ERROR_HARDWARE_FAULT = ''ERROR_HARDWARE_FAULT''"

datatype Mode = MODE_INPUT | MODE_OUTPUT | MODE_INPUT_PULLUP | MODE_INPUT_PULLDOWN

datatype Level = LEVEL_LOW | LEVEL_HIGH

section \<open>State\<close>

text \<open>\<open>struct Timer::Handle\<close>; \<open>{}\<close> is the all-zero handle.\<close>
record Handle =
  interval_ms :: u32
  repeating :: bool
  callback :: "nat option"
  last_trigger :: u32
  active :: bool
  delete_requested :: bool

definition empty_handle :: Handle where
  "empty_handle = \<lparr>interval_ms = 0, repeating = False, callback = None, last_trigger = 0,
     active = False, delete_requested = False\<rparr>"

definition MAX_TIMERS :: nat where "MAX_TIMERS = 16"

text \<open>
  The static variables of the file: the subsystem flags and the NVS handle, the
  timer pool, the clock, the pins as the GPIO driver sees them, the LEDC
  channels configured by \<open>PWM\<close> (the pin and duty of each channel) and whether
  \<open>ADC\<close> holds calibration characteristics.
\<close>
record hal =
  g_initialized :: bool
  g_i2c_initialized :: bool
  g_spi_initialized :: bool
  g_adc_initialized :: bool
  g_nvs_handle :: nat
  s_timers :: "Handle list"
  s_timer_initialized :: bool
  clock :: u32
  pin_mode :: "u8 \<Rightarrow> Mode option"
  pin_out :: "u8 \<Rightarrow> Level"
  pin_in :: "u8 \<Rightarrow> Level"
  irq :: "u8 \<Rightarrow> nat option"
  fired :: "nat list"
  s_ledc_initialized :: bool
  ledc_chan :: "nat \<Rightarrow> (u8 \<times> 16 word) option"
  s_adc_chars :: bool

text \<open>The statics at program start; the pins read what the hardware drives.\<close>
definition hal0 :: "(u8 \<Rightarrow> Level) \<Rightarrow> hal" where
  "hal0 inputs = \<lparr>g_initialized = False, g_i2c_initialized = False, g_spi_initialized = False,
     g_adc_initialized = False, g_nvs_handle = 0, s_timers = replicate MAX_TIMERS empty_handle,
     s_timer_initialized = False, clock = 0, pin_mode = (\<lambda>_. None), pin_out = (\<lambda>_. LEVEL_LOW),
     pin_in = inputs, irq = (\<lambda>_. None), fired = [], s_ledc_initialized = False,
     ledc_chan = (\<lambda>_. None), s_adc_chars = False\<rparr>"

section \<open>Initialisation\<close>

datatype esp_err = ESP_OK | ESP_ERR_NVS_NO_FREE_PAGES | ESP_ERR_NVS_NEW_VERSION_FOUND | ESP_FAIL
  | ESP_ERR_NVS_NOT_FOUND | ESP_ERR_NVS_INVALID_LENGTH

text \<open>What the NVS flash driver answers: the first and second \<open>nvs_flash_init\<close>, and \<open>nvs_flash_erase\<close>.\<close>
record nvs_env =
  init1 :: esp_err
  init2 :: esp_err
  erase :: esp_err

datatype abort = EspErrorCheckFailed esp_err

definition Timer_initialize :: "hal \<Rightarrow> Result \<times> hal" where
  "Timer_initialize h =
     (if \<not> g_initialized h then (ERROR_NOT_INITIALIZED, h)
      else if \<not> s_timer_initialized h
           then (SUCCESS, h\<lparr>s_timers := replicate MAX_TIMERS empty_handle, s_timer_initialized := True\<rparr>)
           else (SUCCESS, h))"

definition initialize :: "nvs_env \<Rightarrow> hal \<Rightarrow> abort + Result \<times> hal" where
  "initialize e h =
     (if g_initialized h then Inr (SUCCESS, h)
      else
        (let r = init1 e in
         if (r = ESP_ERR_NVS_NO_FREE_PAGES \<or> r = ESP_ERR_NVS_NEW_VERSION_FOUND) \<and> erase e \<noteq> ESP_OK
         then Inl (EspErrorCheckFailed (erase e))
         else
           (let r' = (if r = ESP_ERR_NVS_NO_FREE_PAGES \<or> r = ESP_ERR_NVS_NEW_VERSION_FOUND
                      then init2 e else r) in
            if r' \<noteq> ESP_OK then Inr (ERROR_INIT_FAILED, h)
            else
              (let (tr, h1) = Timer_initialize h in
               if tr \<noteq> SUCCESS then Inr (ERROR_INIT_FAILED, h1)
               else Inr (SUCCESS, h1\<lparr>g_initialized := True\<rparr>)))))"

definition Timer_reset :: "hal \<Rightarrow> hal" where
  "Timer_reset h = h\<lparr>s_timer_initialized := False, s_timers := replicate MAX_TIMERS empty_handle\<rparr>"

definition deinitialize :: "hal \<Rightarrow> hal" where
  "deinitialize h =
     (if \<not> g_initialized h then h
      else (Timer_reset (h\<lparr>g_nvs_handle := 0, g_i2c_initialized := False, g_spi_initialized := False,
                          g_adc_initialized := False\<rparr>))\<lparr>g_initialized := False\<rparr>)"

section \<open>GPIO\<close>

definition pinMode :: "u8 \<Rightarrow> Mode \<Rightarrow> hal \<Rightarrow> Result \<times> hal" where
  "pinMode pin mode h =
     (if \<not> g_initialized h then (ERROR_NOT_INITIALIZED, h)
      else if 48 < pin then (ERROR_INVALID_PARAMETER, h)
      else (SUCCESS, h\<lparr>pin_mode := (pin_mode h)(pin \<mapsto> mode)\<rparr>))"

definition digitalWrite :: "u8 \<Rightarrow> Level \<Rightarrow> hal \<Rightarrow> Result \<times> hal" where
  "digitalWrite pin level h =
     (if \<not> g_initialized h then (ERROR_NOT_INITIALIZED, h)
      else if 48 < pin then (ERROR_INVALID_PARAMETER, h)
      else (SUCCESS, h\<lparr>pin_out := (pin_out h)(pin := level)\<rparr>))"

definition digitalRead :: "u8 \<Rightarrow> hal \<Rightarrow> Level" where
  "digitalRead pin h = (if \<not> g_initialized h \<or> 48 < pin then LEVEL_LOW else pin_in h pin)"

definition attachInterrupt :: "u8 \<Rightarrow> nat option \<Rightarrow> hal \<Rightarrow> Result \<times> hal" where
  "attachInterrupt pin cb h =
     (if \<not> g_initialized h then (ERROR_NOT_INITIALIZED, h)
      else if 48 < pin \<or> cb = None then (ERROR_INVALID_PARAMETER, h)
      else (SUCCESS, h\<lparr>irq := (irq h)(pin := cb)\<rparr>))"

definition detachInterrupt :: "u8 \<Rightarrow> hal \<Rightarrow> Result \<times> hal" where
  "detachInterrupt pin h =
     (if \<not> g_initialized h then (ERROR_NOT_INITIALIZED, h)
      else if 48 < pin then (ERROR_INVALID_PARAMETER, h)
      else (SUCCESS, h\<lparr>irq := (irq h)(pin := None)\<rparr>))"

section \<open>Software timers\<close>

text \<open>The first slot whose callback is \<open>nullptr\<close>.\<close>
definition free_slot :: "Handle list \<Rightarrow> nat option" where
  "free_slot ts = (let i = find_idx (map callback ts) None (length ts) in
                   if i < length ts then Some i else None)"

definition createTimer :: "u32 \<Rightarrow> bool \<Rightarrow> nat option \<Rightarrow> hal \<Rightarrow> nat option \<times> hal" where
  "createTimer intervalMs rep cb h =
     (if \<not> s_timer_initialized h \<or> cb = None then (None, h)
      else case free_slot (s_timers h) of
             None \<Rightarrow> (None, h)
           | Some i \<Rightarrow> (Some i, h\<lparr>s_timers := (s_timers h)[i :=
                          \<lparr>interval_ms = intervalMs, repeating = rep, callback = cb,
                           last_trigger = clock h, active = False, delete_requested = False\<rparr>]\<rparr>))"

text \<open>The three handle operations; a handle is a slot index, \<open>None\<close> is \<open>nullptr\<close>.\<close>
definition update_handle :: "(Handle \<Rightarrow> Handle) \<Rightarrow> nat option \<Rightarrow> hal \<Rightarrow> Result \<times> hal" where
  "update_handle f t h =
     (case t of
        None \<Rightarrow> (ERROR_INVALID_PARAMETER, h)
      | Some i \<Rightarrow> if \<not> s_timer_initialized h then (ERROR_INVALID_PARAMETER, h)
                  else (SUCCESS, h\<lparr>s_timers := (s_timers h)[i := f (s_timers h ! i)]\<rparr>))"

definition startTimer :: "nat option \<Rightarrow> hal \<Rightarrow> Result \<times> hal" where
  "startTimer t h = update_handle (\<lambda>x. x\<lparr>active := True, last_trigger := clock h\<rparr>) t h"

definition stopTimer :: "nat option \<Rightarrow> hal \<Rightarrow> Result \<times> hal" where
  "stopTimer t h = update_handle (\<lambda>x. x\<lparr>active := False\<rparr>) t h"

definition deleteTimer :: "nat option \<Rightarrow> hal \<Rightarrow> Result \<times> hal" where
  "deleteTimer t h = update_handle (\<lambda>x. x\<lparr>delete_requested := True\<rparr>) t h"

text \<open>One slot of \<open>processTimers\<close> at time \<open>now\<close>: the new slot and the callback called, if any.\<close>
definition process_slot :: "u32 \<Rightarrow> Handle \<Rightarrow> Handle \<times> nat option" where
  "process_slot now t =
     (if delete_requested t then (empty_handle, None)
      else if \<not> active t \<or> callback t = None then (t, None)
      else if interval_ms t \<le> now - last_trigger t then
        (if repeating t then (t\<lparr>last_trigger := now\<rparr>, callback t) else (t\<lparr>active := False\<rparr>, callback t))
      else (t, None))"

definition processTimers :: "hal \<Rightarrow> hal" where
  "processTimers h =
     (if \<not> s_timer_initialized h then h
      else (let rs = map (process_slot (clock h)) (s_timers h) in
            h\<lparr>s_timers := map fst rs, fired := fired h @ List.map_filter snd rs\<rparr>))"

section \<open>The interface as operations\<close>

text \<open>
  The calls a client can make, plus the two things the hardware does on its own:
  time passes and input pins change. \<open>hal_step\<close> answers \<open>None\<close> when the
  program aborts.
\<close>
datatype hal_op = HalInit nvs_env | HalDeinit | PinModeOp u8 Mode | DigitalWriteOp u8 Level
  | AttachIrqOp u8 "nat option" | DetachIrqOp u8 | TimerInitOp
  | CreateTimerOp u32 bool "nat option" | StartTimerOp "nat option" | StopTimerOp "nat option"
  | DeleteTimerOp "nat option" | TimerResetOp | ProcessTimersOp | TickOp u32 | PinInputOp u8 Level

fun hal_step :: "hal_op \<Rightarrow> hal \<Rightarrow> hal option" where
  "hal_step (HalInit e) h = (case initialize e h of Inl _ \<Rightarrow> None | Inr (_, h') \<Rightarrow> Some h')"
| "hal_step HalDeinit h = Some (deinitialize h)"
| "hal_step (PinModeOp p m) h = Some (snd (pinMode p m h))"
| "hal_step (DigitalWriteOp p l) h = Some (snd (digitalWrite p l h))"
| "hal_step (AttachIrqOp p cb) h = Some (snd (attachInterrupt p cb h))"
| "hal_step (DetachIrqOp p) h = Some (snd (detachInterrupt p h))"
| "hal_step TimerInitOp h = Some (snd (Timer_initialize h))"
| "hal_step (CreateTimerOp iv r cb) h = Some (snd (createTimer iv r cb h))"
| "hal_step (StartTimerOp t) h = Some (snd (startTimer t h))"
| "hal_step (StopTimerOp t) h = Some (snd (stopTimer t h))"
| "hal_step (DeleteTimerOp t) h = Some (snd (deleteTimer t h))"
| "hal_step TimerResetOp h = Some (Timer_reset h)"
| "hal_step ProcessTimersOp h = Some (processTimers h)"
| "hal_step (TickOp d) h = Some (h\<lparr>clock := clock h + d\<rparr>)"
| "hal_step (PinInputOp p l) h = Some (h\<lparr>pin_in := (pin_in h)(p := l)\<rparr>)"

inductive hal_reachable :: "hal \<Rightarrow> bool" where
  start: "hal_reachable (hal0 inputs)"
| step: "hal_reachable h \<Longrightarrow> hal_step op h = Some h' \<Longrightarrow> hal_reachable h'"

section \<open>Initialisation never succeeds\<close>

lemma initialize_from_reset:
  "\<not> g_initialized h \<Longrightarrow>
   initialize e h = Inl (EspErrorCheckFailed (erase e)) \<or> initialize e h = Inr (ERROR_INIT_FAILED, h)"
  by (simp add: initialize_def Timer_initialize_def Let_def)

lemma gpio_uninitialized:
  "\<not> g_initialized h \<Longrightarrow> pinMode pin m h = (ERROR_NOT_INITIALIZED, h) \<and>
     digitalWrite pin l h = (ERROR_NOT_INITIALIZED, h) \<and> digitalRead pin h = LEVEL_LOW"
  by (simp add: pinMode_def digitalWrite_def digitalRead_def)

section \<open>The timer pool\<close>

lemma timers_length [simp]:
  "length (s_timers (snd (Timer_initialize h))) = (if g_initialized h \<and> \<not> s_timer_initialized h then MAX_TIMERS else length (s_timers h))"
  "length (s_timers (snd (createTimer iv r cb h))) = length (s_timers h)"
  "length (s_timers (snd (update_handle f t h))) = length (s_timers h)"
  "length (s_timers (processTimers h)) = length (s_timers h)"
  "length (s_timers (Timer_reset h)) = MAX_TIMERS"
  by (auto simp: Timer_initialize_def createTimer_def update_handle_def processTimers_def
      Timer_reset_def split: option.split)

lemma free_slot_eq:
  "free_slot ts = (if None \<in> set (map callback ts)
                   then Some (find_idx (map callback ts) None (length ts)) else None)"
  using find_idx_found [of None "map callback ts" "length ts"]
    find_idx_absent [of None "map callback ts" "length ts"]
  by (simp add: free_slot_def Let_def)

lemma free_slot_found:
  "free_slot ts = Some i \<Longrightarrow> i < length ts \<and> callback (ts ! i) = None"
  using find_idx_found [of None "map callback ts" "length ts"]
  by (auto simp: free_slot_eq split: if_splits)

lemma free_slot_None: "free_slot ts = None \<longleftrightarrow> (\<forall>t \<in> set ts. callback t \<noteq> None)"
proof -
  have "None \<in> set (map callback ts) \<longleftrightarrow> (\<exists>t \<in> set ts. callback t = None)" by force
  then show ?thesis by (simp add: free_slot_eq del: set_map)
qed

text \<open>With the pool started and a callback given, \<open>createTimer\<close> returns \<open>nullptr\<close> exactly when every slot holds a callback.\<close>
lemma createTimer_None:
  "s_timer_initialized h \<Longrightarrow> cb \<noteq> None \<Longrightarrow>
   fst (createTimer iv r cb h) = None \<longleftrightarrow> (\<forall>t \<in> set (s_timers h). callback t \<noteq> None)"
  using free_slot_None [of "s_timers h"]
  by (cases "free_slot (s_timers h)") (simp_all add: createTimer_def del: not_None_eq)

lemma createTimer_None_witness:
  "fst (createTimer 10 True (Some 1) ((hal0 (\<lambda>_. LEVEL_LOW))\<lparr>s_timer_initialized := True,
      s_timers := replicate 16 (empty_handle\<lparr>callback := Some 0\<rparr>)\<rparr>)) = None"
  using createTimer_None [of "(hal0 (\<lambda>_. LEVEL_LOW))\<lparr>s_timer_initialized := True,
      s_timers := replicate 16 (empty_handle\<lparr>callback := Some 0\<rparr>)\<rparr>" "Some 1" 10 True]
  by simp

lemma createTimer_Some:
  assumes "createTimer iv r cb h = (Some i, h')"
  shows "i < length (s_timers h) \<and> callback (s_timers h ! i) = None \<and>
         s_timers h' = (s_timers h)[i := \<lparr>interval_ms = iv, repeating = r, callback = cb,
                          last_trigger = clock h, active = False, delete_requested = False\<rparr>]"
  using assms free_slot_found
  by (auto simp: createTimer_def split: if_splits option.splits)

text \<open>A slot is due when it is live, running, has a callback and its interval has elapsed.\<close>
definition due :: "u32 \<Rightarrow> Handle \<Rightarrow> bool" where
  "due now t \<longleftrightarrow> \<not> delete_requested t \<and> active t \<and> callback t \<noteq> None \<and> interval_ms t \<le> now - last_trigger t"

text \<open>\<open>processTimers\<close> calls, in slot order, the callback of exactly the slots that are due: the loop over the pool is a filter and a map.\<close>
lemma process_slot_fired:
  "List.map_filter snd (map (process_slot now) ts) = map (the \<circ> callback) (filter (due now) ts)"
  by (induction ts) (auto simp: List.map_filter_simps process_slot_def due_def)

lemma due_elapsed:
  fixes t0 d :: nat
  assumes "last_trigger x = word_of_nat t0" "d < 2 ^ 32"
  shows "due (word_of_nat (t0 + d)) x \<longleftrightarrow>
           \<not> delete_requested x \<and> active x \<and> callback x \<noteq> None \<and> unat (interval_ms x) \<le> d"
  using assms elapsed_le_iff [OF assms(2), where t = t0 and k = "interval_ms x"] by (simp add: due_def)

text \<open>The timer test \<open>now - last_trigger >= interval_ms\<close> against the real time elapsed since the last trigger.\<close>
lemma interval_elapsed_real:
  assumes "d < 2 ^ 32" "now = lt + word_of_nat d"
  shows "(k \<le> now - lt) \<longleftrightarrow> unat (k :: u32) \<le> d"
  using assms by (simp add: word_le_nat_alt unat_of_nat take_bit_nat_eq_self_iff)

lemma fired_real_time:
  assumes "length es = length ts" "\<forall>(t, d) \<in> set (zip ts es). d < 2 ^ 32 \<and> now = last_trigger t + word_of_nat d"
  shows "List.map_filter snd (map (process_slot now) ts) =
           map (the \<circ> callback \<circ> fst) (filter (\<lambda>(t, d). \<not> delete_requested t \<and> active t \<and> callback t \<noteq> None \<and>
              unat (interval_ms t) \<le> d) (zip ts es))"
  using assms
proof (induction es ts rule: list_induct2)
  case (Cons d es t ts)
  then have "(interval_ms t \<le> now - last_trigger t) \<longleftrightarrow> unat (interval_ms t) \<le> d"
    by (intro interval_elapsed_real) auto
  with Cons show ?case by (auto simp: List.map_filter_simps process_slot_def)
qed (simp add: List.map_filter_simps)

text \<open>
  C20: \<open>processTimers\<close> calls, in slot order, the callbacks of exactly the
  slots that are live, running, hold a callback, and whose interval has passed
  in real time since their last trigger, also when \<open>millis()\<close> has wrapped in
  between: \<open>es\<close> gives for each slot the real milliseconds elapsed, below
  \<open>2^32\<close>.
\<close>
theorem processTimers_real_time:
  assumes "s_timer_initialized h" "length es = length (s_timers h)"
    "\<forall>(t, d) \<in> set (zip (s_timers h) es). d < 2 ^ 32 \<and> clock h = last_trigger t + word_of_nat d"
  shows "fired (processTimers h) = fired h @
           map (the \<circ> callback \<circ> fst) (filter (\<lambda>(t, d). \<not> delete_requested t \<and> active t \<and> callback t \<noteq> None \<and>
              unat (interval_ms t) \<le> d) (zip (s_timers h) es))"
  using assms fired_real_time [OF assms(2,3)] by (simp add: processTimers_def Let_def)

text \<open>Nothing but \<open>initialize\<close> sets \<open>g_initialized\<close>, and only \<open>Timer::initialize\<close> with it set starts the timers.\<close>
lemma hal_step_uninit:
  "\<not> g_initialized h \<Longrightarrow> \<not> s_timer_initialized h \<Longrightarrow> hal_step op h = Some h' \<Longrightarrow>
   \<not> g_initialized h' \<and> \<not> s_timer_initialized h'"
proof (cases op)
  case (HalInit e)
  then show "\<not> g_initialized h \<Longrightarrow> \<not> s_timer_initialized h \<Longrightarrow> hal_step op h = Some h' \<Longrightarrow> ?thesis"
    using initialize_from_reset [of h e] by auto
qed (auto simp: deinitialize_def pinMode_def digitalWrite_def attachInterrupt_def detachInterrupt_def
    Timer_initialize_def createTimer_def startTimer_def stopTimer_def deleteTimer_def update_handle_def
    Timer_reset_def processTimers_def split: option.splits)


text \<open>Rule induction: no sequence of calls and hardware events initialises the layer.\<close>
lemma hal_reachable_uninit: "hal_reachable h \<Longrightarrow> \<not> g_initialized h \<and> \<not> s_timer_initialized h"
proof (induction rule: hal_reachable.induct)
  case (start inputs)
  then show ?case by (simp add: hal0_def)
next
  case (step h op h')
  then show ?case using hal_step_uninit by blast
qed

text \<open>
  C12: In every state the layer can reach, \<open>pinMode\<close> and \<open>digitalWrite\<close> fail with
  \<open>ERROR_NOT_INITIALIZED\<close> and change nothing, \<open>createTimer\<close> returns
  \<open>nullptr\<close> and \<open>processTimers\<close> does nothing: \<open>initialize\<close> calls
  \<open>Timer::initialize\<close> before it sets \<open>g_initialized\<close>, which makes it fail.
\<close>
lemma hal_dead:
  "hal_reachable h \<Longrightarrow> pinMode p m h = (ERROR_NOT_INITIALIZED, h) \<and> digitalWrite p l h = (ERROR_NOT_INITIALIZED, h) \<and>
     createTimer iv r cb h = (None, h) \<and> processTimers h = h"
  using hal_reachable_uninit [of h] gpio_uninitialized [of h]
  by (simp add: createTimer_def processTimers_def)

text \<open>
  Two running timers last triggered 16 ms before \<open>millis()\<close> wrapped, checked
  5 ms after the wrap (21 ms later): the 20 ms timer fires, the 100 ms one does not.
\<close>
theorem processTimers_real_time_witness:
  "fired (processTimers ((hal0 (\<lambda>_. LEVEL_LOW))\<lparr>s_timer_initialized := True, clock := 5,
     s_timers := [\<lparr>interval_ms = 20, repeating = True, callback = Some 7, last_trigger = 0xFFFFFFF0,
                   active = True, delete_requested = False\<rparr>,
                 \<lparr>interval_ms = 100, repeating = False, callback = Some 8, last_trigger = 0xFFFFFFF0,
                   active = True, delete_requested = False\<rparr>]\<rparr>)) = [7]"
  using processTimers_real_time [of "(hal0 (\<lambda>_. LEVEL_LOW))\<lparr>s_timer_initialized := True, clock := 5,
     s_timers := [\<lparr>interval_ms = 20, repeating = True, callback = Some 7, last_trigger = 0xFFFFFFF0,
                   active = True, delete_requested = False\<rparr>,
                 \<lparr>interval_ms = 100, repeating = False, callback = Some 8, last_trigger = 0xFFFFFFF0,
                   active = True, delete_requested = False\<rparr>]\<rparr>" "[21, 21]"]
  by (simp add: hal0_def)

lemma hal_dead_witness:
  "pinMode 3 MODE_OUTPUT (hal0 (\<lambda>_. LEVEL_LOW)) = (ERROR_NOT_INITIALIZED, hal0 (\<lambda>_. LEVEL_LOW))"
  using hal_dead [OF hal_reachable.start] by blast

end
