(* ===== verification/HALPeriph.thy ===== *)
theory HALPeriph
  imports HAL
begin

text \<open>
  The bus and peripheral wrappers of \<open>src/src/hardware/hardware_abstraction.cpp\<close>
  (Arduino build): \<open>I2C\<close> over \<open>Wire\<close>, \<open>SPI\<close>, \<open>PWM\<close> over the LEDC driver,
  \<open>ADC\<close> with its GPIO-to-channel table, \<open>Power\<close> (the Vext rail, sleep and
  the battery estimate) and the NVS calls of \<open>Memory\<close>. What the Arduino and
  ESP-IDF libraries answer is the environment \<open>periph_env\<close>. Floats are exact
  rationals. The whole API, the calls of \<open>HAL\<close> included, is the step function
  \<open>periph_step\<close>.
\<close>

record periph_env =
  wire_written :: "nat \<Rightarrow> nat"
  wire_end :: "bool \<Rightarrow> u8"
  wire_received :: "u8 \<Rightarrow> nat \<Rightarrow> nat"
  wire_available :: int
  wire_read :: int
  spi_transfer :: "u8 \<Rightarrow> u8"
  ledc_timer_r :: esp_err
  ledc_channel_r :: esp_err
  ledc_duty_r :: esp_err
  ledc_update_r :: esp_err
  ledc_stop_r :: esp_err
  adc_width_r :: esp_err
  adc_calloc_ok :: bool
  adc_atten_r :: esp_err
  adc_raw :: "nat \<Rightarrow> int"
  adc_cal_mv :: "16 word \<Rightarrow> u32"
  nvs_open_r :: esp_err
  nvs_new_handle :: nat
  nvs_get_r :: esp_err
  nvs_set_r :: esp_err
  nvs_commit_r :: esp_err

section \<open>I2C\<close>

definition I2C_initialize :: "u8 \<Rightarrow> u8 \<Rightarrow> u32 \<Rightarrow> hal \<Rightarrow> Result \<times> hal" where
  "I2C_initialize sda scl frequency h =
     (if \<not> g_initialized h then (ERROR_NOT_INITIALIZED, h)
      else if 48 < sda \<or> 48 < scl then (ERROR_INVALID_PARAMETER, h)
      else (SUCCESS, h\<lparr>g_i2c_initialized := True\<rparr>))"

definition I2C_beginTransmission :: "u8 \<Rightarrow> hal \<Rightarrow> Result" where
  "I2C_beginTransmission address h =
     (if \<not> g_i2c_initialized h then ERROR_NOT_INITIALIZED
      else if 0x7F < address then ERROR_INVALID_PARAMETER else SUCCESS)"

definition I2C_write_byte :: "periph_env \<Rightarrow> u8 \<Rightarrow> hal \<Rightarrow> Result" where
  "I2C_write_byte env d h =
     (if \<not> g_i2c_initialized h then ERROR_NOT_INITIALIZED
      else if wire_written env 1 = 1 then SUCCESS else ERROR_COMMUNICATION_FAILED)"

text \<open>\<open>write(data, length)\<close>; \<open>None\<close> is \<open>nullptr\<close>.\<close>
definition I2C_write :: "periph_env \<Rightarrow> u8 list option \<Rightarrow> nat \<Rightarrow> hal \<Rightarrow> Result" where
  "I2C_write env data len h =
     (if \<not> g_i2c_initialized h then ERROR_NOT_INITIALIZED
      else if data = None \<or> len = 0 then ERROR_INVALID_PARAMETER
      else if wire_written env len = len then SUCCESS else ERROR_COMMUNICATION_FAILED)"

definition I2C_endTransmission :: "periph_env \<Rightarrow> bool \<Rightarrow> hal \<Rightarrow> Result" where
  "I2C_endTransmission env sendStop h =
     (if \<not> g_i2c_initialized h then ERROR_NOT_INITIALIZED
      else let r = wire_end env sendStop in
        if r = 0 then SUCCESS
        else if r \<le> 4 then ERROR_COMMUNICATION_FAILED
        else if r = 5 then ERROR_TIMEOUT else ERROR_HARDWARE_FAULT)"

definition I2C_requestFrom :: "periph_env \<Rightarrow> u8 \<Rightarrow> nat \<Rightarrow> hal \<Rightarrow> Result" where
  "I2C_requestFrom env address len h =
     (if \<not> g_i2c_initialized h then ERROR_NOT_INITIALIZED
      else if 0x7F < address \<or> len = 0 then ERROR_INVALID_PARAMETER
      else if wire_received env address len = len then SUCCESS else ERROR_COMMUNICATION_FAILED)"

definition I2C_available :: "periph_env \<Rightarrow> hal \<Rightarrow> int" where
  "I2C_available env h = (if \<not> g_i2c_initialized h then 0 else wire_available env)"

definition I2C_read :: "periph_env \<Rightarrow> hal \<Rightarrow> int" where
  "I2C_read env h = (if \<not> g_i2c_initialized h then -1 else wire_read env)"

definition I2C_reset :: "hal \<Rightarrow> hal" where
  "I2C_reset h = (if g_i2c_initialized h then h\<lparr>g_i2c_initialized := False\<rparr> else h)"

section \<open>SPI\<close>

definition SPI_initialize :: "hal \<Rightarrow> Result \<times> hal" where
  "SPI_initialize h =
     (if \<not> g_initialized h then (ERROR_NOT_INITIALIZED, h)
      else (SUCCESS, h\<lparr>g_spi_initialized := True\<rparr>))"

definition SPI_beginTransaction :: "hal \<Rightarrow> Result" where
  "SPI_beginTransaction h = (if \<not> g_spi_initialized h then ERROR_NOT_INITIALIZED else SUCCESS)"

definition SPI_transfer :: "periph_env \<Rightarrow> u8 \<Rightarrow> hal \<Rightarrow> u8" where
  "SPI_transfer env d h = (if \<not> g_spi_initialized h then 0 else spi_transfer env d)"

text \<open>The buffer version exchanges every byte in place.\<close>
definition SPI_transfer_buf :: "periph_env \<Rightarrow> u8 list option \<Rightarrow> hal \<Rightarrow> u8 list option" where
  "SPI_transfer_buf env data h =
     (if \<not> g_spi_initialized h \<or> data = None then data else map_option (map (spi_transfer env)) data)"

definition SPI_endTransaction :: "hal \<Rightarrow> Result" where
  "SPI_endTransaction h = (if \<not> g_spi_initialized h then ERROR_NOT_INITIALIZED else SUCCESS)"

section \<open>PWM\<close>

text \<open>The LEDC channel of a pin: \<open>pin % 8\<close>.\<close>
definition pwm_channel :: "u8 \<Rightarrow> nat" where
  "pwm_channel pin = unat pin mod 8"

definition PWM_initialize :: "periph_env \<Rightarrow> u8 \<Rightarrow> u32 \<Rightarrow> hal \<Rightarrow> Result \<times> hal" where
  "PWM_initialize env pin frequency h =
     (if \<not> g_initialized h then (ERROR_NOT_INITIALIZED, h)
      else if 48 < pin then (ERROR_INVALID_PARAMETER, h)
      else if \<not> s_ledc_initialized h \<and> ledc_timer_r env \<noteq> ESP_OK then (ERROR_INIT_FAILED, h)
      else let h1 = h\<lparr>s_ledc_initialized := True\<rparr> in
        if ledc_channel_r env = ESP_OK
        then (SUCCESS, h1\<lparr>ledc_chan := (ledc_chan h1)(pwm_channel pin \<mapsto> (pin, 0))\<rparr>)
        else (ERROR_INIT_FAILED, h1))"

definition PWM_setDutyCycle :: "periph_env \<Rightarrow> u8 \<Rightarrow> 16 word \<Rightarrow> hal \<Rightarrow> Result \<times> hal" where
  "PWM_setDutyCycle env pin dutyCycle h =
     (if \<not> g_initialized h then (ERROR_NOT_INITIALIZED, h)
      else if 48 < pin \<or> 1023 < dutyCycle then (ERROR_INVALID_PARAMETER, h)
      else if ledc_duty_r env \<noteq> ESP_OK then (ERROR_HARDWARE_FAULT, h)
      else let c = pwm_channel pin;
               h1 = h\<lparr>ledc_chan := (ledc_chan h)(c := map_option (\<lambda>(g, _). (g, dutyCycle)) (ledc_chan h c))\<rparr>
           in (if ledc_update_r env = ESP_OK then SUCCESS else ERROR_HARDWARE_FAULT, h1))"

definition PWM_stop :: "periph_env \<Rightarrow> u8 \<Rightarrow> hal \<Rightarrow> Result \<times> hal" where
  "PWM_stop env pin h =
     (if \<not> g_initialized h then (ERROR_NOT_INITIALIZED, h)
      else if 48 < pin then (ERROR_INVALID_PARAMETER, h)
      else if ledc_stop_r env = ESP_OK
      then (SUCCESS, h\<lparr>ledc_chan := (ledc_chan h)(pwm_channel pin := map_option (\<lambda>(g, _). (g, 0)) (ledc_chan h (pwm_channel pin)))\<rparr>)
      else (ERROR_HARDWARE_FAULT, h))"


section \<open>ADC\<close>

definition ADC_initialize :: "periph_env \<Rightarrow> hal \<Rightarrow> Result \<times> hal" where
  "ADC_initialize env h =
     (if \<not> g_initialized h then (ERROR_NOT_INITIALIZED, h)
      else if g_adc_initialized h then (SUCCESS, h)
      else if adc_width_r env \<noteq> ESP_OK then (ERROR_INIT_FAILED, h)
      else if \<not> adc_calloc_ok env then (ERROR_INIT_FAILED, h)
      else (SUCCESS, h\<lparr>s_adc_chars := True, g_adc_initialized := True\<rparr>))"

text \<open>The \<open>switch (pin)\<close> of \<open>ADC::read\<close>: pins 1 to 10 and 11 to 20 both map to \<open>ADC1_CHANNEL_0\<close> to \<open>ADC1_CHANNEL_9\<close>.\<close>
definition adc_channel :: "u8 \<Rightarrow> nat option" where
  "adc_channel pin =
     (if 1 \<le> pin \<and> pin \<le> 10 then Some (unat pin - 1)
      else if 11 \<le> pin \<and> pin \<le> 20 then Some (unat pin - 11) else None)"

text \<open>\<open>ADC::read\<close>: the result and the value written to \<open>value\<close>, if any.\<close>
definition ADC_read :: "periph_env \<Rightarrow> u8 \<Rightarrow> hal \<Rightarrow> Result \<times> 16 word option" where
  "ADC_read env pin h =
     (if \<not> g_adc_initialized h then (ERROR_NOT_INITIALIZED, None)
      else case adc_channel pin of
        None \<Rightarrow> (ERROR_INVALID_PARAMETER, None)
      | Some ch \<Rightarrow>
          if adc_atten_r env \<noteq> ESP_OK then (ERROR_HARDWARE_FAULT, None)
          else if adc_raw env ch < 0 then (ERROR_HARDWARE_FAULT, None)
          else (SUCCESS, Some (word_of_int (adc_raw env ch))))"

definition ADC_readVoltage :: "periph_env \<Rightarrow> u8 \<Rightarrow> hal \<Rightarrow> Result \<times> rat option" where
  "ADC_readVoltage env pin h =
     (if \<not> g_adc_initialized h then (ERROR_NOT_INITIALIZED, None)
      else case ADC_read env pin h of
        (SUCCESS, Some raw) \<Rightarrow>
          (SUCCESS, Some (if s_adc_chars h then of_nat (unat (adc_cal_mv env raw)) / 1000
                          else of_nat (unat raw) / 4095 * 33 / 10))
      | (r, _) \<Rightarrow> (r, None))"

definition ADC_setResolution :: "periph_env \<Rightarrow> u8 \<Rightarrow> hal \<Rightarrow> Result" where
  "ADC_setResolution env bits h =
     (if \<not> g_adc_initialized h then ERROR_NOT_INITIALIZED
      else if bits < 9 \<or> 12 < bits then ERROR_INVALID_PARAMETER
      else if bits \<noteq> 12 then ERROR_INVALID_PARAMETER
      else if adc_width_r env = ESP_OK then SUCCESS else ERROR_HARDWARE_FAULT)"

section \<open>Power\<close>

definition VEXT_PIN :: u8 where "VEXT_PIN = 36"

text \<open>\<open>enableVext\<close> and \<open>disableVext\<close> drive the pin directly, without the GPIO wrappers.\<close>
definition Power_setVext :: "Level \<Rightarrow> hal \<Rightarrow> Result \<times> hal" where
  "Power_setVext level h =
     (if \<not> g_initialized h then (ERROR_NOT_INITIALIZED, h)
      else (SUCCESS, h\<lparr>pin_mode := (pin_mode h)(VEXT_PIN \<mapsto> MODE_OUTPUT), pin_out := (pin_out h)(VEXT_PIN := level)\<rparr>))"

definition Power_enableVext :: "hal \<Rightarrow> Result \<times> hal" where
  "Power_enableVext h = Power_setVext LEVEL_LOW h"

definition Power_disableVext :: "hal \<Rightarrow> Result \<times> hal" where
  "Power_disableVext h = Power_setVext LEVEL_HIGH h"

datatype PowerMode = NORMAL | LIGHT_SLEEP | DEEP_SLEEP

text \<open>\<open>esp_deep_sleep_start()\<close> does not return: the chip resets on wake-up.\<close>
datatype sleep_exit = DeepSleepReset

definition Power_sleep :: "PowerMode \<Rightarrow> u32 \<Rightarrow> hal \<Rightarrow> sleep_exit + Result" where
  "Power_sleep mode timeMs h =
     (if \<not> g_initialized h then Inr ERROR_NOT_INITIALIZED
      else case mode of DEEP_SLEEP \<Rightarrow> Inl DeepSleepReset | _ \<Rightarrow> Inr SUCCESS)"

text \<open>The battery estimate reads GPIO 37 through \<open>ADC::read\<close>, assuming a 2:1 divider.\<close>
definition Power_getBatteryVoltage :: "periph_env \<Rightarrow> hal \<Rightarrow> rat" where
  "Power_getBatteryVoltage env h =
     (case ADC_read env 37 h of
        (SUCCESS, Some raw) \<Rightarrow> of_nat (unat raw) / 4095 * 33 / 10 * 2
      | _ \<Rightarrow> 0)"

definition Power_getBatteryPercent :: "periph_env \<Rightarrow> hal \<Rightarrow> u8" where
  "Power_getBatteryPercent env h =
     (let v = Power_getBatteryVoltage env h in
      if v < 3 then 0 else if 42 / 10 < v then 100 else of_nat (nat \<lfloor>(v - 3) / (12 / 10) * 100\<rfloor>))"

section \<open>Non-volatile storage\<close>

text \<open>\<open>Memory::nvs_open\<close>: a failed open leaves the closed handle in \<open>g_nvs_handle\<close>.\<close>
definition nvs_open :: "periph_env \<Rightarrow> string option \<Rightarrow> hal \<Rightarrow> Result \<times> hal" where
  "nvs_open env namespace_name h =
     (if \<not> g_initialized h \<or> namespace_name = None then (ERROR_INVALID_PARAMETER, h)
      else if nvs_open_r env = ESP_OK then (SUCCESS, h\<lparr>g_nvs_handle := nvs_new_handle env\<rparr>)
      else (ERROR_INIT_FAILED, h))"

definition nvs_get :: "periph_env \<Rightarrow> string option \<Rightarrow> bool \<Rightarrow> hal \<Rightarrow> Result" where
  "nvs_get env key has_value h =
     (if g_nvs_handle h = 0 \<or> key = None \<or> \<not> has_value then ERROR_INVALID_PARAMETER
      else case nvs_get_r env of
        ESP_OK \<Rightarrow> SUCCESS
      | ESP_ERR_NVS_NOT_FOUND \<Rightarrow> ERROR_COMMUNICATION_FAILED
      | ESP_ERR_NVS_INVALID_LENGTH \<Rightarrow> ERROR_INVALID_PARAMETER
      | _ \<Rightarrow> ERROR_HARDWARE_FAULT)"

definition nvs_set :: "periph_env \<Rightarrow> string option \<Rightarrow> bool \<Rightarrow> hal \<Rightarrow> Result" where
  "nvs_set env key has_value h =
     (if g_nvs_handle h = 0 \<or> key = None \<or> \<not> has_value then ERROR_INVALID_PARAMETER
      else if nvs_set_r env = ESP_OK then SUCCESS else ERROR_HARDWARE_FAULT)"

definition nvs_commit :: "periph_env \<Rightarrow> hal \<Rightarrow> Result" where
  "nvs_commit env h =
     (if g_nvs_handle h = 0 then ERROR_INVALID_PARAMETER
      else if nvs_commit_r env = ESP_OK then SUCCESS else ERROR_HARDWARE_FAULT)"

definition nvs_close :: "hal \<Rightarrow> Result \<times> hal" where
  "nvs_close h = (if g_nvs_handle h = 0 then (ERROR_INVALID_PARAMETER, h) else (SUCCESS, h\<lparr>g_nvs_handle := 0\<rparr>))"

section \<open>The whole API as operations\<close>

datatype periph_op = CoreOp hal_op | I2CInitOp u8 u8 u32 | I2CResetOp | SPIInitOp
  | PWMInitOp periph_env u8 u32 | PWMDutyOp periph_env u8 "16 word" | PWMStopOp periph_env u8
  | ADCInitOp periph_env | VextOp Level | NvsOpenOp periph_env "string option" | NvsCloseOp

fun periph_step :: "periph_op \<Rightarrow> hal \<Rightarrow> hal option" where
  "periph_step (CoreOp op) h = hal_step op h"
| "periph_step (I2CInitOp sda scl f) h = Some (snd (I2C_initialize sda scl f h))"
| "periph_step I2CResetOp h = Some (I2C_reset h)"
| "periph_step SPIInitOp h = Some (snd (SPI_initialize h))"
| "periph_step (PWMInitOp env p f) h = Some (snd (PWM_initialize env p f h))"
| "periph_step (PWMDutyOp env p d) h = Some (snd (PWM_setDutyCycle env p d h))"
| "periph_step (PWMStopOp env p) h = Some (snd (PWM_stop env p h))"
| "periph_step (ADCInitOp env) h = Some (snd (ADC_initialize env h))"
| "periph_step (VextOp l) h = Some (snd (Power_setVext l h))"
| "periph_step (NvsOpenOp env ns) h = Some (snd (nvs_open env ns h))"
| "periph_step NvsCloseOp h = Some (snd (nvs_close h))"

inductive periph_reachable :: "hal \<Rightarrow> bool" where
  start: "periph_reachable (hal0 inputs)"
| step: "periph_reachable h \<Longrightarrow> periph_step op h = Some h' \<Longrightarrow> periph_reachable h'"


section \<open>An environment where every library call succeeds\<close>

definition lib_ok :: periph_env where
  "lib_ok = \<lparr>wire_written = id, wire_end = (\<lambda>_. 0), wire_received = (\<lambda>_ n. n), wire_available = 0,
     wire_read = -1, spi_transfer = id, ledc_timer_r = ESP_OK, ledc_channel_r = ESP_OK,
     ledc_duty_r = ESP_OK, ledc_update_r = ESP_OK, ledc_stop_r = ESP_OK, adc_width_r = ESP_OK,
     adc_calloc_ok = True, adc_atten_r = ESP_OK, adc_raw = (\<lambda>ch. 100 * int ch), adc_cal_mv = (\<lambda>_. 0),
     nvs_open_r = ESP_OK, nvs_new_handle = 1, nvs_get_r = ESP_OK, nvs_set_r = ESP_OK, nvs_commit_r = ESP_OK\<rparr>"

section \<open>What the peripherals can do\<close>

text \<open>The calls of the core layer leave the bus flags and the NVS handle alone while it is not initialised.\<close>
lemma hal_step_flags:
  assumes "\<not> g_initialized h" "hal_step op h = Some h'"
  shows "g_i2c_initialized h' = g_i2c_initialized h \<and> g_spi_initialized h' = g_spi_initialized h \<and>
         g_adc_initialized h' = g_adc_initialized h \<and> g_nvs_handle h' = g_nvs_handle h"
proof (cases op)
  case (HalInit e)
  then show ?thesis using assms initialize_from_reset [of h e] by auto
qed (use assms in \<open>auto simp: deinitialize_def pinMode_def digitalWrite_def attachInterrupt_def
      detachInterrupt_def Timer_initialize_def createTimer_def update_handle_def startTimer_def
      stopTimer_def deleteTimer_def Timer_reset_def processTimers_def Let_def split: option.splits if_splits\<close>)

text \<open>Rule induction over the whole API: the layer and its buses stay uninitialised.\<close>
lemma periph_reachable_uninit:
  "periph_reachable h \<Longrightarrow> \<not> g_initialized h \<and> \<not> s_timer_initialized h \<and> \<not> g_i2c_initialized h \<and>
     \<not> g_spi_initialized h \<and> \<not> g_adc_initialized h \<and> g_nvs_handle h = 0"
proof (induction rule: periph_reachable.induct)
  case (start inputs)
  then show ?case by (simp add: hal0_def)
next
  case (step h op h')
  then show ?case
  proof (cases op)
    case (CoreOp c)
    then show ?thesis using step hal_step_uninit [of h c h'] hal_step_flags [of h c h'] by auto
  qed (auto simp: I2C_initialize_def I2C_reset_def SPI_initialize_def PWM_initialize_def
        PWM_setDutyCycle_def PWM_stop_def ADC_initialize_def Power_setVext_def nvs_open_def nvs_close_def
        Let_def)
qed

text \<open>
  C27: In every state the layer can reach through its whole API, every bus and
  peripheral call fails: \<open>I2C\<close>, \<open>SPI\<close>, \<open>PWM\<close> and \<open>ADC\<close> report
  \<open>ERROR_NOT_INITIALIZED\<close>, \<open>nvs_open\<close> reports \<open>ERROR_INVALID_PARAMETER\<close> and the
  Vext rail cannot be switched, because \<open>g_initialized\<close> is never set.
\<close>
lemma periph_dead:
  "periph_reachable h \<Longrightarrow>
     fst (I2C_initialize sda scl f h) = ERROR_NOT_INITIALIZED \<and> I2C_beginTransmission a h = ERROR_NOT_INITIALIZED \<and>
     fst (SPI_initialize h) = ERROR_NOT_INITIALIZED \<and> fst (PWM_initialize env p f h) = ERROR_NOT_INITIALIZED \<and>
     fst (ADC_initialize env h) = ERROR_NOT_INITIALIZED \<and> fst (ADC_read env p h) = ERROR_NOT_INITIALIZED \<and>
     fst (nvs_open env ns h) = ERROR_INVALID_PARAMETER \<and> fst (Power_enableVext h) = ERROR_NOT_INITIALIZED"
  using periph_reachable_uninit [of h]
  by (simp add: I2C_initialize_def I2C_beginTransmission_def SPI_initialize_def PWM_initialize_def
      ADC_initialize_def ADC_read_def nvs_open_def Power_enableVext_def Power_setVext_def)

lemma periph_dead_witness:
  "fst (ADC_initialize lib_ok (hal0 (\<lambda>_. LEVEL_LOW))) = ERROR_NOT_INITIALIZED"
  using periph_dead [OF periph_reachable.start] by blast

text \<open>
  C28: \<open>getBatteryVoltage\<close> reads GPIO 37, which the channel table of
  \<open>ADC::read\<close> rejects, so the battery voltage is always 0 V and the battery
  percentage always 0, whatever the hardware.
\<close>
lemma battery_percent_zero: "Power_getBatteryPercent env h = 0 \<and> Power_getBatteryVoltage env h = 0"
  by (simp add: Power_getBatteryPercent_def Power_getBatteryVoltage_def ADC_read_def adc_channel_def Let_def)

text \<open>\<open>ADC::read\<close> on GPIO 11 to 20 reads the ADC1 channel of GPIO 1 to 10: the pins of the second half of the table alias the first.\<close>
lemma adc_alias:
  "1 \<le> p \<Longrightarrow> p \<le> 10 \<Longrightarrow> ADC_read env (p + 10) h = ADC_read env p h"
proof -
  assume p: "1 \<le> p" "p \<le> 10"
  then have "unat p + unat (10::u8) < 2 ^ LENGTH(8)" by (simp add: word_le_nat_alt)
  then have "unat (p + 10) = unat p + 10" by (simp add: unat_add_lem [THEN iffD1])
  moreover have "1 \<le> unat p" "unat p \<le> 10" using p by (simp_all add: word_le_nat_alt)
  ultimately have u: "unat (p + 10) = unat p + 10" "1 \<le> unat p" "unat p \<le> 10" by simp_all
  have "adc_channel (p + 10) = adc_channel p"
    using u p by (simp add: adc_channel_def word_le_nat_alt)
  then show ?thesis by (simp add: ADC_read_def)
qed

lemma adc_alias_witness:
  "ADC_read lib_ok 11 ((hal0 (\<lambda>_. LEVEL_LOW))\<lparr>g_adc_initialized := True\<rparr>) = (SUCCESS, Some 0)"
  using adc_alias [of 1 lib_ok "(hal0 (\<lambda>_. LEVEL_LOW))\<lparr>g_adc_initialized := True\<rparr>"]
  by (simp add: ADC_read_def adc_channel_def lib_ok_def)

text \<open>Two PWM pins 8 apart share one LEDC channel (\<open>pin % 8\<close>): setting the duty cycle of one sets that of the channel the other drives.\<close>
lemma pwm_alias:
  "pin \<le> 40 \<Longrightarrow> PWM_setDutyCycle env (pin + 8) d h = PWM_setDutyCycle env pin d h"
proof -
  assume p: "pin \<le> 40"
  then have "unat pin + unat (8::u8) < 2 ^ LENGTH(8)" by (simp add: word_le_nat_alt)
  then have "unat (pin + 8) = unat pin + 8" by (simp add: unat_add_lem [THEN iffD1])
  moreover have "unat pin \<le> 40" using p by (simp add: word_le_nat_alt)
  ultimately have u: "unat (pin + 8) = unat pin + 8" "unat pin \<le> 40" by simp_all
  then have "pwm_channel (pin + 8) = pwm_channel pin" "\<not> 48 < pin + 8" "\<not> 48 < pin"
    by (simp_all add: pwm_channel_def word_less_nat_alt)
  then show ?thesis by (simp add: PWM_setDutyCycle_def)
qed

lemma pwm_alias_witness:
  "PWM_setDutyCycle lib_ok 8 512 ((hal0 (\<lambda>_. LEVEL_LOW))\<lparr>g_initialized := True\<rparr>) =
   PWM_setDutyCycle lib_ok 0 512 ((hal0 (\<lambda>_. LEVEL_LOW))\<lparr>g_initialized := True\<rparr>)"
  using pwm_alias [of 0 lib_ok 512 "(hal0 (\<lambda>_. LEVEL_LOW))\<lparr>g_initialized := True\<rparr>"] by simp

end
