(* ===== verification/GPS.thy ===== *)
theory GPS
  imports HAL CFormat
begin

text \<open>
  The UC6580 GNSS driver of \<open>src/src/sensors/gps_sensor.cpp\<close> (class \<open>GPS::UC6580\<close>,
  Arduino build): initialisation and power control through the GPIO wrappers of
  the hardware abstraction layer, the \<open>$PCAS\<close> configuration commands with
  their XOR checksum, line reading from the serial port, and the NMEA parser
  (\<open>parseNMEA\<close>, \<open>validateChecksum\<close>, \<open>splitNMEA\<close>, \<open>parseGGA\<close>,
  \<open>parseRMC\<close>, \<open>parseGSA\<close>, \<open>nmeaToDecimal\<close>). The object's members are the
  record \<open>UC6580\<close>; the serial ports are part of it: the bytes each port has
  received before the read timeout (\<open>serial_rx\<close>), the commands written to
  each port (\<open>serial_tx\<close>) and the baud rate each port was opened with.
  Doubles and floats are exact rationals; the C library's \<open>atoi\<close>, \<open>atof\<close>,
  \<open>strtol(.., 16)\<close>, \<open>strchr\<close> and \<open>strtok\<close> are modelled on the inputs the
  driver gives them. Writing past \<open>deg_str[16]\<close> in \<open>nmeaToDecimal\<close> is the
  fault \<open>DegStrOverflow\<close>.
\<close>

unbundle bit_operations_syntax

section \<open>Data and configuration\<close>

datatype FixType = NO_FIX | FIX_2D | FIX_3D

record Data =
  latitude :: rat
  longitude :: rat
  altitude :: rat
  hdop :: rat
  vdop :: rat
  satellites :: u8
  fix_type :: FixType
  hour :: u8
  minute :: u8
  second :: u8
  year :: "16 word"
  month :: u8
  day :: u8
  speed_kmh :: rat
  course_deg :: rat
  valid :: bool
  timestamp :: u32

text \<open>\<open>memset(&m_data, 0, ...)\<close>: every field zero, \<open>fix_type\<close> is \<open>NO_FIX = 0\<close>.\<close>
definition data0 :: Data where
  "data0 = \<lparr>latitude = 0, longitude = 0, altitude = 0, hdop = 0, vdop = 0, satellites = 0,
     fix_type = NO_FIX, hour = 0, minute = 0, second = 0, year = 0, month = 0, day = 0,
     speed_kmh = 0, course_deg = 0, valid = False, timestamp = 0\<rparr>"

record Config =
  baud_rate :: u32
  uart_num :: u8
  tx_pin :: u8
  rx_pin :: u8
  pps_pin :: u8
  enable_pin :: u8
  auto_power_on :: bool
  update_rate :: u32

definition config0 :: Config where
  "config0 = \<lparr>baud_rate = 0, uart_num = 0, tx_pin = 0, rx_pin = 0, pps_pin = 0, enable_pin = 0,
     auto_power_on = False, update_rate = 0\<rparr>"

definition getDefaultConfig :: Config where
  "getDefaultConfig = \<lparr>baud_rate = 9600, uart_num = 1, tx_pin = 43, rx_pin = 44, pps_pin = 255,
     enable_pin = 3, auto_power_on = True, update_rate = 1\<rparr>"

definition getWirelessTrackerV11Config :: Config where
  "getWirelessTrackerV11Config = getDefaultConfig\<lparr>enable_pin := 3\<rparr>"

record UC6580 =
  m_config :: Config
  m_data :: Data
  m_initialized :: bool
  m_powered :: bool
  m_messages_received :: u32
  m_parse_errors :: u32
  m_last_update :: u32
  serial_rx :: "u8 \<Rightarrow> string"
  serial_tx :: "(u8 \<times> string) list"
  serial_baud :: "u8 \<Rightarrow> u32 option"

text \<open>The constructor, on serial ports holding \<open>rx\<close>.\<close>
definition gps0 :: "(u8 \<Rightarrow> string) \<Rightarrow> UC6580" where
  "gps0 rx = \<lparr>m_config = config0, m_data = data0, m_initialized = False, m_powered = False,
     m_messages_received = 0, m_parse_errors = 0, m_last_update = 0,
     serial_rx = rx, serial_tx = [], serial_baud = (\<lambda>_. None)\<rparr>"

datatype gps_fault = DegStrOverflow

section \<open>C library\<close>

fun strchr :: "string \<Rightarrow> char \<Rightarrow> nat option" where
  "strchr [] c = None"
| "strchr (x # xs) c = (if x = c then Some 0 else map_option Suc (strchr xs c))"

text \<open>\<open>strtok\<close> with the delimiter \<open>","\<close>: the maximal runs without a comma; empty runs are skipped.\<close>
fun split_on :: "char \<Rightarrow> string \<Rightarrow> string list" where
  "split_on d [] = [[]]"
| "split_on d (x # xs) = (let r = split_on d xs in if x = d then [] # r else (x # hd r) # tl r)"

definition strtok_tokens :: "string \<Rightarrow> string list" where
  "strtok_tokens s = filter (\<lambda>t. t \<noteq> []) (split_on (CHR '','') s)"

definition atoi :: "string \<Rightarrow> int" where
  "atoi s = (case scan_int (dropWhile is_space s) of Some (v, _) \<Rightarrow> v | None \<Rightarrow> 0)"

definition atof :: "string \<Rightarrow> rat" where
  "atof s = (case scan_float (dropWhile is_space s) of Some (v, _) \<Rightarrow> v | None \<Rightarrow> 0)"

text \<open>C \<open>int\<close> division and remainder truncate toward zero.\<close>
definition c_div :: "int \<Rightarrow> int \<Rightarrow> int" where
  "c_div a b = sgn a * sgn b * (\<bar>a\<bar> div \<bar>b\<bar>)"

definition c_mod :: "int \<Rightarrow> int \<Rightarrow> int" where
  "c_mod a b = a - b * c_div a b"

definition is_xdigit :: "char \<Rightarrow> bool" where
  "is_xdigit c \<longleftrightarrow> is_digit c \<or> c \<in> set ''abcdefABCDEF''"

definition xdigit_val :: "char \<Rightarrow> nat" where
  "xdigit_val c = (if is_digit c then digit_val c
                   else if c \<in> set ''abcdef'' then of_char c - 87 else of_char c - 55)"

definition hex_val :: "string \<Rightarrow> nat" where
  "hex_val ds = foldl (\<lambda>a c. 16 * a + xdigit_val c) 0 ds"

text \<open>\<open>strtol(s, nullptr, 16)\<close>: white space, a sign, an optional \<open>0x\<close>, hex digits.\<close>
definition strtol16 :: "string \<Rightarrow> int" where
  "strtol16 s =
     (let (neg, r) = scan_sign (dropWhile is_space s);
          r' = (if take 2 r \<in> {''0x'', ''0X''} \<and> 2 < length r \<and> is_xdigit (r ! 2) then drop 2 r else r)
      in signed neg (int (hex_val (takeWhile is_xdigit r'))))"

text \<open>\<open>%02X\<close> of a \<open>uint8_t\<close>.\<close>
definition hex_char :: "nat \<Rightarrow> char" where
  "hex_char n = ''0123456789ABCDEF'' ! n"

definition hex2 :: "u8 \<Rightarrow> string" where
  "hex2 w = [hex_char (unat w div 16), hex_char (unat w mod 16)]"

definition CRLF :: string where "CRLF = [CHR 0x0D, CHR 0x0A]"

section \<open>Commands\<close>

text \<open>The XOR of the characters, accumulated in a \<open>uint8_t\<close>.\<close>
definition nmea_checksum :: "string \<Rightarrow> u8" where
  "nmea_checksum s = foldl (\<lambda>a c. a XOR of_nat (of_char c)) 0 s"

text \<open>
  The command text of \<open>setBaudRate\<close> and \<open>setUpdateRate\<close>: \<open>body*\<close> printed
  into \<open>command[64]\<close>, the checksum of the characters from index 1 up to the
  \<open>*\<close>, then \<open>%02X\r\n\<close> printed into the next 8 bytes.
\<close>
definition pcas_command :: "string \<Rightarrow> string" where
  "pcas_command body =
     (let c0 = snprintf 64 (body @ ''*'');
          cs = nmea_checksum (takeWhile (\<lambda>c. c \<noteq> CHR ''*'') (drop 1 c0))
      in c0 @ snprintf 8 (hex2 cs @ CRLF))"

definition baudCommand :: "u32 \<Rightarrow> string" where
  "baudCommand b = pcas_command (''$PCAS01,'' @ fmt_u32 b)"

definition rateCommand :: "u32 \<Rightarrow> string" where
  "rateCommand r = pcas_command (''$PCAS02,'' @ fmt_u32 (1000 div r))"

definition factoryResetCommand :: string where
  "factoryResetCommand = ''$PCAS10,3*1E'' @ CRLF"

section \<open>Serial port\<close>

definition configureUART :: "UC6580 \<Rightarrow> Result \<times> UC6580" where
  "configureUART g =
     (let u = uart_num (m_config g) in
      if u \<le> 2 then (SUCCESS, g\<lparr>serial_baud := (serial_baud g)(u \<mapsto> baud_rate (m_config g))\<rparr>)
      else (ERROR_INVALID_PARAMETER, g))"

definition sendCommand :: "string \<Rightarrow> UC6580 \<Rightarrow> Result \<times> UC6580" where
  "sendCommand cmd g =
     (if \<not> m_initialized g \<or> \<not> m_powered g then (ERROR_NOT_INITIALIZED, g)
      else let u = uart_num (m_config g) in
        if u \<le> 2 then (SUCCESS, g\<lparr>serial_tx := serial_tx g @ [(u, cmd)]\<rparr>)
        else (ERROR_INVALID_PARAMETER, g))"

text \<open>
  The loop of \<open>readLine\<close>: \<open>k\<close> is the room left in the buffer
  (\<open>max_length - 1 - index\<close>); a carriage return is dropped without taking
  room; a line feed ends the line and is consumed; no more input is the
  timeout.
\<close>
fun read_line :: "nat \<Rightarrow> string \<Rightarrow> string \<times> string" where
  "read_line 0 s = ([], s)"
| "read_line (Suc k) [] = ([], [])"
| "read_line (Suc k) (c # s) =
     (if c = CHR 0x0A then ([], s)
      else if c = CHR 0x0D then read_line (Suc k) s
      else (let (l, r) = read_line k s in (c # l, r)))"

definition readLine :: "UC6580 \<Rightarrow> int \<times> string \<times> UC6580" where
  "readLine g =
     (if \<not> m_initialized g \<or> \<not> m_powered g then (-1, [], g)
      else let u = uart_num (m_config g) in
        if 2 < u then (-1, [], g)
        else let (l, r) = read_line 255 (serial_rx g u)
             in (int (length l), l, g\<lparr>serial_rx := (serial_rx g)(u := r)\<rparr>))"

section \<open>Initialisation and power\<close>

definition powerOn :: "UC6580 \<Rightarrow> hal \<Rightarrow> Result \<times> UC6580 \<times> hal" where
  "powerOn g h =
     (if \<not> m_initialized g then (ERROR_NOT_INITIALIZED, g, h)
      else let (r, h1) = (if enable_pin (m_config g) \<noteq> 255
                          then digitalWrite (enable_pin (m_config g)) LEVEL_HIGH h else (SUCCESS, h))
        in if r \<noteq> SUCCESS then (r, g, h1) else (SUCCESS, g\<lparr>m_powered := True\<rparr>, h1))"

definition powerOff :: "UC6580 \<Rightarrow> hal \<Rightarrow> Result \<times> UC6580 \<times> hal" where
  "powerOff g h =
     (if \<not> m_initialized g then (ERROR_NOT_INITIALIZED, g, h)
      else let (r, h1) = (if enable_pin (m_config g) \<noteq> 255
                          then digitalWrite (enable_pin (m_config g)) LEVEL_LOW h else (SUCCESS, h))
        in if r \<noteq> SUCCESS then (r, g, h1)
           else (SUCCESS, g\<lparr>m_powered := False, m_data := (m_data g)\<lparr>valid := False\<rparr>\<rparr>, h1))"

definition initialize_gps :: "Config \<Rightarrow> UC6580 \<Rightarrow> hal \<Rightarrow> Result \<times> UC6580 \<times> hal" where
  "initialize_gps cfg g h =
     (if m_initialized g then (SUCCESS, g, h)
      else let g1 = g\<lparr>m_config := cfg\<rparr>;
               (r1, h1) = (if enable_pin cfg \<noteq> 255 then pinMode (enable_pin cfg) MODE_OUTPUT h else (SUCCESS, h))
      in if r1 \<noteq> SUCCESS then (r1, g1, h1)
      else let (r2, g2) = configureUART g1
      in if r2 \<noteq> SUCCESS then (r2, g2, h1)
      else let (r3, h3) = (if pps_pin cfg \<noteq> 255 then pinMode (pps_pin cfg) MODE_INPUT h1 else (SUCCESS, h1))
      in if r3 \<noteq> SUCCESS then (r3, g2, h3)
      else let g4 = g2\<lparr>m_initialized := True\<rparr>
      in if auto_power_on cfg then
           (let (r5, g5, h5) = powerOn g4 h3
            in if r5 \<noteq> SUCCESS then (r5, g5\<lparr>m_initialized := False\<rparr>, h5) else (SUCCESS, g5, h5))
         else (SUCCESS, g4, h3))"

definition deinitialize_gps :: "UC6580 \<Rightarrow> hal \<Rightarrow> Result \<times> UC6580 \<times> hal" where
  "deinitialize_gps g h =
     (if \<not> m_initialized g then (SUCCESS, g, h)
      else let (_, g1, h1) = powerOff g h
           in (SUCCESS, g1\<lparr>m_initialized := False, m_powered := False\<rparr>, h1))"

section \<open>Configuration commands\<close>

definition setBaudRate :: "u32 \<Rightarrow> UC6580 \<Rightarrow> Result \<times> UC6580" where
  "setBaudRate b g =
     (if \<not> m_initialized g then (ERROR_NOT_INITIALIZED, g)
      else let (r, g1) = sendCommand (baudCommand b) g
      in if r = SUCCESS then (r, snd (configureUART (g1\<lparr>m_config := (m_config g1)\<lparr>baud_rate := b\<rparr>\<rparr>)))
         else (r, g1))"

definition setUpdateRate :: "u32 \<Rightarrow> UC6580 \<Rightarrow> Result \<times> UC6580" where
  "setUpdateRate rate g =
     (if \<not> m_initialized g then (ERROR_NOT_INITIALIZED, g)
      else if rate < 1 \<or> 10 < rate then (ERROR_INVALID_PARAMETER, g)
      else let (r, g1) = sendCommand (rateCommand rate) g
      in if r = SUCCESS then (r, g1\<lparr>m_config := (m_config g1)\<lparr>update_rate := rate\<rparr>\<rparr>) else (r, g1))"

definition enableGNSSSystems :: "UC6580 \<Rightarrow> Result" where
  "enableGNSSSystems g = (if \<not> m_initialized g then ERROR_NOT_INITIALIZED else SUCCESS)"

definition factoryReset :: "UC6580 \<Rightarrow> Result \<times> UC6580" where
  "factoryReset g = (if \<not> m_initialized g then (ERROR_NOT_INITIALIZED, g) else sendCommand factoryResetCommand g)"

section \<open>NMEA parsing\<close>

definition validateChecksum :: "string \<Rightarrow> bool" where
  "validateChecksum s =
     (case strchr s (CHR ''*'') of
        None \<Rightarrow> False
      | Some k \<Rightarrow> 1 \<le> k \<and>
          nmea_checksum (take (k - 1) (drop 1 s)) = word_of_int (strtol16 (take 2 (drop (k + 1) s))))"

text \<open>\<open>splitNMEA\<close>: the first 255 characters, cut at the \<open>*\<close>, split by \<open>strtok\<close>, at most \<open>max_fields\<close>.\<close>
definition splitNMEA :: "string \<Rightarrow> nat \<Rightarrow> string list" where
  "splitNMEA s max_fields = take max_fields (strtok_tokens (takeWhile (\<lambda>c. c \<noteq> CHR ''*'') (take 255 s)))"

definition knots_to_kmh :: "rat \<Rightarrow> rat" where
  "knots_to_kmh k = k * 1852 / 1000"

definition nmeaToDecimal :: "string \<Rightarrow> char \<Rightarrow> gps_fault + rat" where
  "nmeaToDecimal coord dir =
     (if length coord < 4 then Inr 0
      else case strchr coord (CHR ''.'') of
        None \<Rightarrow> Inr 0
      | Some p \<Rightarrow>
          (let deg_len = int p - 2 in
           if deg_len \<le> 0 then Inr 0
           else if 16 \<le> deg_len then Inl DegStrOverflow
           else let degrees = atof (take (nat deg_len) coord);
                    minutes = atof (drop (nat deg_len) coord);
                    dec = degrees + minutes / 60
                in Inr (if dir = CHR ''S'' \<or> dir = CHR ''W'' then - dec else dec)))"

definition parseGGA :: "string list \<Rightarrow> Data \<Rightarrow> gps_fault + Result \<times> Data" where
  "parseGGA fs d =
     (if length fs < 15 then Inr (ERROR_COMMUNICATION_FAILED, d)
      else let d1 = (if fs ! 6 \<noteq> [] then (let q = atoi (fs ! 6) in
                       d\<lparr>fix_type := (if 0 < q then FIX_3D else NO_FIX), valid := 0 < q\<rparr>) else d);
               d2 = (if fs ! 7 \<noteq> [] then d1\<lparr>satellites := word_of_int (atoi (fs ! 7))\<rparr> else d1);
               d3 = (if fs ! 8 \<noteq> [] then d2\<lparr>hdop := atof (fs ! 8)\<rparr> else d2)
      in case (if fs ! 2 \<noteq> [] \<and> fs ! 3 \<noteq> []
               then map_sum id (\<lambda>v. d3\<lparr>latitude := v\<rparr>) (nmeaToDecimal (fs ! 2) (hd (fs ! 3)))
               else Inr d3) of
           Inl f \<Rightarrow> Inl f
         | Inr d4 \<Rightarrow>
      (case (if fs ! 4 \<noteq> [] \<and> fs ! 5 \<noteq> []
             then map_sum id (\<lambda>v. d4\<lparr>longitude := v\<rparr>) (nmeaToDecimal (fs ! 4) (hd (fs ! 5)))
             else Inr d4) of
           Inl f \<Rightarrow> Inl f
         | Inr d5 \<Rightarrow>
             Inr (SUCCESS, if fs ! 9 \<noteq> [] then d5\<lparr>altitude := atof (fs ! 9)\<rparr> else d5)))"

definition parseRMC :: "string list \<Rightarrow> Data \<Rightarrow> Result \<times> Data" where
  "parseRMC fs d =
     (if length fs < 12 then (ERROR_COMMUNICATION_FAILED, d)
      else let d1 = (if fs ! 2 \<noteq> [] then d\<lparr>valid := (hd (fs ! 2) = CHR ''A'')\<rparr> else d);
               d2 = (if fs ! 7 \<noteq> [] then d1\<lparr>speed_kmh := knots_to_kmh (atof (fs ! 7))\<rparr> else d1);
               d3 = (if fs ! 8 \<noteq> [] then d2\<lparr>course_deg := atof (fs ! 8)\<rparr> else d2);
               d4 = (if fs ! 9 \<noteq> [] \<and> 6 \<le> length (fs ! 9) then
                       (let date = atoi (fs ! 9) in
                        d3\<lparr>day := word_of_int (c_div date 10000),
                           month := word_of_int (c_mod (c_div date 100) 100),
                           year := word_of_int (2000 + c_mod date 100)\<rparr>) else d3);
               d5 = (if fs ! 1 \<noteq> [] \<and> 6 \<le> length (fs ! 1) then
                       (let time = atoi (fs ! 1) in
                        d4\<lparr>hour := word_of_int (c_div time 10000),
                           minute := word_of_int (c_mod (c_div time 100) 100),
                           second := word_of_int (c_mod time 100)\<rparr>) else d4)
      in (SUCCESS, d5))"

definition parseGSA :: "string list \<Rightarrow> Data \<Rightarrow> Result \<times> Data" where
  "parseGSA fs d =
     (if length fs < 18 then (ERROR_COMMUNICATION_FAILED, d)
      else let d1 = (if fs ! 2 \<noteq> [] then (let fix = atoi (fs ! 2) in
                       d\<lparr>fix_type := (if fix = 1 then NO_FIX else if fix = 2 then FIX_2D
                                      else if fix = 3 then FIX_3D else NO_FIX)\<rparr>) else d);
               d2 = (if fs ! 16 \<noteq> [] then d1\<lparr>hdop := atof (fs ! 16)\<rparr> else d1);
               d3 = (if fs ! 17 \<noteq> [] then d2\<lparr>vdop := atof (fs ! 17)\<rparr> else d2)
      in (SUCCESS, d3))"

definition parseGSV :: "string list \<Rightarrow> Data \<Rightarrow> Result \<times> Data" where
  "parseGSV fs d = (SUCCESS, d)"

definition parseNMEA :: "u32 \<Rightarrow> string \<Rightarrow> UC6580 \<Rightarrow> gps_fault + Result \<times> UC6580" where
  "parseNMEA now s g =
     (if length s < 6 then Inr (ERROR_INVALID_PARAMETER, g\<lparr>m_parse_errors := m_parse_errors g + 1\<rparr>)
      else if \<not> validateChecksum s
      then Inr (ERROR_COMMUNICATION_FAILED, g\<lparr>m_parse_errors := m_parse_errors g + 1\<rparr>)
      else let fs = splitNMEA s 32 in
      if length fs < 1 then Inr (ERROR_COMMUNICATION_FAILED, g\<lparr>m_parse_errors := m_parse_errors g + 1\<rparr>)
      else let g1 = g\<lparr>m_messages_received := m_messages_received g + 1\<rparr>;
               hdr = take 6 (fs ! 0); d = m_data g1;
               res = (if hdr = ''$GPGGA'' \<or> hdr = ''$GNGGA'' then parseGGA fs d
                      else if hdr = ''$GPRMC'' \<or> hdr = ''$GNRMC'' then Inr (parseRMC fs d)
                      else if hdr = ''$GPGSA'' \<or> hdr = ''$GNGSA'' then Inr (parseGSA fs d)
                      else if hdr = ''$GPGSV'' \<or> hdr = ''$GNGSV'' then Inr (parseGSV fs d)
                      else Inr (SUCCESS, d))
      in case res of
           Inl f \<Rightarrow> Inl f
         | Inr (r, d') \<Rightarrow> Inr (r, g1\<lparr>m_data := (if r = SUCCESS then d'\<lparr>timestamp := now\<rparr> else d')\<rparr>))"

text \<open>\<open>update\<close>, at the time \<open>now\<close> of \<open>Timer::millis()\<close>; the buffer is read as a C string.\<close>
definition update :: "u32 \<Rightarrow> UC6580 \<Rightarrow> gps_fault + Result \<times> UC6580" where
  "update now g =
     (if \<not> m_initialized g \<or> \<not> m_powered g then Inr (ERROR_NOT_INITIALIZED, g)
      else let (n, l, g1) = readLine g in
        if 0 < n then parseNMEA now (cstr l) g1 else Inr (ERROR_TIMEOUT, g1))"

definition hasValidFix :: "Data \<Rightarrow> bool" where
  "hasValidFix d \<longleftrightarrow> valid d \<and> (fix_type d = FIX_2D \<or> fix_type d = FIX_3D)"

definition isDataFresh :: "u32 \<Rightarrow> u32 \<Rightarrow> Data \<Rightarrow> bool" where
  "isDataFresh now max_age d \<longleftrightarrow> valid d \<and> now - timestamp d \<le> max_age"


section \<open>Example sentences\<close>

text \<open>The GGA and RMC examples of the NMEA 0183 documentation, and the GSA example of the comment in \<open>parseGSA\<close>.\<close>
definition gga_std :: string where
  "gga_std = ''$GPGGA,123519,4807.038,N,01131.000,E,1,08,0.9,545.4,M,46.9,M,,*47''"

definition gsa_doc :: string where
  "gsa_doc = ''$GPGSA,A,3,04,05,,09,12,,,24,,,,,2.5,1.3,2.1*39''"

text \<open>A GGA sentence, every field present, with a latitude of 20 digits before the point.\<close>
definition gga_long :: string where
  "gga_long = ''$GPGGA,123519,00000000000000004807.038,N,01131.000,E,1,08,0.9,545.4,M,46.9,M,0,0000*77''"

text \<open>
  An NMEA 0183 sentence built from its talker and type \<open>hdr\<close> and its data
  fields: \<open>$hdr,f1,...,fn*hh\<close> with the checksum of the text between \<open>$\<close> and \<open>*\<close>.
\<close>
definition nmea_sentence :: "string \<Rightarrow> string list \<Rightarrow> string" where
  "nmea_sentence hdr fs =
     (let body = hdr @ concat (map (\<lambda>f. CHR '','' # f) fs) in CHR ''$'' # body @ CHR ''*'' # hex2 (nmea_checksum body))"

definition rmc_std :: string where
  "rmc_std = ''$GPRMC,123519,A,4807.038,N,01131.000,E,022.4,084.4,230394,003.1,W*6A''"


section \<open>Hex digits and checksums\<close>

lemma hex_digit_table: "map xdigit_val ''0123456789ABCDEF'' = [0..<16]"
  by (simp add: xdigit_val_def is_digit_def digit_val_def upt_rec)

lemma hex_char_props:
  assumes "n < 16"
  shows "is_xdigit (hex_char n) \<and> xdigit_val (hex_char n) = n \<and> \<not> is_space (hex_char n) \<and>
         hex_char n \<notin> set ''-+xX*''"
proof -
  have "hex_char n \<in> set ''0123456789ABCDEF''"
    using assms nth_mem [of n "''0123456789ABCDEF''"] by (simp add: hex_char_def)
  moreover have "xdigit_val (hex_char n) = n"
  proof -
    have "n < length ''0123456789ABCDEF''" using assms by simp
    then have "xdigit_val (hex_char n) = map xdigit_val ''0123456789ABCDEF'' ! n"
      unfolding hex_char_def by (rule nth_map [symmetric])
    also have "\<dots> = n"
      unfolding hex_digit_table using assms by simp
    finally show ?thesis .
  qed
  ultimately show ?thesis
    by (auto simp: is_xdigit_def is_space_def is_digit_def)
qed

lemma hex2_length [simp]: "length (hex2 w) = 2"
  by (simp add: hex2_def)

lemma strtol16_hex2 [simp]: "word_of_int (strtol16 (hex2 w)) = w"
proof -
  have lt: "unat w < 256" using unsigned_less [of w, where ?'a = nat] by simp
  obtain a b where ab: "a = hex_char (unat w div 16)" "b = hex_char (unat w mod 16)" by simp
  have h: "hex2 w = [a, b]" by (simp add: hex2_def ab)
  have pa: "is_xdigit a \<and> xdigit_val a = unat w div 16 \<and> \<not> is_space a \<and> a \<notin> set ''-+xX*''"
    using hex_char_props [of "unat w div 16"] lt ab by simp
  have pb: "is_xdigit b \<and> xdigit_val b = unat w mod 16 \<and> b \<notin> set ''-+xX*''"
    using hex_char_props [of "unat w mod 16"] ab by simp
  have "strtol16 (hex2 w) = int (unat w)"
    using pa pb by (simp add: h strtol16_def scan_sign_def hex_val_def signed_def)
  then show ?thesis by simp
qed

lemma strchr_append:
  "c \<notin> set xs \<Longrightarrow> strchr (xs @ ys) c = map_option (\<lambda>i. length xs + i) (strchr ys c)"
  by (induction xs) (auto simp: map_option_case split: option.split)

lemma strchr_Some: "strchr xs c = Some p \<Longrightarrow> p < length xs \<and> xs ! p = c \<and> c \<notin> set (take p xs)"
  by (induction xs arbitrary: p) (auto split: if_splits)

text \<open>A sentence \<open>$body*hh\<close> whose \<open>hh\<close> is the printed checksum of the body passes \<open>validateChecksum\<close>.\<close>
lemma validateChecksum_frame:
  assumes "c \<noteq> CHR ''*''" "CHR ''*'' \<notin> set body"
  shows "validateChecksum (c # body @ CHR ''*'' # hex2 (nmea_checksum body) @ rest)"
proof -
  have "strchr (c # body @ CHR ''*'' # hex2 (nmea_checksum body) @ rest) (CHR ''*'') = Some (Suc (length body))"
    using assms by (simp add: strchr_append)
  then show ?thesis
    by (simp add: validateChecksum_def)
qed

lemma star_not_digits: "CHR ''*'' \<notin> set (fmt_u32 x)"
  using dec_nat_all_digit [of "CHR ''*''" "unat x"] by (auto simp: fmt_u32_def is_digit_def)

lemma pcas_command_eq:
  assumes "CHR ''*'' \<notin> set b" "length b < 62"
  shows "pcas_command (CHR ''$'' # b) = CHR ''$'' # b @ CHR ''*'' # hex2 (nmea_checksum b) @ CRLF"
proof -
  have "takeWhile (\<lambda>c. c \<noteq> CHR ''*'') (b @ [CHR ''*'']) = b"
    using assms(1) by (induction b) auto
  then show ?thesis
    using assms by (simp add: pcas_command_def snprintf_def CRLF_def)
qed

text \<open>C14: Every \<open>$PCAS01\<close> (baud rate) and \<open>$PCAS02\<close> (update period) command the driver builds carries the checksum its own \<open>validateChecksum\<close> accepts.\<close>
lemma command_valid:
  "validateChecksum (baudCommand b) \<and> validateChecksum (rateCommand r)"
proof -
  have key: "\<And>p x. CHR ''*'' \<notin> set p \<Longrightarrow> length p = 7 \<Longrightarrow>
          validateChecksum (pcas_command (CHR ''$'' # p @ fmt_u32 x))"
  proof -
    fix p x
    assume p: "CHR ''*'' \<notin> set (p :: string)" "length p = 7"
    have "CHR ''*'' \<notin> set (p @ fmt_u32 x)" "length (p @ fmt_u32 x) < 62"
      using p star_not_digits [of x] fmt_u32_length [of x] by auto
    then show "validateChecksum (pcas_command (CHR ''$'' # p @ fmt_u32 x))"
      using validateChecksum_frame [of "CHR ''$''" "p @ fmt_u32 x"] by (simp add: pcas_command_eq)
  qed
  show ?thesis
    using key [of "''PCAS01,''" b] key [of "''PCAS02,''" "1000 div r"]
    by (simp add: baudCommand_def rateCommand_def)
qed

text \<open>The hard-coded factory-reset command \<open>$PCAS10,3*1E\<close> carries a wrong checksum: the XOR of \<open>PCAS10,3\<close> is \<open>0x1F\<close>, and the driver's own validator rejects the command.\<close>
lemma factoryReset_checksum:
  "nmea_checksum ''PCAS10,3'' = 0x1F \<and> \<not> validateChecksum factoryResetCommand"
  by (simp add: nmea_checksum_def validateChecksum_def factoryResetCommand_def CRLF_def
      strtol16_def scan_sign_def hex_val_def is_xdigit_def xdigit_val_def is_digit_def digit_val_def
      is_space_def signed_def)

section \<open>Splitting and parsing sentences\<close>

lemma split_on_nonempty: "split_on d s \<noteq> []"
  by (induction s) (simp_all add: Let_def)

text \<open>A piece of \<open>split_on d s\<close> holds no \<open>d\<close> and only characters of \<open>s\<close>.\<close>
lemma split_on_pieces: "t \<in> set (split_on d s) \<Longrightarrow> d \<notin> set t \<and> set t \<subseteq> set s"
proof (induction s arbitrary: t)
  case Nil
  then show ?case by simp
next
  case (Cons x xs)
  have hd: "hd (split_on d xs) \<in> set (split_on d xs)" and tl: "set (tl (split_on d xs)) \<subseteq> set (split_on d xs)"
    using split_on_nonempty [of d xs] by (simp_all add: list.set_sel(2) subsetI)
  have h: "d \<notin> set (hd (split_on d xs)) \<and> set (hd (split_on d xs)) \<subseteq> set xs"
    using Cons.IH [OF hd] .
  have a: "\<forall>u \<in> set (split_on d xs). d \<notin> set u \<and> set u \<subseteq> set xs"
    using Cons.IH by blast
  show ?case
    using Cons.prems h a tl by (auto simp: Let_def split: if_splits)
qed

text \<open>
  C16: every field \<open>splitNMEA\<close> returns is well formed: at most \<open>max_fields\<close>
  of them, each non-empty and free of the separator \<open>,\<close> and of the checksum
  marker \<open>*\<close>. Because \<open>strtok\<close> skips empty fields, every
  \<open>strlen(fields[i]) > 0\<close> test of the parsers holds, and an empty NMEA field
  shifts the later ones.
\<close>
lemma splitNMEA_fields:
  "length (splitNMEA s m) \<le> m \<and>
   (\<forall>f \<in> set (splitNMEA s m). f \<noteq> [] \<and> CHR '','' \<notin> set f \<and> CHR ''*'' \<notin> set f)"
proof -
  let ?w = "takeWhile (\<lambda>c. c \<noteq> CHR ''*'') (take 255 s)"
  have "f \<noteq> [] \<and> CHR '','' \<notin> set f \<and> CHR ''*'' \<notin> set f" if "f \<in> set (splitNMEA s m)" for f
  proof -
    from that have f: "f \<in> set (split_on (CHR '','') ?w)" "f \<noteq> []"
      using set_take_subset [of m "strtok_tokens ?w"] by (auto simp: splitNMEA_def strtok_tokens_def)
    with split_on_pieces [OF f(1)] show ?thesis by (auto dest: set_takeWhileD)
  qed
  then show ?thesis by (simp add: splitNMEA_def)
qed

lemma splitNMEA_fields_witness:
  "length (splitNMEA gsa_doc 32) \<le> 32 \<and>
   list_all (\<lambda>f. f \<noteq> [] \<and> CHR '','' \<notin> set f \<and> CHR ''*'' \<notin> set f) (splitNMEA gsa_doc 32)"
  using splitNMEA_fields [of gsa_doc 32] by (simp add: list_all_iff)

lemmas nmea_eval = validateChecksum_def nmea_checksum_def strtol16_def scan_sign_def hex_val_def
  is_xdigit_def xdigit_val_def is_digit_def digit_val_def is_space_def signed_def splitNMEA_def
  strtok_tokens_def

lemma split_on_line: "c \<notin> set a \<Longrightarrow> split_on c (a @ c # r) = a # split_on c r"
  by (induction a) auto

text \<open>Splitting a header followed by comma-prefixed fields gives back the header and the fields.\<close>
lemma split_on_fields:
  assumes "CHR '','' \<notin> set a" "\<forall>f \<in> set fs. CHR '','' \<notin> set f"
  shows "split_on (CHR '','') (a @ concat (map (\<lambda>f. CHR '','' # f) fs)) = a # fs"
  using assms
proof (induction fs arbitrary: a)
  case Nil
  then show ?case
  proof (induction a)
    case (Cons x a)
    then show ?case by (cases "split_on (CHR '','') a") (auto simp: Let_def)
  qed simp
next
  case (Cons f fs)
  have "split_on (CHR '','') (f @ concat (map (\<lambda>f. CHR '','' # f) fs)) = f # fs"
    using Cons.IH [of f] Cons.prems(2) by simp
  then show ?case using split_on_line [OF Cons.prems(1)] by simp
qed

lemma takeWhile_to_star: "CHR ''*'' \<notin> set b \<Longrightarrow> takeWhile (\<lambda>c. c \<noteq> CHR ''*'') (b @ CHR ''*'' # r) = b"
  by (induction b) auto

lemma strtok_fields:
  assumes "CHR '','' \<notin> set a" "a \<noteq> []" "\<forall>f \<in> set fs. CHR '','' \<notin> set f"
  shows "strtok_tokens (a @ concat (map (\<lambda>f. CHR '','' # f) fs)) = a # filter (\<lambda>t. t \<noteq> []) fs"
  using split_on_fields [OF assms(1,3)] assms(2) by (simp add: strtok_tokens_def)

text \<open>
  C15: \<open>strtok\<close> drops empty fields, so every GGA sentence with an empty field
  among its fourteen data fields (the standard sentence leaves the
  differential-age and station fields empty) reaches \<open>parseGGA\<close> with fewer
  than 15 fields: it is counted as received but rejected with
  \<open>ERROR_COMMUNICATION_FAILED\<close>, position and fix left as they were, although
  its checksum is right.
\<close>
theorem gga_empty_field_rejected:
  assumes "hdr = ''GPGGA'' \<or> hdr = ''GNGGA''" "length fs = 14"
    "\<forall>f \<in> set fs. CHR '','' \<notin> set f \<and> CHR ''*'' \<notin> set f" "[] \<in> set fs"
    "length (nmea_sentence hdr fs) \<le> 255"
  shows "parseNMEA now (nmea_sentence hdr fs) g =
           Inr (ERROR_COMMUNICATION_FAILED, g\<lparr>m_messages_received := m_messages_received g + 1\<rparr>)"
proof -
  let ?body = "hdr @ concat (map (\<lambda>f. CHR '','' # f) fs)"
  have s: "nmea_sentence hdr fs = CHR ''$'' # ?body @ CHR ''*'' # hex2 (nmea_checksum ?body)"
    by (simp add: nmea_sentence_def)
  have hs: "CHR '','' \<notin> set hdr" "CHR ''*'' \<notin> set hdr" "hdr \<noteq> []" using assms(1) by auto
  have star: "CHR ''*'' \<notin> set ?body" using hs assms(3) by auto
  have ok: "validateChecksum (nmea_sentence hdr fs)"
    using validateChecksum_frame [of "CHR ''$''" ?body "[]"] star by (simp add: s)
  have tw: "takeWhile (\<lambda>c. c \<noteq> CHR ''*'') (take 255 (nmea_sentence hdr fs)) = (CHR ''$'' # hdr) @ concat (map (\<lambda>f. CHR '','' # f) fs)"
  proof -
    have "take 255 (nmea_sentence hdr fs) = nmea_sentence hdr fs" using assms(5) by (rule take_all)
    then have "take 255 (nmea_sentence hdr fs) = (CHR ''$'' # ?body) @ CHR ''*'' # hex2 (nmea_checksum ?body)"
      using s by simp
    moreover have "CHR ''*'' \<notin> set (CHR ''$'' # ?body)" using star by simp
    ultimately show ?thesis using takeWhile_to_star [of "CHR ''$'' # ?body"] by (simp del: takeWhile.simps)
  qed
  have short: "length (filter (\<lambda>t. t \<noteq> []) fs) < 14"
    using length_filter_less [of "[]" fs "\<lambda>t. t \<noteq> []"] assms(2,4) by simp
  have split: "splitNMEA (nmea_sentence hdr fs) 32 = (CHR ''$'' # hdr) # filter (\<lambda>t. t \<noteq> []) fs"
    using strtok_fields [of "CHR ''$'' # hdr" fs] hs assms(3) short
    by (simp add: splitNMEA_def tw)
  have hdr6: "take 6 (CHR ''$'' # hdr) = ''$GPGGA'' \<or> take 6 (CHR ''$'' # hdr) = ''$GNGGA''"
    using assms(1) by auto
  have len: "\<not> length (nmea_sentence hdr fs) < 6" using assms(1) by (auto simp: s)
  show ?thesis
    using ok split short hdr6 len by (auto simp: parseNMEA_def parseGGA_def Let_def)
qed

text \<open>The standard GGA sentence of the NMEA documentation is such a sentence.\<close>
theorem gga_empty_field_rejected_witness:
  "nmea_sentence ''GPGGA'' [''123519'', ''4807.038'', ''N'', ''01131.000'', ''E'', ''1'', ''08'', ''0.9'',
      ''545.4'', ''M'', ''46.9'', ''M'', [], []] = gga_std \<and>
   parseNMEA 0 gga_std (gps0 (\<lambda>_. [])) = Inr (ERROR_COMMUNICATION_FAILED, (gps0 (\<lambda>_. []))\<lparr>m_messages_received := 1\<rparr>)"
proof -
  let ?fs = "[''123519'', ''4807.038'', ''N'', ''01131.000'', ''E'', ''1'', ''08'', ''0.9'',
      ''545.4'', ''M'', ''46.9'', ''M'', [], []]"
  have e: "nmea_sentence ''GPGGA'' ?fs = gga_std"
    by (simp add: nmea_sentence_def gga_std_def nmea_checksum_def hex2_def hex_char_def)
  have "length (nmea_sentence ''GPGGA'' ?fs) \<le> 255" by (simp add: e gga_std_def)
  then have "parseNMEA 0 (nmea_sentence ''GPGGA'' ?fs) (gps0 (\<lambda>_. [])) =
      Inr (ERROR_COMMUNICATION_FAILED, (gps0 (\<lambda>_. []))\<lparr>m_messages_received := m_messages_received (gps0 (\<lambda>_. [])) + 1\<rparr>)"
    using gga_empty_field_rejected [of "''GPGGA''" ?fs 0 "gps0 (\<lambda>_. [])"] by simp
  with e show ?thesis by (simp add: gps0_def)
qed

text \<open>The standard RMC sentence is decoded field by field: status, speed converted from knots, course, date and UTC time; the two-digit year 94 becomes 2094.\<close>
lemma rmc_std_parsed:
  "parseNMEA now rmc_std g = Inr (SUCCESS, g\<lparr>m_messages_received := m_messages_received g + 1,
     m_data := (m_data g)\<lparr>valid := True, speed_kmh := 224 / 10 * 1852 / 1000, course_deg := 844 / 10,
        day := 23, month := 3, year := 2094, hour := 12, minute := 35, second := 19, timestamp := now\<rparr>\<rparr>)"
  by (simp add: rmc_std_def parseNMEA_def parseRMC_def nmea_eval atof_def atoi_def scan_float_def
      scan_ufloat_def scan_int_def scan_unum_def digits_val_def knots_to_kmh_def c_div_def c_mod_def)

section \<open>Reading lines\<close>

lemma read_line_line:
  "CHR 0x0A \<notin> set l \<Longrightarrow> CHR 0x0D \<notin> set l \<Longrightarrow> length l < k \<Longrightarrow> read_line k (l @ CHR 0x0A # r) = (l, r)"
proof (induction l arbitrary: k)
  case Nil
  then show ?case by (cases k) auto
next
  case (Cons c l)
  then obtain k' where "k = Suc k'" by (cases k) auto
  with Cons show ?case by auto
qed

text \<open>When a full line is waiting on the serial port, \<open>update\<close> consumes exactly that line and its line feed and parses it.\<close>
lemma update_line:
  assumes "m_initialized g" "m_powered g" "uart_num (m_config g) \<le> 2"
    "serial_rx g (uart_num (m_config g)) = l @ CHR 0x0A # r"
    "CHR 0x0A \<notin> set l" "CHR 0x0D \<notin> set l" "0 < length l" "length l < 255"
  shows "update now g = parseNMEA now (cstr l) (g\<lparr>serial_rx := (serial_rx g)(uart_num (m_config g) := r)\<rparr>)"
  using assms read_line_line [OF assms(5,6,8)] by (simp add: update_def readLine_def Let_def not_less [symmetric])

lemma update_line_witness:
  "update 5 ((gps0 (\<lambda>_. ''$GPGSV,1*44'' @ [CHR 0x0A]))\<lparr>m_config := getDefaultConfig, m_initialized := True, m_powered := True\<rparr>) =
   parseNMEA 5 ''$GPGSV,1*44'' ((gps0 (\<lambda>_. ''$GPGSV,1*44'' @ [CHR 0x0A]))\<lparr>m_config := getDefaultConfig,
      m_initialized := True, m_powered := True, serial_rx := (\<lambda>_. ''$GPGSV,1*44'' @ [CHR 0x0A])(1 := [])\<rparr>)"
  using update_line [of "(gps0 (\<lambda>_. ''$GPGSV,1*44'' @ [CHR 0x0A]))\<lparr>m_config := getDefaultConfig, m_initialized := True, m_powered := True\<rparr>"
      "''$GPGSV,1*44''" "[]" 5]
  by (simp add: gps0_def getDefaultConfig_def cstr_def)

section \<open>Coordinates\<close>

lemma digits_not_space: "\<forall>c \<in> set ds. is_digit c \<Longrightarrow> dropWhile is_space ds = ds"
  by (cases ds) (auto simp: is_digit_def is_space_def)

lemma atof_number:
  assumes "\<forall>c \<in> set (ds @ fs). is_digit c" "ds \<noteq> []"
    "r = [] \<or> r = CHR ''.'' # fs"
  shows "atof (ds @ r) = of_nat (digits_val ds) + (if r = [] then 0 else of_nat (digits_val fs) / 10 ^ length fs)"
proof -
  have ds: "takeWhile is_digit (ds @ r) = ds" "dropWhile is_digit (ds @ r) = r"
    using assms takeWhile_digits [of ds r] by (auto simp: int_end_def)
  have "dropWhile is_space (ds @ r) = ds @ r" "scan_sign (ds @ r) = (False, ds @ r)"
    using assms digits_not_space [of "ds @ r"] scan_sign_digit [of "ds @ r"]
    by (cases ds; auto simp: is_digit_def is_space_def)+
  moreover have fs: "takeWhile is_digit fs = fs" "dropWhile is_digit fs = []"
    using assms(1) by simp_all
  ultimately show ?thesis
    using assms(2,3) by (auto simp: atof_def scan_float_def scan_ufloat_def ds signed_def fs)
qed

text \<open>C17: \<open>nmeaToDecimal\<close> reads \<open>d..dmm.f..f\<close> as degrees plus minutes over 60, negative to the south and west, for up to 15 degree digits.\<close>
lemma nmeaToDecimal_digits:
  assumes "\<forall>c \<in> set (dd @ mm @ ff). is_digit c" "dd \<noteq> []" "length dd < 16" "length mm = 2"
  shows "nmeaToDecimal (dd @ mm @ CHR ''.'' # ff) dir =
    Inr (let v = of_nat (digits_val dd) + (of_nat (digits_val mm) + of_nat (digits_val ff) / 10 ^ length ff) / 60
         in if dir = CHR ''S'' \<or> dir = CHR ''W'' then - v else v)"
proof -
  have "\<forall>c \<in> set (dd @ mm). is_digit c" using assms(1) by auto
  then have "CHR ''.'' \<notin> set (dd @ mm)" using is_digit_point by blast
  then have "strchr (dd @ mm @ CHR ''.'' # ff) (CHR ''.'') = Some (length dd + 2)"
    using assms(4) strchr_append [of "CHR ''.''" "dd @ mm" "CHR ''.'' # ff"] by simp
  moreover have "atof dd = of_nat (digits_val dd)"
    using atof_number [of dd "[]" "[]"] assms by simp
  moreover have "atof (mm @ CHR ''.'' # ff) = of_nat (digits_val mm) + of_nat (digits_val ff) / 10 ^ length ff"
    using atof_number [of mm ff "CHR ''.'' # ff"] assms by (cases mm) auto
  ultimately show ?thesis
    using assms by (simp add: nmeaToDecimal_def Let_def)
qed

lemma nmeaToDecimal_digits_witness:
  "nmeaToDecimal ''4807.038'' (CHR ''N'') = Inr (48 + (7 + 38 / 1000) / 60)"
  using nmeaToDecimal_digits [of "''48''" "''07''" "''038''" "CHR ''N''"]
  by (simp add: is_digit_def digits_val_def digit_val_def)

text \<open>C18: A coordinate with 18 or more characters before its decimal point overruns \<open>deg_str[16]\<close> in \<open>nmeaToDecimal\<close>.\<close>
lemma nmeaToDecimal_overflow:
  "strchr coord (CHR ''.'') = Some p \<Longrightarrow> 18 \<le> p \<Longrightarrow> nmeaToDecimal coord dir = Inl DegStrOverflow"
  using strchr_Some [of coord "CHR ''.''" p] by (simp add: nmeaToDecimal_def)

lemma nmeaToDecimal_overflow_witness:
  "nmeaToDecimal ''00000000000000004807.038'' (CHR ''N'') = Inl DegStrOverflow"
  using nmeaToDecimal_overflow [of "''00000000000000004807.038''" 20 "CHR ''N''"] by simp

text \<open>The overrun is reachable from the serial port: a GGA sentence with a valid checksum and a 20-digit latitude makes \<open>parseNMEA\<close> write past \<open>deg_str\<close>.\<close>
lemma gga_long_overflow: "parseNMEA now gga_long g = Inl DegStrOverflow"
  by (simp add: gga_long_def parseNMEA_def parseGGA_def nmea_eval nmeaToDecimal_def)

section \<open>Freshness\<close>

text \<open>C19: \<open>isDataFresh\<close> compares the real age of the fix with the limit, also when \<open>millis()\<close> wrapped since the fix.\<close>
lemma isDataFresh_elapsed:
  fixes t0 k :: nat
  assumes "timestamp d = word_of_nat t0" "k < 2 ^ 32"
  shows "isDataFresh (word_of_nat (t0 + k)) max_age d \<longleftrightarrow> valid d \<and> k \<le> unat max_age"
  using elapsed_wrap [OF assms(2), of t0] assms(1) by (auto simp: isDataFresh_def word_le_nat_alt)

lemma isDataFresh_elapsed_witness:
  "isDataFresh (word_of_nat (4294967290 + 10)) 5000 (data0\<lparr>valid := True, timestamp := word_of_nat 4294967290\<rparr>)"
  using isDataFresh_elapsed [of "data0\<lparr>valid := True, timestamp := word_of_nat 4294967290\<rparr>" 4294967290 10 5000]
  by simp

section \<open>Initialisation on the hardware abstraction layer\<close>

text \<open>C13: On every state the hardware abstraction layer can reach, initialising the driver with an enable pin fails with \<open>ERROR_NOT_INITIALIZED\<close> and leaves it uninitialised, so \<open>update\<close> never reads a sentence.\<close>
lemma gps_init_fails:
  assumes "hal_reachable h" "\<not> m_initialized g" "enable_pin cfg \<noteq> 255"
  shows "initialize_gps cfg g h = (ERROR_NOT_INITIALIZED, g\<lparr>m_config := cfg\<rparr>, h)"
  using hal_reachable_uninit [OF assms(1)] gpio_uninitialized [of h] assms(2,3)
  by (simp add: initialize_gps_def)

lemma gps_init_fails_witness:
  "initialize_gps getDefaultConfig (gps0 (\<lambda>_. [])) (hal0 (\<lambda>_. LEVEL_LOW)) =
     (ERROR_NOT_INITIALIZED, (gps0 (\<lambda>_. []))\<lparr>m_config := getDefaultConfig\<rparr>, hal0 (\<lambda>_. LEVEL_LOW))"
  using gps_init_fails [OF hal_reachable.start, of "gps0 (\<lambda>_. [])" getDefaultConfig]
  by (simp add: gps0_def getDefaultConfig_def)

end
