(* ===== verification/Tracker.thy ===== *)
theory Tracker
  imports GPS
begin

text \<open>
  The GPS tracker example of \<open>src/src/examples/gps_tracker_example.cpp\<close> (Arduino
  build), a client of the hardware abstraction layer and of the UC6580 driver:
  \<open>GPSTrackerExample::initialize\<close>, \<open>update\<close> with its fix bookkeeping and
  print timers, and the sketch's \<open>setup()\<close>. Here an update records which
  reports it prints; their text and \<open>loop()\<close> are in \<open>GPSReport\<close>.
\<close>

record tracker =
  m_last_fix_time :: u32
  m_fix_lost_time :: u32
  last_status_print :: u32
  last_detail_print :: u32

definition tracker0 :: tracker where
  "tracker0 = \<lparr>m_last_fix_time = 0, m_fix_lost_time = 0, last_status_print = 0, last_detail_print = 0\<rparr>"

text \<open>\<open>GPSTrackerExample::initialize\<close>: the layer, then the driver with the V1.1 configuration.\<close>
definition tracker_initialize :: "nvs_env \<Rightarrow> UC6580 \<Rightarrow> hal \<Rightarrow> abort + bool \<times> UC6580 \<times> hal" where
  "tracker_initialize e g h =
     (case initialize e h of
        Inl a \<Rightarrow> Inl a
      | Inr (r, h1) \<Rightarrow>
          if r \<noteq> SUCCESS then Inr (False, g, h1)
          else (let (r2, g2, h2) = initialize_gps getWirelessTrackerV11Config g h1
                in Inr (r2 = SUCCESS, g2, h2)))"

text \<open>What one update reports on the serial port.\<close>
datatype report = FixAcquired | FixLost | Status | Detail

text \<open>\<open>GPSTrackerExample::update\<close> at the time \<open>now\<close>; the result of \<open>g_gps.update()\<close> is ignored.\<close>
definition tracker_update :: "u32 \<Rightarrow> UC6580 \<Rightarrow> tracker \<Rightarrow> gps_fault + UC6580 \<times> tracker \<times> report list" where
  "tracker_update now g t =
     (case update now g of
        Inl f \<Rightarrow> Inl f
      | Inr (_, g1) \<Rightarrow>
          (let has_fix = hasValidFix (m_data g1);
               (t1, r1) = (if has_fix then
                             (t\<lparr>m_last_fix_time := now, m_fix_lost_time := 0\<rparr>,
                              if m_last_fix_time t = 0 then [FixAcquired] else [])
                           else if 0 < m_last_fix_time t \<and> m_fix_lost_time t = 0 then
                             (t\<lparr>m_fix_lost_time := now\<rparr>, [FixLost])
                           else (t, []));
               (t2, r2) = (if 10000 < now - last_status_print t1
                           then (t1\<lparr>last_status_print := now\<rparr>, r1 @ [Status]) else (t1, r1));
               (t3, r3) = (if has_fix \<and> 30000 < now - last_detail_print t2
                           then (t2\<lparr>last_detail_print := now\<rparr>, r2 @ [Detail]) else (t2, r2))
           in Inr (g1, t3, r3)))"

text \<open>How \<open>setup()\<close> ends: \<open>while (1) delay(1000)\<close> after a failed initialisation, or on to \<open>loop()\<close>.\<close>
datatype setup_end = SetupHangs | SetupDone UC6580 hal

definition tracker_setup :: "nvs_env \<Rightarrow> UC6580 \<Rightarrow> hal \<Rightarrow> abort + setup_end" where
  "tracker_setup e g h =
     (case tracker_initialize e g h of
        Inl a \<Rightarrow> Inl a
      | Inr (ok, g1, h1) \<Rightarrow> Inr (if ok then SetupDone g1 h1 else SetupHangs))"

section \<open>Example input\<close>

text \<open>A driver with a GGA sentence with a fix and then an RMC sentence with status V waiting on its port.\<close>
definition gga_fix :: string where
  "gga_fix = ''$GPGGA,123519,4807.038,N,01131.000,E,1,08,0.9,545.4,M,46.9,M,0,0000*77''"

definition rmc_void :: string where
  "rmc_void = ''$GPRMC,123520,V,4807.038,N,01131.000,E,022.4,084.4,230394,003.1,W*77''"

definition tracker_gps :: UC6580 where
  "tracker_gps = (gps0 (\<lambda>_. gga_fix @ CHR 0x0A # rmc_void @ [CHR 0x0A]))\<lparr>m_config := getDefaultConfig,
     m_initialized := True, m_powered := True\<rparr>"

section \<open>The example never runs on the Arduino build\<close>

text \<open>
  C29: Started on the reset state of the layer, the tracker's \<open>setup()\<close> either
  aborts in \<open>ESP_ERROR_CHECK\<close> or hangs in its \<open>while (1)\<close> loop, whatever the
  NVS flash answers: \<open>loop()\<close> and the GPS driver are never reached.
\<close>
lemma tracker_setup_hangs:
  "\<not> g_initialized h \<Longrightarrow> tracker_setup e g h = Inr SetupHangs \<or> tracker_setup e g h = Inl (EspErrorCheckFailed (erase e))"
  using initialize_from_reset [of h e]
  by (auto simp: tracker_setup_def tracker_initialize_def)

lemma tracker_setup_hangs_witness:
  "tracker_setup \<lparr>init1 = ESP_OK, init2 = ESP_OK, erase = ESP_OK\<rparr> (gps0 (\<lambda>_. [])) (hal0 (\<lambda>_. LEVEL_LOW)) = Inr SetupHangs"
  using tracker_setup_hangs [of "hal0 (\<lambda>_. LEVEL_LOW)" "\<lparr>init1 = ESP_OK, init2 = ESP_OK, erase = ESP_OK\<rparr>" "gps0 (\<lambda>_. [])"]
  by (simp add: hal0_def tracker_setup_def tracker_initialize_def initialize_def Timer_initialize_def)

section \<open>Fix bookkeeping\<close>

text \<open>
  C30: The example uses a last-fix time of 0 as "no fix yet". A fix acquired
  when \<open>millis()\<close> reads 0 is therefore reported as acquired again at the next
  update with a fix, and its loss is never reported.
\<close>
lemma tracker_fix_at_zero:
  assumes "update 0 g = Inr (r, g1)" "hasValidFix (m_data g1)"
    "update now g1 = Inr (r', g2)" "\<not> hasValidFix (m_data g2)"
    "tracker_update 0 g tracker0 = Inr (g1, t1, rs1)"
  shows "m_last_fix_time t1 = 0 \<and> FixAcquired \<in> set rs1 \<and>
         (\<exists>t2 rs2. tracker_update now g1 t1 = Inr (g2, t2, rs2) \<and> FixLost \<notin> set rs2 \<and> m_fix_lost_time t2 = 0)"
  using assms by (auto simp: tracker_update_def tracker0_def Let_def split: if_splits prod.splits)

lemmas sentence_eval = parseNMEA_def parseGGA_def parseRMC_def nmea_eval nmeaToDecimal_def atof_def atoi_def
  scan_float_def scan_ufloat_def scan_int_def scan_unum_def digits_val_def knots_to_kmh_def c_div_def c_mod_def
  hasValidFix_def

lemma tracker_fix_at_zero_witness:
  "\<exists>g1 t1 rs1 t2 rs2 g2. tracker_update 0 tracker_gps tracker0 = Inr (g1, t1, rs1) \<and> m_last_fix_time t1 = 0 \<and>
     FixAcquired \<in> set rs1 \<and> tracker_update 5 g1 t1 = Inr (g2, t2, rs2) \<and> FixLost \<notin> set rs2 \<and> m_fix_lost_time t2 = 0"
proof -
  have r1: "read_line 255 (gga_fix @ CHR 0x0A # rmc_void @ [CHR 0x0A]) = (gga_fix, rmc_void @ [CHR 0x0A])"
    by (rule read_line_line) (simp_all add: gga_fix_def)
  have r2: "read_line 255 (rmc_void @ [CHR 0x0A]) = (rmc_void, [])"
    using read_line_line [of rmc_void 255 "[]"] by (simp add: rmc_void_def)
  have c: "cstr gga_fix = gga_fix" "cstr rmc_void = rmc_void" "gga_fix \<noteq> []" "rmc_void \<noteq> []"
    by (simp_all add: cstr_def gga_fix_def rmc_void_def)
  have u1: "update 0 tracker_gps = parseNMEA 0 gga_fix
              (tracker_gps\<lparr>serial_rx := (\<lambda>_. gga_fix @ CHR 0x0A # rmc_void @ [CHR 0x0A])(1 := rmc_void @ [CHR 0x0A])\<rparr>)"
    using c by (simp add: update_def readLine_def tracker_gps_def gps0_def getDefaultConfig_def r1)
  obtain g1 where g1: "parseNMEA 0 gga_fix
              (tracker_gps\<lparr>serial_rx := (\<lambda>_. gga_fix @ CHR 0x0A # rmc_void @ [CHR 0x0A])(1 := rmc_void @ [CHR 0x0A])\<rparr>)
              = Inr (SUCCESS, g1)" "hasValidFix (m_data g1)" "m_initialized g1" "m_powered g1"
      "m_config g1 = getDefaultConfig" "serial_rx g1 1 = rmc_void @ [CHR 0x0A]"
    by (simp add: gga_fix_def tracker_gps_def gps0_def sentence_eval)
  have u2: "update 5 g1 = parseNMEA 5 rmc_void (g1\<lparr>serial_rx := (serial_rx g1)(1 := [])\<rparr>)"
    using g1(3-6) c by (simp add: update_def readLine_def getDefaultConfig_def r2)
  obtain g2 where g2: "parseNMEA 5 rmc_void (g1\<lparr>serial_rx := (serial_rx g1)(1 := [])\<rparr>) = Inr (SUCCESS, g2)"
      "\<not> hasValidFix (m_data g2)"
    by (simp add: rmc_void_def sentence_eval)
  obtain t1 rs1 where t1: "tracker_update 0 tracker_gps tracker0 = Inr (g1, t1, rs1)"
    using u1 g1(1,2) by (auto simp: tracker_update_def tracker0_def Let_def)
  have e1: "update 0 tracker_gps = Inr (SUCCESS, g1)" using u1 g1(1) by simp
  have e2: "update 5 g1 = Inr (SUCCESS, g2)" using u2 g2(1) by simp
  show ?thesis
    using tracker_fix_at_zero [OF e1 g1(2) e2 g2(2) t1] t1 by blast
qed

end
