(* ===== verification/OtaRefinement.thy ===== *)
theory OtaRefinement
  imports Loop
begin

text \<open>
  The LoRa OTA session of \<open>src/src/main.cpp\<close> (\<open>handleLoraOtaPacket\<close>,
  \<open>checkLoraOtaTimeout\<close>) against the session machine the specification
  describes (Idle, Active, Flashing, with the timeout back to Idle): the
  abstract machine as an inductive step relation over the frames of the wire
  format, the abstraction of the node's session variables, and the simulation
  of every receiver step by a step of the machine. The places where the code
  leaves the machine are theorems of their own.
\<close>

section \<open>The session machine of the specification\<close>

text \<open>
  The abstract session: idle, active with the announced size, the bytes
  received so far, the start time and the timeout, or flashing an image.
\<close>
datatype ota_phase = Idle | Active u32 string ms u32 | Flashing string

text \<open>What reaches the session: the three frames, a clock tick, any other frame.\<close>
datatype ota_ev = EvStart u32 u32 | EvData int string | EvEnd | EvTick | EvOther string

text \<open>
  The machine for a buffer of \<open>cap\<close> bytes at clock \<open>now\<close>. A start frame opens
  a fresh session from any state but Flashing; a data frame appends its payload
  when it fits; the end frame flashes (or, when the writer fails, returns to
  Idle) once the announced size arrived, and is ignored before; a tick after the
  timeout discards the session.
\<close>
inductive ota_spec :: "nat \<Rightarrow> ms \<Rightarrow> ota_phase \<Rightarrow> ota_ev \<Rightarrow> ota_phase \<Rightarrow> bool"
  for cap :: nat and now :: ms where
  start_idle: "ota_spec cap now Idle (EvStart E T) (Active E [] now T)"
| start_active: "ota_spec cap now (Active E' buf st T') (EvStart E T) (Active E [] now T)"
| data_idle: "ota_spec cap now Idle (EvData k d) Idle"
| data_fits: "length buf + length d \<le> cap \<Longrightarrow>
    ota_spec cap now (Active E buf st T) (EvData k d) (Active E (buf @ d) st T)"
| data_full: "cap < length buf + length d \<Longrightarrow>
    ota_spec cap now (Active E buf st T) (EvData k d) (Active E buf st T)"
| end_idle: "ota_spec cap now Idle EvEnd Idle"
| end_flash: "unat E \<le> length buf \<Longrightarrow> ota_spec cap now (Active E buf st T) EvEnd (Flashing buf)"
| end_fail: "unat E \<le> length buf \<Longrightarrow> ota_spec cap now (Active E buf st T) EvEnd Idle"
| end_short: "length buf < unat E \<Longrightarrow>
    ota_spec cap now (Active E buf st T) EvEnd (Active E buf st T)"
| tick_idle: "ota_spec cap now Idle EvTick Idle"
| tick_live: "now - st \<le> T \<Longrightarrow> ota_spec cap now (Active E buf st T) EvTick (Active E buf st T)"
| tick_out: "T < now - st \<Longrightarrow> ota_spec cap now (Active E buf st T) EvTick Idle"
| other: "ota_spec cap now s (EvOther p) s"

inductive_cases ota_spec_EvEndE: "ota_spec cap now s EvEnd s'"

text \<open>An end frame that arrives before the announced size.\<close>
definition short_end :: "ota_phase \<Rightarrow> bool" where
  "short_end s = (case s of Active E buf st T \<Rightarrow> length buf < unat E | _ \<Rightarrow> False)"

section \<open>The receiver as an implementation of the machine\<close>

text \<open>The frame of an event as \<open>sendLoraOtaUpdate\<close> formats it.\<close>
definition ota_frame :: "ota_ev \<Rightarrow> string" where
  "ota_frame ev = (case ev of
       EvStart E T \<Rightarrow> start_frame (unat E) T
     | EvData k d \<Rightarrow> data_frame k d
     | EvEnd \<Rightarrow> ''OTA_END:''
     | EvTick \<Rightarrow> []
     | EvOther p \<Rightarrow> p)"

text \<open>
  One step of the receiver's session: a frame goes to \<open>handleLoraOtaPacket\<close>,
  a tick is the \<open>checkLoraOtaTimeout()\<close> at the end of \<open>loop()\<close>.
\<close>
definition ota_rx_step :: "build \<Rightarrow> fw_writer \<Rightarrow> ms \<Rightarrow> ota_ev \<Rightarrow> node \<Rightarrow> fault + node" where
  "ota_rx_step b fw now ev n = (case ev of
       EvTick \<Rightarrow> Inr (checkLoraOtaTimeout b now n)
     | _ \<Rightarrow> handleLoraOtaPacket b fw now (ota_frame ev) n)"

text \<open>
  Events of the wire format: data payloads that \<open>%255s\<close> reads whole, and other
  frames that none of the three prefixes of \<open>handleLoraOtaPacket\<close> matches.
\<close>
definition ev_ok :: "ota_ev \<Rightarrow> bool" where
  "ev_ok ev = (case ev of
       EvData k d \<Rightarrow> plain_payload d
     | EvOther p \<Rightarrow> \<not> startsWith p ''OTA_START:'' \<and> \<not> startsWith p ''OTA_DATA:'' \<and>
                     \<not> startsWith p ''OTA_END:''
     | _ \<Rightarrow> True)"

text \<open>The abstraction of the session variables; a restart after a flash is Flashing.\<close>
definition ota_abs :: "node \<Rightarrow> ota_phase" where
  "ota_abs n =
     (if restarted n then (case flashed n of Some img \<Rightarrow> Flashing img | None \<Rightarrow> Idle)
      else if loraOtaActive n then
        Active (loraOtaExpectedSize n) (loraOtaBuffer n) (loraOtaStartTime n) (loraOtaTimeout n)
      else Idle)"

text \<open>
  A run of the session: timed events in order; a fault ends it, and so does a
  restart after a flash (\<open>ESP.restart()\<close> does not return).
\<close>
fun ota_rx_run :: "build \<Rightarrow> fw_writer \<Rightarrow> (ms \<times> ota_ev) list \<Rightarrow> node \<Rightarrow> fault + node" where
  "ota_rx_run b fw [] n = Inr n"
| "ota_rx_run b fw ((t, ev) # evs) n =
     (case ota_rx_step b fw t ev n of
        Inl e \<Rightarrow> Inl e
      | Inr n' \<Rightarrow> if restarted n' then Inr n' else ota_rx_run b fw evs n')"

text \<open>The events that open a session: a start frame, or any frame with its prefix.\<close>
definition opens_session :: "ota_ev \<Rightarrow> bool" where
  "opens_session ev = (case ev of
       EvStart E T \<Rightarrow> True
     | EvOther p \<Rightarrow> startsWith p ''OTA_START:''
     | _ \<Rightarrow> False)"

section \<open>A concrete session\<close>

text \<open>A receiver three bytes into a session announced at 1000 bytes, and a writer that succeeds.\<close>
definition demo_session :: node where
  "demo_session = (node0 Map.empty)\<lparr>isSender := False, loraOtaActive := True, loraOtaBuffer := ''abc'',
     loraOtaBufferSize := 3, loraOtaReceivedSize := 3, loraOtaExpectedSize := 1000\<rparr>"

definition demo_fw :: fw_writer where
  "demo_fw = \<lparr>fw_begin = (\<lambda>_. True), fw_write_end = (\<lambda>_ _. True)\<rparr>"

definition rx_build :: build where
  "rx_build = \<lparr>wifi_ota = False, role_flag = RoleReceiverFlag\<rparr>"

text \<open>A loop iteration with the button up and nothing received.\<close>
definition demo_in :: loop_in where
  "demo_in = \<lparr>inNow = 2500, inBtn = True, inDrv = (\<lambda>_. 0), inEnv = (\<lambda>_. True), inLink = False,
     inTxSt = 0, inRx = RxFail RADIOLIB_ERR_RX_TIMEOUT, inFw = demo_fw, inJunk = (\<lambda>_. []),
     inOta = [], inListen = []\<rparr>"

section \<open>Simulation\<close>

lemma ota_abs_live:
  "\<not> restarted n \<Longrightarrow> loraOtaActive n \<Longrightarrow>
     ota_abs n = Active (loraOtaExpectedSize n) (loraOtaBuffer n) (loraOtaStartTime n) (loraOtaTimeout n)"
  "\<not> restarted n \<Longrightarrow> \<not> loraOtaActive n \<Longrightarrow> ota_abs n = Idle"
  by (simp_all add: ota_abs_def)

text \<open>Under the buffer invariant the 32-bit counter compares like the buffer's length.\<close>
lemma ota_inv_received_le:
  "ota_inv n \<Longrightarrow> (E \<le> loraOtaReceivedSize n) = (unat E \<le> length (loraOtaBuffer n))"
  by (simp add: ota_inv_def word_le_nat_alt)

lemma ota_step_tick:
  assumes "\<not> restarted n"
  shows "ota_spec cap now (ota_abs n) EvTick (ota_abs (checkLoraOtaTimeout b now n))"
  using assms
  by (cases "loraOtaActive n")
     (auto simp: ota_abs_def checkLoraOtaTimeout_def not_less intro: ota_spec.intros)

lemma ota_step_start:
  assumes "\<not> restarted n"
  shows "ota_spec cap now (ota_abs n) (EvStart E T) (ota_abs (otaStart b now (start_frame (unat E) T) n))"
proof -
  have "sscanf (start_frame (unat E) T) OTA_START_FMT = [VUns E, VUns T]"
    using sscanf_start_frame [of "unat E" T] unsigned_less [of E] by simp
  then have "ota_abs (otaStart b now (start_frame (unat E) T) n) = Active E [] now T"
    using assms by (simp add: otaStart_def ota_abs_def)
  then show ?thesis
    using assms by (cases "loraOtaActive n") (auto simp: ota_abs_def intro: ota_spec.intros)
qed

lemma ota_step_data:
  assumes "ota_inv n" "\<not> restarted n" "plain_payload d" "otaData b (data_frame k d) n = Inr n'"
  shows "ota_spec (LORA_OTA_BUFFER_SIZE - 1) now (ota_abs n) (EvData k d) (ota_abs n')"
proof (cases "loraOtaActive n")
  case False
  with assms show ?thesis by (simp add: otaData_def ota_abs_def ota_spec.data_idle)
next
  case True
  have sc: "sscanf (data_frame k d) OTA_DATA_FMT = [VInt k, VStr d]"
    using assms(3) by (rule sscanf_data_frame)
  have len: "loraOtaBufferSize n = length (loraOtaBuffer n)" using assms(1) by (simp add: ota_inv_def)
  show ?thesis
  proof (cases "loraOtaBufferSize n + length d < LORA_OTA_BUFFER_SIZE")
    case fits: True
    then have "n' = msg b ''LoRa OTA''
        (snprintf 20 (fmt_int (sint ((loraOtaReceivedSize n + of_nat (length d)) * 100
           div loraOtaExpectedSize n)) @ ''%''))
        (n\<lparr>loraOtaBuffer := loraOtaBuffer n @ d, loraOtaBufferSize := loraOtaBufferSize n + length d,
           loraOtaReceivedSize := loraOtaReceivedSize n + of_nat (length d)\<rparr>)"
      using assms(4) True sc by (simp add: otaData_def Let_def split: if_splits)
    moreover have "length (loraOtaBuffer n) + length d \<le> LORA_OTA_BUFFER_SIZE - 1"
      using fits len by simp
    ultimately show ?thesis
      using True assms(2) by (simp add: ota_abs_def ota_spec.data_fits)
  next
    case False
    then have "n' = n" using assms(4) True sc by (simp add: otaData_def)
    moreover have "LORA_OTA_BUFFER_SIZE - 1 < length (loraOtaBuffer n) + length d"
      using False len by (simp add: LORA_OTA_BUFFER_SIZE_def)
    ultimately show ?thesis
      using True assms(2) by (simp add: ota_abs_def ota_spec.data_full)
  qed
qed

lemma ota_step_end:
  assumes "ota_inv n" "\<not> restarted n" "\<not> short_end (ota_abs n)"
  shows "ota_spec cap now (ota_abs n) EvEnd (ota_abs (otaEnd b fw n))"
proof (cases "loraOtaActive n")
  case False
  with assms(2) show ?thesis by (simp add: otaEnd_def ota_abs_def ota_spec.end_idle)
next
  case True
  have buf: "take (loraOtaBufferSize n) (loraOtaBuffer n) = loraOtaBuffer n"
    using assms(1) by (simp add: ota_inv_def)
  have full: "unat (loraOtaExpectedSize n) \<le> length (loraOtaBuffer n)"
    using assms(2,3) True by (simp add: ota_abs_def short_end_def not_less)
  then have "loraOtaExpectedSize n \<le> loraOtaReceivedSize n"
    using ota_inv_received_le [OF assms(1)] by simp
  then show ?thesis
    using True assms(2) full buf
    by (auto simp: otaEnd_def ota_abs_def Let_def intro: ota_spec.end_flash ota_spec.end_fail)
qed

text \<open>
  C5: every step of the receiver's session is a step of the specification's
  session machine for a buffer of 1023 bytes, and keeps the buffer invariant:
  a start frame opens a fresh session, a data frame appends its payload when it
  fits, an end frame after the announced size flashes the buffer (or returns to
  Idle when the writer fails), a tick after the timeout discards the session,
  other frames change nothing. The one step outside the machine is an end frame
  before the announced size (see \<open>ota_short_end_leaves_spec\<close>).
\<close>
theorem ota_refines:
  assumes "ota_inv n" "\<not> restarted n" "ev_ok ev" "ev = EvEnd \<longrightarrow> \<not> short_end (ota_abs n)"
    "ota_rx_step b fw now ev n = Inr n'"
  shows "ota_spec (LORA_OTA_BUFFER_SIZE - 1) now (ota_abs n) ev (ota_abs n') \<and> ota_inv n'"
proof -
  have inv: "ota_inv n'"
    using assms(1,5) by (cases ev) (auto simp: ota_rx_step_def checkTimeout_inv dest: handleLoraOtaPacket_inv)
  have "ota_spec (LORA_OTA_BUFFER_SIZE - 1) now (ota_abs n) ev (ota_abs n')"
  proof (cases ev)
    case (EvStart E T)
    then have "n' = otaStart b now (start_frame (unat E) T) n"
      using assms(5) by (simp add: ota_rx_step_def ota_frame_def handleLoraOtaPacket_def)
    with EvStart show ?thesis using ota_step_start [OF assms(2)] by simp
  next
    case (EvData k d)
    then have "plain_payload d" "otaData b (data_frame k d) n = Inr n'"
      using assms(3,5) by (simp_all add: ota_rx_step_def ota_frame_def handleLoraOtaPacket_def ev_ok_def)
    with EvData show ?thesis using ota_step_data [OF assms(1,2)] by blast
  next
    case EvEnd
    with assms show ?thesis
      by (auto simp: ota_rx_step_def ota_frame_def handleLoraOtaPacket_def intro: ota_step_end)
  next
    case EvTick
    with assms(2,5) show ?thesis by (auto simp: ota_rx_step_def intro: ota_step_tick)
  next
    case (EvOther p)
    with assms(3,5) show ?thesis
      by (simp add: ota_rx_step_def ota_frame_def handleLoraOtaPacket_def ev_ok_def ota_spec.other)
  qed
  with inv show ?thesis by simp
qed

lemma ota_short_end_leaves_spec:
  assumes "ota_inv n" "\<not> restarted n" "short_end (ota_abs n)" "ota_rx_step b fw now EvEnd n = Inr n'"
  shows "ota_abs n' = Idle \<and> \<not> ota_spec cap now (ota_abs n) EvEnd (ota_abs n')"
proof -
  have act: "loraOtaActive n" and short: "length (loraOtaBuffer n) < unat (loraOtaExpectedSize n)"
    using assms(2,3) by (auto simp: ota_abs_def short_end_def split: if_splits)
  then have "\<not> loraOtaExpectedSize n \<le> loraOtaReceivedSize n"
    using ota_inv_received_le [OF assms(1)] by simp
  then have idle: "ota_abs n' = Idle"
    using assms(2,4) act by (auto simp: ota_rx_step_def ota_frame_def handleLoraOtaPacket_def otaEnd_def ota_abs_def)
  have "\<not> ota_spec cap now (ota_abs n) EvEnd Idle"
  proof
    assume "ota_spec cap now (ota_abs n) EvEnd Idle"
    then show False
      using assms(2) act short by (auto simp: ota_abs_live elim: ota_spec_EvEndE)
  qed
  with idle show ?thesis by simp
qed

lemma scan_partial_start:
  "j < 2 ^ 32 \<Longrightarrow> sscanf (''OTA_START:'' @ dec_nat j) OTA_START_FMT = [VUns (of_nat j)]"
  by (simp add: sscanf_def scan_format_OTA_START is_digit_def unat_of_nat)

text \<open>
  C7: a start frame with only its first number is not a no-op: \<open>sscanf\<close> has
  already written the expected size when it fails on the second, so a session
  holding fewer bytes than announced, followed by \<open>OTA_START:<j>\<close> and
  \<open>OTA_END:\<close>, flashes the truncated buffer.
\<close>
theorem partial_start_flashes:
  assumes "ota_inv n" "\<not> restarted n" "short_end (ota_abs n)" "j \<le> length (loraOtaBuffer n)"
    "fw_begin fw (of_nat j)" "fw_write_end fw (of_nat j) (loraOtaBuffer n)"
  shows "\<exists>m. ota_feed b fw now [''OTA_START:'' @ dec_nat j, ''OTA_END:''] n = Inr m \<and>
           restarted m \<and> flashed m = Some (loraOtaBuffer n)"
proof -
  have act: "loraOtaActive n"
    using assms(2,3) by (auto simp: ota_abs_def short_end_def split: if_splits)
  have inv: "length (loraOtaBuffer n) = loraOtaBufferSize n" "loraOtaBufferSize n < LORA_OTA_BUFFER_SIZE"
    "unat (loraOtaReceivedSize n) = loraOtaBufferSize n"
    using assms(1) by (simp_all add: ota_inv_def)
  then have j: "j < 2 ^ 32" using assms(4) by (simp add: LORA_OTA_BUFFER_SIZE_def)
  then have uj: "unat (of_nat j :: u32) = j" by (simp add: unat_of_nat)
  let ?n1 = "n\<lparr>loraOtaExpectedSize := of_nat j\<rparr>"
  have s1: "handleLoraOtaPacket b fw now (''OTA_START:'' @ dec_nat j) n = Inr ?n1"
    using scan_partial_start [OF j] by (simp add: handleLoraOtaPacket_def startsWith_def otaStart_def)
  have le: "(of_nat j :: u32) \<le> loraOtaReceivedSize n"
    using assms(4) inv uj by (simp add: word_le_nat_alt)
  have "handleLoraOtaPacket b fw now ''OTA_END:'' ?n1 = Inr (otaEnd b fw ?n1)"
    by (simp add: handleLoraOtaPacket_def startsWith_def)
  moreover have "restarted (otaEnd b fw ?n1) \<and> flashed (otaEnd b fw ?n1) = Some (loraOtaBuffer n)"
    using act le assms(5,6) inv by (simp add: otaEnd_def Let_def)
  ultimately show ?thesis using s1 by simp
qed

text \<open>
  C8: a step of the receiver faults exactly when an \<open>OTA_DATA\<close> frame that fits
  arrives in a session announced with size 0: the progress percentage
  \<open>(loraOtaReceivedSize * 100) / loraOtaExpectedSize\<close> divides by zero.
\<close>
theorem ota_zero_size_crash:
  assumes "ota_inv n" "ev_ok ev"
  shows "(\<exists>e. ota_rx_step b fw now ev n = Inl e) \<longleftrightarrow>
         (\<exists>k d. ev = EvData k d \<and> loraOtaActive n \<and> loraOtaExpectedSize n = 0 \<and>
                length (loraOtaBuffer n) + length d < LORA_OTA_BUFFER_SIZE)"
proof (cases ev)
  case (EvData k d)
  then have "plain_payload d" using assms(2) by (simp add: ev_ok_def)
  then have "sscanf (data_frame k d) OTA_DATA_FMT = [VInt k, VStr d]" by (rule sscanf_data_frame)
  with EvData assms(1) show ?thesis
    by (auto simp: ota_rx_step_def ota_frame_def handleLoraOtaPacket_def otaData_def ota_inv_def Let_def)
next
  case (EvOther p)
  with assms(2) show ?thesis by (simp add: ota_rx_step_def ota_frame_def handleLoraOtaPacket_def ev_ok_def)
qed (simp_all add: ota_rx_step_def ota_frame_def handleLoraOtaPacket_def)

lemma demo_session_props:
  "ota_inv demo_session" "\<not> restarted demo_session"
  "ota_abs demo_session = Active 1000 ''abc'' 0 30000"
  by (simp_all add: demo_session_def node0_def ota_inv_def ota_abs_def LORA_OTA_BUFFER_SIZE_def)

theorem ota_refines_witness:
  "\<exists>n'. ota_rx_step rx_build demo_fw 0 (EvData 0 ''de'') demo_session = Inr n' \<and>
     ota_spec (LORA_OTA_BUFFER_SIZE - 1) 0 (ota_abs demo_session) (EvData 0 ''de'') (ota_abs n') \<and>
     ota_inv n'"
proof -
  have p: "plain_payload ''de''" by (simp add: plain_payload_def is_space_def)
  obtain n' where s: "ota_rx_step rx_build demo_fw 0 (EvData 0 ''de'') demo_session = Inr n'"
    using p by (simp add: ota_rx_step_def ota_frame_def handleLoraOtaPacket_def otaData_def
        sscanf_data_frame demo_session_def node0_def Let_def LORA_OTA_BUFFER_SIZE_def)
  have "ota_spec (LORA_OTA_BUFFER_SIZE - 1) 0 (ota_abs demo_session) (EvData 0 ''de'') (ota_abs n') \<and> ota_inv n'"
    using ota_refines [OF demo_session_props(1,2) _ _ s] p by (simp add: ev_ok_def)
  with s show ?thesis by blast
qed

theorem partial_start_flashes_witness:
  "\<exists>m. ota_feed rx_build demo_fw 0 [''OTA_START:'' @ dec_nat 3, ''OTA_END:''] demo_session = Inr m \<and>
     restarted m \<and> flashed m = Some ''abc''"
  using partial_start_flashes [OF demo_session_props(1,2), of 3 demo_fw rx_build 0] demo_session_props(3)
  by (simp add: short_end_def demo_session_def demo_fw_def)

theorem ota_zero_size_crash_witness:
  "\<exists>e. ota_rx_step rx_build demo_fw 0 (EvData 0 ''de'') (demo_session\<lparr>loraOtaExpectedSize := 0\<rparr>) = Inl e"
  using ota_zero_size_crash [of "demo_session\<lparr>loraOtaExpectedSize := 0\<rparr>" "EvData 0 ''de''" rx_build demo_fw 0]
  by (simp add: ota_inv_def ev_ok_def plain_payload_def is_space_def demo_session_def node0_def
      LORA_OTA_BUFFER_SIZE_def)

section \<open>The sender does not listen\<close>

lemma isSender_senderLoop [simp]: "isSender (senderLoop b i n) = isSender n"
  by (simp add: senderLoop_def senderConfigStep_def Let_def)

text \<open>
  C6: while a node is a sender (after the button has been handled), an
  iteration of \<open>loop()\<close> does not depend on what the radio would receive: the
  sender branch never calls \<open>radio.receive\<close>, so neither the availability
  notices nor the OTA frames of the cascade ever reach a sender.
\<close>
theorem sender_ignores_radio:
  assumes "isSender (updateButton b (inDrv i) (inEnv i) (inBtn i) (inNow i) (n\<lparr>link := inLink i\<rparr>))"
  shows "loop b (i\<lparr>inRx := r\<rparr>) n = loop b i n"
proof -
  have "senderLoop b (i\<lparr>inRx := r\<rparr>) m = senderLoop b i m" for m
    by (simp add: senderLoop_def Let_def)
  moreover have "wifiService b j m = Inr m" if "isSender m" for j m
    using that by (simp add: wifiService_def)
  ultimately show ?thesis
    using assms by (simp add: loop_def Let_def seqn_def)
qed

theorem sender_ignores_radio_witness:
  "loop \<lparr>wifi_ota = True, role_flag = RoleSenderFlag\<rparr> (demo_in\<lparr>inRx := RxOk (start_frame 10 100) 0 0\<rparr>)
     (node0 Map.empty) =
   loop \<lparr>wifi_ota = True, role_flag = RoleSenderFlag\<rparr> demo_in (node0 Map.empty)"
  using sender_ignores_radio [of "\<lparr>wifi_ota = True, role_flag = RoleSenderFlag\<rparr>" demo_in "node0 Map.empty"]
  by (simp add: updateButton_def node0_def demo_in_def)


section \<open>The deadline of a session\<close>

text \<open>Only a start frame sets the start time and the timeout, or opens a session.\<close>
lemma ota_rx_step_keeps_deadline:
  assumes "\<not> opens_session ev" "ota_rx_step b fw t ev n = Inr n'"
  shows "loraOtaStartTime n' = loraOtaStartTime n \<and> loraOtaTimeout n' = loraOtaTimeout n \<and>
         (loraOtaActive n' \<longrightarrow> loraOtaActive n)"
  using assms
  by (cases ev)
     (auto simp: opens_session_def ota_rx_step_def ota_frame_def handleLoraOtaPacket_def otaData_def
       otaEnd_def checkLoraOtaTimeout_def Let_def
       split: if_splits list.splits scan_val.splits)

lemma ota_rx_run_keeps_deadline:
  assumes "\<forall>(t, ev) \<in> set evs. \<not> opens_session ev" "ota_rx_run b fw evs n = Inr m"
  shows "loraOtaStartTime m = loraOtaStartTime n \<and> loraOtaTimeout m = loraOtaTimeout n \<and>
         (loraOtaActive m \<longrightarrow> loraOtaActive n)"
  using assms
proof (induction evs arbitrary: n)
  case Nil
  then show ?case by simp
next
  case (Cons te evs)
  obtain t ev where te: "te = (t, ev)" by fastforce
  from Cons.prems te obtain n' where s: "ota_rx_step b fw t ev n = Inr n'"
    by (auto split: sum.splits)
  have k: "loraOtaStartTime n' = loraOtaStartTime n \<and> loraOtaTimeout n' = loraOtaTimeout n \<and>
           (loraOtaActive n' \<longrightarrow> loraOtaActive n)"
    using ota_rx_step_keeps_deadline [OF _ s] Cons.prems(1) te by simp
  show ?case
  proof (cases "restarted n'")
    case True
    with Cons.prems(2) te s k show ?thesis by simp
  next
    case False
    with Cons.prems te s have "ota_rx_run b fw evs n' = Inr m" by simp
    with Cons.IH [of n'] Cons.prems(1) k show ?thesis by simp
  qed
qed

text \<open>
  C9: no frame other than a start frame moves a session's start time or timeout
  or reopens a session, so the timeout check at the end of the first iteration
  past start + timeout ends every session.
\<close>
theorem session_deadline:
  assumes "\<forall>(t, ev) \<in> set evs. \<not> opens_session ev" "ota_rx_run b fw evs n = Inr m"
    "loraOtaStartTime n = word_of_nat t0" "unat (loraOtaTimeout n) < d" "d < 2 ^ 32"
  shows "\<not> loraOtaActive (checkLoraOtaTimeout b (word_of_nat (t0 + d)) m)"
  using ota_rx_run_keeps_deadline [OF assms(1,2)] assms(3-5) elapsed_wrap [OF assms(5), of t0]
  by (auto simp: checkLoraOtaTimeout_def word_less_nat_alt)

theorem session_deadline_witness:
  "\<exists>m. ota_rx_run rx_build demo_fw [(100, EvData 0 ''de''), (200, EvOther ''PING seq=1'')] demo_session = Inr m \<and>
     \<not> loraOtaActive (checkLoraOtaTimeout rx_build (word_of_nat (0 + 30001)) m)"
proof -
  have p: "plain_payload ''de''" by (simp add: plain_payload_def is_space_def)
  have o: "\<not> startsWith ''PING seq=1'' ''OTA_START:''" "\<not> startsWith ''PING seq=1'' ''OTA_DATA:''"
    "\<not> startsWith ''PING seq=1'' ''OTA_END:''"
    by (simp_all add: startsWith_def)
  obtain m where r: "ota_rx_run rx_build demo_fw [(100, EvData 0 ''de''), (200, EvOther ''PING seq=1'')] demo_session = Inr m"
    using p o by (simp add: ota_rx_step_def ota_frame_def handleLoraOtaPacket_def otaData_def
        sscanf_data_frame demo_session_def node0_def Let_def LORA_OTA_BUFFER_SIZE_def)
  have "\<not> loraOtaActive (checkLoraOtaTimeout rx_build (word_of_nat (0 + 30001)) m)"
    using session_deadline [OF _ r, of 0 30001]
    by (simp add: opens_session_def startsWith_def demo_session_def node0_def)
  with r show ?thesis by blast
qed

end
