(* ===== verification/ControlListen.thy ===== *)
theory ControlListen
  imports ConfigSync
begin

text \<open>
  The listening loop of \<open>tryReceiveConfigOnControlChannel\<close> in
  \<open>src/src/main.cpp\<close> as the code writes it: \<open>while (millis() - start <
  durationMs)\<close>, driven by the clock rather than by a list of events. Whether it
  ends depends on the clock, so it is a \<open>partial_function (option)\<close>, where not
  returning is \<open>None\<close>. The theorem of this theory is that it returns whenever
  the clock advances (each iteration ends in \<open>delay(50)\<close>), and returns what
  the event-list model \<open>ctrl_listen\<close> of \<open>ConfigSync\<close> computes on the events the
  loop reads.
\<close>

section \<open>The loop\<close>

text \<open>
  \<open>clk k\<close> is what \<open>millis()\<close> returns at the \<open>k\<close>-th test of the loop, \<open>rcv k\<close>
  the result of the \<open>radio.receive\<close> that follows it. A CFG frame that parses is
  applied and ends the loop (\<open>break\<close>).
\<close>
partial_function (option) listen_loop ::
  "ms \<Rightarrow> ms \<Rightarrow> (nat \<Rightarrow> ms) \<Rightarrow> (nat \<Rightarrow> rx_result) \<Rightarrow> nat \<Rightarrow> node \<Rightarrow> node option" where
  "listen_loop start dur clk rcv k n =
     (if \<not> clk k - start < dur then Some n
      else case rcv k of
             RxOk rx _ _ \<Rightarrow>
               (case parseCfg rx of
                  Some p \<Rightarrow> Some (savePersistedSettings (computeIndicesFromCurrent (n\<lparr>cur := p\<rparr>)))
                | None \<Rightarrow> listen_loop start dur clk rcv (Suc k) n)
           | RxFail _ \<Rightarrow> listen_loop start dur clk rcv (Suc k) n)"

text \<open>The events the loop reads from its \<open>k\<close>-th test up to the \<open>N\<close>-th.\<close>
definition listen_events :: "(nat \<Rightarrow> ms) \<Rightarrow> (nat \<Rightarrow> rx_result) \<Rightarrow> nat \<Rightarrow> nat \<Rightarrow> (ms \<times> rx_result) list" where
  "listen_events clk rcv k N = map (\<lambda>j. (clk j, rcv j)) [k..<N]"

section \<open>Termination\<close>

lemma listen_events_Cons:
  "k < N \<Longrightarrow> listen_events clk rcv k N = (clk k, rcv k) # listen_events clk rcv (Suc k) N"
  by (simp add: listen_events_def upt_conv_Cons)

text \<open>
  The induction behind the theorem: from a test \<open>k\<close> up to the test \<open>X\<close>, the
  first at which the real time \<open>e X\<close> since the start has reached the window,
  the loop returns the result of \<open>ctrl_listen\<close> on the events of the tests
  \<open>k\<close> to \<open>X\<close>. The induction is on the number of tests left.
\<close>
lemma listen_loop_from:
  fixes e :: "nat \<Rightarrow> nat"
  assumes step: "\<And>j. e j < e (Suc j) \<and> e (Suc j) < e j + (2 ^ 32 - unat dur)"
    and ek: "e k < 2 ^ 32" and kX: "k \<le> X"
    and exit: "unat dur \<le> e X" and inside: "\<And>j. j < X \<Longrightarrow> e j < unat dur"
  shows "listen_loop (word_of_nat t0) dur (\<lambda>j. word_of_nat (t0 + e j)) rcv k n =
           Some (ctrl_listen (word_of_nat t0) dur (listen_events (\<lambda>j. word_of_nat (t0 + e j)) rcv k (Suc X)) n)"
  using ek kX
proof (induction "X - k" arbitrary: k)
  case 0
  let ?clk = "\<lambda>j. word_of_nat (t0 + e j) :: ms"
  have "k = X" using 0 by simp
  have "unat (?clk k - word_of_nat t0) = e k" using elapsed_wrap [OF "0.prems"(1), of t0] by simp
  with exit \<open>k = X\<close> have "\<not> ?clk k - word_of_nat t0 < dur" by (simp add: word_less_nat_alt)
  with \<open>k = X\<close> show ?case
    by (simp add: listen_loop.simps listen_events_def)
next
  case (Suc m)
  let ?clk = "\<lambda>j. word_of_nat (t0 + e j) :: ms"
  have kX': "k < X" using Suc.hyps(2) by simp
  then have lt: "e k < unat dur" by (rule inside)
  have el: "unat (?clk k - word_of_nat t0) = e k" using elapsed_wrap [OF Suc.prems(1), of t0] by simp
  with lt have "?clk k - word_of_nat t0 < dur" by (simp add: word_less_nat_alt)
  have "unat dur < 2 ^ 32" using unsigned_less [of dur] by simp
  then have nxt: "e (Suc k) < 2 ^ 32" using step [of k] lt by linarith
  have IH: "listen_loop (word_of_nat t0) dur ?clk rcv (Suc k) n =
      Some (ctrl_listen (word_of_nat t0) dur (listen_events ?clk rcv (Suc k) (Suc X)) n)"
    using Suc.hyps(1) [of "Suc k"] Suc.hyps(2) nxt kX' by simp
  have ev: "listen_events ?clk rcv k (Suc X) = (?clk k, rcv k) # listen_events ?clk rcv (Suc k) (Suc X)"
    using kX' by (simp add: listen_events_Cons)
  show ?case
    unfolding ev using \<open>?clk k - word_of_nat t0 < dur\<close> IH
    by (simp add: listen_loop.simps [of _ _ _ _ k] del: of_nat_add split: rx_result.split option.split)
qed

lemma increasing_unbounded:
  fixes e :: "nat \<Rightarrow> nat"
  assumes "\<And>j. e j < e (Suc j)"
  shows "j \<le> e j"
  by (induction j) (auto intro: Suc_leI le_less_trans assms)

text \<open>
  C10: the clock-bounded listening loop returns whenever each iteration advances
  the real clock by at least 1 ms and by less than \<open>2^32 - durationMs\<close> ms. It
  returns what \<open>ctrl_listen\<close> computes on exactly the events it read: those of
  the tests up to the first test \<open>N\<close> at which \<open>durationMs\<close> have elapsed.
\<close>
theorem listen_loop_returns:
  fixes e :: "nat \<Rightarrow> nat"
  assumes "\<forall>j. e j < e (Suc j) \<and> e (Suc j) < e j + (2 ^ 32 - unat dur)" "e 0 < 2 ^ 32"
  shows "\<exists>N. unat dur \<le> e N \<and> (\<forall>j<N. e j < unat dur) \<and>
           listen_loop (word_of_nat t0) dur (\<lambda>j. word_of_nat (t0 + e j)) rcv 0 n =
           Some (ctrl_listen (word_of_nat t0) dur (listen_events (\<lambda>j. word_of_nat (t0 + e j)) rcv 0 (Suc N)) n)"
proof -
  have ex: "\<exists>j. unat dur \<le> e j"
    using increasing_unbounded [of e "unat dur"] assms(1) by blast
  define N where "N = (LEAST j. unat dur \<le> e j)"
  have exit: "unat dur \<le> e N" unfolding N_def using ex by (rule LeastI_ex)
  have inside: "e j < unat dur" if "j < N" for j
    using not_less_Least [OF that [unfolded N_def]] by simp
  show ?thesis
    using listen_loop_from [of e dur 0 N t0 rcv n] assms exit inside by blast
qed

theorem listen_loop_returns_witness:
  "\<exists>N. unat (4000::ms) \<le> 100 * N \<and> (\<forall>j<N. 100 * j < unat (4000::ms)) \<and>
     listen_loop (word_of_nat 5) 4000 (\<lambda>j. word_of_nat (5 + 100 * j)) (\<lambda>_. RxFail RADIOLIB_ERR_RX_TIMEOUT) 0
         (node0 Map.empty) =
       Some (ctrl_listen (word_of_nat 5) 4000
         (listen_events (\<lambda>j. word_of_nat (5 + 100 * j)) (\<lambda>_. RxFail RADIOLIB_ERR_RX_TIMEOUT) 0 (Suc N)) (node0 Map.empty))"
  using listen_loop_returns [of "\<lambda>j. 100 * j" 4000 5 "\<lambda>_. RxFail RADIOLIB_ERR_RX_TIMEOUT" "node0 Map.empty"]
  by simp

end
