(* ===== verification/SystemConfig.thy ===== *)
theory SystemConfig
  imports Loop HALPeriph
begin

text \<open>
  The centralised configuration of \<open>src/src/config/system_config.h\<close>
  (namespace \<open>SystemConfig\<close>): one record per nested namespace, one definition
  per namespace holding its \<open>constexpr\<close> values, floats as exact rationals and
  integers at their declared width. The firmware does not include this header
  (only the lightning-sensor header does); \<open>main.cpp\<close>, \<open>app_logic.cpp\<close> and the
  hardware layer repeat the values they need. The lemmas below check that the
  repeated values agree with the header, and record where they do not.
\<close>

section \<open>The namespaces\<close>

record Pins_ns =
  VEXT :: u8
  OLED_RST :: u8
  BUTTON :: u8
  I2C_SDA :: u8
  I2C_SCL :: u8
  LORA_NSS :: u8
  LORA_DIO1 :: u8
  LORA_RST :: u8
  LORA_BUSY :: u8
  LIGHTNING_IRQ :: u8
  LIGHTNING_CS :: u8
  LED_DATA :: u8
  BUZZER :: u8

definition SC_Pins :: Pins_ns where
  "SC_Pins = \<lparr>VEXT = 36, OLED_RST = 21, BUTTON = 0, I2C_SDA = 17, I2C_SCL = 18,
     LORA_NSS = 8, LORA_DIO1 = 14, LORA_RST = 12, LORA_BUSY = 13,
     LIGHTNING_IRQ = 4, LIGHTNING_CS = 5, LED_DATA = 2, BUZZER = 3\<rparr>"

text \<open>\<open>DEFAULT_TX_DBM\<close> is an \<open>int8_t\<close>; \<open>BW_OPTIONS_COUNT\<close> is the length of \<open>BW_OPTIONS\<close>.\<close>
record LoRa_ns =
  DEFAULT_FREQ_MHZ :: rat
  DEFAULT_BW_KHZ :: rat
  DEFAULT_SF :: u8
  DEFAULT_CR :: u8
  DEFAULT_TX_DBM :: "8 word"
  CTRL_FREQ_MHZ :: rat
  CTRL_BW_KHZ :: rat
  CTRL_SF :: u8
  CTRL_CR :: u8
  SF_MIN :: u8
  SF_MAX :: u8
  BW_OPTIONS :: "rat list"

definition SC_LoRa :: LoRa_ns where
  "SC_LoRa = \<lparr>DEFAULT_FREQ_MHZ = 915, DEFAULT_BW_KHZ = 125, DEFAULT_SF = 9, DEFAULT_CR = 5,
     DEFAULT_TX_DBM = 17, CTRL_FREQ_MHZ = 915, CTRL_BW_KHZ = 125, CTRL_SF = 9, CTRL_CR = 5,
     SF_MIN = 7, SF_MAX = 12, BW_OPTIONS = [125 / 2, 125, 250, 500]\<rparr>"

definition BW_OPTIONS_COUNT :: nat where
  "BW_OPTIONS_COUNT = length (BW_OPTIONS SC_LoRa)"

record Button_ns =
  DEBOUNCE_MS :: u32
  SHORT_PRESS_MS :: u32
  MEDIUM_PRESS_MS :: u32
  LONG_PRESS_MS :: u32

definition SC_Button :: Button_ns where
  "SC_Button = \<lparr>DEBOUNCE_MS = 50, SHORT_PRESS_MS = 100, MEDIUM_PRESS_MS = 1000, LONG_PRESS_MS = 3000\<rparr>"

record Display_ns =
  WIDTH :: u8
  HEIGHT :: u8
  UPDATE_INTERVAL_MS :: u32

definition SC_Display :: Display_ns where
  "SC_Display = \<lparr>WIDTH = 128, HEIGHT = 64, UPDATE_INTERVAL_MS = 100\<rparr>"

record Timing_ns =
  MAIN_LOOP_INTERVAL_MS :: u32
  STATUS_UPDATE_INTERVAL_MS :: u32
  PING_INTERVAL_MS :: u32

definition SC_Timing :: Timing_ns where
  "SC_Timing = \<lparr>MAIN_LOOP_INTERVAL_MS = 10, STATUS_UPDATE_INTERVAL_MS = 1000, PING_INTERVAL_MS = 2000\<rparr>"

record WiFi_ns =
  CONNECT_TIMEOUT_MS :: u32
  RETRY_DELAY_MS :: u32
  MAX_RETRIES :: u8

definition SC_WiFi :: WiFi_ns where
  "SC_WiFi = \<lparr>CONNECT_TIMEOUT_MS = 10000, RETRY_DELAY_MS = 1000, MAX_RETRIES = 3\<rparr>"

record OTA_ns =
  HOSTNAME :: string
  PASSWORD :: string
  FIRMWARE_BUFFER_SIZE :: nat
  CURRENT_VERSION :: u32

definition SC_OTA :: OTA_ns where
  "SC_OTA = \<lparr>HOSTNAME = ''LtngDet-Receiver'', PASSWORD = ''123456'', FIRMWARE_BUFFER_SIZE = 64 * 1024,
     CURRENT_VERSION = 0x010000\<rparr>"

record Lightning_ns =
  NOISE_FLOOR :: u8
  WATCHDOG_THRESHOLD :: u8
  SPIKE_REJECTION :: u8
  MIN_STRIKES :: u8

definition SC_Lightning :: Lightning_ns where
  "SC_Lightning = \<lparr>NOISE_FLOOR = 2, WATCHDOG_THRESHOLD = 2, SPIKE_REJECTION = 2, MIN_STRIKES = 5\<rparr>"

record LEDs_ns =
  COUNT :: "16 word"
  BRIGHTNESS :: u8
  ANIMATION_SPEED_MS :: u32

definition SC_LEDs :: LEDs_ns where
  "SC_LEDs = \<lparr>COUNT = 16, BRIGHTNESS = 128, ANIMATION_SPEED_MS = 50\<rparr>"

section \<open>Agreement with the values the firmware uses\<close>

text \<open>
  The compiled-in radio defaults, the control channel, the parameter tables and
  the firmware version of \<open>main.cpp\<close>, and the Vext pin of the hardware layer, are
  the header's.
\<close>
lemma lora_config_agrees:
  "default_params = \<lparr>freq = DEFAULT_FREQ_MHZ SC_LoRa, bw = DEFAULT_BW_KHZ SC_LoRa,
     sf = uint (DEFAULT_SF SC_LoRa), cr = uint (DEFAULT_CR SC_LoRa), txp = sint (DEFAULT_TX_DBM SC_LoRa)\<rparr>"
  "ctrl_params p = \<lparr>freq = CTRL_FREQ_MHZ SC_LoRa, bw = CTRL_BW_KHZ SC_LoRa,
     sf = uint (CTRL_SF SC_LoRa), cr = uint (CTRL_CR SC_LoRa), txp = p\<rparr>"
  "bwValues = BW_OPTIONS SC_LoRa" "length bwValues = BW_OPTIONS_COUNT"
  "sfValues = [uint (SF_MIN SC_LoRa) .. uint (SF_MAX SC_LoRa)]"
  "firmwareVersion (node0 st) = CURRENT_VERSION SC_OTA"
  "VEXT_PIN = VEXT SC_Pins"
  by (simp_all add: SC_LoRa_def SC_OTA_def SC_Pins_def default_params_def ctrl_params_def
      LORA_FREQ_MHZ_def LORA_BW_KHZ_def LORA_SF_def LORA_CR_def LORA_TX_DBM_def bwValues_def
      sfValues_def BW_OPTIONS_COUNT_def node0_def VEXT_PIN_def upto.simps)

text \<open>
  The press classification of \<open>app_logic.cpp\<close> (and the inline thresholds of
  \<open>updateButton()\<close>, by \<open>buttonRelease_classifyPress\<close>) is the classification by
  the header's \<open>SHORT_PRESS_MS\<close>, \<open>MEDIUM_PRESS_MS\<close> and \<open>LONG_PRESS_MS\<close>. Its
  \<open>DEBOUNCE_MS\<close> of 50 ms is used nowhere: presses up to 99 ms are ignored.
\<close>
lemma button_config_agrees:
  "classifyPress d =
     (if d < SHORT_PRESS_MS SC_Button then Ignore
      else if d < MEDIUM_PRESS_MS SC_Button then ToggleMode
      else if d < LONG_PRESS_MS SC_Button then CycleSF
      else CycleBW)"
  by (simp add: classifyPress_def SC_Button_def)

end
