(* ===== verification/GPSNav.thy ===== *)
theory GPSNav
  imports GPS
begin

text \<open>
  \<open>UC6580::distanceTo\<close> and \<open>UC6580::bearingTo\<close> of
  \<open>src/src/sensors/gps_sensor.cpp\<close>: the haversine distance and the initial
  bearing from the current fix to a point. The code computes in \<open>double\<close> and
  returns a \<open>float\<close>; the model computes exactly over the reals, with C's
  \<open>atan2\<close> written out from \<open>arctan\<close>. These are the only definitions of the
  development that do not evaluate (the reals' trigonometric functions are not
  executable); the lemmas are about their ranges.
\<close>

section \<open>The library functions\<close>

text \<open>C's \<open>atan2(y, x)\<close>: the angle of the point \<open>(x, y)\<close>, in \<open>(-pi, pi]\<close>.\<close>
definition atan2 :: "real \<Rightarrow> real \<Rightarrow> real" where
  "atan2 y x =
     (if 0 < x then arctan (y / x)
      else if x < 0 then (if 0 \<le> y then arctan (y / x) + pi else arctan (y / x) - pi)
      else if 0 < y then pi / 2 else if y < 0 then - (pi / 2) else 0)"

text \<open>\<open>M_PI / 180\<close>: degrees to radians.\<close>
definition rad :: "real \<Rightarrow> real" where
  "rad x = x * pi / 180"

section \<open>Distance and bearing\<close>

text \<open>The haversine term \<open>a\<close> of \<open>distanceTo\<close> for the two points.\<close>
definition haversine :: "real \<Rightarrow> real \<Rightarrow> real \<Rightarrow> real \<Rightarrow> real" where
  "haversine lat1 lon1 lat2 lon2 =
     (let dlat = rad (lat2 - lat1); dlon = rad (lon2 - lon1) in
      sin (dlat / 2) * sin (dlat / 2) + cos (rad lat1) * cos (rad lat2) * sin (dlon / 2) * sin (dlon / 2))"

text \<open>\<open>distanceTo(lat, lon)\<close> in km, \<open>-1\<close> without a valid fix.\<close>
definition distanceTo :: "UC6580 \<Rightarrow> real \<Rightarrow> real \<Rightarrow> real" where
  "distanceTo g lat lon =
     (if \<not> hasValidFix (m_data g) then -1
      else let a = haversine (of_rat (latitude (m_data g))) (of_rat (longitude (m_data g))) lat lon;
               c = 2 * atan2 (sqrt a) (sqrt (1 - a))
           in 6371 * c)"

text \<open>The normalisation of \<open>bearingTo\<close>: a negative angle gets 360 degrees added.\<close>
definition norm_bearing :: "real \<Rightarrow> real" where
  "norm_bearing deg = (if deg < 0 then deg + 360 else deg)"

text \<open>\<open>bearingTo(lat, lon)\<close> in degrees.\<close>
definition bearingTo :: "UC6580 \<Rightarrow> real \<Rightarrow> real \<Rightarrow> real" where
  "bearingTo g lat lon =
     (if \<not> hasValidFix (m_data g) then -1
      else let lat1 = rad (of_rat (latitude (m_data g))); lat2 = rad lat;
               dlon = rad (lon - of_rat (longitude (m_data g)));
               y = sin dlon * cos lat2;
               x = cos lat1 * sin lat2 - sin lat1 * cos lat2 * cos dlon;
               deg = atan2 y x * 180 / pi
           in norm_bearing deg)"

section \<open>Ranges\<close>

lemma atan2_range: "- pi < atan2 y x \<and> atan2 y x \<le> pi"
proof -
  have b: "- (pi / 2) < arctan t" "arctan t < pi / 2" for t
    using arctan_bounded [of t] by auto
  have s: "0 \<le> y \<Longrightarrow> x < 0 \<Longrightarrow> arctan (y / x) \<le> 0" "y < 0 \<Longrightarrow> x < 0 \<Longrightarrow> 0 < arctan (y / x)"
    by (simp_all add: arctan_le_zero_iff zero_less_arctan_iff divide_nonneg_neg divide_neg_neg)
  show ?thesis
    using b [of "y / x"] s pi_gt_zero by (auto simp: atan2_def)
qed

lemma atan2_nonneg:
  assumes "0 \<le> y" "0 \<le> x"
  shows "0 \<le> atan2 y x \<and> atan2 y x \<le> pi / 2"
proof (cases "0 < x")
  case True
  have "0 \<le> arctan (y / x)" using assms True by (simp add: arctan_le_zero_iff [symmetric] not_le)
  moreover have "arctan (y / x) < pi / 2" using arctan_ubound by blast
  ultimately show ?thesis using True by (simp add: atan2_def)
next
  case False
  with assms show ?thesis by (auto simp: atan2_def)
qed

lemma half_sin_sq: "sin (t / 2) * sin (t / 2) = (1 - cos t) / (2::real)"
  using cos_double_sin [of "t / 2"] by (simp add: power2_eq_square)

lemma rad_diff: "rad (a - b) = rad a - rad b"
  by (simp add: rad_def algebra_simps diff_divide_distrib)

text \<open>The haversine term is \<open>(1 - X) / 2\<close> for the cosine \<open>X\<close> of the central angle.\<close>
lemma haversine_eq:
  "haversine lat1 lon1 lat2 lon2 =
     (1 - (sin (rad lat1) * sin (rad lat2) + cos (rad lat1) * cos (rad lat2) * cos (rad (lon2 - lon1)))) / 2"
proof -
  have c: "cos (rad (lat2 - lat1)) = cos (rad lat2) * cos (rad lat1) + sin (rad lat2) * sin (rad lat1)"
    by (simp add: rad_diff cos_diff)
  have "haversine lat1 lon1 lat2 lon2 =
      sin (rad (lat2 - lat1) / 2) * sin (rad (lat2 - lat1) / 2) +
      cos (rad lat1) * cos (rad lat2) * (sin (rad (lon2 - lon1) / 2) * sin (rad (lon2 - lon1) / 2))"
    by (simp add: haversine_def Let_def mult.assoc)
  also have "\<dots> = (1 - cos (rad (lat2 - lat1))) / 2 +
      cos (rad lat1) * cos (rad lat2) * ((1 - cos (rad (lon2 - lon1))) / 2)"
    by (simp only: half_sin_sq)
  also have "\<dots> = (1 - (sin (rad lat1) * sin (rad lat2) +
      cos (rad lat1) * cos (rad lat2) * cos (rad (lon2 - lon1)))) / 2"
    by (simp add: c field_simps)
  finally show ?thesis .
qed

text \<open>Lagrange's identity for two pairs, the step of the Cauchy-Schwarz bound below.\<close>
lemma lagrange_pair:
  fixes a b c d k :: real
  shows "(a * b + c * d * k)\<^sup>2 + (a * d * k - c * b)\<^sup>2 = (a\<^sup>2 + c\<^sup>2) * (b\<^sup>2 + d\<^sup>2 * k\<^sup>2)"
  by (simp add: power2_eq_square algebra_simps)

lemma central_cos_bound:
  assumes "\<bar>k\<bar> \<le> (1::real)"
  shows "\<bar>sin p * sin q + cos p * cos q * k\<bar> \<le> 1"
proof -
  have "(sin p * sin q + cos p * cos q * k)\<^sup>2 + (sin p * cos q * k - cos p * sin q)\<^sup>2 =
        ((sin p)\<^sup>2 + (cos p)\<^sup>2) * ((sin q)\<^sup>2 + (cos q)\<^sup>2 * k\<^sup>2)"
    by (rule lagrange_pair)
  also have "\<dots> = (sin q)\<^sup>2 + (cos q)\<^sup>2 * k\<^sup>2" by (simp only: sin_cos_squared_add mult_1)
  also have "\<dots> \<le> (sin q)\<^sup>2 + (cos q)\<^sup>2"
    by (intro add_left_mono mult_left_le) (use assms abs_square_le_1 [of k] in simp_all)
  finally have "(sin p * sin q + cos p * cos q * k)\<^sup>2 \<le> 1"
    using sin_cos_squared_add [of q] zero_le_power2 [of "sin p * cos q * k - cos p * sin q"] by linarith
  then show ?thesis by (simp add: abs_square_le_1)
qed

lemma haversine_range: "0 \<le> haversine lat1 lon1 lat2 lon2 \<and> haversine lat1 lon1 lat2 lon2 \<le> 1"
  using central_cos_bound [OF abs_cos_le_one [of "rad (lon2 - lon1)"], of "rad lat1" "rad lat2"]
  by (simp add: haversine_eq abs_le_iff)

lemma atan2_zero_right: "0 < x \<Longrightarrow> atan2 0 x = 0"
  by (simp add: atan2_def)

text \<open>
  With a valid fix, the distance is never negative and at most half a great
  circle, \<open>6371 * pi\<close> km, so the \<open>-1\<close> of the no-fix case is never a distance:
  the haversine term stays in \<open>[0, 1]\<close> (Cauchy-Schwarz), and both square roots
  are of non-negative numbers.
\<close>
theorem distance_range:
  assumes "hasValidFix (m_data g)"
  shows "0 \<le> distanceTo g lat lon \<and> distanceTo g lat lon \<le> 6371 * pi"
proof -
  let ?a = "haversine (of_rat (latitude (m_data g))) (of_rat (longitude (m_data g))) lat lon"
  have "0 \<le> atan2 (sqrt ?a) (sqrt (1 - ?a)) \<and> atan2 (sqrt ?a) (sqrt (1 - ?a)) \<le> pi / 2"
    using haversine_range by (intro atan2_nonneg) simp_all
  then show ?thesis using assms by (simp add: distanceTo_def Let_def)
qed

lemma distance_self:
  assumes "hasValidFix (m_data g)"
  shows "distanceTo g (of_rat (latitude (m_data g))) (of_rat (longitude (m_data g))) = 0"
  using assms by (simp add: distanceTo_def haversine_def rad_def atan2_zero_right)

text \<open>With a valid fix, the bearing lies in \<open>[0, 360)\<close> degrees.\<close>
theorem bearing_range:
  assumes "hasValidFix (m_data g)"
  shows "0 \<le> bearingTo g lat lon \<and> bearingTo g lat lon < 360"
proof -
  have r: "- 180 < atan2 y x * 180 / pi \<and> atan2 y x * 180 / pi \<le> 180" for y x
    using atan2_range [of y x] pi_gt_zero by (simp add: field_simps)
  have "0 \<le> norm_bearing (atan2 y x * 180 / pi) \<and> norm_bearing (atan2 y x * 180 / pi) < 360" for y x
    using r [of y x] by (auto simp: norm_bearing_def)
  then show ?thesis
    using assms by (simp add: bearingTo_def Let_def)
qed

definition fixed_gps :: UC6580 where
  "fixed_gps = (gps0 (\<lambda>_. []))\<lparr>m_data := data0\<lparr>valid := True, fix_type := FIX_3D,
     latitude := 4840 / 100, longitude := 235 / 100\<rparr>\<rparr>"

lemma fixed_gps_valid: "hasValidFix (m_data fixed_gps)"
  by (simp add: fixed_gps_def gps0_def hasValidFix_def)

theorem distance_range_witness: "0 \<le> distanceTo fixed_gps 51 0 \<and> distanceTo fixed_gps 51 0 \<le> 6371 * pi"
  using distance_range [OF fixed_gps_valid] .

theorem distance_self_witness: "distanceTo fixed_gps (4840 / 100) (235 / 100) = 0"
  using distance_self [OF fixed_gps_valid] by (simp add: fixed_gps_def of_rat_divide)

theorem bearing_range_witness: "0 \<le> bearingTo fixed_gps 51 0 \<and> bearingTo fixed_gps 51 0 < 360"
  using bearing_range [OF fixed_gps_valid] .

end
