(* ===== verification/HALSystem.thy ===== *)
theory HALSystem
  imports HALPeriph
begin

text \<open>
  The remaining services of \<open>src/src/hardware/hardware_abstraction.cpp\<close> in its
  Arduino build: \<open>isInitialized\<close>, the clock of \<open>Timer\<close> (\<open>millis\<close> and
  \<open>delay\<close>), \<open>Power::wakeup\<close>, the heap calls of \<open>Memory\<close>, and
  \<open>System\<close> (chip information, restart and the task watchdog). What the
  ESP-IDF and Arduino libraries answer is the environment \<open>sys_env\<close>; the heap
  is the set of live allocations; the watchdog calls are the list of ESP-IDF
  calls made. The microsecond clock (\<open>micros\<close>, \<open>delayMicroseconds\<close>) is not
  part of the model: the state keeps time in milliseconds only.
\<close>

record sys_env =
  malloc_r :: "nat \<Rightarrow> nat option"
  free_heap :: u32
  min_free_heap :: u32
  largest_free_block :: u32
  chip_revision :: u8
  efuse_mac :: "64 word"
  flash_chip_size :: u32
  cpu_freq_mhz :: u32

definition isInitialized :: "hal \<Rightarrow> bool" where
  "isInitialized h = g_initialized h"

section \<open>Clock\<close>

definition Timer_millis :: "hal \<Rightarrow> u32" where
  "Timer_millis h = clock h"

text \<open>\<open>delay(ms)\<close> blocks while the millisecond clock advances by \<open>ms\<close>, modulo \<open>2^32\<close>.\<close>
definition Timer_delay :: "u32 \<Rightarrow> hal \<Rightarrow> hal" where
  "Timer_delay ms h = h\<lparr>clock := clock h + ms\<rparr>"

definition Power_wakeup :: Result where
  "Power_wakeup = SUCCESS"

section \<open>Heap\<close>

definition Memory_allocate :: "sys_env \<Rightarrow> nat \<Rightarrow> nat set \<Rightarrow> nat option \<times> nat set" where
  "Memory_allocate env sz live =
     (case malloc_r env sz of None \<Rightarrow> (None, live) | Some p \<Rightarrow> (Some p, insert p live))"

definition Memory_deallocate :: "nat option \<Rightarrow> nat set \<Rightarrow> nat set" where
  "Memory_deallocate ptr live = (case ptr of None \<Rightarrow> live | Some p \<Rightarrow> live - {p})"

definition Memory_getFreeHeap :: "sys_env \<Rightarrow> nat" where
  "Memory_getFreeHeap env = unat (free_heap env)"

definition Memory_getMinFreeHeap :: "sys_env \<Rightarrow> nat" where
  "Memory_getMinFreeHeap env = unat (min_free_heap env)"

definition Memory_getMaxAllocHeap :: "sys_env \<Rightarrow> nat" where
  "Memory_getMaxAllocHeap env = unat (largest_free_block env)"

section \<open>System\<close>

text \<open>\<open>struct System::Info\<close>; \<open>cpuFreq\<close> is a \<open>float\<close>, an exact rational here.\<close>
record Info =
  chipModel :: string
  chipRevision :: u8
  chipId :: u32
  flashSize :: u32
  freeHeap :: u32
  uptime :: u32
  cpuFreq :: rat

text \<open>
  \<open>getSystemInfo\<close>: \<open>ESP.getEfuseMac()\<close> is a \<open>uint64_t\<close> holding the six MAC
  bytes, stored into the \<open>uint32_t chipId\<close>, which keeps its low 32 bits.
\<close>
definition getSystemInfo :: "sys_env \<Rightarrow> hal \<Rightarrow> Info" where
  "getSystemInfo env h =
     \<lparr>chipModel = ''ESP32-S3'', chipRevision = chip_revision env, chipId = ucast (efuse_mac env),
      flashSize = flash_chip_size env, freeHeap = free_heap env, uptime = clock h,
      cpuFreq = of_nat (unat (cpu_freq_mhz env))\<rparr>"

text \<open>\<open>ESP.restart()\<close> does not return: the chip resets.\<close>
datatype restart_exit = SoftwareReset

definition restart :: "restart_exit" where
  "restart = SoftwareReset"

text \<open>The calls of the task-watchdog API, with the timeout in seconds and the panic flag.\<close>
datatype wdt_call = WdtInit nat bool | WdtAdd | WdtReset | WdtDelete | WdtDeinit

definition enableWatchdog :: "u32 \<Rightarrow> wdt_call list" where
  "enableWatchdog timeoutMs = [WdtInit (unat timeoutMs div 1000) True, WdtAdd]"

definition feedWatchdog :: "wdt_call list" where
  "feedWatchdog = [WdtReset]"

definition disableWatchdog :: "wdt_call list" where
  "disableWatchdog = [WdtDelete, WdtDeinit]"

text \<open>An environment with the given eFuse MAC and every other answer zero.\<close>
definition mac_env :: "64 word \<Rightarrow> sys_env" where
  "mac_env mac = \<lparr>malloc_r = (\<lambda>_. None), free_heap = 0, min_free_heap = 0, largest_free_block = 0,
     chip_revision = 0, efuse_mac = mac, flash_chip_size = 0, cpu_freq_mhz = 0\<rparr>"

section \<open>Lemmas\<close>

text \<open>
  C32: The watchdog is armed with the timeout rounded down to whole seconds: every
  timeout below one second arms it with 0 seconds, and up to 999 ms of any
  longer timeout are lost.
\<close>
theorem watchdog_seconds:
  "\<exists>secs. enableWatchdog t = [WdtInit secs True, WdtAdd] \<and>
     1000 * secs \<le> unat t \<and> unat t < 1000 * (secs + 1) \<and> (secs = 0 \<longleftrightarrow> unat t < 1000)"
proof (intro exI conjI)
  let ?s = "unat t div 1000"
  show "enableWatchdog t = [WdtInit ?s True, WdtAdd]" by (simp add: enableWatchdog_def)
  show "1000 * ?s \<le> unat t" by (simp add: mult.commute)
  show "unat t < 1000 * (?s + 1)"
    using dividend_less_times_div [of 1000 "unat t"] by simp
  show "?s = 0 \<longleftrightarrow> unat t < 1000" by auto
qed

text \<open>
  C31: The chip id keeps only the low 32 bits of the 48-bit MAC: two boards whose
  MACs differ only in bits 32 to 47 (on the little-endian ESP32, the last two
  MAC bytes) report the same id.
\<close>
theorem chipId_drops_mac_bytes:
  assumes "take_bit 32 (efuse_mac e1) = take_bit 32 (efuse_mac e2)"
  shows "chipId (getSystemInfo e1 h) = chipId (getSystemInfo e2 h)"
proof -
  have "(ucast (efuse_mac e1) :: u32) = ucast (efuse_mac e2)"
  proof (rule bit_word_eqI)
    fix n :: nat
    assume n: "n < LENGTH(32)"
    have "bit (take_bit 32 (efuse_mac e1)) n = bit (take_bit 32 (efuse_mac e2)) n"
      using assms by simp
    with n show "bit (ucast (efuse_mac e1) :: u32) n = bit (ucast (efuse_mac e2) :: u32) n"
      by (simp add: bit_ucast_iff bit_take_bit_iff)
  qed
  then show ?thesis by (simp add: getSystemInfo_def)
qed

lemma allocate_deallocate:
  "Memory_allocate env n live = (Some p, live') \<Longrightarrow> p \<notin> live \<Longrightarrow> Memory_deallocate (Some p) live' = live"
  by (auto simp: Memory_allocate_def Memory_deallocate_def split: option.splits)

lemma delay_millis: "Timer_millis (Timer_delay d h) = Timer_millis h + d"
  by (simp add: Timer_millis_def Timer_delay_def)

text \<open>The boards with MACs 24:6F:28:AA:BB:CC and 24:6F:28:AA:11:22 report one chip id.\<close>
theorem chipId_drops_mac_bytes_witness:
  "efuse_mac (mac_env 0xCCBBAA286F24) \<noteq> efuse_mac (mac_env 0x2211AA286F24) \<and>
   chipId (getSystemInfo (mac_env 0xCCBBAA286F24) (hal0 (\<lambda>_. LEVEL_LOW))) =
   chipId (getSystemInfo (mac_env 0x2211AA286F24) (hal0 (\<lambda>_. LEVEL_LOW)))"
  using chipId_drops_mac_bytes [of "mac_env 0xCCBBAA286F24" "mac_env 0x2211AA286F24" "hal0 (\<lambda>_. LEVEL_LOW)"]
  by (simp add: mac_env_def)

end
