(* ===== verification/ErrorHandling.thy ===== *)
theory ErrorHandling
  imports Prelude
begin

text \<open>
  The types of \<open>src/src/system/error_handler.h\<close> (namespace \<open>ErrorHandling\<close>):
  severities, categories and error codes as datatypes with the values the
  enumerators carry, and \<open>ErrorInfo\<close> as a record. The header only declares the
  reporting functions (\<open>reportError\<close>, \<open>hasErrors\<close>, \<ldots>); the repository has
  no body for them, so they are not modelled. Severities are ordered by their
  value, the order \<open>hasErrors(minSeverity)\<close> is declared over.
\<close>

datatype Severity = INFO | WARNING | ERROR | CRITICAL

primrec severityValue :: "Severity \<Rightarrow> nat" where
  "severityValue INFO = 0"
| "severityValue WARNING = 1"
| "severityValue ERROR = 2"
| "severityValue CRITICAL = 3"

instantiation Severity :: linorder
begin

definition less_eq_Severity :: "Severity \<Rightarrow> Severity \<Rightarrow> bool" where
  "less_eq_Severity a b = (severityValue a \<le> severityValue b)"

definition less_Severity :: "Severity \<Rightarrow> Severity \<Rightarrow> bool" where
  "less_Severity a b = (severityValue a < severityValue b)"

instance
proof
  fix a b c :: Severity
  show "a \<le> a" by (simp add: less_eq_Severity_def)
  show "a < b \<longleftrightarrow> a \<le> b \<and> \<not> b \<le> a" by (auto simp: less_eq_Severity_def less_Severity_def)
  show "a \<le> b \<Longrightarrow> b \<le> c \<Longrightarrow> a \<le> c" by (simp add: less_eq_Severity_def)
  show "a \<le> b \<or> b \<le> a" by (auto simp: less_eq_Severity_def)
  show "a \<le> b \<Longrightarrow> b \<le> a \<Longrightarrow> a = b"
    by (cases a; cases b) (simp_all add: less_eq_Severity_def)
qed

end

datatype Category = HARDWARE | RADIO | WIFI | SENSOR | ACTUATOR | OTA | SYSTEM | CONFIG

primrec categoryValue :: "Category \<Rightarrow> nat" where
  "categoryValue HARDWARE = 0"
| "categoryValue RADIO = 1"
| "categoryValue WIFI = 2"
| "categoryValue SENSOR = 3"
| "categoryValue ACTUATOR = 4"
| "categoryValue OTA = 5"
| "categoryValue SYSTEM = 6"
| "categoryValue CONFIG = 7"

datatype Code =
    OLED_INIT_FAILED | I2C_COMMUNICATION_FAILED | POWER_MANAGEMENT_FAILED
  | RADIO_INIT_FAILED | RADIO_TX_FAILED | RADIO_RX_FAILED | RADIO_CONFIG_FAILED
  | WIFI_CONNECT_FAILED | WIFI_TIMEOUT | WIFI_AUTH_FAILED | WIFI_CONFIG_INVALID
  | SENSOR_INIT_FAILED | SENSOR_READ_FAILED | SENSOR_CALIBRATION_FAILED
  | LED_INIT_FAILED | LED_UPDATE_FAILED | BUZZER_INIT_FAILED
  | OTA_INIT_FAILED | OTA_DOWNLOAD_FAILED | OTA_VERIFICATION_FAILED | OTA_STORAGE_FAILED
  | MEMORY_ALLOCATION_FAILED | TASK_CREATION_FAILED | WATCHDOG_TIMEOUT
  | CONFIG_LOAD_FAILED | CONFIG_SAVE_FAILED | CONFIG_VALIDATION_FAILED

text \<open>The explicit values of the enumerators of \<open>Code\<close>.\<close>
primrec codeValue :: "Code \<Rightarrow> nat" where
  "codeValue OLED_INIT_FAILED = 100"
| "codeValue I2C_COMMUNICATION_FAILED = 101"
| "codeValue POWER_MANAGEMENT_FAILED = 102"
| "codeValue RADIO_INIT_FAILED = 200"
| "codeValue RADIO_TX_FAILED = 201"
| "codeValue RADIO_RX_FAILED = 202"
| "codeValue RADIO_CONFIG_FAILED = 203"
| "codeValue WIFI_CONNECT_FAILED = 300"
| "codeValue WIFI_TIMEOUT = 301"
| "codeValue WIFI_AUTH_FAILED = 302"
| "codeValue WIFI_CONFIG_INVALID = 303"
| "codeValue SENSOR_INIT_FAILED = 400"
| "codeValue SENSOR_READ_FAILED = 401"
| "codeValue SENSOR_CALIBRATION_FAILED = 402"
| "codeValue LED_INIT_FAILED = 500"
| "codeValue LED_UPDATE_FAILED = 501"
| "codeValue BUZZER_INIT_FAILED = 502"
| "codeValue OTA_INIT_FAILED = 600"
| "codeValue OTA_DOWNLOAD_FAILED = 601"
| "codeValue OTA_VERIFICATION_FAILED = 602"
| "codeValue OTA_STORAGE_FAILED = 603"
| "codeValue MEMORY_ALLOCATION_FAILED = 700"
| "codeValue TASK_CREATION_FAILED = 701"
| "codeValue WATCHDOG_TIMEOUT = 702"
| "codeValue CONFIG_LOAD_FAILED = 800"
| "codeValue CONFIG_SAVE_FAILED = 801"
| "codeValue CONFIG_VALIDATION_FAILED = 802"

text \<open>The group each code is declared in, by the comments of the enumeration.\<close>
primrec codeCategory :: "Code \<Rightarrow> Category" where
  "codeCategory OLED_INIT_FAILED = HARDWARE"
| "codeCategory I2C_COMMUNICATION_FAILED = HARDWARE"
| "codeCategory POWER_MANAGEMENT_FAILED = HARDWARE"
| "codeCategory RADIO_INIT_FAILED = RADIO"
| "codeCategory RADIO_TX_FAILED = RADIO"
| "codeCategory RADIO_RX_FAILED = RADIO"
| "codeCategory RADIO_CONFIG_FAILED = RADIO"
| "codeCategory WIFI_CONNECT_FAILED = WIFI"
| "codeCategory WIFI_TIMEOUT = WIFI"
| "codeCategory WIFI_AUTH_FAILED = WIFI"
| "codeCategory WIFI_CONFIG_INVALID = WIFI"
| "codeCategory SENSOR_INIT_FAILED = SENSOR"
| "codeCategory SENSOR_READ_FAILED = SENSOR"
| "codeCategory SENSOR_CALIBRATION_FAILED = SENSOR"
| "codeCategory LED_INIT_FAILED = ACTUATOR"
| "codeCategory LED_UPDATE_FAILED = ACTUATOR"
| "codeCategory BUZZER_INIT_FAILED = ACTUATOR"
| "codeCategory OTA_INIT_FAILED = OTA"
| "codeCategory OTA_DOWNLOAD_FAILED = OTA"
| "codeCategory OTA_VERIFICATION_FAILED = OTA"
| "codeCategory OTA_STORAGE_FAILED = OTA"
| "codeCategory MEMORY_ALLOCATION_FAILED = SYSTEM"
| "codeCategory TASK_CREATION_FAILED = SYSTEM"
| "codeCategory WATCHDOG_TIMEOUT = SYSTEM"
| "codeCategory CONFIG_LOAD_FAILED = CONFIG"
| "codeCategory CONFIG_SAVE_FAILED = CONFIG"
| "codeCategory CONFIG_VALIDATION_FAILED = CONFIG"

text \<open>The enumerators in declaration order.\<close>
definition all_codes :: "Code list" where
  "all_codes = [OLED_INIT_FAILED, I2C_COMMUNICATION_FAILED, POWER_MANAGEMENT_FAILED,
     RADIO_INIT_FAILED, RADIO_TX_FAILED, RADIO_RX_FAILED, RADIO_CONFIG_FAILED,
     WIFI_CONNECT_FAILED, WIFI_TIMEOUT, WIFI_AUTH_FAILED, WIFI_CONFIG_INVALID,
     SENSOR_INIT_FAILED, SENSOR_READ_FAILED, SENSOR_CALIBRATION_FAILED,
     LED_INIT_FAILED, LED_UPDATE_FAILED, BUZZER_INIT_FAILED,
     OTA_INIT_FAILED, OTA_DOWNLOAD_FAILED, OTA_VERIFICATION_FAILED, OTA_STORAGE_FAILED,
     MEMORY_ALLOCATION_FAILED, TASK_CREATION_FAILED, WATCHDOG_TIMEOUT,
     CONFIG_LOAD_FAILED, CONFIG_SAVE_FAILED, CONFIG_VALIDATION_FAILED]"

text \<open>\<open>struct ErrorInfo\<close>; a \<open>const char*\<close> is \<open>None\<close> when it is \<open>nullptr\<close>.\<close>
record ErrorInfo =
  code :: Code
  category :: Category
  severity :: Severity
  timestamp :: u32
  message :: "string option"
  module :: "string option"
  data :: u32

section \<open>The code table\<close>

lemma code_in_all_codes: "c \<in> set all_codes"
  by (cases c) (simp_all add: all_codes_def)

lemma codeValue_inj: "inj_on codeValue (set all_codes)"
  by (simp add: all_codes_def)

text \<open>
  Every error code lies in the hundred its comment announces for its group
  (hardware 100-199, radio 200-299, \<ldots>, configuration 800-899), that is in
  the hundred numbered by its category's value plus one, and the integer
  value of a code reads back to that code: no two enumerators share a value.
\<close>
theorem code_ranges:
  "codeValue c div 100 = categoryValue (codeCategory c) + 1 \<and>
   decode_enum codeValue all_codes (codeValue c) = Some c"
proof
  show "codeValue c div 100 = categoryValue (codeCategory c) + 1" by (cases c) simp_all
  show "decode_enum codeValue all_codes (codeValue c) = Some c"
    by (rule decode_enum_encode [OF codeValue_inj code_in_all_codes])
qed

lemma severity_order: "INFO < WARNING \<and> WARNING < Severity.ERROR \<and> Severity.ERROR < CRITICAL"
  by (simp add: less_Severity_def)

end
