(* ===== verification/Logging.thy ===== *)
theory Logging
  imports Prelude
begin

text \<open>
  The types of \<open>src/src/system/logger.h\<close> (namespace \<open>Logging\<close>): the log
  levels with their values and their order, the categories, the destinations as
  bits of a \<open>uint8_t\<close> mask, the defaults of \<open>initialize()\<close> and the \<open>LogStats\<close>
  record. The logging functions are declared without a body anywhere in the
  repository and are not modelled; the \<open>LOG_*\<close> macros name a namespace
  \<open>Logger\<close> that does not exist, so they cannot be expanded either.
\<close>

datatype LogLevel = TRACE | DEBUG | INFO | WARN | ERROR | FATAL

primrec levelValue :: "LogLevel \<Rightarrow> nat" where
  "levelValue TRACE = 0"
| "levelValue DEBUG = 1"
| "levelValue INFO = 2"
| "levelValue WARN = 3"
| "levelValue ERROR = 4"
| "levelValue FATAL = 5"

instantiation LogLevel :: linorder
begin

definition less_eq_LogLevel :: "LogLevel \<Rightarrow> LogLevel \<Rightarrow> bool" where
  "less_eq_LogLevel a b = (levelValue a \<le> levelValue b)"

definition less_LogLevel :: "LogLevel \<Rightarrow> LogLevel \<Rightarrow> bool" where
  "less_LogLevel a b = (levelValue a < levelValue b)"

instance
proof
  fix a b c :: LogLevel
  show "a \<le> a" by (simp add: less_eq_LogLevel_def)
  show "a < b \<longleftrightarrow> a \<le> b \<and> \<not> b \<le> a" by (auto simp: less_eq_LogLevel_def less_LogLevel_def)
  show "a \<le> b \<Longrightarrow> b \<le> c \<Longrightarrow> a \<le> c" by (simp add: less_eq_LogLevel_def)
  show "a \<le> b \<or> b \<le> a" by (auto simp: less_eq_LogLevel_def)
  show "a \<le> b \<Longrightarrow> b \<le> a \<Longrightarrow> a = b"
    by (cases a; cases b) (simp_all add: less_eq_LogLevel_def)
qed

end

datatype LogCategory = SYSTEM | HARDWARE | RADIO | WIFI | SENSOR | ACTUATOR | OTA | UI | CONFIG | TEST

datatype Destination = SERIAL | DISPLAY | RADIO | STORAGE

primrec destValue :: "Destination \<Rightarrow> 8 word" where
  "destValue SERIAL = 1"
| "destValue DISPLAY = 2"
| "destValue RADIO = 4"
| "destValue STORAGE = 8"

definition all_destinations :: "Destination list" where
  "all_destinations = [SERIAL, DISPLAY, RADIO, STORAGE]"

text \<open>The default arguments of \<open>initialize(minLevel, destinations)\<close>.\<close>
definition default_minLevel :: LogLevel where
  "default_minLevel = INFO"

definition default_destinations :: "8 word" where
  "default_destinations = destValue SERIAL"

text \<open>\<open>struct LogStats\<close>: \<open>messagesByLevel[6]\<close> has one counter per level.\<close>
record LogStats =
  totalMessages :: u32
  messagesByLevel :: "u32 list"
  droppedMessages :: u32
  uptime :: u32

section \<open>Lemmas\<close>

lemma destinations_single_bits:
  "single_bits destValue (\<lambda>d. case d of SERIAL \<Rightarrow> 0 | DISPLAY \<Rightarrow> 1 | RADIO \<Rightarrow> 2 | STORAGE \<Rightarrow> 3)
     all_destinations"
  by (rule single_bitsI) (simp_all add: all_destinations_def)

lemma destination_in_all: "d \<in> set all_destinations"
  by (cases d) (simp_all add: all_destinations_def)

text \<open>
  A destination mask built with \<open>|\<close> from any destinations has exactly their
  bits set: testing each destination's bit of the mask gives back the
  destinations it was built from, the default \<open>SERIAL\<close> alone included.
\<close>
theorem destination_mask_roundtrip:
  "set (flags_in destValue all_destinations (flag_mask destValue ds)) = set ds"
proof -
  have "set ds \<subseteq> set all_destinations" using destination_in_all by blast
  moreover have "destValue d \<noteq> 0" for d by (cases d) simp_all
  ultimately show ?thesis
    using flags_in_flag_mask [OF destinations_single_bits] by simp
qed

text \<open>Every level indexes a counter of \<open>messagesByLevel[6]\<close>, and \<open>INFO\<close> passes exactly the levels from \<open>INFO\<close> up.\<close>
lemma level_index: "levelValue l < 6"
  by (cases l) simp_all

lemma default_level_passes: "default_minLevel \<le> l \<longleftrightarrow> l \<notin> {TRACE, DEBUG}"
  by (cases l) (simp_all add: default_minLevel_def less_eq_LogLevel_def)

end
