(* ===== verification/StateMachine.thy ===== *)
theory StateMachine
  imports Prelude
begin

text \<open>
  The state-machine framework of \<open>src/src/system/state_machine.h\<close> (namespace
  \<open>SystemStateMachine\<close>): the states, events and transition results with the
  values their enumerators carry, \<open>Transition\<close> with its two constructors, the
  base \<open>StateHandler\<close> with its inline methods, the predefined handlers'
  constructors and the engine's fields with its private constructor. Callbacks
  (\<open>std::function\<close>) are named by a number, \<open>None\<close> for an empty one, as the
  HAL model names its timer callbacks. The engine's operations
  (\<open>processEvent\<close>, \<open>addTransition\<close>, \<ldots>) and the handlers' overrides are
  declared without a body anywhere in the repository and are not modelled.
\<close>

datatype SystemState = BOOT | INIT | IDLE | SENDER | RECEIVER | CONFIG | OTA_UPDATE | ERROR
  | SLEEP | SHUTDOWN

primrec stateValue :: "SystemState \<Rightarrow> nat" where
  "stateValue BOOT = 0"
| "stateValue INIT = 1"
| "stateValue IDLE = 2"
| "stateValue SENDER = 3"
| "stateValue RECEIVER = 4"
| "stateValue CONFIG = 5"
| "stateValue OTA_UPDATE = 6"
| "stateValue ERROR = 7"
| "stateValue SLEEP = 8"
| "stateValue SHUTDOWN = 9"

definition all_states :: "SystemState list" where
  "all_states = [BOOT, INIT, IDLE, SENDER, RECEIVER, CONFIG, OTA_UPDATE, ERROR, SLEEP, SHUTDOWN]"

datatype Event = POWER_ON | INIT_COMPLETE | BUTTON_SHORT | BUTTON_MEDIUM | BUTTON_LONG
  | BUTTON_VERY_LONG | LORA_MESSAGE | WIFI_CONNECTED | WIFI_DISCONNECTED | OTA_AVAILABLE
  | SENSOR_TRIGGER | ERROR_OCCURRED | TIMEOUT | SLEEP_REQUEST | WAKEUP | SHUTDOWN_REQUEST | CUSTOM

primrec eventValue :: "Event \<Rightarrow> nat" where
  "eventValue POWER_ON = 0"
| "eventValue INIT_COMPLETE = 1"
| "eventValue BUTTON_SHORT = 2"
| "eventValue BUTTON_MEDIUM = 3"
| "eventValue BUTTON_LONG = 4"
| "eventValue BUTTON_VERY_LONG = 5"
| "eventValue LORA_MESSAGE = 6"
| "eventValue WIFI_CONNECTED = 7"
| "eventValue WIFI_DISCONNECTED = 8"
| "eventValue OTA_AVAILABLE = 9"
| "eventValue SENSOR_TRIGGER = 10"
| "eventValue ERROR_OCCURRED = 11"
| "eventValue TIMEOUT = 12"
| "eventValue SLEEP_REQUEST = 13"
| "eventValue WAKEUP = 14"
| "eventValue SHUTDOWN_REQUEST = 15"
| "eventValue CUSTOM = 16"

definition all_events :: "Event list" where
  "all_events = [POWER_ON, INIT_COMPLETE, BUTTON_SHORT, BUTTON_MEDIUM, BUTTON_LONG,
     BUTTON_VERY_LONG, LORA_MESSAGE, WIFI_CONNECTED, WIFI_DISCONNECTED, OTA_AVAILABLE,
     SENSOR_TRIGGER, ERROR_OCCURRED, TIMEOUT, SLEEP_REQUEST, WAKEUP, SHUTDOWN_REQUEST, CUSTOM]"

datatype TransitionResult = SUCCESS | INVALID_EVENT | TRANSITION_BLOCKED | ACTION_FAILED
  | INVALID_STATE

primrec resultValue :: "TransitionResult \<Rightarrow> nat" where
  "resultValue SUCCESS = 0"
| "resultValue INVALID_EVENT = 1"
| "resultValue TRANSITION_BLOCKED = 2"
| "resultValue ACTION_FAILED = 3"
| "resultValue INVALID_STATE = 4"

section \<open>Transitions and handlers\<close>

text \<open>\<open>struct Transition\<close>: the guard and the action are optional callbacks.\<close>
record Transition =
  fromState :: SystemState
  triggerEvent :: Event
  toState :: SystemState
  guard :: "nat option"
  action :: "nat option"

text \<open>The default constructor: \<open>BOOT\<close> on \<open>POWER_ON\<close> to \<open>INIT\<close>, no guard, no action.\<close>
definition Transition_default :: Transition where
  "Transition_default = \<lparr>fromState = BOOT, triggerEvent = POWER_ON, toState = INIT,
     guard = None, action = None\<rparr>"

text \<open>\<open>Transition(from, event, to, guardFn = nullptr, actionFn = nullptr)\<close>.\<close>
definition Transition_make :: "SystemState \<Rightarrow> Event \<Rightarrow> SystemState \<Rightarrow> nat option \<Rightarrow> nat option \<Rightarrow> Transition" where
  "Transition_make from event to guardFn actionFn =
     \<lparr>fromState = from, triggerEvent = event, toState = to, guard = guardFn, action = actionFn\<rparr>"

record StateHandler =
  handlerState :: SystemState
  handlerName :: string
  entryAction :: "nat option"
  exitAction :: "nat option"
  updateAction :: "nat option"

text \<open>\<open>StateHandler(state, name)\<close>: the three actions start empty.\<close>
definition StateHandler_make :: "SystemState \<Rightarrow> string \<Rightarrow> StateHandler" where
  "StateHandler_make st nm = \<lparr>handlerState = st, handlerName = nm, entryAction = None, exitAction = None,
     updateAction = None\<rparr>"

text \<open>The inline virtual methods of the base class: entry succeeds and every event may pass.\<close>
definition onEntry :: "StateHandler \<Rightarrow> bool" where
  "onEntry h = True"

definition canTransition :: "StateHandler \<Rightarrow> Event \<Rightarrow> bool" where
  "canTransition h e = True"

definition setEntryAction :: "nat option \<Rightarrow> StateHandler \<Rightarrow> StateHandler" where
  "setEntryAction a h = h\<lparr>entryAction := a\<rparr>"

definition setExitAction :: "nat option \<Rightarrow> StateHandler \<Rightarrow> StateHandler" where
  "setExitAction a h = h\<lparr>exitAction := a\<rparr>"

definition setUpdateAction :: "nat option \<Rightarrow> StateHandler \<Rightarrow> StateHandler" where
  "setUpdateAction a h = h\<lparr>updateAction := a\<rparr>"

text \<open>The constructors of the predefined handlers.\<close>
definition BootState :: StateHandler where "BootState = StateHandler_make BOOT ''Boot''"
definition InitState :: StateHandler where "InitState = StateHandler_make INIT ''Initialize''"
definition IdleState :: StateHandler where "IdleState = StateHandler_make IDLE ''Idle''"
definition SenderState :: StateHandler where "SenderState = StateHandler_make SENDER ''Sender''"
definition ReceiverState :: StateHandler where "ReceiverState = StateHandler_make RECEIVER ''Receiver''"
definition ConfigState :: StateHandler where "ConfigState = StateHandler_make CONFIG ''Config''"
definition ErrorState :: StateHandler where "ErrorState = StateHandler_make ERROR ''Error''"

definition predefined_handlers :: "StateHandler list" where
  "predefined_handlers = [BootState, InitState, IdleState, SenderState, ReceiverState, ConfigState,
     ErrorState]"

section \<open>The engine\<close>

definition MAX_STATES :: nat where "MAX_STATES = 16"
definition MAX_TRANSITIONS :: nat where "MAX_TRANSITIONS = 32"
definition MAX_DELAYED_EVENTS :: nat where "MAX_DELAYED_EVENTS = 8"

text \<open>\<open>StateEntry\<close>: the handler (an index, \<open>None\<close> for \<open>nullptr\<close>) and whether it is active.\<close>
record StateEntry =
  handler :: "nat option"
  isActive :: bool

record DelayedEvent =
  event :: Event
  devData :: u32
  triggerTime :: u32
  devActive :: bool

record StateMachineEngine =
  states :: "StateEntry list"
  stateCount :: nat
  transitions :: "Transition list"
  transitionCount :: nat
  delayedEvents :: "DelayedEvent list"
  initialized :: bool
  running :: bool
  currentState :: SystemState
  previousState :: SystemState
  stateEntryTime :: u32
  stateChangeCount :: u32
  timeoutSet :: bool
  timeoutTime :: u32
  eventCallback :: "nat option"
  stateChangeCallback :: "nat option"

text \<open>
  The private constructor, run on the singleton's static storage: the storage is
  zeroed first (so the enumerations hold their first enumerator), the
  \<open>Transition\<close> array is default-constructed and the initialiser list sets
  \<open>initialized_\<close>, \<open>running_\<close> and \<open>currentState_\<close>.
\<close>
definition StateMachineEngine_make :: StateMachineEngine where
  "StateMachineEngine_make =
     \<lparr>states = replicate MAX_STATES \<lparr>handler = None, isActive = False\<rparr>, stateCount = 0,
      transitions = replicate MAX_TRANSITIONS Transition_default, transitionCount = 0,
      delayedEvents = replicate MAX_DELAYED_EVENTS
        \<lparr>event = POWER_ON, devData = 0, triggerTime = 0, devActive = False\<rparr>,
      initialized = False, running = False, currentState = BOOT, previousState = BOOT,
      stateEntryTime = 0, stateChangeCount = 0, timeoutSet = False, timeoutTime = 0,
      eventCallback = None, stateChangeCallback = None\<rparr>"

definition setEventCallback :: "nat option \<Rightarrow> StateMachineEngine \<Rightarrow> StateMachineEngine" where
  "setEventCallback cb e = e\<lparr>eventCallback := cb\<rparr>"

definition setStateChangeCallback :: "nat option \<Rightarrow> StateMachineEngine \<Rightarrow> StateMachineEngine" where
  "setStateChangeCallback cb e = e\<lparr>stateChangeCallback := cb\<rparr>"

section \<open>Lemmas\<close>

lemma state_in_all: "s \<in> set all_states"
  by (cases s) (simp_all add: all_states_def)

lemma event_in_all: "e \<in> set all_events"
  by (cases e) (simp_all add: all_events_def)

text \<open>
  The implicit values of the three enumerations are their declaration
  positions, as \<open>test_state_machine.cpp\<close> asserts, and a state or event read
  back from its integer value is the same state or event.
\<close>
theorem enum_values:
  "map stateValue all_states = [0..<10] \<and> map eventValue all_events = [0..<17] \<and>
   map resultValue [SUCCESS, INVALID_EVENT, TRANSITION_BLOCKED, ACTION_FAILED, INVALID_STATE] = [0..<5] \<and>
   decode_enum stateValue all_states (stateValue s) = Some s \<and>
   decode_enum eventValue all_events (eventValue e) = Some e"
proof (intro conjI)
  show "decode_enum stateValue all_states (stateValue s) = Some s"
    by (rule decode_enum_encode [OF _ state_in_all]) (simp add: all_states_def)
  show "decode_enum eventValue all_events (eventValue e) = Some e"
    by (rule decode_enum_encode [OF _ event_in_all]) (simp add: all_events_def)
qed (simp_all add: all_states_def all_events_def upt_rec)

text \<open>The base handler admits every event, and each predefined handler carries its state and its name.\<close>
lemma handlers_named:
  "canTransition h e"
  "map (\<lambda>h. (handlerState h, handlerName h)) predefined_handlers =
     [(BOOT, ''Boot''), (INIT, ''Initialize''), (IDLE, ''Idle''), (SENDER, ''Sender''),
      (RECEIVER, ''Receiver''), (CONFIG, ''Config''), (ERROR, ''Error'')]"
  by (simp_all add: canTransition_def predefined_handlers_def BootState_def InitState_def
      IdleState_def SenderState_def ReceiverState_def ConfigState_def ErrorState_def StateHandler_make_def)

text \<open>A freshly constructed engine is stopped in \<open>BOOT\<close>, with full-size, empty tables.\<close>
lemma engine_made:
  "\<not> initialized StateMachineEngine_make \<and> \<not> running StateMachineEngine_make \<and>
   currentState StateMachineEngine_make = BOOT \<and>
   length (states StateMachineEngine_make) = MAX_STATES \<and>
   length (transitions StateMachineEngine_make) = MAX_TRANSITIONS \<and>
   length (delayedEvents StateMachineEngine_make) = MAX_DELAYED_EVENTS \<and>
   stateCount StateMachineEngine_make = 0 \<and> transitionCount StateMachineEngine_make = 0"
  by (simp add: StateMachineEngine_make_def)

end
