(* ===== verification/SensorSystem.thy ===== *)
theory SensorSystem
  imports Prelude
begin

text \<open>
  The data types of the sensor framework, \<open>src/src/sensors/sensor_interface.h\<close>
  (namespace \<open>SensorSystem\<close>): sensor states and data types, the \<open>Reading\<close>
  structure with its value union, the capability flags of a \<open>uint16_t\<close> mask,
  and the private state of the \<open>SensorManager\<close> singleton. \<open>ISensor\<close> is a pure
  interface, and the manager's methods and the utility functions
  (\<open>createBoolReading\<close>, \<open>hasCapability\<close>, \<ldots>) are declared without a body
  anywhere in the repository; they are not modelled.
\<close>

datatype SensorState = UNINITIALIZED | INITIALIZING | READY | READING | ERROR | DISABLED

datatype DataType = BOOLEAN | INTEGER | FLOAT | STRING | BINARY

text \<open>
  The anonymous union of \<open>Reading\<close>, one constructor per member; the member a
  reader may use is the one \<open>type\<close> names (\<open>readingType\<close>). Pointers are \<open>None\<close> when null.
\<close>
datatype ReadingValue = boolValue bool | intValue "32 word" | floatValue rat
  | stringValue "string option" | binaryValue "8 word list option"

record Reading =
  timestamp :: u32
  readingType :: DataType
  rname :: "string option"
  runit :: "string option"
  rvalue :: ReadingValue
  isValid :: bool
  errorCode :: u32

text \<open>The member of the union that a reading's \<open>type\<close> selects is the one it holds.\<close>
definition reading_consistent :: "Reading \<Rightarrow> bool" where
  "reading_consistent r =
     (case (readingType r, rvalue r) of
        (BOOLEAN, boolValue _) \<Rightarrow> True
      | (INTEGER, intValue _) \<Rightarrow> True
      | (FLOAT, floatValue _) \<Rightarrow> True
      | (STRING, stringValue _) \<Rightarrow> True
      | (BINARY, binaryValue _) \<Rightarrow> True
      | _ \<Rightarrow> False)"

datatype Capability = NONE | INTERRUPT_CAPABLE | CONFIGURABLE | SELF_TEST | CALIBRATION
  | MULTI_CHANNEL | POWER_MANAGEMENT | THRESHOLD_DETECTION | DATA_LOGGING

primrec capValue :: "Capability \<Rightarrow> 16 word" where
  "capValue NONE = 0"
| "capValue INTERRUPT_CAPABLE = 1"
| "capValue CONFIGURABLE = 2"
| "capValue SELF_TEST = 4"
| "capValue CALIBRATION = 8"
| "capValue MULTI_CHANNEL = 16"
| "capValue POWER_MANAGEMENT = 32"
| "capValue THRESHOLD_DETECTION = 64"
| "capValue DATA_LOGGING = 128"

definition all_capabilities :: "Capability list" where
  "all_capabilities = [NONE, INTERRUPT_CAPABLE, CONFIGURABLE, SELF_TEST, CALIBRATION,
     MULTI_CHANNEL, POWER_MANAGEMENT, THRESHOLD_DETECTION, DATA_LOGGING]"

section \<open>The sensor manager\<close>

definition MAX_SENSORS :: nat where "MAX_SENSORS = 8"

text \<open>\<open>SensorEntry\<close>: the sensor (an index, \<open>None\<close> for \<open>nullptr\<close>) and its bookkeeping.\<close>
record SensorEntry =
  sensor :: "nat option"
  seActive :: bool
  lastUpdate :: u32
  seErrorCount :: u32

record SensorManager =
  sensors :: "SensorEntry list"
  sensorCount :: nat
  globalReadingCallback :: "nat option"
  globalErrorCallback :: "nat option"

text \<open>\<open>SensorManager() = default\<close> on the singleton's zeroed static storage.\<close>
definition SensorManager_make :: SensorManager where
  "SensorManager_make =
     \<lparr>sensors = replicate MAX_SENSORS \<lparr>sensor = None, seActive = False, lastUpdate = 0, seErrorCount = 0\<rparr>,
      sensorCount = 0, globalReadingCallback = None, globalErrorCallback = None\<rparr>"

section \<open>Lemmas\<close>

lemma capability_in_all: "c \<in> set all_capabilities"
  by (cases c) (simp_all add: all_capabilities_def)

lemma capabilities_single_bits:
  "single_bits capValue
     (\<lambda>c. case c of NONE \<Rightarrow> 0 | INTERRUPT_CAPABLE \<Rightarrow> 0 | CONFIGURABLE \<Rightarrow> 1 | SELF_TEST \<Rightarrow> 2
        | CALIBRATION \<Rightarrow> 3 | MULTI_CHANNEL \<Rightarrow> 4 | POWER_MANAGEMENT \<Rightarrow> 5 | THRESHOLD_DETECTION \<Rightarrow> 6
        | DATA_LOGGING \<Rightarrow> 7)
     all_capabilities"
  by (rule single_bitsI) (simp_all add: all_capabilities_def)

text \<open>
  A capability mask built with \<open>|\<close> has the bit of exactly the capabilities it
  was built from, except \<open>NONE\<close>: its value 0 sets no bit, so no mask tests
  positive for it.
\<close>
lemma capability_mask_roundtrip:
  "set (flags_in capValue all_capabilities (flag_mask capValue cs)) = set cs - {NONE}"
proof -
  have "set cs \<subseteq> set all_capabilities" using capability_in_all by blast
  moreover have "capValue c \<noteq> 0 \<longleftrightarrow> c \<noteq> NONE" for c by (cases c) simp_all
  ultimately show ?thesis
    using flags_in_flag_mask [OF capabilities_single_bits] by auto
qed

end
