(* ===== verification/LightningSensor.thy ===== *)
theory LightningSensor
  imports SensorSystem SystemConfig
begin

text \<open>
  The AS3935 lightning-sensor class of \<open>src/src/sensors/lightning_sensor.h\<close>
  (namespace \<open>Sensors\<close>): its data records, the register and interrupt
  enumerations with their values, the object's fields, its inline methods and
  constants, and the driver's error codes. The methods that talk to the chip
  (\<open>initialize\<close>, \<open>readSensor\<close>, the setters, \<ldots>) and the constructor are
  declared without a body anywhere in the repository; they are not modelled.
  The valid ranges of the configuration are those the header's comments give,
  and the defaults of \<open>SystemConfig::Lightning\<close> lie in them.
\<close>

record LightningData =
  lightningDetected :: bool
  distance :: u8
  energy :: u32
  strikeCount :: u8
  lastStrikeTime :: u32
  isDisturber :: bool
  noiseLevel :: u8

text \<open>
  \<open>enum class AS3935Register : uint8_t\<close>: an enumerator is its register address,
  and several enumerators share one, so the type is the address itself.
\<close>
type_synonym AS3935Register = u8

definition AFE_GAIN :: AS3935Register where "AFE_GAIN = 0x00"
definition PWD :: AS3935Register where "PWD = 0x00"
definition NF_LEV :: AS3935Register where "NF_LEV = 0x01"
definition WDTH :: AS3935Register where "WDTH = 0x01"
definition CL_STAT :: AS3935Register where "CL_STAT = 0x02"
definition MIN_NUM_LIGH :: AS3935Register where "MIN_NUM_LIGH = 0x02"
definition SREJ :: AS3935Register where "SREJ = 0x02"
definition LCO_FDIV :: AS3935Register where "LCO_FDIV = 0x03"
definition MASK_DIST :: AS3935Register where "MASK_DIST = 0x03"
definition DISP_LCO :: AS3935Register where "DISP_LCO = 0x08"
definition DISP_SRCO :: AS3935Register where "DISP_SRCO = 0x08"
definition DISP_TRCO :: AS3935Register where "DISP_TRCO = 0x08"
definition TUN_CAP :: AS3935Register where "TUN_CAP = 0x08"

definition as3935_registers :: "AS3935Register list" where
  "as3935_registers = [AFE_GAIN, PWD, NF_LEV, WDTH, CL_STAT, MIN_NUM_LIGH, SREJ, LCO_FDIV,
     MASK_DIST, DISP_LCO, DISP_SRCO, DISP_TRCO, TUN_CAP]"

datatype InterruptReason = NOISE | DISTURBER | LIGHTNING

primrec irqValue :: "InterruptReason \<Rightarrow> u8" where
  "irqValue NOISE = 0x01"
| "irqValue DISTURBER = 0x04"
| "irqValue LIGHTNING = 0x08"

record LightningConfig =
  noiseFloor :: u8
  watchdogThreshold :: u8
  spikeRejection :: u8
  minimumStrikes :: u8
  indoorMode :: bool
  disturbersLightning :: bool
  tuningCapacitor :: u8

record LightningStatistics =
  totalLightning :: u32
  totalDisturbers :: u32
  totalNoise :: u32
  lastActivity :: u32
  communicationErrors :: u32
  calibrationCount :: u32

text \<open>The fields of a \<open>LightningSensor\<close>; the callbacks are named by a number.\<close>
record LightningSensor =
  lsState :: SensorState
  config :: LightningConfig
  stats :: LightningStatistics
  lastLightning :: LightningData
  lsHasNewData :: bool
  readingCount :: u32
  lastError :: u32
  readingCallback :: "nat option"
  errorCallback :: "nat option"
  stateChangeCallback :: "nat option"
  interruptPending :: bool

section \<open>Inline methods\<close>

definition getState :: "LightningSensor \<Rightarrow> SensorState" where "getState s = lsState s"
definition getId :: string where "getId = ''AS3935''"
definition getName :: string where "getName = ''Lightning Sensor''"
definition hasNewData :: "LightningSensor \<Rightarrow> bool" where "hasNewData s = lsHasNewData s"
definition getReadingCount :: "LightningSensor \<Rightarrow> u32" where "getReadingCount s = readingCount s"
definition getLastError :: "LightningSensor \<Rightarrow> u32" where "getLastError s = lastError s"

definition LightningSensor_setReadingCallback :: "nat option \<Rightarrow> LightningSensor \<Rightarrow> LightningSensor" where
  "LightningSensor_setReadingCallback cb s = s\<lparr>readingCallback := cb\<rparr>"
definition LightningSensor_setErrorCallback :: "nat option \<Rightarrow> LightningSensor \<Rightarrow> LightningSensor" where
  "LightningSensor_setErrorCallback cb s = s\<lparr>errorCallback := cb\<rparr>"
definition LightningSensor_setStateChangeCallback :: "nat option \<Rightarrow> LightningSensor \<Rightarrow> LightningSensor" where
  "LightningSensor_setStateChangeCallback cb s = s\<lparr>stateChangeCallback := cb\<rparr>"

definition getNoiseFloor :: "LightningSensor \<Rightarrow> u8" where "getNoiseFloor s = noiseFloor (config s)"
definition getWatchdogThreshold :: "LightningSensor \<Rightarrow> u8" where
  "getWatchdogThreshold s = watchdogThreshold (config s)"
definition getSpikeRejection :: "LightningSensor \<Rightarrow> u8" where
  "getSpikeRejection s = spikeRejection (config s)"
definition getMinimumStrikes :: "LightningSensor \<Rightarrow> u8" where
  "getMinimumStrikes s = minimumStrikes (config s)"
definition isIndoorMode :: "LightningSensor \<Rightarrow> bool" where "isIndoorMode s = indoorMode (config s)"
definition areDisturbersLightning :: "LightningSensor \<Rightarrow> bool" where
  "areDisturbersLightning s = disturbersLightning (config s)"

definition getTotalLightningCount :: "LightningSensor \<Rightarrow> u32" where
  "getTotalLightningCount s = totalLightning (stats s)"
definition getTotalDisturberCount :: "LightningSensor \<Rightarrow> u32" where
  "getTotalDisturberCount s = totalDisturbers (stats s)"
definition getTotalNoiseEvents :: "LightningSensor \<Rightarrow> u32" where
  "getTotalNoiseEvents s = totalNoise (stats s)"
definition getLastActivityTime :: "LightningSensor \<Rightarrow> u32" where
  "getLastActivityTime s = lastActivity (stats s)"

section \<open>Constants\<close>

definition CHIP_ID :: u8 where "CHIP_ID = 0x3C"
definition RESET_DELAY_MS :: u32 where "RESET_DELAY_MS = 2"
definition CALIBRATION_TIMEOUT_MS :: u32 where "CALIBRATION_TIMEOUT_MS = 2000"
definition INTERRUPT_TIMEOUT_MS :: u32 where "INTERRUPT_TIMEOUT_MS = 100"

text \<open>\<open>namespace LightningErrorCodes\<close>.\<close>
definition CHIP_NOT_FOUND :: u32 where "CHIP_NOT_FOUND = 1001"
definition COMMUNICATION_FAILED :: u32 where "COMMUNICATION_FAILED = 1002"
definition CALIBRATION_FAILED :: u32 where "CALIBRATION_FAILED = 1003"
definition INVALID_CONFIGURATION :: u32 where "INVALID_CONFIGURATION = 1004"
definition INTERRUPT_SETUP_FAILED :: u32 where "INTERRUPT_SETUP_FAILED = 1005"
definition TANK_TUNING_FAILED :: u32 where "TANK_TUNING_FAILED = 1006"
definition RCO_CALIBRATION_FAILED :: u32 where "RCO_CALIBRATION_FAILED = 1007"

definition lightning_error_codes :: "u32 list" where
  "lightning_error_codes = [CHIP_NOT_FOUND, COMMUNICATION_FAILED, CALIBRATION_FAILED,
     INVALID_CONFIGURATION, INTERRUPT_SETUP_FAILED, TANK_TUNING_FAILED, RCO_CALIBRATION_FAILED]"

text \<open>The ranges the comments of \<open>Config\<close> and of the setters give for each field.\<close>
definition config_in_range :: "LightningConfig \<Rightarrow> bool" where
  "config_in_range c =
     (noiseFloor c \<le> 7 \<and> watchdogThreshold c \<le> 15 \<and> spikeRejection c \<le> 15 \<and>
      minimumStrikes c \<in> {1, 5, 9, 16} \<and> tuningCapacitor c \<le> 15)"

text \<open>The configuration \<open>SystemConfig::Lightning\<close> prescribes, outdoors and with the tank capacitor untuned.\<close>
definition sc_lightning_config :: LightningConfig where
  "sc_lightning_config =
     \<lparr>noiseFloor = NOISE_FLOOR SC_Lightning, watchdogThreshold = WATCHDOG_THRESHOLD SC_Lightning,
      spikeRejection = SPIKE_REJECTION SC_Lightning, minimumStrikes = MIN_STRIKES SC_Lightning,
      indoorMode = False, disturbersLightning = False, tuningCapacitor = 0\<rparr>"

section \<open>Lemmas\<close>

text \<open>The thirteen register names denote five addresses: a name does not say which field of its register it means.\<close>
lemma register_addresses:
  "remdups as3935_registers = [0x00, 0x01, 0x02, 0x03, 0x08]"
  "PWD = AFE_GAIN" "WDTH = NF_LEV" "SREJ = CL_STAT" "MASK_DIST = LCO_FDIV" "TUN_CAP = DISP_LCO"
  by (simp_all add: as3935_registers_def AFE_GAIN_def PWD_def NF_LEV_def WDTH_def CL_STAT_def
      MIN_NUM_LIGH_def SREJ_def LCO_FDIV_def MASK_DIST_def DISP_LCO_def DISP_SRCO_def DISP_TRCO_def
      TUN_CAP_def)

text \<open>The interrupt reasons are distinct single bits of the interrupt register.\<close>
lemma interrupt_reasons:
  "single_bits irqValue (\<lambda>r. case r of NOISE \<Rightarrow> 0 | DISTURBER \<Rightarrow> 2 | LIGHTNING \<Rightarrow> 3)
     [NOISE, DISTURBER, LIGHTNING]"
  by (rule single_bitsI) simp_all

text \<open>
  The lightning defaults of the central configuration lie in the ranges the
  driver's header documents, and the driver's error codes are distinct and
  above the framework's error codes.
\<close>
lemma sc_lightning_in_range:
  "config_in_range sc_lightning_config"
  "distinct lightning_error_codes \<and> (\<forall>c \<in> set lightning_error_codes. 900 < unat c)"
  by (simp_all add: config_in_range_def sc_lightning_config_def SC_Lightning_def lightning_error_codes_def
      CHIP_NOT_FOUND_def COMMUNICATION_FAILED_def CALIBRATION_FAILED_def INVALID_CONFIGURATION_def
      INTERRUPT_SETUP_FAILED_def TANK_TUNING_FAILED_def RCO_CALIBRATION_FAILED_def)

end
