(* ===== verification/ActuatorSystem.thy ===== *)
theory ActuatorSystem
  imports Prelude
begin

text \<open>
  The data types of the actuator framework, \<open>src/src/actuators/actuator_interface.h\<close>
  (namespace \<open>ActuatorSystem\<close>): actuator states and kinds, the \<open>Color\<close>
  structure with its \<open>constexpr\<close> constructor and the predefined colours,
  animations and sound patterns, the \<open>Command\<close> structure with its union of
  per-kind parameters, and the private state of the \<open>ActuatorManager\<close>
  singleton. \<open>IActuator\<close> is a pure interface; \<open>Color::fromHSV\<close>,
  \<open>fromHex\<close>, \<open>toHex\<close>, the manager's methods and the command builders are
  declared without a body anywhere in the repository and are not modelled.
\<close>

datatype ActuatorState = UNINITIALIZED | INITIALIZING | READY | ACTIVE | ERROR | DISABLED

datatype ActuatorType = LED_STRIP | LED_SINGLE | BUZZER | DISPLAY | MOTOR | RELAY | CUSTOM

record Color =
  red :: u8
  green :: u8
  blue :: u8
  white :: u8

text \<open>\<open>constexpr Color(r = 0, g = 0, b = 0, w = 0)\<close>, all four arguments given.\<close>
definition Color_make :: "u8 \<Rightarrow> u8 \<Rightarrow> u8 \<Rightarrow> u8 \<Rightarrow> Color" where
  "Color_make r g b w = \<lparr>red = r, green = g, blue = b, white = w\<rparr>"

text \<open>\<open>namespace Colors\<close>: three arguments, so white is the default 0.\<close>
definition BLACK :: Color where "BLACK = Color_make 0 0 0 0"
definition WHITE :: Color where "WHITE = Color_make 255 255 255 0"
definition RED :: Color where "RED = Color_make 255 0 0 0"
definition GREEN :: Color where "GREEN = Color_make 0 255 0 0"
definition BLUE :: Color where "BLUE = Color_make 0 0 255 0"
definition YELLOW :: Color where "YELLOW = Color_make 255 255 0 0"
definition CYAN :: Color where "CYAN = Color_make 0 255 255 0"
definition MAGENTA :: Color where "MAGENTA = Color_make 255 0 255 0"
definition ORANGE :: Color where "ORANGE = Color_make 255 165 0 0"
definition PURPLE :: Color where "PURPLE = Color_make 128 0 128 0"

definition predefined_colors :: "Color list" where
  "predefined_colors = [BLACK, WHITE, RED, GREEN, BLUE, YELLOW, CYAN, MAGENTA, ORANGE, PURPLE]"

datatype Animation = NONE | FADE | BLINK | PULSE | RAINBOW | CHASE | SPARKLE | LIGHTNING | CUSTOM

datatype SoundPattern = NONE | BEEP | DOUBLE_BEEP | TRIPLE_BEEP | LONG_BEEP | ALARM | MUSICAL_NOTE
  | CUSTOM

section \<open>Commands\<close>

record LedParams =
  startIndex :: "16 word"
  count :: "16 word"
  color :: Color
  animation :: Animation
  animationSpeed :: "16 word"
  brightness :: u8

text \<open>The buzzer's own \<open>uint16_t duration\<close>, beside the command's \<open>uint32_t\<close> one.\<close>
record BuzzerParams =
  pattern :: SoundPattern
  frequency :: "16 word"
  volume :: u8
  bduration :: "16 word"

record DisplayParams =
  cursorX :: u8
  cursorY :: u8
  dtext :: "string option"
  font :: u8
  clear :: bool

record GenericParams =
  parameter1 :: u32
  parameter2 :: u32
  gdata :: "u8 list option"
  dataSize :: nat

text \<open>The anonymous union of \<open>Command\<close>, one constructor per member.\<close>
datatype CommandParams = led LedParams | buzzer BuzzerParams | display DisplayParams
  | generic GenericParams

record Command =
  ctype :: ActuatorType
  ctimestamp :: u32
  duration :: u32
  priority :: u8
  params :: CommandParams

section \<open>The actuator manager\<close>

definition MAX_ACTUATORS :: nat where "MAX_ACTUATORS = 8"

record ActuatorEntry =
  actuator :: "nat option"
  aeActive :: bool
  aeLastUpdate :: u32
  aeErrorCount :: u32

record ActuatorManager =
  actuators :: "ActuatorEntry list"
  actuatorCount :: nat
  globalCompletionCallback :: "nat option"
  globalErrorCallback :: "nat option"

text \<open>\<open>ActuatorManager() = default\<close> on the singleton's zeroed static storage.\<close>
definition ActuatorManager_make :: ActuatorManager where
  "ActuatorManager_make =
     \<lparr>actuators = replicate MAX_ACTUATORS
        \<lparr>actuator = None, aeActive = False, aeLastUpdate = 0, aeErrorCount = 0\<rparr>,
      actuatorCount = 0, globalCompletionCallback = None, globalErrorCallback = None\<rparr>"

section \<open>Lemmas\<close>

text \<open>
  The ten predefined colours are distinct RGB colours with the white channel
  off; \<open>WHITE\<close> is full red, green and blue, not the white LED of an RGBW strip.
\<close>
lemma predefined_colors_rgb:
  "distinct predefined_colors \<and> (\<forall>c \<in> set predefined_colors. white c = 0) \<and>
   WHITE = \<lparr>red = 255, green = 255, blue = 255, white = 0\<rparr>"
  by (simp add: predefined_colors_def BLACK_def WHITE_def RED_def GREEN_def BLUE_def YELLOW_def
      CYAN_def MAGENTA_def ORANGE_def PURPLE_def Color_make_def)

end
