(* ===== verification/CommunicationSystem.thy ===== *)
theory CommunicationSystem
  imports Prelude
begin

text \<open>
  The data types of the communication framework,
  \<open>src/src/communication/communication_interface.h\<close> (namespace
  \<open>CommunicationSystem\<close>): channels, message types, priorities and states,
  the message header, the \<open>Message\<close> structure with its inline constructor and
  destructor, the statistics record and the private state of the
  \<open>CommunicationManager\<close> singleton with its constructor. The payload is a
  pointer into a heap of arrays, the set of live allocations.
  \<open>ICommunication\<close> is a pure interface; the manager's methods, the message
  builders, \<open>calculateChecksum\<close>, and the copy and move members of
  \<open>Message\<close> are declared without a body anywhere in the repository and are
  not modelled.
\<close>

datatype Channel = LORA_DATA | LORA_CONTROL | WIFI | SERIAL | BLUETOOTH | USB | CUSTOM

definition all_channels :: "Channel list" where
  "all_channels = [LORA_DATA, LORA_CONTROL, WIFI, SERIAL, BLUETOOTH, USB, CUSTOM]"

datatype MessageType = PING | PONG | CONFIG | SENSOR_DATA | COMMAND | STATUS | ERROR
  | OTA_REQUEST | OTA_DATA | CUSTOM

datatype Priority = LOW | NORMAL | HIGH | CRITICAL

primrec priorityValue :: "Priority \<Rightarrow> nat" where
  "priorityValue LOW = 0"
| "priorityValue NORMAL = 1"
| "priorityValue HIGH = 2"
| "priorityValue CRITICAL = 3"

datatype CommState = UNINITIALIZED | INITIALIZING | READY | TRANSMITTING | RECEIVING | ERROR | DISABLED

record MessageHeader =
  messageId :: u32
  mtype :: MessageType
  priority :: Priority
  sourceId :: u8
  destinationId :: u8
  sequenceNumber :: "16 word"
  payloadSize :: "16 word"
  mtimestamp :: u32
  checksum :: "16 word"

text \<open>The destination that addresses every device.\<close>
definition BROADCAST_ID :: u8 where "BROADCAST_ID = 0xFF"

text \<open>A \<open>Message\<close>: its payload is the address of a heap array, \<open>None\<close> for \<open>nullptr\<close>.\<close>
record Message =
  header :: MessageHeader
  payload :: "nat option"
  ownsPayload :: bool

text \<open>\<open>Message()\<close>: no payload, not owned; the header is left as it is.\<close>
definition Message_make :: "MessageHeader \<Rightarrow> Message" where
  "Message_make h = \<lparr>header = h, payload = None, ownsPayload = False\<rparr>"

text \<open>\<open>~Message()\<close>: \<open>delete[] payload\<close> when the message owns a non-null payload.\<close>
definition Message_destroy :: "Message \<Rightarrow> nat set \<Rightarrow> nat set" where
  "Message_destroy m live =
     (case payload m of Some p \<Rightarrow> if ownsPayload m then live - {p} else live | None \<Rightarrow> live)"

record CommStatistics =
  messagesSent :: u32
  messagesReceived :: u32
  bytesTransmitted :: u32
  bytesReceived :: u32
  errorsTransmit :: u32
  errorsReceive :: u32
  messagesDropped :: u32
  averageRSSI :: rat
  averageSNR :: rat
  lastActivity :: u32

section \<open>The communication manager\<close>

definition MAX_CHANNELS :: nat where "MAX_CHANNELS = 6"

record ChannelEntry =
  comm :: "nat option"
  ceActive :: bool
  ceLastActivity :: u32
  ceErrorCount :: u32

record CommunicationManager =
  channels :: "ChannelEntry list"
  channelCount :: nat
  deviceId :: u8
  cmSequenceNumber :: "16 word"
  globalMessageCallback :: "nat option"
  globalErrorCallback :: "nat option"
  globalMessageFilter :: "nat option"

text \<open>
  \<open>CommunicationManager() : deviceId_(1), sequenceNumber_(0)\<close> on the
  singleton's zeroed static storage.
\<close>
definition CommunicationManager_make :: CommunicationManager where
  "CommunicationManager_make =
     \<lparr>channels = replicate MAX_CHANNELS
        \<lparr>comm = None, ceActive = False, ceLastActivity = 0, ceErrorCount = 0\<rparr>,
      channelCount = 0, deviceId = 1, cmSequenceNumber = 0, globalMessageCallback = None,
      globalErrorCallback = None, globalMessageFilter = None\<rparr>"

section \<open>Lemmas\<close>

text \<open>
  Destroying a message frees its payload exactly when it owns one: a
  default-constructed message, or one that borrows its payload, leaves the heap
  alone.
\<close>
lemma Message_destroy_frees:
  "Message_destroy m live = (if ownsPayload m then live - set_option (payload m) else live)"
  "Message_destroy (Message_make h) live = live"
  by (auto simp: Message_destroy_def Message_make_def split: option.split)

text \<open>
  The channel table has six entries for seven channels: a manager that
  registers one interface per channel has no entry left for the last one.
\<close>
lemma channel_table_short:
  "distinct all_channels \<and> length (channels CommunicationManager_make) = MAX_CHANNELS \<and>
   MAX_CHANNELS < length all_channels"
  by (simp add: all_channels_def CommunicationManager_make_def MAX_CHANNELS_def)

end
