(* ===== verification/EnvMonitor.thy ===== *)
theory EnvMonitor
  imports CFormat
begin

text \<open>
  The environmental-monitor example, \<open>src/examples/environmental_monitor/src/main.cpp\<close>.
  It is written against libraries the repository does not contain (\<open>DHTSensor\<close>,
  \<open>LightSensor\<close>, \<open>OLEDDisplay\<close>, \<open>SD\<close>, \<open>WiFiManager\<close>, \<open>HAL::\<close>); what they
  answer is the environment, and the calls made to the display are a trace.
  The build flags (\<open>ENABLE_SD_CARD\<close>, \<ldots>, \<open>SLEEP_INTERVAL\<close>) are a record.
  Serial output and the CSV file are byte strings; \<open>println\<close> ends a line with
  CR LF, \<open>printf\<close> with the format's own \<open>\n\<close>. The global \<open>currentData\<close> starts
  zeroed. \<open>HAL::init()\<close> and \<open>HAL::Power::deepSleep\<close> exist nowhere: setup
  makes no call for the first, and the loop ends at the second, where the chip
  would reset. \<open>millis()\<close> is read from the environment at each
  \<open>readSensors()\<close>: the time spent on the sensors, the display, the SD card and
  the serial port is whatever it is, so the model makes no assumption on it.
\<close>

record build_flags =
  ENABLE_SD_CARD :: bool
  ENABLE_AIR_QUALITY :: bool
  ENABLE_BATTERY_MONITOR :: bool
  ENABLE_DEEP_SLEEP :: bool
  ENABLE_WIFI :: bool
  ENABLE_OTA :: bool
  SLEEP_INTERVAL :: u32

record SensorData =
  temperature :: rat
  humidity :: rat
  airQuality :: int
  lightLevel :: rat
  batteryVoltage :: rat
  timestamp :: u32

definition currentData0 :: SensorData where
  "currentData0 = \<lparr>temperature = 0, humidity = 0, airQuality = 0, lightLevel = 0,
     batteryVoltage = 0, timestamp = 0\<rparr>"

text \<open>What \<open>millis()\<close> and the sensor libraries return in one pass of \<open>readSensors()\<close>.\<close>
record readings =
  millis_at :: u32
  dht_temperature :: rat
  dht_humidity :: rat
  air_quality_adc :: int
  light_lux :: rat
  battery_volts :: rat

text \<open>The calls made on the \<open>OLEDDisplay\<close> object.\<close>
datatype disp_call = DBegin | DClear | SetCursor u8 u8 | DPrint string | ShowMessage string | DUpdate

record monitor =
  currentData :: SensorData
  display_calls :: "disp_call list"
  serial :: string
  csv :: string

definition println :: "string \<Rightarrow> string" where
  "println s = s @ [CHR 0x0D, CHR 0x0A]"

section \<open>The loop's steps\<close>

text \<open>The sample \<open>readSensors()\<close> stores; disabled readings keep their old value.\<close>
definition sample :: "build_flags \<Rightarrow> readings \<Rightarrow> SensorData \<Rightarrow> SensorData" where
  "sample b r d =
     d\<lparr>timestamp := millis_at r, temperature := dht_temperature r, humidity := dht_humidity r,
       airQuality := (if ENABLE_AIR_QUALITY b then air_quality_adc r else airQuality d),
       lightLevel := light_lux r,
       batteryVoltage := (if ENABLE_BATTERY_MONITOR b then battery_volts r else batteryVoltage d)\<rparr>"

definition readSensors :: "build_flags \<Rightarrow> readings \<Rightarrow> monitor \<Rightarrow> monitor" where
  "readSensors b r m = m\<lparr>currentData := sample b r (currentData m)\<rparr>"

definition displayData :: "build_flags \<Rightarrow> monitor \<Rightarrow> monitor" where
  "displayData b m =
     (let d = currentData m in
      m\<lparr>display_calls := display_calls m @
         [DClear, SetCursor 0 0,
          DPrint (''T:'' @ fmt_fixed 1 (temperature d) @ ''C H:'' @ fmt_fixed 1 (humidity d) @ ''%''),
          SetCursor 0 16, DPrint (''Light: '' @ fmt_fixed 1 (lightLevel d) @ '' lux'')] @
         (if ENABLE_AIR_QUALITY b then [SetCursor 0 32, DPrint (''Air: '' @ fmt_int (airQuality d))] else []) @
         (if ENABLE_BATTERY_MONITOR b
          then [SetCursor 0 48, DPrint (''Bat: '' @ fmt_fixed 2 (batteryVoltage d) @ ''V'')] else []) @
         [DUpdate]\<rparr>)"

definition csv_header :: string where
  "csv_header = ''timestamp,temperature,humidity,air_quality,light_level,battery_voltage''"

text \<open>\<open>"%lu,%.2f,%.2f,%d,%.2f,%.2f\n"\<close>; \<open>unsigned long\<close> is 32 bits on the ESP32.\<close>
definition csv_row :: "SensorData \<Rightarrow> string" where
  "csv_row d =
     fmt_u32 (timestamp d) @ '','' @ fmt_fixed 2 (temperature d) @ '','' @ fmt_fixed 2 (humidity d) @
     '','' @ fmt_int (airQuality d) @ '','' @ fmt_fixed 2 (lightLevel d) @ '','' @
     fmt_fixed 2 (batteryVoltage d) @ [CHR 0x0A]"

text \<open>
  \<open>logDataToSD()\<close>, given whether \<open>SD.open("/envdata.csv", FILE_APPEND)\<close>
  succeeds: the header goes first into an empty file.
\<close>
definition logDataToSD :: "build_flags \<Rightarrow> bool \<Rightarrow> monitor \<Rightarrow> monitor" where
  "logDataToSD b opened m =
     (if \<not> ENABLE_SD_CARD b then m
      else if opened then
        m\<lparr>csv := (if length (csv m) = 0 then csv m @ println csv_header else csv m) @ csv_row (currentData m),
          serial := serial m @ println ''Data logged to SD card''\<rparr>
      else m\<lparr>serial := serial m @ println ''Error opening data file''\<rparr>)"

text \<open>The bytes of the degree sign in the debug line: the UTF-8 encoding of the two characters U+00C2 U+00B0, a degree sign encoded twice.\<close>
definition degree_bytes :: string where
  "degree_bytes = [CHR 0xC3, CHR 0x82, CHR 0xC2, CHR 0xB0]"

definition debug_line :: "SensorData \<Rightarrow> string" where
  "debug_line d =
     ''Temp: '' @ fmt_fixed 1 (temperature d) @ degree_bytes @ ''C, Humidity: '' @ fmt_fixed 1 (humidity d) @
     ''%, Light: '' @ fmt_fixed 1 (lightLevel d) @ '' lux'' @ [CHR 0x0A]"

text \<open>The chip goes to deep sleep: the example's \<open>loop()\<close> does not return.\<close>
datatype env_exit = DeepSleep monitor

text \<open>
  One \<open>loop()\<close>, given the readings and whether the SD file opens; the
  \<open>delay(SLEEP_INTERVAL)\<close> at its end shows only in the \<open>millis()\<close> value
  the next iteration reads.
\<close>
definition env_loop :: "build_flags \<Rightarrow> readings \<Rightarrow> bool \<Rightarrow> monitor \<Rightarrow> env_exit + monitor" where
  "env_loop b r opened m =
     (let m1 = logDataToSD b opened (displayData b (readSensors b r m));
          m2 = m1\<lparr>serial := serial m1 @ debug_line (currentData m1)\<rparr>
      in if ENABLE_DEEP_SLEEP b
         then Inl (DeepSleep (m2\<lparr>serial := serial m2 @ println ''Going to sleep...'',
                                 display_calls := display_calls m2 @ [DClear]\<rparr>))
         else Inr m2)"

section \<open>Setup\<close>

text \<open>
  \<open>connectToWiFi()\<close>, given whether \<open>WiFiManager::connect()\<close> succeeds; the
  \<open>enableOTA\<close> call under \<open>ENABLE_OTA\<close> has no effect the model observes.
\<close>
definition env_connectToWiFi :: "build_flags \<Rightarrow> bool \<Rightarrow> monitor \<Rightarrow> monitor" where
  "env_connectToWiFi b ok m =
     (if \<not> ENABLE_WIFI b then m
      else if ok then m\<lparr>serial := serial m @ println ''WiFi connected!'',
                       display_calls := display_calls m @ [ShowMessage ''WiFi OK'']\<rparr>
      else m\<lparr>serial := serial m @ println ''WiFi connection failed'',
             display_calls := display_calls m @ [ShowMessage ''No WiFi'']\<rparr>)"

text \<open>\<open>setup()\<close>, given whether \<open>SD.begin\<close> and the WiFi connection succeed.\<close>
definition env_setup :: "build_flags \<Rightarrow> bool \<Rightarrow> bool \<Rightarrow> monitor \<Rightarrow> monitor" where
  "env_setup b sd_ok wifi_ok m =
     (let m1 = m\<lparr>serial := serial m @ println ''Environmental Monitor Starting...'',
                 display_calls := display_calls m @ [DBegin, ShowMessage ''Initializing...'']\<rparr>;
          m2 = (if \<not> ENABLE_SD_CARD b then m1
                else m1\<lparr>serial := serial m1 @
                          println (if sd_ok then ''SD Card initialized.'' else ''SD Card initialization failed!'')\<rparr>);
          m3 = env_connectToWiFi b wifi_ok m2
      in m3\<lparr>display_calls := display_calls m3 @ [ShowMessage ''Ready!'']\<rparr>)"

definition monitor0 :: monitor where
  "monitor0 = \<lparr>currentData = currentData0, display_calls = [], serial = [], csv = []\<rparr>"

text \<open>A build that logs to the SD card every five seconds, and two passes of readings, the second 5.2 s after the first.\<close>
definition sd_build :: build_flags where
  "sd_build = \<lparr>ENABLE_SD_CARD = True, ENABLE_AIR_QUALITY = False, ENABLE_BATTERY_MONITOR = False,
     ENABLE_DEEP_SLEEP = False, ENABLE_WIFI = False, ENABLE_OTA = False, SLEEP_INTERVAL = 5000\<rparr>"

definition demo_readings :: "readings list" where
  "demo_readings =
     [\<lparr>millis_at = 2100, dht_temperature = 2150 / 100, dht_humidity = 40, air_quality_adc = 0, light_lux = 300,
       battery_volts = 0\<rparr>,
      \<lparr>millis_at = 7300, dht_temperature = 22, dht_humidity = 405 / 10, air_quality_adc = 0, light_lux = 310,
       battery_volts = 0\<rparr>]"

section \<open>Runs\<close>

text \<open>Iterations of \<open>loop()\<close> with an SD card that always opens, until the chip sleeps.\<close>
fun env_run :: "build_flags \<Rightarrow> readings list \<Rightarrow> monitor \<Rightarrow> monitor" where
  "env_run b [] m = m"
| "env_run b (r # rs) m = (case env_loop b r True m of Inl (DeepSleep m') \<Rightarrow> m' | Inr m' \<Rightarrow> env_run b rs m')"

text \<open>The reference: the samples the iterations store, one per pass of readings.\<close>
fun samples :: "build_flags \<Rightarrow> readings list \<Rightarrow> SensorData \<Rightarrow> SensorData list" where
  "samples b [] d = []"
| "samples b (r # rs) d = sample b r d # samples b rs (sample b r d)"

section \<open>Lemmas\<close>

lemma env_loop_awake:
  "\<not> ENABLE_DEEP_SLEEP b \<Longrightarrow> ENABLE_SD_CARD b \<Longrightarrow>
   env_loop b r True m =
     Inr (m\<lparr>currentData := sample b r (currentData m),
            display_calls := display_calls (displayData b (readSensors b r m)),
            serial := serial m @ println ''Data logged to SD card'' @
                      debug_line (sample b r (currentData m)),
            csv := (if length (csv m) = 0 then println csv_header else csv m) @
                   csv_row (sample b r (currentData m))\<rparr>)"
  by (simp add: env_loop_def logDataToSD_def displayData_def readSensors_def Let_def)

lemma env_run_csv:
  assumes "\<not> ENABLE_DEEP_SLEEP b" "ENABLE_SD_CARD b" "csv m \<noteq> []"
  shows "csv (env_run b rs m) = csv m @ concat (map csv_row (samples b rs (currentData m)))"
  using assms
proof (induction rs arbitrary: m)
  case (Cons r rs)
  then show ?case by (simp add: env_loop_awake csv_row_def)
qed simp

lemma timestamp_sample [simp]: "timestamp (sample b r d) = millis_at r"
  by (simp add: sample_def)

lemma samples_timestamps: "map timestamp (samples b rs d) = map millis_at rs"
  by (induction rs arbitrary: d) simp_all

text \<open>
  C33: With the SD card enabled and no deep sleep, a run of the loop on a card
  whose log file is empty writes the header once, then one CSV row per
  iteration, in order, for the samples taken; the row of each iteration is
  stamped with the \<open>millis()\<close> value read by that iteration's \<open>readSensors()\<close>.
\<close>
theorem env_log_run:
  assumes "ENABLE_SD_CARD b" "\<not> ENABLE_DEEP_SLEEP b" "csv m = []"
  shows "csv (env_run b rs m) =
           (if rs = [] then [] else println csv_header) @
           concat (map csv_row (samples b rs (currentData m))) \<and>
         map timestamp (samples b rs (currentData m)) = map millis_at rs"
proof (cases rs)
  case (Cons r rs')
  have a: "env_loop b r True m = Inr m' \<Longrightarrow>
      csv m' = println csv_header @ csv_row (sample b r (currentData m)) \<and>
      currentData m' = sample b r (currentData m)"
    for m' using assms by (auto simp: env_loop_awake)
  obtain m' where e: "env_loop b r True m = Inr m'" using assms by (simp add: env_loop_awake)
  have "csv m' \<noteq> []" using a [OF e] by (simp add: println_def)
  with a [OF e] e Cons env_run_csv [OF assms(2,1), of m' rs'] show ?thesis
    by (simp add: samples_timestamps)
qed (simp add: assms)

lemma scan_format_csv:
  "scan_format ''%u,%f,%f,%d,%f,%f'' =
     [Conv CU, Lit CHR '','', Conv CF, Lit CHR '','', Conv CF, Lit CHR '','', Conv CD, Lit CHR '','',
      Conv CF, Lit CHR '','', Conv CF]"
  by (simp add: is_digit_def is_space_def conv_of_def)

text \<open>
  C34: Each logged row reads back with \<open>sscanf(row, "%u,%f,%f,%d,%f,%f")\<close> to its six
  values, the floats rounded to the two decimals printed: the row has one field
  per column of the header, and no value spills into the next field.
\<close>
theorem csv_row_roundtrip:
  "sscanf (csv_row d) ''%u,%f,%f,%d,%f,%f'' =
     [VUns (timestamp d), VFlt (round_to 2 (temperature d)), VFlt (round_to 2 (humidity d)),
      VInt (airQuality d), VFlt (round_to 2 (lightLevel d)), VFlt (round_to 2 (batteryVoltage d))] \<and>
   length (filter (\<lambda>c. c = CHR '','') csv_header) = 5"
  unfolding sscanf_def scan_format_csv
  by (simp add: csv_row_def csv_header_def fmt_u32_def is_space_def is_digit_def
      scan_float_fmt_fixed scan_int_fmt_int)

lemma degree_bytes_mojibake:
  "degree_bytes \<noteq> [CHR 0xC2, CHR 0xB0] \<and> drop 2 degree_bytes = [CHR 0xC2, CHR 0xB0]"
  by (simp add: degree_bytes_def)

theorem env_log_run_witness:
  "csv (env_run sd_build demo_readings monitor0) =
     println csv_header @ concat (map csv_row (samples sd_build demo_readings currentData0)) \<and>
   map timestamp (samples sd_build demo_readings currentData0) = [2100, 7300]"
  using env_log_run [of sd_build monitor0 demo_readings]
  by (simp add: sd_build_def monitor0_def demo_readings_def)

end
