(* ===== verification/GPSReport.thy ===== *)
theory GPSReport
  imports Tracker EnvMonitor
begin

text \<open>
  What the GPS driver and the tracker example print on the serial port: the
  accessors and convenience wrappers of \<open>src/src/sensors/gps_sensor.cpp\<close>,
  \<open>UC6580::printDiagnostics\<close>, and the report functions \<open>printStatus\<close>,
  \<open>printGPSInfo\<close> and \<open>printDetailedInfo\<close> of
  \<open>src/src/examples/gps_tracker_example.cpp\<close>, with the text of the reports an
  update of the tracker prints and \<open>loop()\<close>. A \<open>printf\<close> call is the text it
  writes; \<open>Serial.println\<close> appends CR LF. \<open>millis()\<close> is the time \<open>now\<close> of
  the update: the model of an update takes no time.
\<close>

section \<open>Accessors of the driver\<close>

definition UC6580_isInitialized :: "UC6580 \<Rightarrow> bool" where
  "UC6580_isInitialized g = m_initialized g"

definition UC6580_isPowered :: "UC6580 \<Rightarrow> bool" where
  "UC6580_isPowered g = m_powered g"

definition getData :: "UC6580 \<Rightarrow> Data" where
  "getData g = m_data g"

definition getMessagesReceived :: "UC6580 \<Rightarrow> u32" where
  "getMessagesReceived g = m_messages_received g"

definition getParseErrors :: "UC6580 \<Rightarrow> u32" where
  "getParseErrors g = m_parse_errors g"

text \<open>The free functions of namespace \<open>GPS\<close> on the global driver \<open>g_gps\<close>.\<close>
definition initializeGPS :: "Config \<Rightarrow> UC6580 \<Rightarrow> hal \<Rightarrow> Result \<times> UC6580 \<times> hal" where
  "initializeGPS c g h = initialize_gps c g h"

definition getGPSData :: "UC6580 \<Rightarrow> Data" where
  "getGPSData g = getData g"

definition hasGPSFix :: "UC6580 \<Rightarrow> bool" where
  "hasGPSFix g = hasValidFix (m_data g)"

section \<open>Formatting\<close>

text \<open>The newline a \<open>printf\<close> format ends with.\<close>
definition NL :: string where
  "NL = [CHR 0x0A]"

text \<open>The conditional \<open>b ? "Yes" : "No"\<close> of the reports.\<close>
definition yes_no :: "bool \<Rightarrow> string" where
  "yes_no b = (if b then ''Yes'' else ''No'')"

text \<open>\<open>static_cast<int>(fix_type)\<close>: the values of \<open>enum class FixType\<close>.\<close>
primrec fixTypeValue :: "FixType \<Rightarrow> int" where
  "fixTypeValue NO_FIX = 0"
| "fixTypeValue FIX_2D = 2"
| "fixTypeValue FIX_3D = 3"

text \<open>\<open>%0<w>d\<close> of a non-negative \<open>int\<close>: the digits, padded with zeros to \<open>w\<close>.\<close>
definition fmt_pad :: "nat \<Rightarrow> nat \<Rightarrow> string" where
  "fmt_pad w n = pad_zeros w (dec_nat n)"

section \<open>The driver's diagnostics\<close>

definition printDiagnostics :: "u32 \<Rightarrow> UC6580 \<Rightarrow> string" where
  "printDiagnostics now g =
     (let d = m_data g in
      println ''=== GPS Diagnostics ==='' @
      ''Initialized: '' @ yes_no (m_initialized g) @ NL @
      ''Powered: '' @ yes_no (m_powered g) @ NL @
      ''Valid Fix: '' @ yes_no (hasValidFix d) @ NL @
      ''Fix Type: '' @ fmt_int (fixTypeValue (fix_type d)) @ NL @
      ''Satellites: '' @ fmt_int (uint (satellites d)) @ NL @
      ''HDOP: '' @ fmt_fixed 2 (hdop d) @ NL @
      ''Messages Received: '' @ fmt_u32 (m_messages_received g) @ NL @
      ''Parse Errors: '' @ fmt_u32 (m_parse_errors g) @ NL @
      ''Last Update: '' @ fmt_u32 (now - Data.timestamp d) @ '' ms ago'' @ NL @
      (if hasValidFix d then
         ''Position: '' @ fmt_fixed 6 (latitude d) @ '', '' @ fmt_fixed 6 (longitude d) @ NL @
         ''Altitude: '' @ fmt_fixed 2 (altitude d) @ '' m'' @ NL @
         ''Speed: '' @ fmt_fixed 2 (speed_kmh d) @ '' km/h'' @ NL @
         ''Course: '' @ fmt_fixed 2 (course_deg d) @ '' degrees'' @ NL
       else []) @
      println ''======================'')"

section \<open>The tracker's reports\<close>

text \<open>\<open>printStatus(data, has_fix)\<close>.\<close>
definition printStatus :: "u32 \<Rightarrow> Data \<Rightarrow> bool \<Rightarrow> string" where
  "printStatus now d has_fix =
     ''['' @ fmt_u32 now @ ''] Status: '' @ (if has_fix then ''FIX'' else ''NO_FIX'') @
     '' | Sats: '' @ fmt_int (uint (satellites d)) @ '' | HDOP: '' @ fmt_fixed 2 (hdop d) @ '' | '' @
     (if has_fix then
        ''Pos: '' @ fmt_fixed 6 (latitude d) @ '','' @ fmt_fixed 6 (longitude d) @
        '' | Alt: '' @ fmt_fixed 1 (altitude d) @ ''m | Speed: '' @ fmt_fixed 1 (speed_kmh d) @
        '' km/h'' @ NL
      else println ''Searching for satellites...'')"

text \<open>The nested conditional naming the fix type in \<open>printGPSInfo\<close>.\<close>
definition fixTypeName :: "FixType \<Rightarrow> string" where
  "fixTypeName ft = (if ft = FIX_3D then ''3D'' else if ft = FIX_2D then ''2D'' else ''NO_FIX'')"

definition printGPSInfo :: "Data \<Rightarrow> string" where
  "printGPSInfo d =
     ''Position: '' @ fmt_fixed 6 (latitude d) @ '', '' @ fmt_fixed 6 (longitude d) @ NL @
     ''Altitude: '' @ fmt_fixed 2 (altitude d) @ '' meters'' @ NL @
     ''Speed: '' @ fmt_fixed 2 (speed_kmh d) @ '' km/h'' @ NL @
     ''Course: '' @ fmt_fixed 2 (course_deg d) @ '' degrees'' @ NL @
     ''Satellites: '' @ fmt_int (uint (satellites d)) @ NL @
     ''HDOP: '' @ fmt_fixed 2 (hdop d) @ NL @
     ''Fix Type: '' @ fixTypeName (fix_type d) @ NL @
     ''Time: '' @ fmt_pad 2 (unat (hour d)) @ '':'' @ fmt_pad 2 (unat (minute d)) @ '':'' @
       fmt_pad 2 (unat (second d)) @ '' UTC'' @ NL @
     ''Date: '' @ fmt_pad 4 (unat (year d)) @ ''-'' @ fmt_pad 2 (unat (month d)) @ ''-'' @
       fmt_pad 2 (unat (day d)) @ NL @
     println []"

text \<open>
  \<open>printDetailedInfo(data)\<close>: the data passed in and the diagnostics of the
  global driver \<open>g\<close>; \<open>isDataFresh()\<close> with its default limit of 5000 ms.
\<close>
definition printDetailedInfo :: "u32 \<Rightarrow> UC6580 \<Rightarrow> Data \<Rightarrow> string" where
  "printDetailedInfo now g d =
     println ''=== Detailed GPS Information ==='' @
     printGPSInfo d @
     printDiagnostics now g @
     ''Data age: '' @ fmt_u32 (now - Data.timestamp d) @ '' ms'' @ NL @
     ''Data fresh: '' @ yes_no (isDataFresh now 5000 (m_data g)) @ NL @
     println (''================================'' @ NL)"

text \<open>
  The text of each report of \<open>update()\<close>, printed after \<open>g_gps.update()\<close> with
  \<open>data = getGPSData()\<close> and \<open>has_fix = hasGPSFix()\<close> of the updated driver.
\<close>
primrec report_text :: "u32 \<Rightarrow> UC6580 \<Rightarrow> report \<Rightarrow> string" where
  "report_text now g FixAcquired = println (NL @ ''*** GPS FIX ACQUIRED ***'') @ printGPSInfo (getGPSData g)"
| "report_text now g FixLost = println ''GPS fix lost, searching...''"
| "report_text now g Status = printStatus now (getGPSData g) (hasGPSFix g)"
| "report_text now g Detail = printDetailedInfo now g (getGPSData g)"

text \<open>What an update prints, its reports in the order \<open>tracker_update\<close> lists them.\<close>
definition tracker_output :: "u32 \<Rightarrow> UC6580 \<Rightarrow> report list \<Rightarrow> string" where
  "tracker_output now g rs = concat (map (report_text now g) rs)"

text \<open>
  \<open>loop()\<close>: an update at \<open>now\<close> and its serial text, then \<open>delay(1000)\<close>;
  the next iteration starts at \<open>now + 1000\<close>.
\<close>
definition tracker_loop :: "u32 \<Rightarrow> UC6580 \<Rightarrow> tracker \<Rightarrow> gps_fault + UC6580 \<times> tracker \<times> string \<times> u32" where
  "tracker_loop now g t =
     (case tracker_update now g t of
        Inl f \<Rightarrow> Inl f
      | Inr (g1, t1, rs) \<Rightarrow> Inr (g1, t1, tracker_output now g1 rs, now + 1000))"

section \<open>The serial mock of the host build\<close>

text \<open>The sentence the host build's \<open>readLine\<close> copies into the buffer instead of reading the port.\<close>
definition mock_gga :: string where
  "mock_gga = ''$GPGGA,123456.00,0000.0000,N,00000.0000,E,1,04,1.0,0.0,M,0.0,M,,*''"

text \<open>\<open>UC6580::readLine\<close> without \<open>ARDUINO\<close>: the length and the text \<open>strcpy\<close> writes.\<close>
definition readLine_host :: "UC6580 \<Rightarrow> int \<Rightarrow> int \<times> string" where
  "readLine_host g max_length =
     (if \<not> m_initialized g \<or> \<not> m_powered g then (-1, [])
      else if 20 < max_length then (int (length mock_gga), mock_gga) else (0, []))"

section \<open>Example input\<close>

text \<open>A powered driver whose last sentence, at time 0, had a 3D fix, and whose port is silent.\<close>
definition silent_gps :: UC6580 where
  "silent_gps = (gps0 (\<lambda>_. []))\<lparr>m_config := getDefaultConfig, m_initialized := True, m_powered := True,
     m_data := data0\<lparr>valid := True, fix_type := FIX_3D\<rparr>\<rparr>"

section \<open>Lines of the reports\<close>

lemma split_on_after: "\<exists>ls. ls \<noteq> [] \<and> split_on c (p @ c # z) = ls @ split_on c z"
proof (induction p)
  case Nil
  show ?case by (intro exI [of _ "[[]]"]) simp
next
  case (Cons x p)
  then obtain ls where "ls \<noteq> []" "split_on c (p @ c # z) = ls @ split_on c z" by blast
  then show ?case
    by (intro exI [of _ "if x = c then [] # ls else (x # hd ls) # tl ls"]) (auto simp: Let_def)
qed

text \<open>Text printed after a complete line keeps the lines it prints.\<close>
lemma lines_after:
  assumes "p = [] \<or> last p = c"
  shows "set (split_on c z) \<subseteq> set (split_on c (p @ z))"
proof (cases "p = []")
  case False
  with assms have "p = butlast p @ [c]" by (metis append_butlast_last_id)
  moreover obtain ls where "split_on c (butlast p @ c # z) = ls @ split_on c z"
    using split_on_after by blast
  ultimately show ?thesis by (metis Un_upper2 append.assoc append_Cons append_Nil set_append)
qed simp

lemma line_in_split:
  "c \<notin> set l \<Longrightarrow> p = [] \<or> last p = c \<Longrightarrow> l \<in> set (split_on c (p @ l @ c # r))"
  using lines_after [of p c "l @ c # r"] by (auto simp: split_on_line)

lemma read_line_Nil [simp]: "read_line k [] = ([], [])"
  by (cases k) auto

text \<open>A silent port leaves the driver as it is: \<open>update()\<close> reads no line and keeps the old data.\<close>
lemma update_silent:
  assumes "serial_rx g (uart_num (m_config g)) = []"
  shows "\<exists>r. update now g = Inr (r, g)"
  using assms by (auto simp: update_def readLine_def Let_def fun_upd_idem)

lemma line_in_splitI:
  assumes "c \<notin> set l" "p \<noteq> []" "last p = c" "\<exists>r. s = p @ l @ c # r"
  shows "l \<in> set (split_on c s)"
  using assms line_in_split [of c l p] by auto

lemma diagnostics_valid_line:
  assumes "hasValidFix (m_data g)"
  shows "\<exists>P r. printDiagnostics now g = P @ ''Valid Fix: Yes'' @ CHR 0x0A # r \<and> P \<noteq> [] \<and> last P = CHR 0x0A"
proof -
  let ?P = "println ''=== GPS Diagnostics ==='' @ ''Initialized: '' @ yes_no (m_initialized g) @ NL @
     ''Powered: '' @ yes_no (m_powered g) @ NL"
  have "\<exists>r. printDiagnostics now g = ?P @ ''Valid Fix: Yes'' @ CHR 0x0A # r"
    using assms by (simp add: printDiagnostics_def Let_def yes_no_def NL_def)
  moreover have "?P \<noteq> [] \<and> last ?P = CHR 0x0A" by (simp add: NL_def)
  ultimately show ?thesis by blast
qed

lemma report_text_ends: "report_text now g r \<noteq> [] \<and> last (report_text now g r) = CHR 0x0A"
  by (cases r) (simp_all add: printGPSInfo_def printStatus_def printDetailedInfo_def printDiagnostics_def
      println_def NL_def Let_def)

lemma output_ends: "tracker_output now g rs = [] \<or> last (tracker_output now g rs) = CHR 0x0A"
  by (induction rs) (auto simp: tracker_output_def report_text_ends last_append)

lemma printGPSInfo_ends: "printGPSInfo d \<noteq> [] \<and> last (printGPSInfo d) = CHR 0x0A"
  by (simp add: printGPSInfo_def println_def NL_def)

text \<open>
  C35: A GPS that falls silent keeps its last fix: with nothing on the driver's
  port, an update of the tracker leaves the driver unchanged, never reports the
  fix lost and renews the last-fix time; a detailed report printed on data
  older than 5 s states both that the fix is valid and that the data is stale.
\<close>
theorem silent_gps_keeps_fix:
  assumes "serial_rx g (uart_num (m_config g)) = []" "hasValidFix (m_data g)"
  shows "\<exists>t1 rs. tracker_update now g t = Inr (g, t1, rs) \<and> FixLost \<notin> set rs \<and> m_last_fix_time t1 = now \<and>
     (Detail \<in> set rs \<longrightarrow> 5000 < now - Data.timestamp (m_data g) \<longrightarrow>
        {''Valid Fix: Yes'', ''Data fresh: No''} \<subseteq> set (split_on (CHR 0x0A) (tracker_output now g rs)))"
proof -
  let ?c = "CHR 0x0A"
  obtain r where u: "update now g = Inr (r, g)" using update_silent [OF assms(1)] by blast
  have "\<exists>t1 rs. tracker_update now g t = Inr (g, t1, rs) \<and> FixLost \<notin> set rs \<and> m_last_fix_time t1 = now"
    using u assms(2) by (simp add: tracker_update_def Let_def split: if_split)
  then obtain t1 rs where tu: "tracker_update now g t = Inr (g, t1, rs)" "FixLost \<notin> set rs" "m_last_fix_time t1 = now"
    by blast
  have "{''Valid Fix: Yes'', ''Data fresh: No''} \<subseteq> set (split_on ?c (tracker_output now g rs))"
    if det: "Detail \<in> set rs" and old: "5000 < now - Data.timestamp (m_data g)"
  proof -
    obtain xs ys where rs: "rs = xs @ Detail # ys" using split_list [OF det] by blast
    let ?d = "getGPSData g" and ?Q = "tracker_output now g ys"
    have sub: "set (split_on ?c (printDetailedInfo now g ?d @ ?Q)) \<subseteq> set (split_on ?c (tracker_output now g rs))"
      using lines_after [OF output_ends [of now g xs]] by (simp add: tracker_output_def rs)
    obtain P r where P: "printDiagnostics now g = P @ ''Valid Fix: Yes'' @ ?c # r" "P \<noteq> []" "last P = ?c"
      using diagnostics_valid_line [OF assms(2)] by blast
    have "''Valid Fix: Yes'' \<in> set (split_on ?c (printDetailedInfo now g ?d @ ?Q))"
    proof (rule line_in_splitI)
      let ?p = "println ''=== Detailed GPS Information ==='' @ printGPSInfo ?d @ P"
      show "\<exists>r'. printDetailedInfo now g ?d @ ?Q = ?p @ ''Valid Fix: Yes'' @ ?c # r'"
        by (simp add: printDetailedInfo_def P(1))
      show "?p \<noteq> []" "last ?p = ?c" using P(2,3) by simp_all
    qed simp
    moreover have "''Data fresh: No'' \<in> set (split_on ?c (printDetailedInfo now g ?d @ ?Q))"
    proof (rule line_in_splitI)
      let ?p = "println ''=== Detailed GPS Information ==='' @ printGPSInfo ?d @ printDiagnostics now g @
        ''Data age: '' @ fmt_u32 (now - Data.timestamp ?d) @ '' ms'' @ NL"
      show "\<exists>r'. printDetailedInfo now g ?d @ ?Q = ?p @ ''Data fresh: No'' @ ?c # r'"
        using old by (simp add: printDetailedInfo_def isDataFresh_def yes_no_def NL_def not_le)
      show "?p \<noteq> []" "last ?p = ?c" by (simp_all add: NL_def)
    qed simp
    ultimately show ?thesis using sub by blast
  qed
  with tu show ?thesis by blast
qed

theorem silent_gps_keeps_fix_witness:
  "\<exists>t1 rs. tracker_update 40000 silent_gps tracker0 = Inr (silent_gps, t1, rs) \<and> Detail \<in> set rs \<and>
     5000 < (40000::u32) - Data.timestamp (m_data silent_gps) \<and>
     {''Valid Fix: Yes'', ''Data fresh: No''} \<subseteq> set (split_on (CHR 0x0A) (tracker_output 40000 silent_gps rs))"
proof -
  have a: "serial_rx silent_gps (uart_num (m_config silent_gps)) = []" "hasValidFix (m_data silent_gps)"
    by (simp_all add: silent_gps_def gps0_def hasValidFix_def)
  obtain t1 rs where h: "tracker_update 40000 silent_gps tracker0 = Inr (silent_gps, t1, rs)"
    "Detail \<in> set rs \<longrightarrow> 5000 < (40000::u32) - Data.timestamp (m_data silent_gps) \<longrightarrow>
        {''Valid Fix: Yes'', ''Data fresh: No''} \<subseteq> set (split_on (CHR 0x0A) (tracker_output 40000 silent_gps rs))"
    using silent_gps_keeps_fix [OF a, of 40000 tracker0] by blast
  obtain r where u: "update 40000 silent_gps = Inr (r, silent_gps)" using update_silent [OF a(1)] by blast
  have "Detail \<in> set rs"
    using h(1) u a(2) by (auto simp: tracker_update_def tracker0_def Let_def split: if_splits)
  moreover have "5000 < (40000::u32) - Data.timestamp (m_data silent_gps)"
    by (simp add: silent_gps_def data0_def)
  ultimately show ?thesis using h by blast
qed

text \<open>
  The host build never parses a sentence: the mock sentence has no checksum
  digits after its \<open>*\<close>, so \<open>parseNMEA\<close> rejects it and counts a parse
  error. Its guard admits buffers of 21 bytes, shorter than the 66 bytes
  \<open>strcpy\<close> writes.
\<close>
lemma host_mock_rejected:
  "parseNMEA now mock_gga g = Inr (ERROR_COMMUNICATION_FAILED, g\<lparr>m_parse_errors := m_parse_errors g + 1\<rparr>)"
  "m_initialized g \<Longrightarrow> m_powered g \<Longrightarrow> readLine_host g 21 = (65, mock_gga) \<and> 21 < length mock_gga + 1"
  by (simp_all add: parseNMEA_def validateChecksum_def mock_gga_def nmea_checksum_def strtol16_def
      scan_sign_def hex_val_def signed_def readLine_host_def)

end
