(* ===== verification/Spec2Isabelle.thy ===== *)
theory Spec2Isabelle
  imports Invariants HALPeriph Tracker OtaRefinement ControlListen SystemConfig GPSNav HALSystem
    ErrorHandling Logging StateMachine SensorSystem LightningSensor ActuatorSystem CommunicationSystem
    EnvMonitor GPSReport
begin

text \<open>
  A verification development for the LoRa node firmware of this repository: an
  ESP32-S3 board (Heltec WiFi LoRa 32 V3) that runs either as a sender, which
  pings every two seconds and announces radio settings, or as a receiver, which
  shows what it hears, takes over announced settings and can be updated over
  LoRa or WiFi. The firmware is \<open>src/src/main.cpp\<close> with
  \<open>src/src/app_logic.cpp\<close> and \<open>src/src/wifi_manager.cpp\<close>; the source tree
  also holds a hardware abstraction layer (\<open>src/src/hardware/\<close>) and a GNSS
  driver (\<open>src/src/sensors/gps_sensor.cpp\<close>) built on it.

  \<^bold>\<open>Theories.\<close> \<open>Prelude\<close> holds the machine types (\<open>uint32_t\<close> as 32-bit
  words), the lemmas on \<open>now - start\<close> across the wrap of \<open>millis()\<close>, C
  strings and the linear table search. \<open>CFormat\<close> models the \<open>snprintf\<close> and
  \<open>sscanf\<close> conversions the wire format uses. \<open>AppLogic\<close> is
  \<open>app_logic.cpp\<close>. \<open>Node\<close> is the global state of \<open>main.cpp\<close> as the record
  \<open>node\<close> and the display helpers. \<open>Radio\<close> is the parameter tables, the index
  trackers, the NVS persistence and \<open>updateRadioSettings\<close>; the SX1262 chip is
  a driver function from the requested RadioLib call to its status.
  \<open>ConfigSync\<close> is the CFG frame, its parse, the repeated broadcast and the
  control-channel rendezvous. \<open>Ota\<close> is the LoRa update: the receiving session
  and the sender's chunked transfer and cascade. \<open>WiFi\<close> is
  \<open>wifi_manager.cpp\<close> with the access points as a predicate on the network
  table, and its status string for the display. \<open>Loop\<close> composes them into \<open>updateButton\<close>, \<open>loop()\<close>,
  \<open>setup()\<close> and the runs of the device (\<open>reachable\<close>: a boot followed by
  loop iterations and reboots). \<open>Invariants\<close> proves the state invariant.
  \<open>HAL\<close> is \<open>hardware_abstraction.cpp\<close> (initialisation, GPIO, software
  timers) with its API as a step function and a reachability relation;
  \<open>HALPeriph\<close> adds its I2C, SPI, PWM, ADC, power and NVS wrappers, with what
  the Arduino and ESP-IDF libraries answer as an environment, and extends the
  step function to the whole API. \<open>GPS\<close> is the UC6580 driver over the layer.
  \<open>Tracker\<close> is the GPS tracker example (\<open>gps_tracker_example.cpp\<close>), a
  client of both: its \<open>initialize\<close>, \<open>update\<close> and \<open>setup()\<close>.
  \<open>GPSReport\<close> adds what the driver and the example print: the driver's
  accessors and \<open>printDiagnostics\<close>, the example's \<open>printStatus\<close>,
  \<open>printGPSInfo\<close> and \<open>printDetailedInfo\<close> as the text they write, the
  serial output of an update (\<open>tracker_output\<close>) and \<open>loop()\<close>, and the
  mock \<open>readLine\<close> of the driver's host build, whose sentence the driver
  rejects for its missing checksum.
  \<open>OtaRefinement\<close> states the OTA session machine of the specification
  (Idle, Active, Flashing) as an inductive step relation, maps the node's
  session variables to it (\<open>ota_abs\<close>) and proves that the receiver's steps
  (\<open>ota_rx_step\<close>: \<open>handleLoraOtaPacket\<close> on a frame, \<open>checkLoraOtaTimeout\<close>
  on a tick) simulate it. \<open>ControlListen\<close> is the listening loop of
  \<open>tryReceiveConfigOnControlChannel\<close> driven by the clock, as the code writes it.
  \<open>SystemConfig\<close> is the centralised configuration header
  \<open>config/system_config.h\<close>, which the firmware does not include: its
  lemmas check that the values \<open>main.cpp\<close>, \<open>app_logic.cpp\<close> and the hardware
  layer repeat are the header's (its \<open>DEBOUNCE_MS\<close> is used nowhere).
  \<open>GPSNav\<close> is \<open>distanceTo\<close> and \<open>bearingTo\<close> of the GPS driver, computed
  exactly over the reals with C's \<open>atan2\<close> written out; they are the only
  definitions that do not evaluate. \<open>HALSystem\<close> adds the layer's clock
  (\<open>Timer::millis\<close>, \<open>delay\<close>), the heap calls of \<open>Memory\<close> over a set of live
  allocations, and \<open>System\<close> (chip information, restart and the task
  watchdog as the list of ESP-IDF calls made).

  The headers that declare the firmware's frameworks without implementing them
  are modelled as far as they contain code: \<open>StateMachine\<close>
  (\<open>system/state_machine.h\<close>), \<open>ErrorHandling\<close> (\<open>system/error_handler.h\<close>)
  and \<open>Logging\<close> (\<open>system/logger.h\<close>) hold their enumerations as datatypes
  with the enumerators' values (severities and log levels ordered by an
  instance of \<open>linorder\<close>), their structures as records and their inline
  constructors and methods; \<open>SensorSystem\<close>, \<open>LightningSensor\<close>,
  \<open>ActuatorSystem\<close> and \<open>CommunicationSystem\<close> do the same for
  \<open>sensors/\<close>, \<open>actuators/\<close> and \<open>communication/\<close>, unions as datatypes
  and flag enumerations as bits of a word (\<open>flag_mask\<close> and \<open>flags_in\<close> of
  \<open>Prelude\<close>). \<open>EnvMonitor\<close> is the environmental-monitor example
  (\<open>src/examples/environmental_monitor/src/main.cpp\<close>): its \<open>setup()\<close>,
  \<open>loop()\<close>, display output and CSV log over the sensor, display, SD and WiFi
  libraries as an environment, with the build flags as a record.

  \<^bold>\<open>Correspondence.\<close> Every operation takes the state record and returns it
  updated; what the code reads from hardware (the button pin, received frames,
  the clock, the access points, the flash writer) is an argument. A panic, a
  stack overrun, a division by zero and \<open>ESP.restart()\<close> are values of a sum
  type, so every early return and abort is a branch of the model. Loops are
  structural recursion (over the network priorities, the chunks still to send,
  the bytes waiting on the serial port, the timer slots) or recursion with a
  measure, so no fuel is needed. The one loop whose end depends on the clock,
  \<open>while (millis() - start < durationMs)\<close> of the rendezvous, is also modelled
  as written, as a \<open>partial_function (option)\<close> over the values \<open>millis()\<close>
  returns, and shown to return when the clock advances by at least 1 ms and by
  less than \<open>2^32 - durationMs\<close> ms per iteration (each one ends in
  \<open>delay(50)\<close>). The elapsed-time lemmas hold for intervals below \<open>2^32\<close> ms.

  \<^bold>\<open>Results.\<close> The CFG frame round trip and the agreement of sender and
  receivers after a broadcast, with the exception of the 62.5 kHz bandwidth;
  the equivalence of the button thresholds with \<open>classifyPress\<close>; the state
  invariant of every run (indices in range, OTA buffer bounded and consistent,
  broadcasts pending with repetitions left, flashed images below 1024 bytes);
  that the HAL never initialises, so its GPIO, bus and peripheral calls and the
  GPS driver never work; that its battery estimate is always zero and that its
  ADC and PWM pin tables alias pins (lemmas \<open>adc_alias\<close>, \<open>pwm_alias\<close>); that once WiFi is lost the receiver never
  reconnects before a reboot; the command checksums, line reading, field splitting, coordinate
  conversion and sentence parsing of the GPS driver (every field \<open>splitNMEA\<close>
  yields is non-empty and free of separators), with its defects (a wrong
  factory-reset checksum, every GGA sentence with an empty field rejected
  because \<open>strtok\<close> drops empty fields, an overrun of \<open>deg_str[16]\<close>); that
  \<open>processTimers\<close> fires exactly the timers whose interval has passed in real
  time, also across the wrap of \<open>millis()\<close>; that the tracker example's
  \<open>setup()\<close> always hangs or aborts, and that its fix bookkeeping takes a fix
  at time 0 for no fix; and that a GPS that falls silent keeps its last fix,
  so the example never reports the fix lost and its detailed report calls the
  fix valid and the data stale at once. For the OTA session: every receiver step refines the
  specification's machine with a 1023-byte buffer, except an \<open>OTA_END\<close> before
  the announced size, which discards the session where the specification keeps
  it; a malformed \<open>OTA_START\<close> lowers the expected size, so a truncated image is
  flashed; a session announced with size 0 crashes on its first data frame; no
  frame but a start frame extends a session past its deadline. A sender never
  listens in \<open>loop()\<close>, so the cascade cannot reach the senders it is meant for.
  The clock-driven listening loop returns, and returns what its event-list
  model computes on exactly the events read up to the first test past the
  deadline.
  \<open>setup()\<close> halts when no display answers at \<open>0x3C\<close> or \<open>0x3D\<close>, or when
  the radio fails. With a valid fix, \<open>distanceTo\<close> lies in \<open>[0, 6371 pi]\<close> km and
  \<open>bearingTo\<close> in \<open>[0, 360)\<close> degrees, so their \<open>-1\<close> is never a result.
  \<open>System::getSystemInfo\<close> keeps only the low 32 bits of the MAC as chip id,
  and \<open>enableWatchdog\<close> rounds its timeout down to whole seconds (0 below one
  second). The environmental monitor logs its CSV header once and then one
  row per iteration stamped with the \<open>millis()\<close> value that iteration read
  (the clock is an input of the model, not advanced by a fixed amount), and
  every row parses back to its six values. The error-code values and the
  logging destination bits are checked as lemmas about the enumerations.

  \<^bold>\<open>Not modelled.\<close> RadioLib and the SX1262 beyond the status of each call,
  display pixels and fonts, Serial logging and delays in the firmware, the
  ArduinoOTA network protocol, the rounding of \<open>double\<close> and \<open>float\<close> in
  \<open>distanceTo\<close> and \<open>bearingTo\<close>,
  the microsecond clock of the HAL (\<open>micros\<close>, \<open>delayMicroseconds\<close>) and the
  mock branches of its host build (the GPS driver's mock \<open>readLine\<close> apart), and the host-build \<open>main()\<close> of the tracker
  example. The framework headers' methods that have no body anywhere in the
  repository (\<open>processEvent\<close>, \<open>reportError\<close>, the logging functions, the
  sensor, actuator and communication managers, \<open>LightningSensor\<close>'s chip
  operations) have nothing to translate. The environmental monitor does not
  compile against this repository (\<open>HAL::init\<close>, \<open>HAL::Power::deepSleep\<close>
  and \<open>WiFiManager::\<close> exist nowhere): the first call is left out and the
  loop ends at the second.
\<close>

section \<open>Configuration frames between sender and receivers\<close>

text \<open>C1: the receiver parses a configuration frame back to the values the sender
  announced, with the frequency rounded to 0.1 MHz and the bandwidth to 1 kHz
  as \<open>%.1f\<close> and \<open>%.0f\<close> print them (frames that fit the 64-byte buffer).\<close>
theorem cfg_frame_roundtrip:
  "length (cfg_text p) < 64 \<Longrightarrow> parseCfg (cfgMessage p) = Some (cfg_rounded p)"
  by (simp add: cfgMessage_fits parseCfg_cfg_text)

lemma default_cfg_text: "cfg_text default_params = ''CFG F=915.0 BW=125 SF=9 CR=5 TX=17''"
  by (simp add: cfg_text_def default_params_def LORA_FREQ_MHZ_def LORA_BW_KHZ_def LORA_SF_def
      LORA_CR_def LORA_TX_DBM_def wire_simps)

theorem cfg_frame_roundtrip_witness:
  "length (cfg_text default_params) < 64 \<and>
   parseCfg (cfgMessage default_params) = Some (cfg_rounded default_params)"
  using cfg_frame_roundtrip [of default_params] by (simp add: default_cfg_text)

text \<open>C2: when the target's frequency is a multiple of 0.1 MHz and its bandwidth a
  whole number of kHz, a sender that completes its broadcast commits the target,
  and every receiver that gets any one of its frames commits the same target.\<close>
theorem sync_exact_params:
  assumes "pendingConfigBroadcast n" "cfgRemaining n = int (length ts)" "ts \<noteq> []"
    "spaced (lastTxMs n) (cfgLastTxMs n) ts"
    "length (cfg_text (pend n)) < 64" "freq (pend n) * 10 = of_int a" "bw (pend n) = of_int c"
    "f \<in> set (drop (length (air n)) (air (fold (senderConfigStep b drv) ts n)))"
  shows "cur (fold (senderConfigStep b drv) ts n) = pend n \<and>
         cur (handleCfgFrame b' drv' (snd f) rssi r) = pend n"
proof -
  note run = senderConfig_run [OF assms(1-4), of b drv]
  then have "snd f = cfgMessage (pend n)" using assms(8) by simp
  then have "parseCfg (snd f) = Some (pend n)"
    using assms(5-7) by (simp add: cfgMessage_fits parseCfg_cfg_text cfg_rounded_exact)
  then show ?thesis using run by (simp add: handleCfgFrame_ok)
qed

definition sync_sender :: node where
  "sync_sender = startConfigBroadcast \<lparr>wifi_ota = False, role_flag = RoleSenderFlag\<rparr> default_params
     (node0 Map.empty)"

definition sync_times :: "ms list" where
  "sync_times = [300, 600, 900, 1200, 1500, 1800, 2100, 2400]"

theorem sync_exact_params_witness:
  "cur (fold (senderConfigStep \<lparr>wifi_ota = False, role_flag = RoleSenderFlag\<rparr> (\<lambda>_. 0)) sync_times sync_sender)
     = default_params \<and>
   cur (handleCfgFrame \<lparr>wifi_ota = True, role_flag = RoleReceiverFlag\<rparr> (\<lambda>_. 0)
          (cfgMessage default_params) 0 (node0 Map.empty)) = default_params"
proof -
  let ?b = "\<lparr>wifi_ota = False, role_flag = RoleSenderFlag\<rparr>"
  have n: "pendingConfigBroadcast sync_sender" "cfgRemaining sync_sender = int (length sync_times)"
    "sync_times \<noteq> []" "spaced (lastTxMs sync_sender) (cfgLastTxMs sync_sender) sync_times"
    "pend sync_sender = default_params"
    by (simp_all add: sync_sender_def startConfigBroadcast_def node0_def sync_times_def CFG_REPEATS_def)
  have f: "(chip sync_sender, cfgMessage default_params) \<in>
      set (drop (length (air sync_sender)) (air (fold (senderConfigStep ?b (\<lambda>_. 0)) sync_times sync_sender)))"
    using senderConfig_run [OF n(1-4), of ?b "\<lambda>_. 0"] n(5) by (simp add: sync_times_def)
  have p: "length (cfg_text default_params) < 64" "freq default_params * 10 = of_int 9150"
    "bw default_params = of_int 125"
    by (simp add: default_cfg_text, simp_all add: default_params_def LORA_FREQ_MHZ_def LORA_BW_KHZ_def)
  show ?thesis
    using sync_exact_params [OF n(1-4) p[folded n(5)] f[folded n(5)]] n(5) by simp
qed

text \<open>C3: the bandwidth 62.5 kHz of the firmware's own table does not survive the
  frame: \<open>BW=%.0f\<close> prints it as 62, so a receiver commits 62 kHz, a value of no
  table entry, while the sender commits 62.5 kHz, and the link is lost.\<close>
theorem bw_62_5_desync:
  "bwValues ! 0 = 125 / 2 \<and> 62 \<notin> set bwValues \<and>
   cur (handleCfgFrame b drv (cfgMessage (default_params\<lparr>bw := bwValues ! 0\<rparr>)) rssi n) =
     default_params\<lparr>bw := 62\<rparr>"
proof -
  let ?p = "default_params\<lparr>bw := 125 / 2\<rparr>"
  have t: "cfg_text ?p = ''CFG F=915.0 BW=62 SF=9 CR=5 TX=17''"
    by (simp add: cfg_text_def default_params_def LORA_FREQ_MHZ_def LORA_SF_def
        LORA_CR_def LORA_TX_DBM_def wire_simps)
  have "cfg_rounded ?p = default_params\<lparr>bw := 62\<rparr>"
    by (simp add: cfg_rounded_def default_params_def LORA_FREQ_MHZ_def round_to_def
        round_half_even_def)
  moreover have "length (cfg_text ?p) < 64" using t by simp
  then have "parseCfg (cfgMessage ?p) = Some (cfg_rounded ?p)"
    using parseCfg_cfg_text [of ?p] by (simp add: cfgMessage_fits)
  ultimately have "parseCfg (cfgMessage ?p) = Some (default_params\<lparr>bw := 62\<rparr>)" by simp
  then show ?thesis by (simp add: bwValues_def handleCfgFrame_ok)
qed

section \<open>The button\<close>

text \<open>C4: the thresholds \<open>updateButton()\<close> writes inline select the branch that the
  unit-tested \<open>classifyPress\<close> of \<open>app_logic.cpp\<close> names, for every duration.\<close>
theorem buttonRelease_classifyPress:
  "buttonRelease b drv env d n = releaseAction b drv env (classifyPress d) n"
  by (simp add: buttonRelease_def classifyPress_def)

section \<open>The state invariant of every run\<close>

text \<open>C11: in every state the firmware reaches (a boot from any flash contents,
  any sequence of loop iterations with any inputs, reboots), the parameter
  indices select table entries, the OTA buffer holds exactly the counted bytes
  below its 1024-byte capacity, a pending broadcast has between 1 and 8
  repetitions left, and any image flashed over LoRa is shorter than 1024 bytes.\<close>
theorem reachable_inv: "reachable b n \<Longrightarrow> node_inv n"
proof (induction rule: reachable.induct)
  case (boot bi st n)
  then show ?case using node0_inv by (blast intro: setupMain_inv)
next
  case (step n i n')
  then show ?case by (blast intro: loop_inv)
next
  case (reboot n bi n')
  then show ?case using node0_inv by (blast intro: setupMain_inv)
qed

definition demo_boot :: boot_in where
  "demo_boot = \<lparr>bdrv = \<lambda>_. 0, benv = \<lambda>_. True, bstart = 0, bevents = [], boled = (\<lambda>a. a = 0x3C)\<rparr>"

theorem reachable_inv_witness:
  "\<exists>n. reachable \<lparr>wifi_ota = False, role_flag = RoleSenderFlag\<rparr> n \<and> node_inv n"
proof -
  let ?b = "\<lparr>wifi_ota = False, role_flag = RoleSenderFlag\<rparr>"
  have "\<exists>n. setupMain ?b demo_boot (node0 Map.empty) = Inr n"
    by (simp add: setupMain_def initDisplay_def initRadioOrHalt_def radio_begin_def demo_boot_def Let_def
        RADIOLIB_ERR_NONE_def)
  then obtain n where "setupMain ?b demo_boot (node0 Map.empty) = Inr n" by blast
  then have "reachable ?b n" by (rule reachable.boot)
  then show ?thesis using reachable_inv by blast
qed


section \<open>WiFi reconnection\<close>

text \<open>
  C26: Once \<open>wifiConnected\<close> is false, no iteration of \<open>loop()\<close> sets it again:
  the periodic check that would print \<open>Reconnected\<close> only runs while the flag
  is set, so a receiver that lost or never had WiFi stays without WiFi OTA until
  it reboots.
\<close>
lemma wifi_never_recovers:
  assumes "\<not> wifiConnected n" "loop b i n = Inr m"
  shows "\<not> wifiConnected m"
proof -
  let ?n1 = "updateButton b (inDrv i) (inEnv i) (inBtn i) (inNow i) (n\<lparr>link := inLink i\<rparr>)"
  have n1: "\<not> wifiConnected ?n1" using assms(1) by (simp add: wc_updateButton)
  have w: "wifiService b i k = Inr k" if "\<not> wifiConnected k" for k
    using that by (simp add: wifiService_def)
  show ?thesis
    using assms(2) n1
    by (auto simp: loop_def Let_def seqn_def w split: if_splits sum.splits dest!: wc_receiverLoop)
qed

lemma wifi_never_recovers_witness:
  "\<exists>m. loop \<lparr>wifi_ota = True, role_flag = RoleReceiverFlag\<rparr>
         \<lparr>inNow = 0, inBtn = True, inDrv = (\<lambda>_. 0), inEnv = (\<lambda>_. True), inLink = True, inTxSt = 0,
          inRx = RxFail 0, inFw = \<lparr>fw_begin = (\<lambda>_. True), fw_write_end = (\<lambda>_ _. True)\<rparr>,
          inJunk = (\<lambda>_. []), inOta = [], inListen = []\<rparr>
         ((node0 (\<lambda>_. None))\<lparr>isSender := False\<rparr>) = Inr m \<and> \<not> wifiConnected m"
proof -
  obtain m where l: "loop \<lparr>wifi_ota = True, role_flag = RoleReceiverFlag\<rparr>
         \<lparr>inNow = 0, inBtn = True, inDrv = (\<lambda>_. 0), inEnv = (\<lambda>_. True), inLink = True, inTxSt = 0,
          inRx = RxFail 0, inFw = \<lparr>fw_begin = (\<lambda>_. True), fw_write_end = (\<lambda>_ _. True)\<rparr>,
          inJunk = (\<lambda>_. []), inOta = [], inListen = []\<rparr>
         ((node0 (\<lambda>_. None))\<lparr>isSender := False\<rparr>) = Inr m"
    by (simp add: loop_def seqn_def receiverLoop_def wifiService_def updateButton_def node0_def Let_def
        checkLoraOtaTimeout_def)
  moreover have "\<not> wifiConnected ((node0 (\<lambda>_. None))\<lparr>isSender := False\<rparr>)" by (simp add: node0_def)
  ultimately show ?thesis using wifi_never_recovers by blast
qed

end
